(* ===== verification/Prelude.thy ===== *)
theory Prelude
  imports Main "HOL-Library.AList" "HOL-Library.Multiset"
begin

text \<open>
  The shared base of the development: how a Go function with effects is represented, and the
  small program logic the component theories use.

  A Go function that talks to the outside world (the Kubernetes API server, a CDI service, a
  pod, the clock) is a value of type \<open>('e, 's, 'a) prog\<close>: given the environment
  \<open>'e\<close> (the outside world's operations, which are parameters) and the state \<open>'s\<close>, it
  produces an outcome and the new state.  An outcome is a returned value or a Go panic; a Go
  \<^verbatim>\<open>error\<close> is an ordinary value inside the returned one.  A panic keeps the state
  reached so far, so safety facts about the calls already made also cover panicking runs.
\<close>

named_theorems emits_intro \<open>introduction rules for the event footprint of a program\<close>
named_theorems prog_defs \<open>definitions of the program combinators\<close>

section \<open>Outcomes and programs\<close>

datatype 'a outcome = Ret 'a | Panic string

type_synonym ('e, 's, 'a) prog = "'e \<Rightarrow> 's \<Rightarrow> 'a outcome \<times> 's"

definition ret :: "'a \<Rightarrow> ('e, 's, 'a) prog" where
  "ret x = (\<lambda>E s. (Ret x, s))"

definition panic :: "string \<Rightarrow> ('e, 's, 'a) prog" where
  "panic msg = (\<lambda>E s. (Panic msg, s))"

definition bindM :: "('e, 's, 'a) prog \<Rightarrow> ('a \<Rightarrow> ('e, 's, 'b) prog) \<Rightarrow> ('e, 's, 'b) prog" where
  "bindM m f = (\<lambda>E s. case m E s of (Ret x, s') \<Rightarrow> f x E s' | (Panic e, s') \<Rightarrow> (Panic e, s'))"

text \<open>
  \<open>tryM\<close> is Go's \<^verbatim>\<open>v, err := m(); if err != nil { h(err) }; k(v)\<close> and \<open>checkM\<close> the
  same for a call that returns only an error.
\<close>

definition tryM :: "('e, 's, 'x + 'a) prog \<Rightarrow> ('x \<Rightarrow> ('e, 's, 'b) prog) \<Rightarrow> ('a \<Rightarrow> ('e, 's, 'b) prog)
    \<Rightarrow> ('e, 's, 'b) prog" where
  "tryM m h k = bindM m (\<lambda>r. case r of Inl e \<Rightarrow> h e | Inr v \<Rightarrow> k v)"

definition checkM :: "('e, 's, 'x option) prog \<Rightarrow> ('x \<Rightarrow> ('e, 's, 'b) prog) \<Rightarrow> ('e, 's, 'b) prog
    \<Rightarrow> ('e, 's, 'b) prog" where
  "checkM m h k = bindM m (\<lambda>r. case r of Some e \<Rightarrow> h e | None \<Rightarrow> k)"

definition getM :: "('s \<Rightarrow> 'a) \<Rightarrow> ('e, 's, 'a) prog" where
  "getM f = (\<lambda>E s. (Ret (f s), s))"

definition modifyM :: "('s \<Rightarrow> 's) \<Rightarrow> ('e, 's, unit) prog" where
  "modifyM f = (\<lambda>E s. (Ret (), f s))"

definition thenM :: "('e, 's, unit) prog \<Rightarrow> ('e, 's, 'b) prog \<Rightarrow> ('e, 's, 'b) prog" where
  "thenM m k = bindM m (\<lambda>_. k)"

text \<open>A slice access \<^verbatim>\<open>xs[i]\<close>: Go panics when the index is out of range.\<close>

definition index :: "'a list \<Rightarrow> nat \<Rightarrow> ('e, 's, 'a) prog" where
  "index xs i = (if i < length xs then ret (xs ! i) else panic ''index out of range'')"

text \<open>
  A \<^verbatim>\<open>for ... range\<close> loop: the body says whether to go on, to break, or to return from
  the enclosing function.  The loop gives either the value returned or the last accumulator.
\<close>

datatype ('acc, 'r) flow = Next 'acc | Break 'acc | Return 'r

primrec forM :: "'x list \<Rightarrow> 'acc \<Rightarrow> ('x \<Rightarrow> 'acc \<Rightarrow> ('e, 's, ('acc, 'r) flow) prog)
    \<Rightarrow> ('e, 's, 'r + 'acc) prog" where
  "forM [] acc f = ret (Inr acc)"
| "forM (x # xs) acc f =
     bindM (f x acc) (\<lambda>r. case r of
       Next acc' \<Rightarrow> forM xs acc' f
     | Break acc' \<Rightarrow> ret (Inr acc')
     | Return v \<Rightarrow> ret (Inl v))"

lemmas [prog_defs] = ret_def panic_def bindM_def tryM_def checkM_def getM_def modifyM_def
  thenM_def index_def

subsection \<open>The monad laws\<close>

lemma bindM_ret [simp]: "bindM (ret x) f = f x"
  by (simp add: prog_defs)

lemma bindM_panic [simp]: "bindM (panic e) f = panic e"
  by (simp add: prog_defs)

lemma bindM_ret_right [simp]: "bindM m ret = m"
  by (rule ext, rule ext) (simp add: prog_defs split: prod.split outcome.split)

lemma bindM_assoc: "bindM (bindM m f) g = bindM m (\<lambda>x. bindM (f x) g)"
  by (rule ext, rule ext) (simp add: prog_defs split: prod.split outcome.split)

lemma tryM_ret [simp]:
  "tryM (ret (Inl e)) h k = h e" "tryM (ret (Inr v)) h k = k v"
  by (simp_all add: tryM_def)

lemma checkM_ret [simp]:
  "checkM (ret (Some e)) h k = h e" "checkM (ret None) h k = k"
  by (simp_all add: checkM_def)

lemma thenM_ret [simp]: "thenM (ret u) k = k"
  by (simp add: thenM_def)

text \<open>Running a sequential composition: the rules that evaluate a program on a state.\<close>

lemma run_ret: "ret x E s = (Ret x, s)"
  by (simp add: ret_def)

lemma run_bindM:
  "m E s = (Ret x, s') \<Longrightarrow> bindM m f E s = f x E s'"
  "m E s = (Panic e, s') \<Longrightarrow> bindM m f E s = (Panic e, s')"
  by (simp_all add: bindM_def)

lemma run_tryM:
  "m E s = (Ret (Inl e), s') \<Longrightarrow> tryM m h k E s = h e E s'"
  "m E s = (Ret (Inr v), s') \<Longrightarrow> tryM m h k E s = k v E s'"
  "m E s = (Panic msg, s') \<Longrightarrow> tryM m h k E s = (Panic msg, s')"
  by (simp_all add: tryM_def bindM_def)

lemma run_checkM:
  "m E s = (Ret (Some e), s') \<Longrightarrow> checkM m h k E s = h e E s'"
  "m E s = (Ret None, s') \<Longrightarrow> checkM m h k E s = k E s'"
  "m E s = (Panic msg, s') \<Longrightarrow> checkM m h k E s = (Panic msg, s')"
  by (simp_all add: checkM_def bindM_def)

text \<open>The same read backwards: where a returned value comes from.\<close>

lemma bindM_RetE:
  assumes "bindM m f E s = (Ret x, s')"
  obtains y s1 where "m E s = (Ret y, s1)" "f y E s1 = (Ret x, s')"
  using assms by (auto simp: bindM_def split: prod.splits outcome.splits)

lemma tryM_RetE:
  assumes "tryM m h k E s = (Ret x, s')"
  obtains (Inl) e s1 where "m E s = (Ret (Inl e), s1)" "h e E s1 = (Ret x, s')"
    | (Inr) v s1 where "m E s = (Ret (Inr v), s1)" "k v E s1 = (Ret x, s')"
  using assms by (auto simp: tryM_def bindM_def split: prod.splits outcome.splits sum.splits)

lemma checkM_RetE:
  assumes "checkM m h k E s = (Ret x, s')"
  obtains (Some) e s1 where "m E s = (Ret (Some e), s1)" "h e E s1 = (Ret x, s')"
    | (None) s1 where "m E s = (Ret None, s1)" "k E s1 = (Ret x, s')"
  using assms by (auto simp: checkM_def bindM_def split: prod.splits outcome.splits option.splits)

lemma run_getM [simp]: "bindM (getM f) g E s = g (f s) E s"
  by (simp add: bindM_def getM_def)

lemma run_modifyM [simp]: "thenM (modifyM f) k E s = k E (f s)"
  by (simp add: thenM_def bindM_def modifyM_def)

subsection \<open>Evaluation on concrete states\<close>

text \<open>
  Applied equations and weak congruences: with both, the simplifier runs a program on a concrete
  state from left to right and leaves a continuation alone until its argument is known.
\<close>

named_theorems prog_eval \<open>equations that run a program applied to an environment and a state\<close>

lemma eval_combinators [prog_eval]:
  "ret x E s = (Ret x, s)"
  "panic e E s = (Panic e, s)"
  "getM f E s = (Ret (f s), s)"
  "modifyM g E s = (Ret (), g s)"
  "bindM m h E s = (case m E s of (Ret y, s') \<Rightarrow> h y E s' | (Panic e, s') \<Rightarrow> (Panic e, s'))"
  "thenM u k E s = bindM u (\<lambda>_. k) E s"
  "tryM t l r E s = bindM t (case_sum l r) E s"
  "checkM c l k E s = bindM c (case_option k l) E s"
  "index xs i E s = (if i < length xs then (Ret (xs ! i), s) else (Panic ''index out of range'', s))"
  by (simp_all add: prog_defs split: sum.split option.split)

lemma eval_branches [prog_eval]:
  "(if b then m else n) E s = (if b then m E s else n E s)"
  "(case v of None \<Rightarrow> m | Some y \<Rightarrow> f y) E s = (case v of None \<Rightarrow> m E s | Some y \<Rightarrow> f y E s)"
  "(case w of Inl e \<Rightarrow> g e | Inr y \<Rightarrow> h y) E s = (case w of Inl e \<Rightarrow> g e E s | Inr y \<Rightarrow> h y E s)"
  by (simp_all split: option.split sum.split)

lemma prog_cong:
  "m = m' \<Longrightarrow> bindM m f = bindM m' f"
  "t = t' \<Longrightarrow> tryM t l r = tryM t' l r"
  "c = c' \<Longrightarrow> checkM c l k = checkM c' l k"
  "u = u' \<Longrightarrow> thenM u k = thenM u' k"
  "xs = xs' \<Longrightarrow> acc = acc' \<Longrightarrow> forM xs acc b = forM xs' acc' b"
  by simp_all

subsection \<open>Loops without effects\<close>

lemma forM_pure:
  "(\<And>x acc. x \<in> set xs \<Longrightarrow> f x acc E s = (Ret (Next (g x acc)), s))
    \<Longrightarrow> forM xs acc f E s = (Ret (Inr (fold g xs acc)), s)"
  by (induction xs arbitrary: acc) (simp_all add: ret_def bindM_def)

text \<open>The loop that appends one result per element that is not skipped.\<close>

lemma forM_collect:
  assumes "\<And>x. x \<in> set xs \<Longrightarrow> \<not> skip x \<Longrightarrow> g x E s = (Ret (h x), s)"
  shows "forM xs acc (\<lambda>x acc. if skip x then ret (Next acc) else bindM (g x) (\<lambda>y. ret (Next (acc @ [y])))) E s
    = (Ret (Inr (acc @ map h (filter (\<lambda>x. \<not> skip x) xs))), s)"
  using assms by (induction xs arbitrary: acc) (simp_all add: ret_def bindM_def)

lemma bindM_forM_pure:
  "(\<And>x acc. x \<in> set xs \<Longrightarrow> f x acc E s = (Ret (Next (g x acc)), s))
    \<Longrightarrow> bindM (forM xs acc f) k E s = k (Inr (fold g xs acc)) E s"
  by (rule run_bindM(1)) (rule forM_pure)

lemma bindM_forM_collect:
  assumes "\<And>x. x \<in> set xs \<Longrightarrow> \<not> skip x \<Longrightarrow> g x E s = (Ret (h x), s)"
  shows "bindM (forM xs acc (\<lambda>x acc. if skip x then ret (Next acc) else bindM (g x) (\<lambda>y. ret (Next (acc @ [y]))))) k E s
    = k (Inr (acc @ map h (filter (\<lambda>x. \<not> skip x) xs))) E s"
  using assms by (intro run_bindM(1) forM_collect)

text \<open>A search: the loop that returns at the first element found.\<close>

lemma forM_search:
  "forM xs () (\<lambda>x _. if p x then ret (Return (g x)) else ret (Next ())) E s
    = (Ret (case find p xs of Some x \<Rightarrow> Inl (g x) | None \<Rightarrow> Inr ()), s)"
  by (induction xs) (simp_all add: ret_def bindM_def)

text \<open>A loop that never breaks and cannot pass one of its elements does not run to its end.\<close>

lemma forM_never_ends:
  assumes "x \<in> set xs"
    and "\<And>y acc s a. fst (f y acc E s) \<noteq> Ret (Break a)"
    and "\<And>acc s a. fst (f x acc E s) \<noteq> Ret (Next a)"
  shows "fst (forM xs acc f E s) \<noteq> Ret (Inr b)"
  using assms(1)
proof (induction xs arbitrary: acc s)
  case (Cons y ys)
  obtain r s' where r: "f y acc E s = (r, s')" by (cases "f y acc E s")
  show ?case
  proof (cases "\<exists>a. r = Ret (Next a)")
    case True
    then obtain a where a: "r = Ret (Next a)" by blast
    then have "y \<noteq> x" using assms(3) [of acc s a] r by auto
    then have "fst (forM ys a f E s') \<noteq> Ret (Inr b)" using Cons by simp
    with r a show ?thesis by (simp add: bindM_def)
  next
    case False
    then show ?thesis
      using r assms(2) [of y acc s] by (auto simp: bindM_def ret_def split: outcome.split flow.split)
  qed
qed simp

section \<open>Paths\<close>

text \<open>A list of states each of which is a step from the one before.\<close>

fun steps_path :: "('a \<Rightarrow> 'a \<Rightarrow> bool) \<Rightarrow> 'a \<Rightarrow> 'a list \<Rightarrow> bool" where
  "steps_path R x [] = True"
| "steps_path R x (y # ys) = (R x y \<and> steps_path R y ys)"

lemma steps_path_snoc: "steps_path R x (ys @ [z]) \<longleftrightarrow> steps_path R x ys \<and> R (last (x # ys)) z"
  by (induction ys arbitrary: x) auto

lemma steps_path_invariant:
  assumes "\<And>x y. I x \<Longrightarrow> R x y \<Longrightarrow> I y"
  shows "steps_path R x ys \<Longrightarrow> I x \<Longrightarrow> y \<in> set ys \<Longrightarrow> I y"
  by (induction ys arbitrary: x) (use assms in auto)

lemma steps_path_rtranclp: "steps_path R x ys \<Longrightarrow> y \<in> set ys \<Longrightarrow> R\<^sup>*\<^sup>* x y"
proof (induction ys arbitrary: x)
  case (Cons z zs)
  then show ?case by (auto intro: converse_rtranclp_into_rtranclp)
qed simp

text \<open>The list \<open>xs\<close> extends \<open>xs0\<close> by a path from \<open>x0\<close> that ends in \<open>x\<close>.\<close>

definition written :: "('a \<Rightarrow> 'a \<Rightarrow> bool) \<Rightarrow> 'a list \<Rightarrow> 'a \<Rightarrow> 'a \<Rightarrow> 'a list \<Rightarrow> bool" where
  "written R xs0 x0 x xs \<longleftrightarrow> (\<exists>new. xs = xs0 @ new \<and> steps_path R x0 new \<and> last (x0 # new) = x)"

lemma written_start: "written R xs x x xs"
  by (auto simp: written_def intro: exI [of _ "[]"])

lemma written_write: "written R a b x xs \<Longrightarrow> R x y \<Longrightarrow> written R a b y (xs @ [y])"
  unfolding written_def by (metis append.assoc last_ConsR last_snoc snoc_eq_iff_butlast steps_path_snoc)

end
