(* ===== verification/GoLib.thy ===== *)
theory GoLib
  imports Prelude
begin

text \<open>
  The part of Go's standard library the program uses on plain data: package \<^verbatim>\<open>strings\<close>,
  decimal formatting, error values with wrapping, and int64 arithmetic.  Strings are byte
  sequences; the case and white-space functions act on ASCII, which is what node names, device
  identifiers and \<^verbatim>\<open>nvidia-smi\<close> output consist of.
\<close>

section \<open>Package strings\<close>

text \<open>\<^verbatim>\<open>strings.Split\<close> for a separator of one byte.\<close>

fun strings_Split :: "string \<Rightarrow> char \<Rightarrow> string list" where
  "strings_Split [] c = [[]]"
| "strings_Split (x # xs) c =
     (if x = c then [] # strings_Split xs c
      else (case strings_Split xs c of [] \<Rightarrow> [[x]] | p # ps \<Rightarrow> (x # p) # ps))"

fun strings_Join :: "string list \<Rightarrow> char \<Rightarrow> string" where
  "strings_Join [] c = []"
| "strings_Join [p] c = p"
| "strings_Join (p # ps) c = p @ c # strings_Join ps c"

definition is_space :: "char \<Rightarrow> bool" where
  "is_space c \<longleftrightarrow> c \<in> {CHR '' '', CHR 0x09, CHR 0x0A, CHR 0x0B, CHR 0x0C, CHR 0x0D}"

definition trim_while :: "(char \<Rightarrow> bool) \<Rightarrow> string \<Rightarrow> string" where
  "trim_while p s = rev (dropWhile p (rev (dropWhile p s)))"

definition strings_TrimSpace :: "string \<Rightarrow> string" where
  "strings_TrimSpace s = trim_while is_space s"

text \<open>\<^verbatim>\<open>strings.Trim\<close> with a cutset of one byte.\<close>

definition strings_Trim :: "string \<Rightarrow> char \<Rightarrow> string" where
  "strings_Trim s c = trim_while (\<lambda>x. x = c) s"

definition strings_HasPrefix :: "string \<Rightarrow> string \<Rightarrow> bool" where
  "strings_HasPrefix s p \<longleftrightarrow> take (length p) s = p"

definition strings_HasSuffix :: "string \<Rightarrow> string \<Rightarrow> bool" where
  "strings_HasSuffix s p \<longleftrightarrow> strings_HasPrefix (rev s) (rev p)"

definition strings_CutPrefix :: "string \<Rightarrow> string \<Rightarrow> string \<times> bool" where
  "strings_CutPrefix s p = (if strings_HasPrefix s p then (drop (length p) s, True) else (s, False))"

definition strings_TrimPrefix :: "string \<Rightarrow> string \<Rightarrow> string" where
  "strings_TrimPrefix s p = (if strings_HasPrefix s p then drop (length p) s else s)"

fun strings_Contains :: "string \<Rightarrow> string \<Rightarrow> bool" where
  "strings_Contains [] p = (p = [])"
| "strings_Contains (x # xs) p = (strings_HasPrefix (x # xs) p \<or> strings_Contains xs p)"

text \<open>\<^verbatim>\<open>strings.Index\<close> of a one-byte string; \<open>None\<close> stands for -1.\<close>

fun strings_Index :: "string \<Rightarrow> char \<Rightarrow> nat option" where
  "strings_Index [] c = None"
| "strings_Index (x # xs) c = (if x = c then Some 0 else map_option Suc (strings_Index xs c))"

definition lower_char :: "char \<Rightarrow> char" where
  "lower_char c = (let n = of_char c :: nat in if 65 \<le> n \<and> n \<le> 90 then char_of (n + 32) else c)"

definition upper_char :: "char \<Rightarrow> char" where
  "upper_char c = (let n = of_char c :: nat in if 97 \<le> n \<and> n \<le> 122 then char_of (n - 32) else c)"

definition strings_ToLower :: "string \<Rightarrow> string" where
  "strings_ToLower s = map lower_char s"

definition strings_ToUpper :: "string \<Rightarrow> string" where
  "strings_ToUpper s = map upper_char s"

text \<open>\<^verbatim>\<open>strings.Fields\<close>: the maximal runs of non-space bytes.\<close>

fun fields_from :: "string \<Rightarrow> string \<Rightarrow> string list" where
  "fields_from [] acc = (if acc = [] then [] else [rev acc])"
| "fields_from (x # xs) acc =
     (if is_space x then (if acc = [] then fields_from xs [] else rev acc # fields_from xs [])
      else fields_from xs (x # acc))"

definition strings_Fields :: "string \<Rightarrow> string list" where
  "strings_Fields s = fields_from s []"

subsection \<open>Splitting and joining\<close>

lemma strings_Split_not_Nil [simp]: "strings_Split s c \<noteq> []"
  by (induction s) (auto split: list.split)

lemma length_strings_Split: "length (strings_Split s c) = Suc (count_list s c)"
  by (induction s) (auto split: list.split)

lemma strings_Split_no_sep: "p \<in> set (strings_Split s c) \<Longrightarrow> c \<notin> set p"
  by (induction s arbitrary: p) (auto split: list.splits if_splits)

lemma strings_Join_Cons: "ps \<noteq> [] \<Longrightarrow> strings_Join (p # ps) c = p @ c # strings_Join ps c"
  by (cases ps) auto

lemma strings_Join_Split: "strings_Join (strings_Split s c) c = s"
proof (induction s)
  case (Cons x xs)
  obtain p ps where sp: "strings_Split xs c = p # ps"
    by (cases "strings_Split xs c") auto
  with Cons.IH show ?case
    by (cases ps) (auto simp: strings_Join_Cons)
qed simp

lemma strings_Split_append:
  "c \<notin> set p \<Longrightarrow> strings_Split (p @ c # s) c = p # strings_Split s c"
  by (induction p) auto

lemma strings_Split_single: "c \<notin> set p \<Longrightarrow> strings_Split p c = [p]"
  by (induction p) auto

lemma strings_Split_Join:
  "ps \<noteq> [] \<Longrightarrow> (\<forall>p \<in> set ps. c \<notin> set p) \<Longrightarrow> strings_Split (strings_Join ps c) c = ps"
proof (induction ps)
  case (Cons p ps)
  then show ?case
    by (cases ps) (auto simp: strings_Split_append strings_Split_single)
qed simp

subsection \<open>Trimming\<close>

lemma strings_Join_last:
  "ps \<noteq> [] \<Longrightarrow> last ps \<noteq> [] \<Longrightarrow> last (strings_Join ps c) = last (last ps) \<and> strings_Join ps c \<noteq> []"
  by (induction ps) (auto simp: strings_Join_Cons)

lemma strings_Join_hd:
  "ps \<noteq> [] \<Longrightarrow> hd ps \<noteq> [] \<Longrightarrow> hd (strings_Join ps c) = hd (hd ps) \<and> strings_Join ps c \<noteq> []"
  by (cases ps; cases "tl ps") (auto simp: strings_Join_Cons)

lemma set_strings_Join: "set (strings_Join ps c) \<subseteq> insert c (\<Union> (set ` set ps))"
proof (induction ps)
  case (Cons p ps)
  then show ?case by (cases ps) auto
qed simp

lemma dropWhile_all: "(\<forall>x \<in> set xs. p x) \<Longrightarrow> dropWhile p xs = []"
  by simp

lemma dropWhile_hd: "xs \<noteq> [] \<Longrightarrow> \<not> p (hd xs) \<Longrightarrow> dropWhile p xs = xs"
  by (cases xs) auto

lemma hd_dropWhile_not: "dropWhile p xs \<noteq> [] \<Longrightarrow> \<not> p (hd (dropWhile p xs))"
  by (rule hd_dropWhile)

lemma trim_while_id:
  "s = [] \<or> (\<not> p (hd s) \<and> \<not> p (last s)) \<Longrightarrow> trim_while p s = s"
  by (cases "s = []") (auto simp: trim_while_def dropWhile_hd hd_rev)

lemma trim_while_ends:
  assumes "trim_while p s \<noteq> []"
  shows "\<not> p (hd (trim_while p s))" and "\<not> p (last (trim_while p s))"
proof -
  let ?l = "dropWhile p s" and ?r = "dropWhile p (rev (dropWhile p s))"
  have r: "?r \<noteq> []" using assms by (simp add: trim_while_def)
  show "\<not> p (last (trim_while p s))"
    using hd_dropWhile [OF r] r by (simp add: trim_while_def last_rev)
  have l: "?l \<noteq> []" using r by (auto dest: set_dropWhileD)
  have "rev ?l = takeWhile p (rev ?l) @ ?r" by simp
  then have "?l = rev ?r @ rev (takeWhile p (rev ?l))" by (metis rev_append rev_rev_ident)
  then have "hd ?l = hd (rev ?r)" using r by (metis hd_append2 rev_is_Nil_conv)
  then show "\<not> p (hd (trim_while p s))"
    using hd_dropWhile [OF l] by (simp add: trim_while_def)
qed

lemma trim_while_idem [simp]: "trim_while p (trim_while p s) = trim_while p s"
  by (rule trim_while_id) (use trim_while_ends [of p s] in blast)

lemma set_trim_while: "set (trim_while p s) \<subseteq> set s"
  by (auto simp: trim_while_def dest!: set_dropWhileD)

lemma strings_TrimSpace_idem [simp]: "strings_TrimSpace (strings_TrimSpace s) = strings_TrimSpace s"
  by (simp add: strings_TrimSpace_def)

lemma strings_TrimSpace_id: "s = [] \<or> (\<not> is_space (hd s) \<and> \<not> is_space (last s))
    \<Longrightarrow> strings_TrimSpace s = s"
  by (simp add: strings_TrimSpace_def trim_while_id)

subsection \<open>Prefixes and case\<close>

lemma strings_HasPrefix_append [simp]: "strings_HasPrefix (p @ s) p"
  by (simp add: strings_HasPrefix_def)

lemma strings_HasPrefix_iff: "strings_HasPrefix s p \<longleftrightarrow> (\<exists>t. s = p @ t)"
  unfolding strings_HasPrefix_def by (metis append_eq_conv_conj append_take_drop_id)

lemma strings_CutPrefix_append [simp]: "strings_CutPrefix (p @ s) p = (s, True)"
  by (simp add: strings_CutPrefix_def)

lemma strings_CutPrefix_True: "strings_CutPrefix s p = (t, True) \<longleftrightarrow> s = p @ t"
  by (auto simp: strings_CutPrefix_def strings_HasPrefix_iff split: if_splits)

lemma lower_char_idem [simp]: "lower_char (lower_char c) = lower_char c"
  by (auto simp: lower_char_def Let_def of_char_of)

lemma strings_ToLower_idem [simp]: "strings_ToLower (strings_ToLower s) = strings_ToLower s"
  by (simp add: strings_ToLower_def)

section \<open>Integers and decimal formatting\<close>

text \<open>Go's \<^verbatim>\<open>int64\<close> (and \<^verbatim>\<open>int\<close>, on the 64-bit targets) arithmetic wraps around.\<close>

definition int64_wrap :: "int \<Rightarrow> int" where
  "int64_wrap x = (x + 2 ^ 63) mod 2 ^ 64 - 2 ^ 63"

lemma int64_wrap_range: "- (2 ^ 63) \<le> int64_wrap x \<and> int64_wrap x < 2 ^ 63"
  using pos_mod_bound [of "2 ^ 64" "x + 2 ^ 63"] pos_mod_sign [of "2 ^ 64" "x + 2 ^ 63"]
  by (simp add: int64_wrap_def)

lemma int64_wrap_id: "- (2 ^ 63) \<le> x \<Longrightarrow> x < 2 ^ 63 \<Longrightarrow> int64_wrap x = x"
  by (simp add: int64_wrap_def)

definition digit_char :: "nat \<Rightarrow> char" where
  "digit_char d = char_of (48 + d)"

fun show_nat :: "nat \<Rightarrow> string" where
  "show_nat n = (if n < 10 then [digit_char n] else show_nat (n div 10) @ [digit_char (n mod 10)])"

declare show_nat.simps [simp del]

text \<open>The verb \<^verbatim>\<open>%d\<close> of package fmt.\<close>

definition fmt_d :: "int \<Rightarrow> string" where
  "fmt_d i = (if i < 0 then CHR ''-'' # show_nat (nat (- i)) else show_nat (nat i))"

text \<open>The verb \<^verbatim>\<open>%t\<close>.\<close>

definition fmt_t :: "bool \<Rightarrow> string" where
  "fmt_t b = (if b then ''true'' else ''false'')"

text \<open>A string between single quotes, as in the format \<^verbatim>\<open>'%s'\<close>.\<close>

definition squote :: "string \<Rightarrow> string" where
  "squote s = CHR 0x27 # s @ [CHR 0x27]"

section \<open>Error values\<close>

text \<open>
  \<open>ErrorString\<close> is \<^verbatim>\<open>errors.New\<close> and \<^verbatim>\<open>fmt.Errorf\<close> without \<^verbatim>\<open>%w\<close>;
  \<open>WrapError msg e\<close> is \<^verbatim>\<open>fmt.Errorf\<close> with \<^verbatim>\<open>%w\<close>, \<open>msg\<close> its full text;
  \<open>StatusError\<close> is the API server's error with its reason; the last two are the sentinels
  of package cdi (\<^verbatim>\<open>src/internal/cdi/client.go\<close>).
\<close>

datatype error =
    ErrorString string
  | WrapError string error
  | StatusError string string
  | ErrWaitingDeviceAttaching
  | ErrWaitingDeviceDetaching

fun err_Error :: "error \<Rightarrow> string" where
  "err_Error (ErrorString m) = m"
| "err_Error (WrapError m e) = m"
| "err_Error (StatusError r m) = m"
| "err_Error ErrWaitingDeviceAttaching = ''device is attaching to the cluster''"
| "err_Error ErrWaitingDeviceDetaching = ''device is detaching from the cluster''"

text \<open>\<^verbatim>\<open>errors.Is\<close> follows the chain of wrapped errors.\<close>

fun errors_Is :: "error \<Rightarrow> error \<Rightarrow> bool" where
  "errors_Is (WrapError m e) target = (WrapError m e = target \<or> errors_Is e target)"
| "errors_Is e target = (e = target)"

text \<open>\<^verbatim>\<open>k8serrors.IsNotFound\<close>: the reason of the first status error of the chain.\<close>

fun IsNotFound :: "error \<Rightarrow> bool" where
  "IsNotFound (StatusError r m) = (r = ''NotFound'')"
| "IsNotFound (WrapError m e) = IsNotFound e"
| "IsNotFound e = False"

text \<open>The verb \<^verbatim>\<open>%v\<close> on an error that may be nil.\<close>

definition fmt_err :: "error option \<Rightarrow> string" where
  "fmt_err e = (case e of None \<Rightarrow> ''<nil>'' | Some x \<Rightarrow> err_Error x)"

end
