(* ===== verification/GoTime.thy ===== *)
theory GoTime
  imports GoLib
begin

text \<open>
  Go's \<^verbatim>\<open>time\<close> package as the program uses it: instants as nanoseconds since the Unix
  epoch, \<^verbatim>\<open>time.Parse(time.RFC3339, _)\<close> and \<^verbatim>\<open>Format(time.RFC3339)\<close>.  The parser follows
  the library's general layout parser for \<^verbatim>\<open>2006-01-02T15:04:05Z07:00\<close>: fixed two-digit
  fields but for the hour, which may have one digit; an optional fraction, introduced by a dot
  or a comma, of which nine digits count; \<^verbatim>\<open>Z\<close> or a signed offset.
\<close>

type_synonym time = int

definition second :: int where "second = 1000000000"
definition minute :: int where "minute = 60 * second"

section \<open>The calendar\<close>

definition isLeap :: "nat \<Rightarrow> bool" where
  "isLeap y \<longleftrightarrow> y mod 4 = 0 \<and> (y mod 100 \<noteq> 0 \<or> y mod 400 = 0)"

definition daysIn :: "nat \<Rightarrow> nat \<Rightarrow> nat" where
  "daysIn m y =
     (if m = 2 then (if isLeap y then 29 else 28)
      else if m \<in> {4, 6, 9, 11} then 30 else 31)"

definition year_len :: "nat \<Rightarrow> nat" where
  "year_len y = (if isLeap y then 366 else 365)"

text \<open>Days from the first of January of year 0 to the first of January of year \<open>y\<close>.\<close>

definition days_before_year :: "nat \<Rightarrow> nat" where
  "days_before_year y = 365 * y + (y + 3) div 4 + (y + 399) div 400 - (y + 99) div 100"

definition days_before_month :: "nat \<Rightarrow> nat \<Rightarrow> nat" where
  "days_before_month m y = sum_list (map (\<lambda>k. daysIn k y) [1..<m])"

definition days_of_date :: "nat \<Rightarrow> nat \<Rightarrow> nat \<Rightarrow> nat" where
  "days_of_date y m d = days_before_year y + days_before_month m y + (d - 1)"

text \<open>Day number of 1970-01-01.\<close>

definition epoch_days :: nat where "epoch_days = 719528"

lemma epoch_days_eq: "epoch_days = days_of_date 1970 1 1"
  by (simp add: epoch_days_def days_of_date_def days_before_year_def days_before_month_def)

lemma ceil_div_Suc:
  fixes y k :: nat
  assumes "0 < k"
  shows "(Suc y + (k - 1)) div k = (y + (k - 1)) div k + (if y mod k = 0 then 1 else 0)"
proof -
  define q r where "q = y div k" and "r = y mod k"
  have y: "y = r + k * q" and r: "r < k" using assms by (auto simp: q_def r_def)
  have "Suc y + (k - 1) = y + k" using assms by simp
  then have "(Suc y + (k - 1)) div k = q + 1" using assms by (simp add: q_def div_add_self2)
  moreover have "y + (k - 1) = r + (k - 1) + q * k" by (simp add: y)
  then have "(y + (k - 1)) div k = q + (r + (k - 1)) div k"
    using assms by (simp only: div_mult_self1)
  moreover have "(r + (k - 1)) div k = (if r = 0 then 0 else 1)"
    using assms r by (cases r) (auto simp: div_add_self2)
  ultimately show ?thesis by (simp add: r_def)
qed

lemma days_before_year_Suc: "days_before_year (Suc y) = days_before_year y + year_len y"
proof -
  have a: "(Suc y + 3) div 4 = (y + 3) div 4 + (if y mod 4 = 0 then 1 else 0)"
    using ceil_div_Suc [of 4 y] by simp
  have b: "(Suc y + 99) div 100 = (y + 99) div 100 + (if y mod 100 = 0 then 1 else 0)"
    using ceil_div_Suc [of 100 y] by simp
  have c: "(Suc y + 399) div 400 = (y + 399) div 400 + (if y mod 400 = 0 then 1 else 0)"
    using ceil_div_Suc [of 400 y] by simp
  have "(y + 99) div 100 < Suc y" by (rule less_mult_imp_div_less) simp
  then have d: "(y + 99) div 100 \<le> 365 * y + (y + 3) div 4 + (y + 399) div 400" by simp
  have e: "y mod 400 = 0 \<Longrightarrow> y mod 100 = 0" and f: "y mod 100 = 0 \<Longrightarrow> y mod 4 = 0"
    by (auto simp: mod_eq_0_iff_dvd elim: dvd_trans [rotated])
  define A B C where "A = (y + 3) div 4" and "B = (y + 99) div 100" and "C = (y + 399) div 400"
  show ?thesis
    unfolding days_before_year_def year_len_def isLeap_def a b c
    using d e f unfolding A_def [symmetric] B_def [symmetric] C_def [symmetric]
    by (cases "y mod 400 = 0"; cases "y mod 100 = 0"; cases "y mod 4 = 0") simp_all
qed

section \<open>Parsing\<close>

definition digit_of :: "char \<Rightarrow> nat option" where
  "digit_of c = (let n = of_char c :: nat in if 48 \<le> n \<and> n \<le> 57 then Some (n - 48) else None)"

text \<open>\<^verbatim>\<open>getnum\<close> of package time: one or two digits, two when \<open>fixed\<close>.\<close>

fun getnum :: "string \<Rightarrow> bool \<Rightarrow> (nat \<times> string) option" where
  "getnum [] fixed = None"
| "getnum (a # s) fixed =
     (case digit_of a of
        None \<Rightarrow> None
      | Some x \<Rightarrow>
          (case s of
             [] \<Rightarrow> if fixed then None else Some (x, s)
           | b # s' \<Rightarrow>
               (case digit_of b of
                  None \<Rightarrow> if fixed then None else Some (x, s)
                | Some y \<Rightarrow> Some (10 * x + y, s'))))"

fun skip_char :: "char \<Rightarrow> string \<Rightarrow> string option" where
  "skip_char c [] = None"
| "skip_char c (x # s) = (if x = c then Some s else None)"

definition getyear :: "string \<Rightarrow> (nat \<times> string) option" where
  "getyear s =
     (case getnum s True of
        None \<Rightarrow> None
      | Some (a, s1) \<Rightarrow> map_option (\<lambda>(b, s2). (100 * a + b, s2)) (getnum s1 True))"

text \<open>The fraction: nine digits at most count, the rest are skipped.\<close>

fun take_digits :: "string \<Rightarrow> nat list \<times> string" where
  "take_digits [] = ([], [])"
| "take_digits (c # s) =
     (case digit_of c of
        None \<Rightarrow> ([], c # s)
      | Some d \<Rightarrow> (let (ds, rest) = take_digits s in (d # ds, rest)))"

definition nanos :: "nat list \<Rightarrow> nat" where
  "nanos ds = (let ks = take 9 ds in foldl (\<lambda>a d. 10 * a + d) 0 ks * 10 ^ (9 - length ks))"

definition getfrac :: "string \<Rightarrow> nat \<times> string" where
  "getfrac s =
     (case s of
        c # d # s' \<Rightarrow>
          if (c = CHR ''.'' \<or> c = CHR '','') \<and> digit_of d \<noteq> None
          then (let (ds, rest) = take_digits (d # s') in (nanos ds, rest))
          else (0, s)
      | _ \<Rightarrow> (0, s))"

text \<open>The zone: the offset in seconds east of UTC, and what follows it.\<close>

definition getzone :: "string \<Rightarrow> (int \<times> string) option" where
  "getzone s =
     (case s of
        [] \<Rightarrow> None
      | c # r \<Rightarrow>
          if c = CHR ''Z'' then Some (0, r)
          else if length s < 6 \<or> s ! 3 \<noteq> CHR '':'' then None
          else
            (case (getnum (take 2 r) True, getnum (take 2 (drop 4 s)) True) of
               (Some (hr, _), Some (mm, _)) \<Rightarrow>
                 if hr > 24 \<or> mm > 60 then None
                 else if c = CHR ''+'' then Some (int ((hr * 60 + mm) * 60), drop 6 s)
                 else if c = CHR ''-'' then Some (- int ((hr * 60 + mm) * 60), drop 6 s)
                 else None
             | _ \<Rightarrow> None))"

definition clock_time :: "nat \<Rightarrow> nat \<Rightarrow> nat \<Rightarrow> nat \<Rightarrow> nat \<Rightarrow> nat \<Rightarrow> nat \<Rightarrow> int \<Rightarrow> time" where
  "clock_time y mo d h mi s ns off =
     ((int (days_of_date y mo d) - int epoch_days) * 86400
       + int (h * 3600 + mi * 60 + s) - off) * second + int ns"

definition obind :: "'a option \<Rightarrow> ('a \<Rightarrow> 'b option) \<Rightarrow> 'b option" where
  "obind x f = (case x of None \<Rightarrow> None | Some v \<Rightarrow> f v)"

definition time_Parse :: "string \<Rightarrow> time option" where
  "time_Parse v =
     obind (getyear v) (\<lambda>(y, v).
     obind (skip_char CHR ''-'' v) (\<lambda>v.
     obind (getnum v True) (\<lambda>(mo, v). if mo = 0 \<or> 12 < mo then None else
     obind (skip_char CHR ''-'' v) (\<lambda>v.
     obind (getnum v True) (\<lambda>(d, v).
     obind (skip_char CHR ''T'' v) (\<lambda>v.
     obind (getnum v False) (\<lambda>(h, v). if 24 \<le> h then None else
     obind (skip_char CHR '':'' v) (\<lambda>v.
     obind (getnum v True) (\<lambda>(mi, v). if 60 \<le> mi then None else
     obind (skip_char CHR '':'' v) (\<lambda>v.
     obind (getnum v True) (\<lambda>(s, v). if 60 \<le> s then None else
     (let (ns, v) = getfrac v in
     obind (getzone v) (\<lambda>(off, v).
     if v \<noteq> [] then None
     else if d < 1 \<or> daysIn mo y < d then None
     else Some (clock_time y mo d h mi s ns off))))))))))))))"

section \<open>Formatting\<close>

definition pad2 :: "nat \<Rightarrow> string" where
  "pad2 n = [digit_char (n div 10 mod 10), digit_char (n mod 10)]"

definition pad4 :: "nat \<Rightarrow> string" where
  "pad4 n = pad2 (n div 100) @ pad2 (n mod 100)"

lemma year_len_pos [termination_simp]: "\<not> d < year_len y \<Longrightarrow> d - year_len y < d"
  by (simp add: year_len_def split: if_splits)

lemma daysIn_pos [termination_simp]: "\<not> d < daysIn m y \<Longrightarrow> d - daysIn m y < d"
  by (auto simp: daysIn_def split: if_splits)

fun year_from :: "nat \<Rightarrow> nat \<Rightarrow> nat \<times> nat" where
  "year_from y d = (if d < year_len y then (y, d) else year_from (Suc y) (d - year_len y))"

fun month_from :: "nat \<Rightarrow> nat \<Rightarrow> nat \<Rightarrow> nat \<times> nat" where
  "month_from y m d =
     (if d < daysIn m y \<or> 12 \<le> m then (m, d) else month_from y (Suc m) (d - daysIn m y))"

declare year_from.simps [simp del] month_from.simps [simp del]

text \<open>Year, month and day of a day number.  No year has more than 366 days, so the search for
  the year may start at the quotient by 366.\<close>

definition date_of_days :: "nat \<Rightarrow> nat \<times> nat \<times> nat" where
  "date_of_days n =
     (let y0 = n div 366; (y, r) = year_from y0 (n - days_before_year y0);
          (m, d) = month_from y 1 r
      in (y, m, Suc d))"

text \<open>\<^verbatim>\<open>t.Format(time.RFC3339)\<close> in a zone \<open>off\<close> seconds east of UTC, for an instant
  between the years 0 and 9999.\<close>

definition fmt_zone :: "int \<Rightarrow> string" where
  "fmt_zone off =
     (if off = 0 then ''Z''
      else (let mins = nat (\<bar>off\<bar> div 60) in
            (if off < 0 then CHR ''-'' else CHR ''+'') # pad2 (mins div 60) @ CHR '':'' # pad2 (mins mod 60)))"

definition time_Format :: "int \<Rightarrow> time \<Rightarrow> string" where
  "time_Format off t =
     (let secs = t div second + off + int epoch_days * 86400;
          n = nat (secs div 86400); r = nat (secs mod 86400);
          (y, m, d) = date_of_days n
      in pad4 y @ CHR ''-'' # pad2 m @ CHR ''-'' # pad2 d @ CHR ''T''
           # pad2 (r div 3600) @ CHR '':'' # pad2 (r div 60 mod 60) @ CHR '':'' # pad2 (r mod 60)
           @ fmt_zone off)"

section \<open>Formatting and parsing are inverse\<close>

lemma days_before_year_le: "days_before_year y \<le> 366 * y"
  by (induction y) (auto simp: days_before_year_Suc year_len_def days_before_year_def [of 0])

lemma year_from_spec:
  "year_from y d = (y', r) \<Longrightarrow> days_before_year y' + r = days_before_year y + d \<and> r < year_len y'"
proof (induction y d rule: year_from.induct)
  case (1 y d)
  show ?case
  proof (cases "d < year_len y")
    case True
    with "1.prems" show ?thesis by (simp add: year_from.simps [of y d])
  next
    case False
    with "1.prems" have "year_from (Suc y) (d - year_len y) = (y', r)"
      by (simp add: year_from.simps [of y d])
    from "1.IH" [OF False this] False show ?thesis by (simp add: days_before_year_Suc)
  qed
qed

lemma days_before_month_Suc:
  "1 \<le> m \<Longrightarrow> days_before_month (Suc m) y = days_before_month m y + daysIn m y"
  by (simp add: days_before_month_def)

lemma days_before_month_1 [simp]: "days_before_month (Suc 0) y = 0"
  by (simp add: days_before_month_def)

lemma daysIn_12 [simp]: "daysIn 12 y = 31"
  by (simp add: daysIn_def)

lemma year_len_months: "days_before_month 12 y + 31 = year_len y"
proof -
  have "[1..<12] = [1, 2, 3, 4, 5, 6, 7, 8, 9, 10, 11::nat]" by (simp add: upt_rec)
  then show ?thesis by (simp add: days_before_month_def daysIn_def year_len_def)
qed

lemma month_from_spec:
  "month_from y m d = (m', r) \<Longrightarrow> 1 \<le> m \<Longrightarrow> m \<le> 12 \<Longrightarrow> days_before_month m y + d < year_len y
    \<Longrightarrow> 1 \<le> m' \<and> m' \<le> 12 \<and> r < daysIn m' y
        \<and> days_before_month m' y + r = days_before_month m y + d"
proof (induction y m d rule: month_from.induct)
  case (1 y m d)
  show ?case
  proof (cases "d < daysIn m y \<or> 12 \<le> m")
    case True
    with "1.prems" have mr: "m' = m" "r = d" by (simp_all add: month_from.simps [of y m d])
    have "d < daysIn m y"
      using True "1.prems"(3,4) year_len_months [of y] by (cases "m = 12") auto
    with mr "1.prems" show ?thesis by simp
  next
    case False
    with "1.prems" have step: "month_from y (Suc m) (d - daysIn m y) = (m', r)"
      by (simp add: month_from.simps [of y m d])
    have "days_before_month (Suc m) y + (d - daysIn m y) = days_before_month m y + d"
      using False "1.prems" by (simp add: days_before_month_Suc)
    with "1.IH" [OF False step] False "1.prems" show ?thesis by simp
  qed
qed

lemma date_of_days_spec:
  assumes "date_of_days n = (y, m, d)"
  shows "days_of_date y m d = n" "1 \<le> m" "m \<le> 12" "1 \<le> d" "d \<le> daysIn m y"
proof -
  let ?y0 = "n div 366"
  obtain y1 r where yr: "year_from ?y0 (n - days_before_year ?y0) = (y1, r)" by fastforce
  obtain m1 r1 where mr: "month_from y1 1 r = (m1, r1)" by fastforce
  from assms yr mr have eq: "y = y1" "m = m1" "d = Suc r1"
    by (simp_all add: date_of_days_def Let_def)
  have "days_before_year ?y0 \<le> n"
    using days_before_year_le [of ?y0] by (meson div_times_less_eq_dividend le_trans times_div_less_eq_dividend)
  then have ys: "days_before_year y1 + r = n" "r < year_len y1"
    using year_from_spec [OF yr] by auto
  have ms: "1 \<le> m1 \<and> m1 \<le> 12 \<and> r1 < daysIn m1 y1 \<and> days_before_month m1 y1 + r1 = r"
    using month_from_spec [OF mr] ys(2) by simp
  show "days_of_date y m d = n" "1 \<le> m" "m \<le> 12" "1 \<le> d" "d \<le> daysIn m y"
    using ms ys(1) eq by (simp_all add: days_of_date_def)
qed

lemma digit_of_digit_char [simp]: "d < 10 \<Longrightarrow> digit_of (digit_char d) = Some d"
  by (simp add: digit_of_def digit_char_def)

lemma getnum_pad2 [simp]: "n < 100 \<Longrightarrow> getnum (pad2 n @ s) b = Some (n, s)"
  by (simp add: pad2_def mult_div_mod_eq)

lemma getnum_pad2_Nil [simp]: "n < 100 \<Longrightarrow> getnum (pad2 n) b = Some (n, [])"
  using getnum_pad2 [of n "[]" b] by simp

lemma getyear_pad4 [simp]: "y < 10000 \<Longrightarrow> getyear (pad4 y @ s) = Some (y, s)"
  by (simp add: getyear_def pad4_def mult_div_mod_eq)

lemma length_pad2 [simp]: "length (pad2 n) = 2"
  by (simp add: pad2_def)

lemma take_pad2 [simp]: "take 2 (pad2 n @ s) = pad2 n"
  by simp

lemma digit_char_inj: "d < 10 \<Longrightarrow> of_char (digit_char d) = (48 + d :: nat)"
  by (simp add: digit_char_def)

definition whole_minutes :: "int \<Rightarrow> bool" where
  "whole_minutes off \<longleftrightarrow> off mod 60 = 0 \<and> \<bar>off\<bar> \<le> 86400"

lemma getzone_fmt_zone [simp]:
  assumes "whole_minutes off"
  shows "getzone (fmt_zone off) = Some (off, [])"
proof (cases "off = 0")
  case True
  then show ?thesis by (simp add: fmt_zone_def getzone_def)
next
  case False
  define k where "k = nat (\<bar>off\<bar> div 60)"
  have k: "k \<le> 1440" and ko: "\<bar>off\<bar> = int k * 60"
    using assms by (auto simp: k_def whole_minutes_def)
  let ?c = "if off < 0 then CHR ''-'' else CHR ''+''"
  have z: "fmt_zone off = ?c # pad2 (k div 60) @ CHR '':'' # pad2 (k mod 60)"
    using False by (simp add: fmt_zone_def Let_def k_def)
  have kk: "int ((k div 60 * 60 + k mod 60) * 60) = \<bar>off\<bar>"
    using ko by (simp add: div_mult_mod_eq)
  have bounds: "k div 60 < 100" "k mod 60 < 100" "\<not> k div 60 > 24" "\<not> k mod 60 > 60"
    using k by auto
  have d4: "drop 4 (fmt_zone off) = pad2 (k mod 60)" and c3: "fmt_zone off ! 3 = CHR '':''"
    and d6: "drop 6 (fmt_zone off) = []" and l6: "length (fmt_zone off) = 6"
    by (simp_all add: z pad2_def)
  show ?thesis
    unfolding getzone_def
    using bounds kk False d4 c3 d6 l6 z
    by (cases "off < 0") (simp_all add: case_prod_unfold)
qed

lemma getfrac_fmt_zone [simp]: "getfrac (fmt_zone off) = (0, fmt_zone off)"
  by (simp add: getfrac_def fmt_zone_def Let_def split: list.split)

lemma secs_split: "r div 3600 * 3600 + r div 60 mod 60 * 60 + r mod 60 = (r::nat)"
proof -
  have *: "\<And>a b::nat. a * 3600 + b * 60 = (a * 60 + b) * 60" by simp
  have "r div 3600 = r div 60 div 60" by (simp add: div_mult2_eq [symmetric])
  then show ?thesis by (simp only: * div_mult_mod_eq)
qed

text \<open>
  The instant formatted by one side and parsed by the other is the same second; the year must
  have four digits, as RFC 3339 has it.
\<close>

lemma time_Parse_Format:
  assumes off: "whole_minutes off"
    and nonneg: "0 \<le> t div second + off + int epoch_days * 86400"
    and year: "fst (date_of_days (nat ((t div second + off + int epoch_days * 86400) div 86400))) < 10000"
  shows "time_Parse (time_Format off t) = Some (t div second * second)"
proof -
  define secs where "secs = t div second + off + int epoch_days * 86400"
  define n where "n = nat (secs div 86400)"
  define r where "r = nat (secs mod 86400)"
  obtain y m d where ymd: "date_of_days n = (y, m, d)" by (metis prod_cases3)
  have y: "y < 10000" using year ymd by (simp add: n_def secs_def)
  have r: "r < 86400" by (simp add: r_def nat_less_iff)
  have hms: "r div 3600 < 24" "r div 60 mod 60 < 60" "r mod 60 < 60"
    using r by auto
  have hms': "\<not> 24 \<le> r div 3600" "\<not> 60 \<le> r div 60 mod 60" "\<not> 60 \<le> r mod 60"
    using hms by (simp_all add: not_le)
  have dm: "daysIn m y \<le> 31" by (simp add: daysIn_def)
  note date = date_of_days_spec [OF ymd]
  have fmt: "time_Format off t = pad4 y @ CHR ''-'' # pad2 m @ CHR ''-'' # pad2 d @ CHR ''T''
      # pad2 (r div 3600) @ CHR '':'' # pad2 (r div 60 mod 60) @ CHR '':'' # pad2 (r mod 60) @ fmt_zone off"
    unfolding time_Format_def Let_def
    by (simp add: ymd secs_def [symmetric] n_def [symmetric] r_def [symmetric])
  have "secs = int n * 86400 + int r"
    using nonneg by (simp add: n_def r_def secs_def [symmetric] pos_imp_zdiv_nonneg_iff)
  then have ct: "clock_time y m d (r div 3600) (r div 60 mod 60) (r mod 60) 0 off = t div second * second"
    using secs_split [of r] date(1) by (simp add: clock_time_def secs_def)
  have "time_Parse (time_Format off t)
      = Some (clock_time y m d (r div 3600) (r div 60 mod 60) (r mod 60) 0 off)"
    unfolding time_Parse_def fmt using y hms hms' date dm off by (simp add: obind_def del: not_le)
  with ct show ?thesis by simp
qed

end
