(* ===== verification/Types.thy ===== *)
theory Types
  imports GoTime
begin

text \<open>
  The program's data.  Structs are records with the source's fields, prefixed by a short name of
  the struct because field names are global in HOL: the custom resources of
  \<^verbatim>\<open>src/api/v1alpha1\<close>, the wire structs of \<^verbatim>\<open>src/internal/cdi/fti/{fm,cm}/api\<close> and of the
  three CDI clients, and, of the Kubernetes objects the program only reads or patches, the fields
  it uses.  A Go map that is only indexed is a partial function; the map
  \<^verbatim>\<open>Status.Resources\<close>, over which the code iterates, is an association list whose order stands
  for the unspecified iteration order.
\<close>

type_synonym str_map = "string \<Rightarrow> string option"

text \<open>Indexing a \<^verbatim>\<open>map[string]string\<close>: a missing key reads as the empty string.\<close>

definition str_at :: "str_map \<Rightarrow> string \<Rightarrow> string" where
  "str_at m k = (case m k of None \<Rightarrow> [] | Some v \<Rightarrow> v)"

section \<open>Custom resources\<close>

record ObjectMeta =
  om_Name :: string
  om_GenerateName :: string
  om_Labels :: str_map
  om_Annotations :: str_map
  om_Finalizers :: "string list"
  om_DeletionTimestamp :: "time option"
  om_CreationTimestamp :: time

record NodeSpec =
  ns_MilliCPU :: int
  ns_Memory :: int
  ns_EphemeralStorage :: int
  ns_AllowedPodNumber :: int

record ScalarResourceDetails =
  srd_Type :: string
  srd_Model :: string
  srd_Size :: int
  srd_ForceDetach :: bool
  srd_AllocationPolicy :: string
  srd_TargetNode :: string
  srd_OtherSpec :: "NodeSpec option"

record ScalarResourceStatus =
  srs_State :: string
  srs_DeviceID :: string
  srs_CDIDeviceID :: string
  srs_NodeName :: string
  srs_Error :: string

type_synonym resources = "(string \<times> ScalarResourceStatus) list"

record ComposabilityRequestStatus =
  crqs_State :: string
  crqs_Error :: string
  crqs_Resources :: resources
  crqs_ScalarResource :: ScalarResourceDetails

text \<open>\<^verbatim>\<open>ComposabilityRequestSpec\<close> has the single field \<^verbatim>\<open>Resource\<close>; \<open>crq_Resource\<close> is it.\<close>

record ComposabilityRequest =
  crq_Meta :: ObjectMeta
  crq_Resource :: ScalarResourceDetails
  crq_Status :: ComposabilityRequestStatus

record ComposableResourceSpec =
  crs_Type :: string
  crs_Model :: string
  crs_TargetNode :: string
  crs_ForceDetach :: bool

record ComposableResourceStatus =
  crst_State :: string
  crst_Error :: string
  crst_DeviceID :: string
  crst_CDIDeviceID :: string

record ComposableResource =
  cr_Meta :: ObjectMeta
  cr_Spec :: ComposableResourceSpec
  cr_Status :: ComposableResourceStatus

abbreviation "crq_Name r \<equiv> om_Name (crq_Meta r)"
abbreviation "crq_State r \<equiv> crqs_State (crq_Status r)"
abbreviation "crq_Resources r \<equiv> crqs_Resources (crq_Status r)"
abbreviation "cr_Name r \<equiv> om_Name (cr_Meta r)"
abbreviation "cr_State r \<equiv> crst_State (cr_Status r)"
abbreviation "cr_Error r \<equiv> crst_Error (cr_Status r)"
abbreviation "cr_DeviceID r \<equiv> crst_DeviceID (cr_Status r)"
abbreviation "cr_CDIDeviceID r \<equiv> crst_CDIDeviceID (cr_Status r)"
abbreviation "cr_TargetNode r \<equiv> crs_TargetNode (cr_Spec r)"

definition empty_meta :: ObjectMeta where
  "empty_meta = \<lparr>om_Name = [], om_GenerateName = [], om_Labels = (\<lambda>_. None), om_Annotations = (\<lambda>_. None),
     om_Finalizers = [], om_DeletionTimestamp = None, om_CreationTimestamp = 0\<rparr>"

definition empty_details :: ScalarResourceDetails where
  "empty_details = \<lparr>srd_Type = [], srd_Model = [], srd_Size = 0, srd_ForceDetach = False,
     srd_AllocationPolicy = [], srd_TargetNode = [], srd_OtherSpec = None\<rparr>"

definition empty_request :: ComposabilityRequest where
  "empty_request = \<lparr>crq_Meta = empty_meta, crq_Resource = empty_details,
     crq_Status = \<lparr>crqs_State = [], crqs_Error = [], crqs_Resources = [], crqs_ScalarResource = empty_details\<rparr>\<rparr>"

definition empty_resource :: ComposableResource where
  "empty_resource = \<lparr>cr_Meta = empty_meta,
     cr_Spec = \<lparr>crs_Type = [], crs_Model = [], crs_TargetNode = [], crs_ForceDetach = False\<rparr>,
     cr_Status = \<lparr>crst_State = [], crst_Error = [], crst_DeviceID = [], crst_CDIDeviceID = []\<rparr>\<rparr>"

section \<open>Kubernetes objects\<close>

text \<open>
  A resource quantity: what \<^verbatim>\<open>AsInt64\<close> gives (\<open>None\<close> when the conversion is not exact) and how
  the value prints.  Indexing a capacity map at a missing key gives the zero quantity.
\<close>

record Quantity =
  qty_Int64 :: "int option"
  qty_Text :: string

definition quantity_at :: "(string \<Rightarrow> Quantity option) \<Rightarrow> string \<Rightarrow> Quantity" where
  "quantity_at m k = (case m k of None \<Rightarrow> \<lparr>qty_Int64 = Some 0, qty_Text = ''0''\<rparr> | Some q \<Rightarrow> q)"

record Node =
  node_Name :: string
  node_Annotations :: str_map
  node_ProviderID :: string
  node_Capacity :: "string \<Rightarrow> Quantity option"

record DaemonSet =
  ds_Namespace :: string
  ds_Name :: string
  ds_DesiredNumberScheduled :: int
  ds_NumberReady :: int
  ds_CurrentNumberScheduled :: int
  ds_NumberUnavailable :: int
  ds_NumberMisscheduled :: int
  ds_TemplateAnnotations :: str_map

record Pod =
  pod_Name :: string
  pod_Namespace :: string
  pod_NodeName :: string
  pod_Containers :: "string list"

text \<open>A device of a resource slice; an attribute holds a string or another kind of value (\<open>None\<close>).\<close>

record SliceDevice =
  dev_Name :: string
  dev_Attributes :: "(string \<times> string option) list"

record ResourceSlice =
  rs_Driver :: string
  rs_PoolName :: string
  rs_Devices :: "SliceDevice list"

record DeviceTaintRule =
  dtr_Name :: string
  dtr_Driver :: string
  dtr_Pool :: string
  dtr_Device :: string
  dtr_Key :: string
  dtr_Value :: string
  dtr_Effect :: string

text \<open>An object of which the program reads only the name and the annotations (Metal3Machine,
  BareMetalHost).\<close>

record AnnotatedObject =
  ao_Name :: string
  ao_Annotations :: str_map

section \<open>CDI data\<close>

record DeviceInfo =
  di_NodeName :: string
  di_MachineUUID :: string
  di_DeviceType :: string
  di_Model :: string
  di_DeviceID :: string
  di_CDIDeviceID :: string

subsection \<open>Fabric manager (fti/fm/api)\<close>

record ConditionItem =
  ci_Column :: string
  ci_Operator :: string
  ci_Value :: string

record FM_ErrorDetail =
  fed_Code :: string
  fed_Message :: string

record FM_ErrorBody =
  feb_Status :: int
  feb_Detail :: FM_ErrorDetail

text \<open>\<^verbatim>\<open>GetMachineResource\<close> and \<^verbatim>\<open>ScaleUpResponseResourceItem\<close> have the same fields.\<close>

record FM_Resource =
  fr_ResourceUUID :: string
  fr_ResourceName :: string
  fr_Type :: string
  fr_Status :: int
  fr_OptionStatus :: string
  fr_SerialNum :: string
  fr_Condition :: "ConditionItem list"

record GetMachineItem =
  gmi_FabricUUID :: string
  gmi_FabricID :: int
  gmi_MachineUUID :: string
  gmi_MachineID :: int
  gmi_MachineName :: string
  gmi_TenantUUID :: string
  gmi_Status :: int
  gmi_StatusDetail :: string
  gmi_Resources :: "FM_Resource list"

record ScaleUpResponseMachineItem =
  srm_FabricUUID :: string
  srm_FabricID :: int
  srm_MachineUUID :: string
  srm_MachineID :: int
  srm_MachineName :: string
  srm_TenantUUID :: string
  srm_Resources :: "FM_Resource list"

record ScaleUpResourceSpecItem =
  sur_Type :: string
  sur_Condition :: "ConditionItem list"
  sur_Num :: int

text \<open>The request bodies, with the wrapper structs that hold a single field left out: a machine
  item holds its list of resource items, each a list of resource specs.\<close>

record ScaleUpMachineItem =
  sum_MachineUUID :: string
  sum_Resources :: "ScaleUpResourceSpecItem list list"

record ScaleUpBody =
  sub_TenantUUID :: string
  sub_Machines :: "ScaleUpMachineItem list"

record ScaleDownResourceSpecItem =
  sdr_Type :: string
  sdr_ResourceUUID :: string
  sdr_Num :: int

record ScaleDownMachineItem =
  sdm_MachineUUID :: string
  sdm_Resources :: "ScaleDownResourceSpecItem list list"

record ScaleDownBody =
  sdb_TenantUUID :: string
  sdb_Machines :: "ScaleDownMachineItem list"

subsection \<open>Cluster manager (fti/cm/api)\<close>

record CM_DeviceDetail =
  dd_ResourceUUID :: string
  dd_ResourceOPStatus :: string

record CM_Device =
  cmd_DeviceUUID :: string
  cmd_Status :: string
  cmd_StatusReason :: string
  cmd_Detail :: CM_DeviceDetail

record CM_ResourceSpec =
  rsp_SpecUUID :: string
  rsp_Type :: string
  rsp_Conditions :: "ConditionItem list"
  rsp_MinCount :: int
  rsp_MaxCount :: int
  rsp_DeviceCount :: int
  rsp_Devices :: "CM_Device list"

record CM_Machine =
  mch_UUID :: string
  mch_Name :: string
  mch_Status :: string
  mch_StatusReason :: string
  mch_ResourceSpecs :: "CM_ResourceSpec list"

record CM_ErrorBody =
  ceb_Status :: int
  ceb_Code :: string
  ceb_Message :: string

record scaleUpTarget =
  sut_SpecUUID :: string
  sut_DeviceCount :: int

record scaleDownTarget =
  sdt_SpecUUID :: string
  sdt_DeviceCount :: int
  sdt_Devices :: "string list"

subsection \<open>Sunfish and the token service\<close>

record ProcessorRequest =
  pr_RequestCount :: int
  pr_ProcType :: string
  pr_Model :: string

record CompositionRequest =
  cmp_Name :: string
  cmp_Members :: "ProcessorRequest list"

record oauth2Token =
  tok_AccessToken :: string
  tok_TokenType :: string
  tok_RefreshToken :: string
  tok_Expiry :: time

record idToken =
  idt_AccessToken :: string
  idt_RefreshToken :: string
  idt_TokenType :: string

subsection \<open>HTTP\<close>

text \<open>The body of a request is the Go value that is marshalled into it.\<close>

datatype http_body =
    NoBody
  | SunfishBody CompositionRequest
  | FM_ScaleUp ScaleUpBody
  | FM_ScaleDown ScaleDownBody
  | CM_ScaleUp scaleUpTarget
  | CM_ScaleDown scaleDownTarget
  | FormBody "(string \<times> string) list"

record http_request =
  req_Method :: string
  req_URL :: string
  req_Query :: "(string \<times> string) list"
  req_Body :: http_body
  req_Token :: "oauth2Token option"

text \<open>\<open>resp_Body\<close> is what \<^verbatim>\<open>io.ReadAll\<close> gives on the body.\<close>

record http_response =
  resp_StatusCode :: int
  resp_Body :: "error + string"

text \<open>The result of a Reconcile: \<^verbatim>\<open>ctrl.Result{RequeueAfter}\<close>, zero for none.\<close>

record Result =
  RequeueAfter :: int

end
