(* ===== verification/World.thy ===== *)
theory World
  imports Types
begin

text \<open>
  The outside world as a parameter.  The record \<open>env\<close> holds every operation of code that is not
  in the repository: the Kubernetes API server behind controller-runtime's client and client-go,
  command execution in pods, HTTP exchanges with the CDI services and the token service, JSON and
  base64 decoding of their answers, the clock, UUIDs and environment variables.  An operation
  takes the state \<open>'w\<close> of the outside world and gives its answer and the new state, so other
  actors may change anything at every call.  Nothing is assumed of an operation unless a theorem
  says so.

  The state \<open>sys\<close> of a running program is the outside world, the trace of the calls with an
  effect made so far, the objects the running reconciler points to, and the process memory of the
  upstream syncer and of the token cache.

  The second part is the program logic: \<open>within H R m\<close> says that a run of \<open>m\<close> takes every
  state to one related to it by \<open>R\<close>.  The locale \<open>footprint\<close> proves the rules once for any
  reflexive and transitive \<open>R\<close>; its interpretations give event footprints and frames.
\<close>

section \<open>Calls with an effect\<close>

datatype event =
    EvUpdateRequest ComposabilityRequest
  | EvUpdateRequestStatus ComposabilityRequest
  | EvDeleteRequest ComposabilityRequest
  | EvCreateResource ComposableResource
  | EvUpdateResource ComposableResource
  | EvUpdateResourceStatus ComposableResource
  | EvDeleteResource ComposableResource
  | EvUpdateDaemonSet DaemonSet
  | EvCreateTaint DeviceTaintRule
  | EvDeleteTaint DeviceTaintRule
  | EvExec Pod "string list"
  | EvGoExec Pod "string list"
  | EvHttp http_request

section \<open>The environment and the state\<close>

record 'w env =
  api_GetNode :: "string \<Rightarrow> 'w \<Rightarrow> (error + Node) \<times> 'w"
  api_ListNodes :: "'w \<Rightarrow> (error + Node list) \<times> 'w"
  api_GetRequest :: "string \<Rightarrow> 'w \<Rightarrow> (error + ComposabilityRequest) \<times> 'w"
  api_ListRequests :: "'w \<Rightarrow> (error + ComposabilityRequest list) \<times> 'w"
  api_UpdateRequest :: "ComposabilityRequest \<Rightarrow> 'w \<Rightarrow> (error + ComposabilityRequest) \<times> 'w"
  api_UpdateRequestStatus :: "ComposabilityRequest \<Rightarrow> 'w \<Rightarrow> (error + ComposabilityRequest) \<times> 'w"
  api_DeleteRequest :: "ComposabilityRequest \<Rightarrow> 'w \<Rightarrow> error option \<times> 'w"
  api_GetResource :: "string \<Rightarrow> 'w \<Rightarrow> (error + ComposableResource) \<times> 'w"
  api_ListResources :: "string option \<Rightarrow> 'w \<Rightarrow> (error + ComposableResource list) \<times> 'w"
  api_CreateResource :: "ComposableResource \<Rightarrow> 'w \<Rightarrow> error option \<times> 'w"
  api_UpdateResource :: "ComposableResource \<Rightarrow> 'w \<Rightarrow> (error + ComposableResource) \<times> 'w"
  api_UpdateResourceStatus :: "ComposableResource \<Rightarrow> 'w \<Rightarrow> (error + ComposableResource) \<times> 'w"
  api_DeleteResource :: "ComposableResource \<Rightarrow> 'w \<Rightarrow> error option \<times> 'w"
  api_GetDaemonSet :: "string \<Rightarrow> string \<Rightarrow> 'w \<Rightarrow> (error + DaemonSet) \<times> 'w"
  api_UpdateDaemonSet :: "DaemonSet \<Rightarrow> 'w \<Rightarrow> error option \<times> 'w"
  api_ListPods :: "string \<Rightarrow> string option \<Rightarrow> 'w \<Rightarrow> (error + Pod list) \<times> 'w"
  api_ListResourceSlices :: "'w \<Rightarrow> (error + ResourceSlice list) \<times> 'w"
  api_GetTaint :: "string \<Rightarrow> 'w \<Rightarrow> (error + DeviceTaintRule) \<times> 'w"
  api_CreateTaint :: "DeviceTaintRule \<Rightarrow> 'w \<Rightarrow> error option \<times> 'w"
  api_DeleteTaint :: "DeviceTaintRule \<Rightarrow> 'w \<Rightarrow> error option \<times> 'w"
  api_GetClusterPolicy :: "string \<Rightarrow> 'w \<Rightarrow> (error + bool option) \<times> 'w"
  api_GetMachine :: "string \<Rightarrow> string \<Rightarrow> 'w \<Rightarrow> (error + AnnotatedObject) \<times> 'w"
  api_GetBareMetalHost :: "string \<Rightarrow> string \<Rightarrow> 'w \<Rightarrow> (error + AnnotatedObject) \<times> 'w"
  api_GetSecret :: "string \<Rightarrow> string \<Rightarrow> 'w \<Rightarrow> (error + str_map) \<times> 'w"
  pod_NewExecutor :: "Pod \<Rightarrow> string list \<Rightarrow> error option"
  pod_Stream :: "Pod \<Rightarrow> string \<Rightarrow> string list \<Rightarrow> 'w \<Rightarrow> (string \<times> string \<times> error option) \<times> 'w"
  go_Spawn :: "Pod \<Rightarrow> string \<Rightarrow> string list \<Rightarrow> 'w \<Rightarrow> unit \<times> 'w"
  go_ErrorFlag :: "'w \<Rightarrow> bool \<times> 'w"
  http_NewRequest :: "string \<Rightarrow> string \<Rightarrow> error option"
  http_Do :: "http_request \<Rightarrow> 'w \<Rightarrow> (error + http_response) \<times> 'w"
  json_FM_ErrorBody :: "string \<Rightarrow> error + FM_ErrorBody"
  json_FM_ScaleUpResponse :: "string \<Rightarrow> error + ScaleUpResponseMachineItem list"
  json_FM_GetMachineResponse :: "string \<Rightarrow> error + GetMachineItem list"
  json_CM_ErrorBody :: "string \<Rightarrow> error + CM_ErrorBody"
  json_CM_MachineData :: "string \<Rightarrow> error + CM_Machine"
  json_String :: "string \<Rightarrow> error + string"
  json_IdToken :: "string \<Rightarrow> error + idToken"
  json_AccessToken :: "string \<Rightarrow> error + int"
  base64_RawURLDecode :: "string \<Rightarrow> error + string"
  time_ParseErrorText :: "string \<Rightarrow> string"
  time_LocalOffset :: "time \<Rightarrow> int"
  clock_Now :: "'w \<Rightarrow> time \<times> 'w"
  clock_Sleep :: "int \<Rightarrow> 'w \<Rightarrow> unit \<times> 'w"
  uuid_New :: "'w \<Rightarrow> string \<times> 'w"
  os_Getenv :: "string \<Rightarrow> string"

record 'w sys =
  world :: 'w
  trace :: "event list"
  theResource :: ComposableResource
  theRequest :: ComposabilityRequest
  missingDevices :: "string \<Rightarrow> time option"
  cachedToken :: "oauth2Token option"

type_synonym ('w, 'a) go = "('w env, 'w sys, 'a) prog"

section \<open>The primitive calls\<close>

text \<open>\<open>query\<close> performs a call that only reads; \<open>effect\<close> one that is recorded in the trace;
  \<open>pureE\<close> reads a constant of the environment.\<close>

definition query :: "('w env \<Rightarrow> 'w \<Rightarrow> 'a \<times> 'w) \<Rightarrow> ('w, 'a) go" where
  "query f = (\<lambda>E s. case f E (world s) of (x, w) \<Rightarrow> (Ret x, s\<lparr>world := w\<rparr>))"

definition effect :: "event \<Rightarrow> ('w env \<Rightarrow> 'w \<Rightarrow> 'a \<times> 'w) \<Rightarrow> ('w, 'a) go" where
  "effect ev f =
     (\<lambda>E s. case f E (world s) of (x, w) \<Rightarrow> (Ret x, s\<lparr>world := w, trace := trace s @ [ev]\<rparr>))"

definition pureE :: "('w env \<Rightarrow> 'a) \<Rightarrow> ('w, 'a) go" where
  "pureE f = (\<lambda>E s. (Ret (f E), s))"

lemmas [prog_defs] = query_def effect_def pureE_def

lemma eval_calls [prog_eval]:
  "query f E s = (case f E (world s) of (x, w) \<Rightarrow> (Ret x, s\<lparr>world := w\<rparr>))"
  "effect ev f E s = (case f E (world s) of (x, w) \<Rightarrow> (Ret x, s\<lparr>world := w, trace := trace s @ [ev]\<rparr>))"
  "pureE p E s = (Ret (p E), s)"
  by (simp_all add: prog_defs)

definition Getenv :: "string \<Rightarrow> ('w, string) go" where
  "Getenv v = pureE (\<lambda>E. os_Getenv E v)"

definition time_Now :: "('w, time) go" where
  "time_Now = query (\<lambda>E. clock_Now E)"

text \<open>
  \<^verbatim>\<open>client.Update\<close> and \<^verbatim>\<open>client.Status().Update\<close> decode the server's answer into the object
  they were given: on success the object the reconciler points to becomes the answer.
\<close>

definition Update_Resource :: "('w, error option) go" where
  "Update_Resource =
     bindM (getM theResource) (\<lambda>r.
     bindM (effect (EvUpdateResource r) (\<lambda>E. api_UpdateResource E r)) (\<lambda>a. case a of
       Inl e \<Rightarrow> ret (Some e)
     | Inr r' \<Rightarrow> thenM (modifyM (\<lambda>s. s\<lparr>theResource := r'\<rparr>)) (ret None)))"

definition Status_Update_Resource :: "('w, error option) go" where
  "Status_Update_Resource =
     bindM (getM theResource) (\<lambda>r.
     bindM (effect (EvUpdateResourceStatus r) (\<lambda>E. api_UpdateResourceStatus E r)) (\<lambda>a. case a of
       Inl e \<Rightarrow> ret (Some e)
     | Inr r' \<Rightarrow> thenM (modifyM (\<lambda>s. s\<lparr>theResource := r'\<rparr>)) (ret None)))"

definition Update_Request :: "('w, error option) go" where
  "Update_Request =
     bindM (getM theRequest) (\<lambda>r.
     bindM (effect (EvUpdateRequest r) (\<lambda>E. api_UpdateRequest E r)) (\<lambda>a. case a of
       Inl e \<Rightarrow> ret (Some e)
     | Inr r' \<Rightarrow> thenM (modifyM (\<lambda>s. s\<lparr>theRequest := r'\<rparr>)) (ret None)))"

definition Status_Update_Request :: "('w, error option) go" where
  "Status_Update_Request =
     bindM (getM theRequest) (\<lambda>r.
     bindM (effect (EvUpdateRequestStatus r) (\<lambda>E. api_UpdateRequestStatus E r)) (\<lambda>a. case a of
       Inl e \<Rightarrow> ret (Some e)
     | Inr r' \<Rightarrow> thenM (modifyM (\<lambda>s. s\<lparr>theRequest := r'\<rparr>)) (ret None)))"

definition Delete_Resource :: "ComposableResource \<Rightarrow> ('w, error option) go" where
  "Delete_Resource r = effect (EvDeleteResource r) (\<lambda>E. api_DeleteResource E r)"

definition Delete_Request :: "ComposabilityRequest \<Rightarrow> ('w, error option) go" where
  "Delete_Request r = effect (EvDeleteRequest r) (\<lambda>E. api_DeleteRequest E r)"

definition Create_Resource :: "ComposableResource \<Rightarrow> ('w, error option) go" where
  "Create_Resource r = effect (EvCreateResource r) (\<lambda>E. api_CreateResource E r)"

definition upd_resource :: "(ComposableResource \<Rightarrow> ComposableResource) \<Rightarrow> ('w, unit) go" where
  "upd_resource f = modifyM (\<lambda>s. s\<lparr>theResource := f (theResource s)\<rparr>)"

definition upd_request :: "(ComposabilityRequest \<Rightarrow> ComposabilityRequest) \<Rightarrow> ('w, unit) go" where
  "upd_request f = modifyM (\<lambda>s. s\<lparr>theRequest := f (theRequest s)\<rparr>)"

text \<open>Sending a request: \<^verbatim>\<open>http.NewRequest\<close> may refuse the URL, then \<^verbatim>\<open>client.Do\<close>.\<close>

definition send :: "http_request \<Rightarrow> ('w, error + http_response) go" where
  "send r = effect (EvHttp r) (\<lambda>E. http_Do E r)"

section \<open>Program logic\<close>

definition within :: "('e \<Rightarrow> bool) \<Rightarrow> ('s \<Rightarrow> 's \<Rightarrow> bool) \<Rightarrow> ('e, 's, 'a) prog \<Rightarrow> bool" where
  "within H R m \<longleftrightarrow> (\<forall>E s. H E \<longrightarrow> R s (snd (m E s)))"

locale footprint =
  fixes H :: "'e \<Rightarrow> bool" and R :: "'s \<Rightarrow> 's \<Rightarrow> bool"
  assumes refl: "R s s"
    and trans: "R s t \<Longrightarrow> R t u \<Longrightarrow> R s u"
begin

lemma w_ret: "within H R (ret x)"
  by (simp add: within_def ret_def refl)

lemma w_panic: "within H R (panic e)"
  by (simp add: within_def panic_def refl)

lemma w_getM: "within H R (getM f)"
  by (simp add: within_def getM_def refl)

text \<open>The rule for a sequence, which only looks at results the first part can give.\<close>

lemma w_bindM_res:
  assumes "within H R m" "\<And>x. \<exists>E s. H E \<and> fst (m E s) = Ret x \<Longrightarrow> within H R (f x)"
  shows "within H R (bindM m f)"
  unfolding within_def
proof (intro allI impI)
  fix E s
  assume E: "H E"
  obtain o' s' where m: "m E s = (o', s')" by (cases "m E s")
  have a: "R s s'" using assms(1) E m unfolding within_def by (metis snd_conv)
  show "R s (snd (bindM m f E s))"
  proof (cases o')
    case (Ret x)
    then have "within H R (f x)" using assms(2) E m by (metis fst_conv)
    then have "R s' (snd (f x E s'))" using E by (simp add: within_def)
    with a have "R s (snd (f x E s'))" by (rule trans)
    with m Ret show ?thesis by (simp add: bindM_def)
  next
    case (Panic e)
    with a m show ?thesis by (simp add: bindM_def)
  qed
qed

lemma w_bindM: "within H R m \<Longrightarrow> (\<And>x. within H R (f x)) \<Longrightarrow> within H R (bindM m f)"
  by (rule w_bindM_res)

lemma w_tryM:
  "within H R m \<Longrightarrow> (\<And>e. within H R (h e)) \<Longrightarrow> (\<And>x. within H R (k x)) \<Longrightarrow> within H R (tryM m h k)"
  unfolding tryM_def by (rule w_bindM) (auto split: sum.split)

lemma w_checkM:
  "within H R m \<Longrightarrow> (\<And>e. within H R (h e)) \<Longrightarrow> within H R k \<Longrightarrow> within H R (checkM m h k)"
  unfolding checkM_def by (rule w_bindM) (auto split: option.split)

lemma w_thenM: "within H R m \<Longrightarrow> within H R k \<Longrightarrow> within H R (thenM m k)"
  unfolding thenM_def by (rule w_bindM)

lemma w_index: "within H R (index xs i)"
  by (simp add: index_def w_ret w_panic)

lemma w_forM:
  "(\<And>x acc. within H R (f x acc)) \<Longrightarrow> within H R (forM xs acc f)"
proof (induction xs arbitrary: acc)
  case Nil
  then show ?case by (simp add: w_ret)
next
  case (Cons x xs)
  show ?case
    unfolding forM.simps
    by (rule w_bindM) (auto simp: Cons.prems Cons.IH w_ret split: flow.split)
qed

lemma w_if: "(b \<Longrightarrow> within H R m) \<Longrightarrow> (\<not> b \<Longrightarrow> within H R n) \<Longrightarrow> within H R (if b then m else n)"
  by simp

lemma w_option:
  "(x = None \<Longrightarrow> within H R m) \<Longrightarrow> (\<And>v. x = Some v \<Longrightarrow> within H R (n v))
    \<Longrightarrow> within H R (case x of None \<Rightarrow> m | Some v \<Rightarrow> n v)"
  by (cases x) auto

lemma w_sum:
  "(\<And>e. x = Inl e \<Longrightarrow> within H R (m e)) \<Longrightarrow> (\<And>v. x = Inr v \<Longrightarrow> within H R (n v))
    \<Longrightarrow> within H R (case x of Inl e \<Rightarrow> m e | Inr v \<Rightarrow> n v)"
  by (cases x) auto

lemma w_prod: "(\<And>a b. x = (a, b) \<Longrightarrow> within H R (m a b)) \<Longrightarrow> within H R (case x of (a, b) \<Rightarrow> m a b)"
  by (cases x) auto

lemma w_prod_app:
  "(\<And>a b. x = (a, b) \<Longrightarrow> within H R (m a b y)) \<Longrightarrow> within H R ((case x of (a, b) \<Rightarrow> m a b) y)"
  by (cases x) auto

lemma w_list:
  "(x = [] \<Longrightarrow> within H R m) \<Longrightarrow> (\<And>y ys. x = y # ys \<Longrightarrow> within H R (n y ys))
    \<Longrightarrow> within H R (case x of [] \<Rightarrow> m | y # ys \<Rightarrow> n y ys)"
  by (cases x) auto

text \<open>The rules that look at the results a part can give.\<close>

lemma w_tryM_res:
  assumes "within H R m" "\<And>e. within H R (h e)"
    and "\<And>v. \<exists>E s. H E \<and> fst (m E s) = Ret (Inr v) \<Longrightarrow> within H R (k v)"
  shows "within H R (tryM m h k)"
  unfolding tryM_def using assms by (intro w_bindM_res) (auto split: sum.split)

lemma w_checkM_never:
  assumes "\<And>E s. H E \<Longrightarrow> fst (m E s) \<noteq> Ret None" "within H R m" "\<And>e. within H R (h e)"
  shows "within H R (checkM m h k)"
  unfolding checkM_def using assms by (intro w_bindM_res) (auto split: option.split)

text \<open>A loop that cannot pass its element \<open>x\<close>.\<close>

lemma w_forM_upto:
  assumes "\<And>y acc. y \<in> insert x (set ys) \<Longrightarrow> within H R (f y acc)"
    and "\<And>E s acc a. H E \<Longrightarrow> fst (f x acc E s) \<noteq> Ret (Next a)"
  shows "within H R (forM (ys @ x # zs) acc f)"
  using assms(1)
proof (induction ys arbitrary: acc)
  case Nil
  have "within H R (f x acc)" using Nil by simp
  then show ?case
    unfolding append_Nil forM.simps using assms(2) by (intro w_bindM_res) (auto simp: w_ret split: flow.split)
next
  case (Cons y ys)
  have "within H R (f y acc)" using Cons.prems by simp
  moreover have "within H R (forM (ys @ x # zs) a f)" for a
    by (rule Cons.IH) (use Cons.prems in auto)
  ultimately show ?case by (auto intro!: w_bindM simp: w_ret split: flow.split)
qed

lemma w_let: "within H R (f x) \<Longrightarrow> within H R (let y = x in f y)"
  by simp

lemmas rules = w_ret w_panic w_getM w_bindM w_tryM w_checkM w_thenM w_index w_forM
  w_if w_option w_sum w_prod w_prod_app w_list w_let

end

subsection \<open>Event footprints\<close>

text \<open>The events a run appends all satisfy \<open>A\<close>.\<close>

definition appends :: "(event \<Rightarrow> bool) \<Rightarrow> 'w sys \<Rightarrow> 'w sys \<Rightarrow> bool" where
  "appends A s t \<longleftrightarrow> (\<exists>evs. trace t = trace s @ evs \<and> list_all A evs)"

definition emits :: "(event \<Rightarrow> bool) \<Rightarrow> ('w, 'a) go \<Rightarrow> bool" where
  "emits A m \<longleftrightarrow> within (\<lambda>_. True) (appends A) m"

interpretation em: footprint "H :: 'w env \<Rightarrow> bool" "appends A :: 'w sys \<Rightarrow> 'w sys \<Rightarrow> bool" for H A
proof
  show "appends A s s" for s :: "'w sys"
    by (simp add: appends_def)
  show "appends A s u" if "appends A s t" "appends A t u" for s t u :: "'w sys"
    using that
    unfolding appends_def by (metis append.assoc list_all_append)
qed

lemma emits_query: "emits A (query f)"
  by (simp add: emits_def within_def query_def appends_def split: prod.split)

lemma emits_pureE: "emits A (pureE f)"
  by (simp add: emits_def within_def pureE_def appends_def)

lemma emits_effect: "A ev \<Longrightarrow> emits A (effect ev f)"
  by (auto simp: emits_def within_def effect_def appends_def split: prod.split)

lemma emits_modifyM: "(\<And>s. trace (f s) = trace s) \<Longrightarrow> emits A (modifyM f)"
  by (simp add: emits_def within_def modifyM_def appends_def)

lemma emits_under: "emits A m \<Longrightarrow> within H (appends A) m"
  by (simp add: emits_def within_def)

lemma emits_mono: "emits A m \<Longrightarrow> (\<And>e. A e \<Longrightarrow> B e) \<Longrightarrow> emits B m"
  unfolding emits_def within_def appends_def by (meson list.pred_mono_strong)

lemmas emits_rules [emits_intro] = em.rules [where H = "\<lambda>_. True", folded emits_def]
  emits_query emits_pureE emits_effect emits_modifyM

lemma emits_upd [emits_intro]: "emits A (upd_resource f)" "emits A (upd_request g)"
  by (simp_all add: upd_resource_def upd_request_def emits_modifyM)

lemma emits_prims [emits_intro]:
  "emits A (Getenv v)" "emits A time_Now"
  "(\<And>r. A (EvUpdateResource r)) \<Longrightarrow> emits A Update_Resource"
  "(\<And>r. A (EvUpdateResourceStatus r)) \<Longrightarrow> emits A Status_Update_Resource"
  "(\<And>r. A (EvUpdateRequest r)) \<Longrightarrow> emits A Update_Request"
  "(\<And>r. A (EvUpdateRequestStatus r)) \<Longrightarrow> emits A Status_Update_Request"
  "A (EvDeleteResource r) \<Longrightarrow> emits A (Delete_Resource r)"
  "A (EvDeleteRequest q) \<Longrightarrow> emits A (Delete_Request q)"
  "A (EvCreateResource r) \<Longrightarrow> emits A (Create_Resource r)"
  "A (EvHttp h) \<Longrightarrow> emits A (send h)"
  unfolding Getenv_def time_Now_def Update_Resource_def Status_Update_Resource_def Update_Request_def
    Status_Update_Request_def Delete_Resource_def Delete_Request_def Create_Resource_def send_def
  by (intro emits_intro; simp)+

text \<open>What a footprint says of a whole run: no event outside it is ever appended.\<close>

lemma emits_trace:
  assumes "emits A m"
  obtains evs where "trace (snd (m E s)) = trace s @ evs" "list_all A evs"
  using assms unfolding emits_def within_def appends_def by blast

subsection \<open>Frames\<close>

text \<open>\<open>keeps f m\<close>: no run of \<open>m\<close> changes the part \<open>f\<close> of the state.\<close>

definition same :: "('s \<Rightarrow> 'b) \<Rightarrow> 's \<Rightarrow> 's \<Rightarrow> bool" where
  "same f s t \<longleftrightarrow> f t = f s"

definition keeps :: "('w sys \<Rightarrow> 'b) \<Rightarrow> ('w, 'a) go \<Rightarrow> bool" where
  "keeps f m \<longleftrightarrow> within (\<lambda>_. True) (same f) m"

interpretation kp: footprint "\<lambda>_ :: 'w env. True" "same f :: 'w sys \<Rightarrow> 'w sys \<Rightarrow> bool" for f
  by unfold_locales (simp_all add: same_def)

named_theorems keeps_intro \<open>introduction rules for frames\<close>

lemma keeps_query: "(\<And>s w. f (s\<lparr>world := w\<rparr>) = f s) \<Longrightarrow> keeps f (query g)"
  by (simp add: keeps_def within_def query_def same_def split: prod.split)

lemma keeps_pureE: "keeps f (pureE g)"
  by (simp add: keeps_def within_def pureE_def same_def)

lemma keeps_modifyM: "(\<And>s. f (g s) = f s) \<Longrightarrow> keeps f (modifyM g)"
  by (simp add: keeps_def within_def modifyM_def same_def)

lemmas keeps_rules [keeps_intro] = kp.rules [folded keeps_def] keeps_pureE keeps_modifyM

lemma keepsD: "keeps f m \<Longrightarrow> m E s = (r, s') \<Longrightarrow> f s' = f s"
  unfolding keeps_def within_def same_def by (metis snd_conv)

subsection \<open>Programs that leave the memory alone\<close>

text \<open>
  A part of the state that does not depend on the outside world, and not on the trace except
  through events a program never makes, is kept by every program without assignments.
\<close>

definition untouched :: "('w sys \<Rightarrow> 'b) \<Rightarrow> bool" where
  "untouched f \<longleftrightarrow> (\<forall>s w. f (s\<lparr>world := w\<rparr>) = f s)"

definition ignores :: "('w sys \<Rightarrow> 'b) \<Rightarrow> event \<Rightarrow> bool" where
  "ignores f ev \<longleftrightarrow> (\<forall>s w. f (s\<lparr>world := w, trace := trace s @ [ev]\<rparr>) = f s)"

lemma keeps_query_untouched [keeps_intro]: "untouched f \<Longrightarrow> keeps f (query g)"
  by (simp add: untouched_def keeps_query)

lemma keeps_effect_ignored [keeps_intro]: "ignores f ev \<Longrightarrow> keeps f (effect ev g)"
  by (simp add: ignores_def keeps_def within_def effect_def same_def split: prod.split)

lemma keeps_reads [keeps_intro]:
  "keeps f (Getenv v)" "untouched f \<Longrightarrow> keeps f time_Now"
  unfolding Getenv_def time_Now_def by (intro keeps_intro; simp)+

lemma keeps_writes [keeps_intro]:
  "ignores f (EvDeleteResource r) \<Longrightarrow> keeps f (Delete_Resource r)"
  "ignores f (EvDeleteRequest q) \<Longrightarrow> keeps f (Delete_Request q)"
  "ignores f (EvCreateResource r) \<Longrightarrow> keeps f (Create_Resource r)"
  "ignores f (EvHttp h) \<Longrightarrow> keeps f (send h)"
  unfolding Delete_Resource_def Delete_Request_def Create_Resource_def send_def
  by (intro keeps_intro; simp)+

lemma untouched_memory [simp]:
  "untouched theResource" "untouched theRequest" "untouched missingDevices" "untouched cachedToken"
  "untouched trace"
  by (simp_all add: untouched_def)

lemma ignores_memory [simp]:
  "ignores theResource ev" "ignores theRequest ev" "ignores missingDevices ev" "ignores cachedToken ev"
  by (simp_all add: ignores_def)

subsection \<open>Symbolic execution over a view\<close>

text \<open>
  \<open>wpv H vw m Q X v\<close>: in every environment satisfying \<open>H\<close> and from every state whose view is
  \<open>v\<close>, a run of \<open>m\<close> that returns ends in a view satisfying \<open>Q\<close> of the result, and one that
  panics in a view satisfying \<open>X\<close>.  The rules run a program forward on the view.
\<close>

definition wpv :: "('e \<Rightarrow> bool) \<Rightarrow> ('s \<Rightarrow> 'v) \<Rightarrow> ('e, 's, 'a) prog \<Rightarrow> ('a \<Rightarrow> 'v \<Rightarrow> bool) \<Rightarrow> ('v \<Rightarrow> bool)
    \<Rightarrow> 'v \<Rightarrow> bool" where
  "wpv H vw m Q X v \<longleftrightarrow> (\<forall>E s. H E \<longrightarrow> vw s = v \<longrightarrow>
     (case m E s of (Ret x, s') \<Rightarrow> Q x (vw s') | (Panic _, s') \<Rightarrow> X (vw s')))"

named_theorems wpv_intro \<open>rules that execute a program on a view\<close>

lemma wpvD:
  assumes "wpv H vw m Q X v" "H E" "vw s = v"
  shows "m E s = (Ret x, s') \<Longrightarrow> Q x (vw s')" "m E s = (Panic e, s') \<Longrightarrow> X (vw s')"
  using assms unfolding wpv_def by fastforce+

lemma wpv_conseq:
  "wpv H vw m Q X v \<Longrightarrow> (\<And>x v. Q x v \<Longrightarrow> Q' x v) \<Longrightarrow> (\<And>v. X v \<Longrightarrow> X' v) \<Longrightarrow> wpv H vw m Q' X' v"
  unfolding wpv_def by (fastforce split: prod.splits outcome.splits)

lemma wpv_weaken: "wpv H vw m Q X v \<Longrightarrow> (\<And>E. H' E \<Longrightarrow> H E) \<Longrightarrow> wpv H' vw m Q X v"
  by (simp add: wpv_def)

lemma wpv_ret [wpv_intro]: "Q x v \<Longrightarrow> wpv H vw (ret x) Q X v"
  by (simp add: wpv_def ret_def)

lemma wpv_panic [wpv_intro]: "X v \<Longrightarrow> wpv H vw (panic e) Q X v"
  by (simp add: wpv_def panic_def)

lemma wpv_bindM [wpv_intro]:
  "wpv H vw m (\<lambda>x. wpv H vw (f x) Q X) X v \<Longrightarrow> wpv H vw (bindM m f) Q X v"
  unfolding wpv_def bindM_def by (fastforce split: prod.splits outcome.splits)

lemma wpv_thenM [wpv_intro]:
  "wpv H vw m (\<lambda>_. wpv H vw k Q X) X v \<Longrightarrow> wpv H vw (thenM m k) Q X v"
  unfolding thenM_def by (rule wpv_bindM)

lemma wpv_tryM [wpv_intro]:
  "wpv H vw m (\<lambda>r v. (\<forall>e. r = Inl e \<longrightarrow> wpv H vw (h e) Q X v) \<and> (\<forall>x. r = Inr x \<longrightarrow> wpv H vw (k x) Q X v)) X v
    \<Longrightarrow> wpv H vw (tryM m h k) Q X v"
  unfolding tryM_def by (rule wpv_bindM, erule wpv_conseq) (auto split: sum.split)

lemma wpv_checkM [wpv_intro]:
  "wpv H vw m (\<lambda>r v. (\<forall>e. r = Some e \<longrightarrow> wpv H vw (h e) Q X v) \<and> (r = None \<longrightarrow> wpv H vw k Q X v)) X v
    \<Longrightarrow> wpv H vw (checkM m h k) Q X v"
  unfolding checkM_def by (rule wpv_bindM, erule wpv_conseq) (auto split: option.split)

lemma wpv_getM: "(\<And>s. f s = g (vw s)) \<Longrightarrow> Q (g v) v \<Longrightarrow> wpv H vw (getM f) Q X v"
  by (simp add: wpv_def getM_def)

lemma wpv_modifyM: "(\<And>s. vw (f s) = g (vw s)) \<Longrightarrow> Q () (g v) \<Longrightarrow> wpv H vw (modifyM f) Q X v"
  by (simp add: wpv_def modifyM_def)

lemma wpv_keeps: "keeps vw m \<Longrightarrow> (\<And>x. Q x v) \<Longrightarrow> X v \<Longrightarrow> wpv H vw m Q X v"
  unfolding wpv_def keeps_def within_def same_def
  by (metis (mono_tags, lifting) case_prod_unfold outcome.exhaust outcome.simps(5) outcome.simps(6))

lemma wpv_if [wpv_intro]:
  "(b \<Longrightarrow> wpv H vw m Q X v) \<Longrightarrow> (\<not> b \<Longrightarrow> wpv H vw n Q X v) \<Longrightarrow> wpv H vw (if b then m else n) Q X v"
  by simp

lemma wpv_option [wpv_intro]:
  "(x = None \<Longrightarrow> wpv H vw m Q X v) \<Longrightarrow> (\<And>y. x = Some y \<Longrightarrow> wpv H vw (n y) Q X v)
    \<Longrightarrow> wpv H vw (case x of None \<Rightarrow> m | Some y \<Rightarrow> n y) Q X v"
  by (cases x) auto

lemma wpv_sum [wpv_intro]:
  "(\<And>e. x = Inl e \<Longrightarrow> wpv H vw (m e) Q X v) \<Longrightarrow> (\<And>y. x = Inr y \<Longrightarrow> wpv H vw (n y) Q X v)
    \<Longrightarrow> wpv H vw (case x of Inl e \<Rightarrow> m e | Inr y \<Rightarrow> n y) Q X v"
  by (cases x) auto

lemma wpv_prod [wpv_intro]:
  "(\<And>a b. x = (a, b) \<Longrightarrow> wpv H vw (m a b) Q X v) \<Longrightarrow> wpv H vw (case x of (a, b) \<Rightarrow> m a b) Q X v"
  by (cases x) auto

lemma wpv_prod_app [wpv_intro]:
  "(\<And>a b. x = (a, b) \<Longrightarrow> wpv H vw (m a b y) Q X v) \<Longrightarrow> wpv H vw ((case x of (a, b) \<Rightarrow> m a b) y) Q X v"
  by (cases x) auto

lemma wpv_list [wpv_intro]:
  "(x = [] \<Longrightarrow> wpv H vw m Q X v) \<Longrightarrow> (\<And>y ys. x = y # ys \<Longrightarrow> wpv H vw (n y ys) Q X v)
    \<Longrightarrow> wpv H vw (case x of [] \<Rightarrow> m | y # ys \<Rightarrow> n y ys) Q X v"
  by (cases x) auto

lemma wpv_let [wpv_intro]: "wpv H vw (f x) Q X v \<Longrightarrow> wpv H vw (let y = x in f y) Q X v"
  by simp

text \<open>A loop with an invariant on the accumulator and the view.\<close>

lemma wpv_forM:
  assumes step: "\<And>x acc v. x \<in> set xs \<Longrightarrow> I acc v \<Longrightarrow>
      wpv H vw (f x acc) (\<lambda>r v. case r of Next a \<Rightarrow> I a v | Break a \<Rightarrow> Q (Inr a) v | Return y \<Rightarrow> Q (Inl y) v) X v"
    and final: "\<And>acc v. I acc v \<Longrightarrow> Q (Inr acc) v"
    and init: "I acc v"
  shows "wpv H vw (forM xs acc f) Q X v"
  using step init
proof (induction xs arbitrary: acc v)
  case Nil
  then show ?case by (simp add: wpv_ret final)
next
  case (Cons x xs)
  have "wpv H vw (f x acc) (\<lambda>r v. case r of Next a \<Rightarrow> I a v | Break a \<Rightarrow> Q (Inr a) v | Return y \<Rightarrow> Q (Inl y) v) X v"
    using Cons.prems by simp
  then show ?case
    unfolding forM.simps
    by (intro wpv_bindM, elim wpv_conseq)
       (auto intro!: wpv_ret Cons.IH Cons.prems(1) split: flow.splits)
qed

section \<open>A concrete environment\<close>

text \<open>
  An environment in which every object is missing and every exchange fails, over any world.  The
  concrete runs that accompany the theorems are made in it, with the operations of interest
  replaced.
\<close>

definition missing :: "'w \<Rightarrow> (error + 'a) \<times> 'w" where
  "missing w = (Inl (StatusError ''NotFound'' ''not found''), w)"

definition denied :: "'w \<Rightarrow> error option \<times> 'w" where
  "denied w = (Some (StatusError ''Forbidden'' ''forbidden''), w)"

definition void_env :: "'w env" where
  "void_env = \<lparr>
     api_GetNode = \<lambda>_. missing, api_ListNodes = missing,
     api_GetRequest = \<lambda>_. missing, api_ListRequests = missing,
     api_UpdateRequest = \<lambda>_. missing, api_UpdateRequestStatus = \<lambda>_. missing,
     api_DeleteRequest = \<lambda>_. denied,
     api_GetResource = \<lambda>_. missing, api_ListResources = \<lambda>_. missing,
     api_CreateResource = \<lambda>_. denied, api_UpdateResource = \<lambda>_. missing,
     api_UpdateResourceStatus = \<lambda>_. missing, api_DeleteResource = \<lambda>_. denied,
     api_GetDaemonSet = \<lambda>_ _. missing, api_UpdateDaemonSet = \<lambda>_. denied,
     api_ListPods = \<lambda>_ _. missing, api_ListResourceSlices = missing,
     api_GetTaint = \<lambda>_. missing, api_CreateTaint = \<lambda>_. denied, api_DeleteTaint = \<lambda>_. denied,
     api_GetClusterPolicy = \<lambda>_. missing, api_GetMachine = \<lambda>_ _. missing,
     api_GetBareMetalHost = \<lambda>_ _. missing, api_GetSecret = \<lambda>_ _. missing,
     pod_NewExecutor = \<lambda>_ _. None,
     pod_Stream = \<lambda>_ _ _ w. (([], [], None), w),
     go_Spawn = \<lambda>_ _ _ w. ((), w), go_ErrorFlag = \<lambda>w. (False, w),
     http_NewRequest = \<lambda>_ _. None, http_Do = \<lambda>_. missing,
     json_FM_ErrorBody = \<lambda>_. Inl (ErrorString ''bad json''),
     json_FM_ScaleUpResponse = \<lambda>_. Inl (ErrorString ''bad json''),
     json_FM_GetMachineResponse = \<lambda>_. Inl (ErrorString ''bad json''),
     json_CM_ErrorBody = \<lambda>_. Inl (ErrorString ''bad json''),
     json_CM_MachineData = \<lambda>_. Inl (ErrorString ''bad json''),
     json_String = \<lambda>_. Inl (ErrorString ''bad json''),
     json_IdToken = \<lambda>_. Inl (ErrorString ''bad json''),
     json_AccessToken = \<lambda>_. Inl (ErrorString ''bad json''),
     base64_RawURLDecode = \<lambda>_. Inl (ErrorString ''bad base64''),
     time_ParseErrorText = \<lambda>_. ''bad time'', time_LocalOffset = \<lambda>_. 0,
     clock_Now = \<lambda>w. (0, w), clock_Sleep = \<lambda>_ w. ((), w),
     uuid_New = \<lambda>w. (''0'', w), os_Getenv = \<lambda>_. []\<rparr>"

definition start :: "'w \<Rightarrow> 'w sys" where
  "start w = \<lparr>world = w, trace = [], theResource = empty_resource, theRequest = empty_request,
     missingDevices = (\<lambda>_. None), cachedToken = None\<rparr>"

end
