(* ===== verification/Nodes.thy ===== *)
theory Nodes
  imports World
begin

text \<open>
  Package utils, first part: \<^verbatim>\<open>src/internal/utils/nodes.go\<close> and
  \<^verbatim>\<open>src/internal/utils/stringutils.go\<close>.  Daemon-set restarts, node lookup, node capacity and
  the generated resource names, with the conditions under which a restart is performed, its rate
  limit, and what a capacity check decides.
\<close>

section \<open>nodes.go\<close>

abbreviation restartedAt :: string where
  "restartedAt \<equiv> ''kubectl.kubernetes.io/restartedAt''"

definition ds_not_stable :: "DaemonSet \<Rightarrow> bool" where
  "ds_not_stable ds \<longleftrightarrow>
     ds_NumberReady ds < ds_DesiredNumberScheduled ds
     \<or> ds_CurrentNumberScheduled ds < ds_DesiredNumberScheduled ds
     \<or> ds_NumberUnavailable ds > 0
     \<or> ds_NumberMisscheduled ds > 0"

definition ds_stamp :: "DaemonSet \<Rightarrow> string \<Rightarrow> DaemonSet" where
  "ds_stamp ds v = ds\<lparr>ds_TemplateAnnotations := (ds_TemplateAnnotations ds)(restartedAt \<mapsto> v)\<rparr>"

definition time_NowRFC3339 :: "('w, string) go" where
  "time_NowRFC3339 = bindM time_Now (\<lambda>t. pureE (\<lambda>E. time_Format (time_LocalOffset E t) t))"

definition restart_now :: "DaemonSet \<Rightarrow> ('w, error option) go" where
  "restart_now ds =
     bindM time_NowRFC3339 (\<lambda>v.
     checkM (effect (EvUpdateDaemonSet (ds_stamp ds v)) (\<lambda>E. api_UpdateDaemonSet E (ds_stamp ds v)))
       (\<lambda>err. ret (Some err))
       (ret None))"

definition RestartDaemonset :: "string \<Rightarrow> string \<Rightarrow> ('w, error option) go" where
  "RestartDaemonset namespace name =
     tryM (query (\<lambda>E. api_GetDaemonSet E namespace name)) (\<lambda>err. ret (Some err)) (\<lambda>daemonset.
     if ds_DesiredNumberScheduled daemonset = 0 then ret None
     else if ds_not_stable daemonset then ret None
     else (case ds_TemplateAnnotations daemonset restartedAt of
         None \<Rightarrow> restart_now daemonset
       | Some v \<Rightarrow>
           (case time_Parse v of
              Some lastRestartTime \<Rightarrow>
                bindM time_Now (\<lambda>now.
                if now - lastRestartTime \<le> 10 * second then ret None else restart_now daemonset)
            | None \<Rightarrow>
                bindM (pureE (\<lambda>E. time_ParseErrorText E v)) (\<lambda>err.
                ret (Some (ErrorString (''failed to parse restartedAt annotation for DaemonSet '' @ namespace
                       @ ''/'' @ name @ '': '' @ squote err)))))))"

definition getNode :: "string \<Rightarrow> ('w, error + Node) go" where
  "getNode nodeName =
     tryM (query (\<lambda>E. api_GetNode E nodeName)) (\<lambda>err. ret (Inl err)) (\<lambda>node. ret (Inr node))"

definition CheckNodeExisted :: "string \<Rightarrow> ('w, error option) go" where
  "CheckNodeExisted nodeName = tryM (getNode nodeName) (\<lambda>err. ret (Some err)) (\<lambda>_. ret None)"

definition GetAllNodes :: "('w, error + Node list) go" where
  "GetAllNodes = tryM (query (\<lambda>E. api_ListNodes E)) (\<lambda>err. ret (Inl err)) (\<lambda>ns. ret (Inr ns))"

definition capacity_error :: "string \<Rightarrow> Quantity \<Rightarrow> error" where
  "capacity_error what q =
     ErrorString (''failed to convert node's '' @ what @ '' resource '' @ squote (qty_Text q) @ '' to int64'')"

text \<open>The comparison itself.  As in the source, the message for the memory quantity prints the
  ephemeral storage and the other way round.\<close>

definition node_sufficient :: "Node \<Rightarrow> NodeSpec \<Rightarrow> error + bool" where
  "node_sufficient node spec =
     (let nodeCPU = quantity_at (node_Capacity node) ''cpu'';
          nodeEphemeralStorage = quantity_at (node_Capacity node) ''ephemeral-storage'';
          nodePods = quantity_at (node_Capacity node) ''pods'';
          nodeMemory = quantity_at (node_Capacity node) ''memory''
      in case qty_Int64 nodeCPU of
           None \<Rightarrow> Inl (capacity_error ''CPU'' nodeCPU)
         | Some cpu \<Rightarrow>
      (case qty_Int64 nodeMemory of
           None \<Rightarrow> Inl (capacity_error ''memory'' nodeEphemeralStorage)
         | Some memory \<Rightarrow>
      (case qty_Int64 nodePods of
           None \<Rightarrow> Inl (capacity_error ''pod'' nodePods)
         | Some pods \<Rightarrow>
      (case qty_Int64 nodeEphemeralStorage of
           None \<Rightarrow> Inl (capacity_error ''ephemeral storage'' nodeMemory)
         | Some storage \<Rightarrow>
             if cpu < ns_MilliCPU spec \<or> memory < ns_Memory spec
                \<or> pods < ns_AllowedPodNumber spec \<or> storage < ns_EphemeralStorage spec
             then Inr False else Inr True))))"

definition CheckNodeCapacitySufficient :: "string \<Rightarrow> NodeSpec \<Rightarrow> ('w, error + bool) go" where
  "CheckNodeCapacitySufficient nodeName nodeSpec =
     tryM (getNode nodeName) (\<lambda>err. ret (Inl err)) (\<lambda>node. ret (node_sufficient node nodeSpec))"

section \<open>stringutils.go\<close>

definition GenerateComposableResourceName :: "string \<Rightarrow> ('w, string) go" where
  "GenerateComposableResourceName typeName =
     bindM (query (\<lambda>E. uuid_New E)) (\<lambda>u. ret (strings_ToLower (typeName @ ''-'' @ u)))"

fun ContainsString :: "string list \<Rightarrow> string \<Rightarrow> bool" where
  "ContainsString [] s = False"
| "ContainsString (v # slice) s = (if v = s then True else ContainsString slice s)"

section \<open>Correctness\<close>

lemma ContainsString_iff [simp]: "ContainsString slice s \<longleftrightarrow> s \<in> set slice"
  by (induction slice) auto

text \<open>What the capacity check decides, when every quantity converts.\<close>

lemma node_sufficient_iff:
  "node_sufficient node spec = Inr b \<longleftrightarrow>
     (\<exists>cpu memory pods storage.
        qty_Int64 (quantity_at (node_Capacity node) ''cpu'') = Some cpu
      \<and> qty_Int64 (quantity_at (node_Capacity node) ''memory'') = Some memory
      \<and> qty_Int64 (quantity_at (node_Capacity node) ''pods'') = Some pods
      \<and> qty_Int64 (quantity_at (node_Capacity node) ''ephemeral-storage'') = Some storage
      \<and> (b \<longleftrightarrow> ns_MilliCPU spec \<le> cpu \<and> ns_Memory spec \<le> memory
             \<and> ns_AllowedPodNumber spec \<le> pods \<and> ns_EphemeralStorage spec \<le> storage))"
  by (auto simp: node_sufficient_def Let_def not_less split: option.splits)

lemma emits_utils [emits_intro]:
  "emits A (getNode n)" "emits A (CheckNodeExisted n)" "emits A GetAllNodes"
  "emits A (CheckNodeCapacitySufficient n spec)" "emits A (GenerateComposableResourceName t)"
  "emits A time_NowRFC3339"
  unfolding getNode_def CheckNodeExisted_def GetAllNodes_def CheckNodeCapacitySufficient_def
    GenerateComposableResourceName_def time_NowRFC3339_def
  by (intro emits_intro)+

lemma emits_restart_now [emits_intro]:
  "(\<And>d. A (EvUpdateDaemonSet d)) \<Longrightarrow> emits A (restart_now ds)"
  unfolding restart_now_def by (intro emits_intro)

lemma emits_RestartDaemonset [emits_intro]:
  "(\<And>d. A (EvUpdateDaemonSet d)) \<Longrightarrow> emits A (RestartDaemonset namespace name)"
  unfolding RestartDaemonset_def by (intro emits_intro)

subsection \<open>When a daemon set is restarted\<close>

text \<open>The rollout of a daemon set is complete, and its recorded restart, if it has one, is a time
  more than ten seconds before \<open>now\<close>: the conditions for a restart, in the fields of the object.\<close>

definition rolled_out :: "DaemonSet \<Rightarrow> bool" where
  "rolled_out ds \<longleftrightarrow>
     ds_DesiredNumberScheduled ds \<noteq> 0
     \<and> ds_DesiredNumberScheduled ds \<le> ds_NumberReady ds
     \<and> ds_DesiredNumberScheduled ds \<le> ds_CurrentNumberScheduled ds
     \<and> ds_NumberUnavailable ds \<le> 0
     \<and> ds_NumberMisscheduled ds \<le> 0"

definition restart_due :: "DaemonSet \<Rightarrow> time \<Rightarrow> bool" where
  "restart_due ds now \<longleftrightarrow>
     rolled_out ds
     \<and> (\<forall>v. ds_TemplateAnnotations ds ''kubectl.kubernetes.io/restartedAt'' = Some v \<longrightarrow>
          (\<exists>t. time_Parse v = Some t \<and> t + 10 * second < now))"

definition stamp_unreadable :: "DaemonSet \<Rightarrow> bool" where
  "stamp_unreadable ds \<longleftrightarrow>
     (\<exists>v. ds_TemplateAnnotations ds ''kubectl.kubernetes.io/restartedAt'' = Some v \<and> time_Parse v = None)"

text \<open>The clock reading that is written: the first one, or the second one when the first was
  used to judge the age of an earlier stamp.\<close>

definition stamp_time :: "'w env \<Rightarrow> 'w \<Rightarrow> DaemonSet \<Rightarrow> time" where
  "stamp_time E w ds =
     fst (clock_Now E (if ds_TemplateAnnotations ds ''kubectl.kubernetes.io/restartedAt'' = None then w
                       else snd (clock_Now E w)))"

lemma rolled_out_iff:
  "rolled_out ds \<longleftrightarrow> ds_DesiredNumberScheduled ds \<noteq> 0 \<and> \<not> ds_not_stable ds"
  by (auto simp: rolled_out_def ds_not_stable_def)

lemma restart_now_run:
  "restart_now ds E s =
     (let (t, w1) = clock_Now E (world s);
          d = ds_stamp ds (time_Format (time_LocalOffset E t) t);
          (r, w2) = api_UpdateDaemonSet E d w1
      in (Ret r, s\<lparr>world := w2, trace := trace s @ [EvUpdateDaemonSet d]\<rparr>))"
  by (simp add: restart_now_def time_NowRFC3339_def time_Now_def prog_defs Let_def
      split: prod.split option.split)

lemma RestartDaemonset_due:
  assumes "api_GetDaemonSet E namespace name (world s) = (Inr ds, w)" "restart_due ds (fst (clock_Now E w))"
  shows "trace (snd (RestartDaemonset namespace name E s)) = trace s
     @ [EvUpdateDaemonSet (ds_stamp ds (time_Format (time_LocalOffset E (stamp_time E w ds)) (stamp_time E w ds)))]"
  using assms
  by (auto simp: RestartDaemonset_def restart_due_def rolled_out_iff stamp_time_def restart_now_run
      time_Now_def prog_defs Let_def split: option.splits prod.splits)

lemma RestartDaemonset_not_due:
  assumes "api_GetDaemonSet E namespace name (world s) = (Inr ds, w)" "\<not> restart_due ds (fst (clock_Now E w))"
  shows "trace (snd (RestartDaemonset namespace name E s)) = trace s"
  using assms by (auto simp: RestartDaemonset_def restart_due_def rolled_out_iff time_Now_def prog_defs
      split: option.splits prod.splits)

lemma RestartDaemonset_not_due_result:
  assumes "api_GetDaemonSet E namespace name (world s) = (Inr ds, w)" "\<not> restart_due ds (fst (clock_Now E w))"
  shows "\<exists>r. fst (RestartDaemonset namespace name E s) = Ret r
     \<and> (r = None \<longleftrightarrow> \<not> (rolled_out ds \<and> stamp_unreadable ds))"
  using assms by (auto simp: RestartDaemonset_def restart_due_def rolled_out_iff stamp_unreadable_def
      time_Now_def prog_defs split: option.splits prod.splits)

text \<open>
  C37.  Restarting a daemon set, for the object read from the server.  It is written back, once,
  with the clock reading in RFC3339 form as its \<open>restartedAt\<close> annotation and nothing else changed,
  exactly when it desires pods, as many are ready and currently scheduled as it desires, none is
  unavailable or misscheduled, and its recorded restart is more than ten seconds old (or it has
  none).  In every other case nothing is written; the call then returns an error exactly when the
  daemon set is in that state but its recorded restart cannot be read as a time.
\<close>

theorem RestartDaemonset_due_iff:
  assumes "api_GetDaemonSet E namespace name (world s) = (Inr ds, w)"
  shows "if restart_due ds (fst (clock_Now E w))
         then trace (snd (RestartDaemonset namespace name E s)) = trace s @
           [EvUpdateDaemonSet (ds\<lparr>ds_TemplateAnnotations := (ds_TemplateAnnotations ds)
              (''kubectl.kubernetes.io/restartedAt'' \<mapsto>
                 time_Format (time_LocalOffset E (stamp_time E w ds)) (stamp_time E w ds))\<rparr>)]
         else trace (snd (RestartDaemonset namespace name E s)) = trace s
           \<and> (\<exists>r. fst (RestartDaemonset namespace name E s) = Ret r
                \<and> (r = None \<longleftrightarrow> \<not> (rolled_out ds \<and> stamp_unreadable ds)))"
  using RestartDaemonset_due [OF assms] RestartDaemonset_not_due [OF assms]
    RestartDaemonset_not_due_result [OF assms]
  by (simp add: ds_stamp_def)

definition demo_ds :: DaemonSet where
  "demo_ds = \<lparr>ds_Namespace = ''ns'', ds_Name = ''d'', ds_DesiredNumberScheduled = 1, ds_NumberReady = 1,
     ds_CurrentNumberScheduled = 1, ds_NumberUnavailable = 0, ds_NumberMisscheduled = 0,
     ds_TemplateAnnotations = (\<lambda>_. None)\<rparr>"

theorem RestartDaemonset_due_iff_witness:
  "trace (snd (RestartDaemonset ''ns'' ''d'' (void_env\<lparr>api_GetDaemonSet := (\<lambda>_ _ w. (Inr demo_ds, w))\<rparr>) (start ())))
     = [EvUpdateDaemonSet (demo_ds\<lparr>ds_TemplateAnnotations :=
          [''kubectl.kubernetes.io/restartedAt'' \<mapsto> time_Format 0 0]\<rparr>)]"
  using RestartDaemonset_due_iff
    [of "void_env\<lparr>api_GetDaemonSet := (\<lambda>_ _ w. (Inr demo_ds, w))\<rparr>" "''ns''" "''d''" "start ()" demo_ds "()"]
  by (simp add: restart_due_def rolled_out_def demo_ds_def start_def stamp_time_def void_env_def)

text \<open>
  C38.  Restarts are rate limited: a daemon set whose stamp was written by a restart at time \<open>t\<close>
  is not restarted again before more than nine seconds have passed, whatever else happened.  (The
  stamp has whole seconds, so the ten seconds of the code are measured from up to one second
  earlier.)
\<close>

theorem RestartDaemonset_rate_limit:
  assumes stamp: "ds_TemplateAnnotations ds restartedAt = Some (time_Format off t)"
    and zone: "whole_minutes off"
    and range: "0 \<le> t div second + off + int epoch_days * 86400"
      "fst (date_of_days (nat ((t div second + off + int epoch_days * 86400) div 86400))) < 10000"
    and read: "api_GetDaemonSet E namespace name (world s) = (Inr ds, w)"
    and soon: "fst (clock_Now E w) - t \<le> 9 * second"
  shows "trace (snd (RestartDaemonset namespace name E s)) = trace s"
proof -
  have "t - t div second * second = t mod second" by (rule minus_div_mult_eq_mod)
  moreover have "t mod second < second" by (simp add: second_def)
  ultimately have "fst (clock_Now E w) - t div second * second \<le> 10 * second"
    using soon by linarith
  then have "\<not> restart_due ds (fst (clock_Now E w))"
    using stamp time_Parse_Format [OF zone range] by (simp add: restart_due_def algebra_simps)
  then show ?thesis
    by (rule RestartDaemonset_not_due [OF read])
qed

definition demo_stamped :: DaemonSet where
  "demo_stamped = ds_stamp demo_ds (time_Format 0 0)"

theorem RestartDaemonset_rate_limit_witness:
  "trace (snd (RestartDaemonset ''ns'' ''d''
      (void_env\<lparr>api_GetDaemonSet := (\<lambda>_ _ w. (Inr demo_stamped, w)), clock_Now := (\<lambda>w. (9 * second, w))\<rparr>)
      (start ()))) = []"
proof -
  have "fst (date_of_days 719528) < 10000"
    by (simp add: date_of_days_def days_before_year_def year_from.simps year_len_def isLeap_def
        split: prod.split)
  then show ?thesis
    using RestartDaemonset_rate_limit [of demo_stamped 0 0
        "void_env\<lparr>api_GetDaemonSet := (\<lambda>_ _ w. (Inr demo_stamped, w)), clock_Now := (\<lambda>w. (9 * second, w))\<rparr>"
        "''ns''" "''d''" "start ()" "()"]
    by (simp add: demo_stamped_def ds_stamp_def whole_minutes_def epoch_days_def start_def)
qed

end
