(* ===== verification/Scripts.thy ===== *)
theory Scripts
  imports World
begin

text \<open>
  The shell scripts \<^verbatim>\<open>src/internal/utils/gpus.go\<close> sends to the pods, line by line as the raw
  string literals of the source have them.  They are data of the model: what a script does on
  the node is part of the environment.
\<close>

text \<open>A raw string literal that starts with a line break and has each line terminated.\<close>

definition script :: "string list \<Rightarrow> string" where
  "script ls = CHR 0x0A # concat (map (\<lambda>l. l @ [CHR 0x0A]) ls)"

definition target_file_line :: "string \<Rightarrow> string" where
  \<open>target_file_line minor = ''TARGET_FILE="/dev/nvidia'' @ minor @ ''";''\<close>

definition checkShell_agent :: "string \<Rightarrow> string" where
  \<open>checkShell_agent minor = script [target_file_line minor,
     ''MATCHING_LINKS=$(/usr/bin/find -L /proc/[0-9]*/fd -maxdepth 1 -samefile "$TARGET_FILE" -print 2>/dev/null)'',
     [],
     ''if [ -n "$MATCHING_LINKS" ]; then'',
     ''  FIRST=1'',
     ''  echo "$MATCHING_LINKS" | while IFS= read -r LINK; do'',
     ''    [ -n "$LINK" ] || continue'',
     [],
     ''    PID=${LINK#/proc/}'',
     ''    PID=${PID%%/*}'',
     [],
     ''    CMD_NAME=$(/usr/bin/cat "/proc/$PID/comm" 2>/dev/null) || continue'',
     [],
     ''    if [ "$FIRST" = 1 ]; then'',
     ''      FIRST=0'',
     ''    else'',
     ''      /usr/bin/printf ", "'',
     ''    fi'',
     [],
     ''    /usr/bin/printf "%s %s" "$PID" "$CMD_NAME"'',
     ''  done'',
     ''fi'']\<close>

definition checkShell_nvidia :: "string \<Rightarrow> string" where
  \<open>checkShell_nvidia minor = script [target_file_line minor,
     ''for PID_DIR in /proc/[0-9]*; do'',
     [CHR 0x09] @ ''PID=$(/usr/bin/basename "$PID_DIR");'',
     [CHR 0x09] @ ''CMD_NAME=$(/usr/bin/cat "$PID_DIR/comm" 2>/dev/null || /usr/bin/echo "[unknown]")'',
     [],
     [CHR 0x09] @ ''for FD_SYMLINK in "$PID_DIR"/fd/*; do'',
     replicate 2 (CHR 0x09) @ ''if [ -L "$FD_SYMLINK" ]; then'',
     replicate 3 (CHR 0x09) @ ''TARGET_PATH=$(/usr/bin/readlink -f "$FD_SYMLINK" 2>/dev/null);'',
     replicate 3 (CHR 0x09) @ ''if [ "$TARGET_PATH" = "$TARGET_FILE" ]; then'',
     replicate 4 (CHR 0x09) @ ''/usr/bin/echo "$CMD_NAME";'',
     replicate 4 (CHR 0x09) @ ''exit 0;'',
     replicate 3 (CHR 0x09) @ ''fi;'',
     replicate 2 (CHR 0x09) @ ''fi;'',
     [CHR 0x09] @ ''done;'',
     ''done;'']\<close>

definition procScan :: string where
  \<open>procScan = script [
     ''if [ ! -d /proc/driver/nvidia/gpus ]; then'',
     [CHR 0x09] @ ''exit 0'',
     ''fi'',
     [],
     ''for dir in /proc/driver/nvidia/gpus/*; do'',
     [CHR 0x09] @ ''if [ ! -d "$dir" ]; then'',
     replicate 2 (CHR 0x09) @ ''continue'',
     [CHR 0x09] @ ''fi'',
     [CHR 0x09] @ ''info="$dir/information"'',
     [CHR 0x09] @ ''if [ ! -f "$info" ]; then'',
     replicate 2 (CHR 0x09) @ ''continue'',
     [CHR 0x09] @ ''fi'',
     [CHR 0x09] @ ''minor=$(awk '' @ [CHR 0x27] @ ''/^Device Minor:/ {print $3; exit}'' @ [CHR 0x27] @ '' "$info")'',
     [CHR 0x09] @ ''uuid=$(awk '' @ [CHR 0x27] @ ''/^GPU UUID:/ {print $3; exit}'' @ [CHR 0x27] @ '' "$info")'',
     [CHR 0x09] @ ''bus=$(awk '' @ [CHR 0x27] @ ''/^Bus Location:/ {print $3; exit}'' @ [CHR 0x27] @ '' "$info")'',
     [CHR 0x09] @ ''if [ -n "$minor" ] && [ -n "$uuid" ] && [ -n "$bus" ]; then'',
     replicate 2 (CHR 0x09) @ ''printf '' @ [CHR 0x27] @ ''%s,%s,%s'' @ [CHR 0x5C] @ ''n'' @ [CHR 0x27] @ '' "$minor" "$uuid" "$bus"'',
     [CHR 0x09] @ ''fi'',
     ''done'']\<close>

definition checkRemoveShell :: "string \<Rightarrow> string" where
  \<open>checkRemoveShell busIDForSysfs = script [
     ''# __PROC_SCAN_SELF__'',
     ''SELF_MARK="__PROC_SCAN_SELF__"'',
     ''TARGET="/sys/bus/pci/devices/'' @ busIDForSysfs @ ''/remove"'',
     ''SCRIPT_PID=$$'',
     ''PARENT_PID=$PPID'',
     [],
     ''for PID_DIR in /proc/[0-9]*; do'',
     ''  PID=${PID_DIR#/proc/}'',
     [],
     ''  if [ "$PID" = "$SCRIPT_PID" ] || [ "$PID" = "$PARENT_PID" ]; then'',
     ''    continue'',
     ''  fi'',
     [],
     ''  [ -r "$PID_DIR/cmdline" ] || continue'',
     [],
     ''  CMD_LINE=$( (tr '' @ [CHR 0x27] @ [CHR 0x5C] @ ''0'' @ [CHR 0x27] @ '' '' @ [CHR 0x27] @ '' '' @ [CHR 0x27] @ '' < "$PID_DIR/cmdline") 2>/dev/null ) || continue'',
     ''  [ -n "$CMD_LINE" ] || continue'',
     [],
     ''  case "$CMD_LINE" in'',
     ''    *"$SELF_MARK"*) continue ;;'',
     ''  esac'',
     [],
     ''  case "$CMD_LINE" in'',
     ''    *"$TARGET"*)'',
     ''      echo true'',
     ''      exit 0'',
     ''      ;;'',
     ''  esac'',
     ''done'']\<close>

end
