(* ===== verification/GpuQueries.thy ===== *)
theory GpuQueries
  imports Nodes Scripts
begin

text \<open>
  Package utils, second part: the queries of \<^verbatim>\<open>src/internal/utils/gpus.go\<close>.  Finding the pod
  to run a command in, running it, reading \<^verbatim>\<open>nvidia-smi\<close> and \<^verbatim>\<open>/proc\<close> output, GPU
  visibility, GPU loads, and the device taint rules.  The lemmas give the footprint of each
  (queries only execute commands in pods, taint operations only touch taint rules), the results of
  the parsers, and what a successful load check means.
\<close>

section \<open>Commands in pods\<close>

definition execCommandInPod :: "Pod \<Rightarrow> string \<Rightarrow> string list \<Rightarrow> ('w, string \<times> string \<times> error option) go" where
  "execCommandInPod pod containerName command =
     bindM (pureE (\<lambda>E. pod_NewExecutor E pod command)) (\<lambda>r. case r of
       Some err \<Rightarrow> ret ([], [], Some err)
     | None \<Rightarrow> effect (EvExec pod command) (\<lambda>E. pod_Stream E pod containerName command))"

text \<open>The calls pass \<^verbatim>\<open>pod.Spec.Containers[0].Name\<close>, which panics on a pod without containers.\<close>

definition exec_in :: "Pod \<Rightarrow> string list \<Rightarrow> ('w, string \<times> string \<times> error option) go" where
  "exec_in pod command = bindM (index (pod_Containers pod) 0) (\<lambda>c. execCommandInPod pod c command)"

definition getNvidiaDriverDaemonsetPod :: "string \<Rightarrow> ('w, error + Pod) go" where
  "getNvidiaDriverDaemonsetPod targetNodeName =
     tryM (query (\<lambda>E. api_ListPods E ''app.kubernetes.io/component=nvidia-driver'' None))
       (\<lambda>err. ret (Inl (WrapError (''failed to list pods: '' @ err_Error err) err)))
       (\<lambda>podList.
          let foundPod = foldl (\<lambda>found pod. if pod_NodeName pod = targetNodeName then Some pod else found) None podList
          in case foundPod of
               None \<Rightarrow> ret (Inl (ErrorString (''no Pod with label '' @ squote ''app.kubernetes.io/component=nvidia-driver''
                         @ '' found on node '' @ targetNodeName)))
             | Some _ \<Rightarrow> bindM (index podList 0) (\<lambda>pod. ret (Inr pod)))"

definition first_with_prefix :: "string \<Rightarrow> Pod list \<Rightarrow> Pod option" where
  "first_with_prefix p pods = find (\<lambda>pod. strings_HasPrefix (pod_Name pod) p) pods"

definition getDRAKubeletPluginPod :: "string \<Rightarrow> ('w, error + Pod) go" where
  "getDRAKubeletPluginPod targetNodeName =
     tryM (query (\<lambda>E. api_ListPods E ''app.kubernetes.io/name=nvidia-dra-driver-gpu'' (Some targetNodeName)))
       (\<lambda>err. ret (Inl (ErrorString (''failed to list pods: '' @ err_Error err))))
       (\<lambda>pods. case first_with_prefix ''nvidia-dra-driver-gpu-kubelet-plugin'' pods of
          Some pod \<Rightarrow> ret (Inr pod)
        | None \<Rightarrow> ret (Inl (ErrorString (''no Pod named '' @ squote ''nvidia-dra-driver-gpu-kubelet-plugin''
                    @ '' found on node '' @ targetNodeName))))"

definition getCroNodeAgentPod :: "string \<Rightarrow> ('w, error + Pod) go" where
  "getCroNodeAgentPod targetNodeName =
     tryM (query (\<lambda>E. api_ListPods E ''app=cro-node-agent'' (Some targetNodeName)))
       (\<lambda>err. ret (Inl (ErrorString (''failed to list pods: '' @ err_Error err))))
       (\<lambda>pods. case first_with_prefix ''cro-node-agent'' pods of
          Some pod \<Rightarrow> ret (Inr pod)
        | None \<Rightarrow> ret (Inl (ErrorString (''no Pod named '' @ squote ''cro-node-agent''
                    @ '' found on node '' @ targetNodeName))))"

definition isContainerDriverEnabled :: "('w, error + bool) go" where
  "isContainerDriverEnabled =
     tryM (query (\<lambda>E. api_GetClusterPolicy E ''cluster-policy''))
       (\<lambda>err. if IsNotFound err then ret (Inr False)
              else ret (Inl (ErrorString (''failed to get '' @ squote ''cluster-policy'' @ '': '' @ err_Error err))))
       (\<lambda>enabled. case enabled of
          None \<Rightarrow> ret (Inl (ErrorString (squote ''cluster-policy''
                    @ '' nvidia container driver configuration (spec.driver.enabled) is not set'')))
        | Some b \<Rightarrow> ret (Inr b))"

section \<open>Reading GPU information\<close>

definition split_lines :: "string \<Rightarrow> string list" where
  "split_lines stdOut = strings_Split (strings_TrimSpace stdOut) CHR 0x0A"

definition no_devices :: string where
  "no_devices = ''No devices were found''"

definition info_failed :: "error option \<Rightarrow> string \<Rightarrow> string \<Rightarrow> error" where
  "info_failed execErr stdErr stdOut =
     ErrorString (''get gpu info command failed: err: '' @ squote (fmt_err execErr) @ '', stderr: ''
       @ squote stdErr @ '', stdout: '' @ squote stdOut)"

text \<open>One CSV line: field \<open>i\<close> of the query is column \<open>i\<close> of the line, which must have it.\<close>

definition parse_gpu_line :: "string list \<Rightarrow> string \<Rightarrow> ('w, str_map) go" where
  "parse_gpu_line fieldNames line =
     (let parts = strings_Split line CHR '','' in
      bindM (forM (zip [0..<length fieldNames] fieldNames) (\<lambda>_. None) (\<lambda>(i, fieldName) gpuInfo.
               bindM (index parts i) (\<lambda>p.
               ret (Next (gpuInfo(fieldName \<mapsto> strings_TrimSpace p))))))
        (\<lambda>r. case r of Inl x \<Rightarrow> ret x | Inr gpuInfo \<Rightarrow> ret gpuInfo))"

definition parse_gpu_lines :: "string list \<Rightarrow> string \<Rightarrow> ('w, str_map list) go" where
  "parse_gpu_lines fieldNames stdOut =
     bindM (forM (split_lines stdOut) [] (\<lambda>line gpuInfos.
              if line = [] then ret (Next gpuInfos)
              else bindM (parse_gpu_line fieldNames line) (\<lambda>g. ret (Next (gpuInfos @ [g])))))
       (\<lambda>r. case r of Inl x \<Rightarrow> ret x | Inr gpuInfos \<Rightarrow> ret gpuInfos)"

definition query_gpus :: "Pod \<Rightarrow> string list \<Rightarrow> string \<Rightarrow> ('w, error + str_map list) go" where
  "query_gpus pod prefix queryArgs =
     (let fieldNames = strings_Split queryArgs CHR '',''
      in bindM (exec_in pod (prefix @ [''/usr/bin/nvidia-smi'', ''--query-gpu='' @ queryArgs,
                                        ''--format=csv,noheader,nounits''])) (\<lambda>(stdOut, stdErr, execErr).
         if strings_TrimSpace stdOut = no_devices then ret (Inr [])
         else if stdErr \<noteq> [] \<or> execErr \<noteq> None then ret (Inl (info_failed execErr stdErr stdOut))
         else bindM (parse_gpu_lines fieldNames stdOut) (\<lambda>g. ret (Inr g))))"

definition getGPUInfoFromNvidiaPod :: "string \<Rightarrow> string \<Rightarrow> ('w, error + str_map list) go" where
  "getGPUInfoFromNvidiaPod targetNodeName queryArgs =
     tryM (getNvidiaDriverDaemonsetPod targetNodeName) (\<lambda>err. ret (Inl err)) (\<lambda>nvidiaPod.
     query_gpus nvidiaPod [] queryArgs)"

definition getGPUInfoFromCroNodeAgentPod :: "string \<Rightarrow> string \<Rightarrow> ('w, error + str_map list) go" where
  "getGPUInfoFromCroNodeAgentPod targetNodeName queryArgs =
     tryM (getCroNodeAgentPod targetNodeName) (\<lambda>err. ret (Inl err)) (\<lambda>draPod.
     query_gpus draPod [''/bin/chroot'', ''/host-root''] queryArgs)"

text \<open>The \<^verbatim>\<open>/proc\<close> scan: three columns per line, of which the query picks fields by name.\<close>

definition proc_fields :: "string list \<Rightarrow> str_map" where
  "proc_fields parts = [''device_minor'' \<mapsto> strings_TrimSpace (parts ! 0),
     ''gpu_uuid'' \<mapsto> strings_TrimSpace (parts ! 1), ''pci.bus_id'' \<mapsto> strings_TrimSpace (parts ! 2)]"

fun pick_fields :: "str_map \<Rightarrow> string list \<Rightarrow> str_map \<Rightarrow> error + str_map" where
  "pick_fields values [] gpuInfo = Inr gpuInfo"
| "pick_fields values (fieldName # rest) gpuInfo =
     (let name = strings_TrimSpace fieldName in
      case values name of
        None \<Rightarrow> Inl (ErrorString (''unsupported field '' @ squote name @ '' requested in queryArgs''))
      | Some v \<Rightarrow> pick_fields values rest (gpuInfo(name \<mapsto> v)))"

fun parse_proc_lines :: "string list \<Rightarrow> string list \<Rightarrow> str_map list \<Rightarrow> error + str_map list" where
  "parse_proc_lines fieldNames [] gpuInfos = Inr gpuInfos"
| "parse_proc_lines fieldNames (line # rest) gpuInfos =
     (if line = [] then parse_proc_lines fieldNames rest gpuInfos
      else let parts = strings_Split line CHR '','' in
        if length parts < 3 then Inl (ErrorString (''unexpected GPU information format: '' @ squote line))
        else case pick_fields (proc_fields parts) fieldNames (\<lambda>_. None) of
               Inl e \<Rightarrow> Inl e
             | Inr g \<Rightarrow> parse_proc_lines fieldNames rest (gpuInfos @ [g]))"

definition getGPUInfoFromProcInCroNodeAgentPod :: "Pod \<Rightarrow> string \<Rightarrow> ('w, error + str_map list) go" where
  "getGPUInfoFromProcInCroNodeAgentPod pod queryArgs =
     (let fieldNames = strings_Split queryArgs CHR '',''
      in bindM (exec_in pod [''/bin/chroot'', ''/host-root'', ''/bin/sh'', ''-c'', procScan]) (\<lambda>(stdOut, stdErr, execErr).
         if stdErr \<noteq> [] \<or> execErr \<noteq> None then ret (Inl (info_failed execErr stdErr stdOut))
         else if strings_TrimSpace stdOut = [] then ret (Inr [])
         else ret (parse_proc_lines fieldNames (split_lines stdOut) [])))"

section \<open>Visibility and loads\<close>

text \<open>The nested loops over slices, devices and attributes, in their order.\<close>

definition slice_attributes :: "ResourceSlice list \<Rightarrow> (ResourceSlice \<times> SliceDevice \<times> string \<times> string option) list" where
  "slice_attributes slices =
     concat (map (\<lambda>rs. concat (map (\<lambda>d. map (\<lambda>(a, v). (rs, d, a, v)) (dev_Attributes d)) (rs_Devices rs))) slices)"

definition CheckGPUVisible :: "string \<Rightarrow> ComposableResource \<Rightarrow> ('w, error + bool) go" where
  "CheckGPUVisible deviceResourceType resource =
     (if deviceResourceType = ''DRA'' then
        tryM (query (\<lambda>E. api_ListResourceSlices E)) (\<lambda>err. ret (Inl err)) (\<lambda>slices.
        bindM (forM (slice_attributes slices) () (\<lambda>(rs, device, attrName, attrValue) _.
                 if attrName = ''uuid'' then
                   (case attrValue of
                      None \<Rightarrow> panic ''nil pointer dereference''
                    | Some v \<Rightarrow> if v = cr_DeviceID resource then ret (Return True) else ret (Next ()))
                 else ret (Next ())))
          (\<lambda>r. case r of Inl b \<Rightarrow> ret (Inr b) | Inr _ \<Rightarrow> ret (Inr False)))
      else
        tryM (getGPUInfoFromNvidiaPod (cr_TargetNode resource) ''gpu_uuid'') (\<lambda>err. ret (Inl err)) (\<lambda>gpuInfos.
        ret (Inr (\<exists>gpuInfo \<in> set gpuInfos. str_at gpuInfo ''gpu_uuid'' = cr_DeviceID resource))))"

record AccountedAppInfo =
  app_GPUUUID :: string
  app_ProcessName :: string

definition app_String :: "AccountedAppInfo \<Rightarrow> string" where
  "app_String a = ''GPUUUID: '' @ squote (app_GPUUUID a) @ '', ProcessName: '' @ squote (app_ProcessName a)"

text \<open>The verb \<^verbatim>\<open>%v\<close> on a slice.\<close>

definition fmt_apps :: "AccountedAppInfo list \<Rightarrow> string" where
  "fmt_apps as = ''['' @ strings_Join (map app_String as) CHR '' '' @ '']''"

definition parse_app :: "string \<Rightarrow> ('w, AccountedAppInfo) go" where
  "parse_app line =
     (let parts = strings_Split line CHR '','' in
      bindM (index parts 0) (\<lambda>a. bindM (index parts 1) (\<lambda>b.
      ret \<lparr>app_GPUUUID = strings_TrimSpace a, app_ProcessName = strings_TrimSpace b\<rparr>)))"

definition parse_apps :: "string \<Rightarrow> ('w, AccountedAppInfo list) go" where
  "parse_apps stdOut =
     bindM (forM (split_lines stdOut) [] (\<lambda>line accountedApps.
              if line = [] then ret (Next accountedApps)
              else bindM (parse_app line) (\<lambda>a. ret (Next (accountedApps @ [a])))))
       (\<lambda>r. case r of Inl x \<Rightarrow> ret x | Inr accountedApps \<Rightarrow> ret accountedApps)"

definition deref :: "'a option \<Rightarrow> ('w, 'a) go" where
  "deref p = (case p of None \<Rightarrow> panic ''nil pointer dereference'' | Some v \<Rightarrow> ret v)"

definition smi_apps :: "string list" where
  "smi_apps = [''/usr/bin/nvidia-smi'', ''--query-compute-apps=gpu_uuid,process_name'', ''--format=csv,noheader,nounits'']"

text \<open>The part after the choice of the pod: run the query and look at the accounted processes.\<close>

definition check_loads_in :: "bool \<Rightarrow> Pod \<Rightarrow> string list \<Rightarrow> string \<Rightarrow> string option \<Rightarrow> ('w, error option) go" where
  "check_loads_in driverEnabled pod command targetNodeName targetGPUUUID =
     bindM (exec_in pod command) (\<lambda>(stdOut, stdErr, execErr).
     if strings_TrimSpace stdOut = no_devices then ret None
     else if stdErr \<noteq> [] \<or> execErr \<noteq> None then
       ret (Some (ErrorString (''run nvidia-smi in pod '' @ squote (pod_Name pod) @ '' to check gpu loads failed: ''
             @ squote (fmt_err execErr) @ '', stderr: '' @ squote stdErr @ '', stdout: '' @ squote stdOut)))
     else
       bindM (parse_apps stdOut) (\<lambda>accountedApps.
       if \<not> driverEnabled then
         bindM (forM accountedApps () (\<lambda>appInfo _.
                  bindM (deref targetGPUUUID) (\<lambda>target.
                  if app_GPUUUID appInfo = target
                  then ret (Return (ErrorString (''found gpu load on gpu '' @ squote target @ '': '' @ fmt_apps accountedApps)))
                  else ret (Next ()))))
           (\<lambda>r. case r of Inl e \<Rightarrow> ret (Some e) | Inr _ \<Rightarrow> ret None)
       else if accountedApps \<noteq> [] then
         ret (Some (ErrorString (''found gpu loads on node '' @ squote targetNodeName @ '': ''
               @ squote (fmt_apps accountedApps))))
       else ret None))"

definition CheckNoGPULoads :: "string \<Rightarrow> string option \<Rightarrow> ('w, error option) go" where
  "CheckNoGPULoads targetNodeName targetGPUUUID =
     tryM isContainerDriverEnabled (\<lambda>err. ret (Some err)) (\<lambda>driverEnabled.
     if \<not> driverEnabled then
       tryM (getCroNodeAgentPod targetNodeName) (\<lambda>err. ret (Some err)) (\<lambda>pod.
       tryM (getGPUInfoFromProcInCroNodeAgentPod pod ''gpu_uuid'') (\<lambda>err. ret (Some err)) (\<lambda>gpuInfosForProc.
       bindM (forM gpuInfosForProc False (\<lambda>gpuInfo foundGPU.
                bindM (deref targetGPUUUID) (\<lambda>target.
                if str_at gpuInfo ''gpu_uuid'' = target then ret (Break True) else ret (Next foundGPU))))
         (\<lambda>r. case r of
            Inl x \<Rightarrow> ret x
          | Inr foundGPU \<Rightarrow>
              if \<not> foundGPU then bindM (deref targetGPUUUID) (\<lambda>_. ret None)
              else check_loads_in driverEnabled pod ([''/bin/chroot'', ''/host-root''] @ smi_apps) targetNodeName targetGPUUUID)))
     else
       tryM (getNvidiaDriverDaemonsetPod targetNodeName) (\<lambda>err. ret None) (\<lambda>pod.
       check_loads_in driverEnabled pod smi_apps targetNodeName targetGPUUUID))"

definition RunNvidiaSmi :: "string \<Rightarrow> ('w, error option) go" where
  "RunNvidiaSmi targetNodeName =
     tryM isContainerDriverEnabled (\<lambda>err. ret (Some err)) (\<lambda>driverEnabled.
     if \<not> driverEnabled then
       tryM (getGPUInfoFromCroNodeAgentPod targetNodeName ''gpu_uuid'') (\<lambda>err. ret (Some err)) (\<lambda>_. ret None)
     else
       tryM (getGPUInfoFromNvidiaPod targetNodeName ''gpu_uuid'') (\<lambda>err. ret (Some err)) (\<lambda>_. ret None))"

section \<open>Device taint rules\<close>

definition taintName :: "ComposableResource \<Rightarrow> string" where
  "taintName resource = cr_Name resource @ ''-taint''"

fun find_slice_device :: "(ResourceSlice \<times> SliceDevice \<times> string \<times> string option) list \<Rightarrow> string
    \<Rightarrow> (string \<times> string \<times> string)" where
  "find_slice_device [] deviceID = ([], [], [])"
| "find_slice_device ((rs, device, attrName, attrValue) # rest) deviceID =
     (if attrName = ''uuid'' \<and> attrValue = Some deviceID
      then (rs_Driver rs, rs_PoolName rs, dev_Name device)
      else find_slice_device rest deviceID)"

definition taint_rule :: "ComposableResource \<Rightarrow> string \<Rightarrow> string \<Rightarrow> string \<Rightarrow> DeviceTaintRule" where
  "taint_rule resource driverName poolName deviceName =
     \<lparr>dtr_Name = taintName resource, dtr_Driver = driverName, dtr_Pool = poolName, dtr_Device = deviceName,
      dtr_Key = ''k8s.io/device-uuid'', dtr_Value = cr_DeviceID resource, dtr_Effect = ''NoSchedule''\<rparr>"

definition CreateDeviceTaint :: "ComposableResource \<Rightarrow> ('w, error option) go" where
  "CreateDeviceTaint resource =
     bindM (query (\<lambda>E. api_GetTaint E (taintName resource))) (\<lambda>r. case r of
       Inr _ \<Rightarrow> ret None
     | Inl err \<Rightarrow>
         if \<not> IsNotFound err then ret (Some err)
         else
           tryM (query (\<lambda>E. api_ListResourceSlices E)) (\<lambda>err. ret (Some err)) (\<lambda>slices.
           case find_slice_device (slice_attributes slices) (cr_DeviceID resource) of
             (driverName, poolName, deviceName) \<Rightarrow>
               if deviceName = [] then ret None
               else
                 (let taintRule = taint_rule resource driverName poolName deviceName in
                  checkM (effect (EvCreateTaint taintRule) (\<lambda>E. api_CreateTaint E taintRule))
                    (\<lambda>err. ret (Some (WrapError (''failed to create DeviceTaintRule '' @ taintName resource @ '': '' @ err_Error err) err)))
                    (ret None))))"

definition DeleteDeviceTaint :: "ComposableResource \<Rightarrow> ('w, error option) go" where
  "DeleteDeviceTaint resource =
     bindM (query (\<lambda>E. api_GetTaint E (taintName resource))) (\<lambda>r. case r of
       Inl err \<Rightarrow>
         if IsNotFound err then ret None
         else ret (Some (WrapError (''failed to get DeviceTaintRule '' @ taintName resource @ '': '' @ err_Error err) err))
     | Inr taintRule \<Rightarrow>
         checkM (effect (EvDeleteTaint taintRule) (\<lambda>E. api_DeleteTaint E taintRule))
           (\<lambda>err. ret (Some (WrapError (''failed to delete DeviceTaintRule '' @ taintName resource @ '': '' @ err_Error err) err)))
           (ret None))"

definition HasDeviceTaint :: "ComposableResource \<Rightarrow> ('w, error + bool) go" where
  "HasDeviceTaint resource =
     bindM (query (\<lambda>E. api_GetTaint E (taintName resource))) (\<lambda>r. case r of
       Inl err \<Rightarrow>
         if IsNotFound err then ret (Inr False)
         else ret (Inl (WrapError (''failed to get DeviceTaintRule '' @ taintName resource @ '': '' @ err_Error err) err))
     | Inr _ \<Rightarrow> ret (Inr True))"

section \<open>Footprints and frames\<close>

text \<open>Every query may execute commands in pods and does nothing else; a taint operation only
  creates or deletes taint rules.\<close>

lemma emits_exec [emits_intro]:
  "A (EvExec pod cmd) \<Longrightarrow> emits A (execCommandInPod pod c cmd)"
  "A (EvExec pod cmd) \<Longrightarrow> emits A (exec_in pod cmd)"
  unfolding execCommandInPod_def exec_in_def by (intro emits_intro; simp)+

lemma emits_lookups [emits_intro]:
  "emits A (getNvidiaDriverDaemonsetPod n)" "emits A (getDRAKubeletPluginPod n)"
  "emits A (getCroNodeAgentPod n)" "emits A isContainerDriverEnabled" "emits A (deref p)"
  unfolding getNvidiaDriverDaemonsetPod_def getDRAKubeletPluginPod_def getCroNodeAgentPod_def
    isContainerDriverEnabled_def deref_def
  by (intro emits_intro)+

lemma emits_parsers [emits_intro]:
  "emits A (parse_gpu_line fs l)" "emits A (parse_gpu_lines fs out)" "emits A (parse_app l)"
  "emits A (parse_apps out)"
  unfolding parse_gpu_lines_def parse_apps_def parse_gpu_line_def parse_app_def
  by (intro emits_intro)+

lemma emits_queries [emits_intro]:
  assumes "\<And>p c. A (EvExec p c)"
  shows "emits A (query_gpus pod pre args)"
    and "emits A (getGPUInfoFromNvidiaPod n args)"
    and "emits A (getGPUInfoFromCroNodeAgentPod n args)"
    and "emits A (getGPUInfoFromProcInCroNodeAgentPod pod args)"
    and "emits A (check_loads_in d pod cmd n u)"
  unfolding getGPUInfoFromNvidiaPod_def getGPUInfoFromCroNodeAgentPod_def
    getGPUInfoFromProcInCroNodeAgentPod_def query_gpus_def check_loads_in_def
  by (intro emits_intro assms)+

lemma emits_checks [emits_intro]:
  assumes "\<And>p c. A (EvExec p c)"
  shows "emits A (CheckGPUVisible t r)" and "emits A (CheckNoGPULoads n u)" and "emits A (RunNvidiaSmi n)"
  unfolding CheckGPUVisible_def CheckNoGPULoads_def RunNvidiaSmi_def by (intro emits_intro assms)+

lemma emits_taints [emits_intro]:
  "emits A (HasDeviceTaint r)"
  "(\<And>t. A (EvCreateTaint t)) \<Longrightarrow> emits A (CreateDeviceTaint r)"
  "(\<And>t. A (EvDeleteTaint t)) \<Longrightarrow> emits A (DeleteDeviceTaint r)"
  unfolding HasDeviceTaint_def CreateDeviceTaint_def DeleteDeviceTaint_def by (intro emits_intro; simp)+

text \<open>The same for the parts of the state that ignore these events.\<close>

lemma keeps_node_queries [keeps_intro]:
  assumes "untouched f"
  shows "keeps f (getNode n)" "keeps f (CheckNodeExisted n)" "keeps f GetAllNodes"
    "keeps f (CheckNodeCapacitySufficient n sp)" "keeps f (GenerateComposableResourceName t)"
    "keeps f time_NowRFC3339"
  unfolding getNode_def CheckNodeExisted_def GetAllNodes_def CheckNodeCapacitySufficient_def
    GenerateComposableResourceName_def time_NowRFC3339_def
  by (intro keeps_intro assms)+

lemma keeps_RestartDaemonset [keeps_intro]:
  assumes "untouched f" "\<And>d. ignores f (EvUpdateDaemonSet d)"
  shows "keeps f (RestartDaemonset namespace name)"
  unfolding RestartDaemonset_def restart_now_def by (intro keeps_intro assms)

lemma keeps_lookups [keeps_intro]:
  assumes "untouched f"
  shows "keeps f (getNvidiaDriverDaemonsetPod n)" "keeps f (getDRAKubeletPluginPod n)"
    "keeps f (getCroNodeAgentPod n)" "keeps f isContainerDriverEnabled" "keeps f (deref p)"
  unfolding getNvidiaDriverDaemonsetPod_def getDRAKubeletPluginPod_def getCroNodeAgentPod_def
    isContainerDriverEnabled_def deref_def
  by (intro keeps_intro assms)+

lemma keeps_parsers [keeps_intro]:
  "keeps f (parse_gpu_line fs l)" "keeps f (parse_gpu_lines fs out)" "keeps f (parse_app l)"
  "keeps f (parse_apps out)"
  unfolding parse_gpu_lines_def parse_apps_def parse_gpu_line_def parse_app_def
  by (intro keeps_intro)+

lemma keeps_queries [keeps_intro]:
  assumes "untouched f" "\<And>p c. ignores f (EvExec p c)"
  shows "keeps f (exec_in pod cmd)"
    and "keeps f (query_gpus pod pre args)"
    and "keeps f (getGPUInfoFromNvidiaPod n args)"
    and "keeps f (getGPUInfoFromCroNodeAgentPod n args)"
    and "keeps f (getGPUInfoFromProcInCroNodeAgentPod pod args)"
    and "keeps f (check_loads_in d pod cmd n u)"
  unfolding getGPUInfoFromNvidiaPod_def getGPUInfoFromCroNodeAgentPod_def
    getGPUInfoFromProcInCroNodeAgentPod_def query_gpus_def check_loads_in_def exec_in_def execCommandInPod_def
  by (intro keeps_intro assms)+

lemma keeps_checks [keeps_intro]:
  assumes "untouched f" "\<And>p c. ignores f (EvExec p c)"
  shows "keeps f (CheckGPUVisible t r)" and "keeps f (CheckNoGPULoads n u)" and "keeps f (RunNvidiaSmi n)"
  unfolding CheckGPUVisible_def CheckNoGPULoads_def RunNvidiaSmi_def by (intro keeps_intro assms)+

lemma keeps_taints [keeps_intro]:
  assumes "untouched f" "\<And>t. ignores f (EvCreateTaint t)" "\<And>t. ignores f (EvDeleteTaint t)"
  shows "keeps f (HasDeviceTaint r)" "keeps f (CreateDeviceTaint r)" "keeps f (DeleteDeviceTaint r)"
  unfolding HasDeviceTaint_def CreateDeviceTaint_def DeleteDeviceTaint_def by (intro keeps_intro assms)+

section \<open>Parsing\<close>

text \<open>A cell that \<^verbatim>\<open>nvidia-smi\<close> can print: not empty, without separators and without spaces at its ends.
  A line separates its cells by a comma and a space.\<close>

definition clean_cell :: "string \<Rightarrow> bool" where
  "clean_cell c \<longleftrightarrow> c \<noteq> [] \<and> CHR '','' \<notin> set c \<and> CHR 0x0A \<notin> set c \<and> \<not> is_space (hd c) \<and> \<not> is_space (last c)"

definition smi_line :: "string list \<Rightarrow> string" where
  "smi_line cells = strings_Join (case cells of [] \<Rightarrow> [] | c # cs \<Rightarrow> c # map (\<lambda>x. CHR '' '' # x) cs) CHR '',''"

definition smi_text :: "string list list \<Rightarrow> string" where
  "smi_text rows = strings_Join (map smi_line rows) CHR 0x0A"

lemma trim_cell: "clean_cell c \<Longrightarrow> strings_TrimSpace c = c"
  by (simp add: clean_cell_def strings_TrimSpace_id)

lemma trim_padded_cell: "clean_cell c \<Longrightarrow> strings_TrimSpace (CHR '' '' # c) = c"
  using trim_cell [of c] by (simp add: strings_TrimSpace_def trim_while_def is_space_def)

lemma smi_line_split:
  assumes "cells \<noteq> []" "\<forall>c \<in> set cells. clean_cell c"
  shows "map strings_TrimSpace (strings_Split (smi_line cells) CHR '','') = cells"
proof -
  obtain c cs where cells: "cells = c # cs" using assms(1) by (cases cells) auto
  have "strings_Split (smi_line cells) CHR '','' = c # map (\<lambda>x. CHR '' '' # x) cs"
    unfolding smi_line_def cells using assms(2) cells
    by (subst strings_Split_Join) (auto simp: clean_cell_def)
  moreover have "map (strings_TrimSpace \<circ> (\<lambda>x. CHR '' '' # x)) cs = cs"
    using assms(2) cells by (intro map_idI) (simp add: trim_padded_cell)
  ultimately show ?thesis
    using assms(2) cells by (simp add: trim_cell)
qed

lemma smi_line_clean:
  assumes "cells \<noteq> []" "\<forall>c \<in> set cells. clean_cell c"
  shows "smi_line cells \<noteq> []" "CHR 0x0A \<notin> set (smi_line cells)"
    "\<not> is_space (hd (smi_line cells))" "\<not> is_space (last (smi_line cells))"
proof -
  obtain c cs where cells: "cells = c # cs" using assms(1) by (cases cells) auto
  let ?ps = "c # map (\<lambda>x. CHR '' '' # x) cs"
  have l: "smi_line cells = strings_Join ?ps CHR '',''" by (simp add: smi_line_def cells)
  have c: "clean_cell c" using assms(2) cells by simp
  show "CHR 0x0A \<notin> set (smi_line cells)"
    using assms(2) cells unfolding l
    by (auto simp: clean_cell_def dest!: subsetD [OF set_strings_Join] split: if_splits)
  show "smi_line cells \<noteq> []" "\<not> is_space (hd (smi_line cells))"
    using strings_Join_hd [of ?ps "CHR '',''"] c unfolding l by (simp_all add: clean_cell_def)
  have "last (last ?ps) = last (last cells)" "last ?ps \<noteq> []" "clean_cell (last cells)"
    using assms(2) c by (auto simp: cells last_map clean_cell_def)
  then show "\<not> is_space (last (smi_line cells))"
    using strings_Join_last [of ?ps "CHR '',''"] unfolding l by (simp add: clean_cell_def)
qed

lemma split_lines_smi:
  assumes "rows \<noteq> []" "\<forall>r \<in> set rows. r \<noteq> [] \<and> (\<forall>c \<in> set r. clean_cell c)"
  shows "split_lines (smi_text rows) = map smi_line rows"
proof -
  let ?ls = "map smi_line rows"
  have ends: "hd rows \<in> set rows" "last rows \<in> set rows" using assms(1) by simp_all
  have hd: "hd (strings_Join ?ls CHR 0x0A) = hd (smi_line (hd rows))"
    using strings_Join_hd [of ?ls "CHR 0x0A"] assms smi_line_clean(1) ends by (simp add: hd_map)
  have last: "last (strings_Join ?ls CHR 0x0A) = last (smi_line (last rows))"
    using strings_Join_last [of ?ls "CHR 0x0A"] assms smi_line_clean(1) ends by (simp add: last_map)
  have "strings_TrimSpace (smi_text rows) = smi_text rows"
    unfolding smi_text_def
    using assms(2) ends smi_line_clean(3,4) by (intro strings_TrimSpace_id) (metis hd last)
  then show ?thesis
    unfolding split_lines_def smi_text_def using assms smi_line_clean(2)
    by (simp add: strings_Split_Join)
qed

lemma parse_gpu_line_run:
  assumes "length fieldNames \<le> length (strings_Split line CHR '','')"
  shows "parse_gpu_line fieldNames line E s =
    (Ret (Map.empty(fieldNames [\<mapsto>] map strings_TrimSpace (strings_Split line CHR '',''))), s)"
proof -
  let ?parts = "strings_Split line CHR '',''"
  let ?upd = "\<lambda>(i, fieldName) g. g(fieldName \<mapsto> strings_TrimSpace (?parts ! i))"
  have body: "(case x of (i, fieldName) \<Rightarrow> \<lambda>gpuInfo. bindM (index ?parts i) (\<lambda>p.
      ret (Next (gpuInfo(fieldName \<mapsto> strings_TrimSpace p))))) g E s = (Ret (Next (?upd x g)), s)"
    if "x \<in> set (zip [0..<length fieldNames] fieldNames)" for x g
    using assms that by (cases x) (auto simp: index_def ret_def bindM_def dest!: set_zip_leftD)
  have "fold ?upd (zip [k..<k + length fs] fs) m = m(fs [\<mapsto>] map strings_TrimSpace (drop k ?parts))"
    if "k + length fs \<le> length ?parts" for k fs m
    using that
  proof (induction fs arbitrary: k m)
    case (Cons f fs)
    have "drop k ?parts = ?parts ! k # drop (Suc k) ?parts"
      using Cons.prems by (simp add: Cons_nth_drop_Suc)
    moreover have "[k..<k + length (f # fs)] = k # [Suc k..<Suc k + length fs]"
      using upt_conv_Cons [of k "k + length (f # fs)"] by simp
    ultimately show ?case
      using Cons.IH [of "Suc k"] Cons.prems by (simp add: fun_upd_def)
  qed simp
  from this [of 0 fieldNames Map.empty] assms show ?thesis
    unfolding parse_gpu_line_def Let_def
    by (subst bindM_forM_pure [where g = ?upd]) (simp_all add: body run_ret)
qed

text \<open>
  C36.  Reading back the GPU table: for output in the format of \<^verbatim>\<open>nvidia-smi
  --format=csv,noheader\<close> the parser returns one map per line, which gives every queried field the
  cell of its column, and it does not panic.
\<close>

theorem parse_gpu_lines_smi_text:
  assumes "fieldNames \<noteq> []"
    and "\<forall>r \<in> set rows. length r = length fieldNames \<and> (\<forall>c \<in> set r. clean_cell c)"
  shows "parse_gpu_lines fieldNames (smi_text rows) E s
    = (Ret (map (\<lambda>r. Map.empty(fieldNames [\<mapsto>] r)) rows), s)"
proof (cases "rows = []")
  case True
  then show ?thesis
    by (simp add: parse_gpu_lines_def smi_text_def split_lines_def strings_TrimSpace_def trim_while_def
        bindM_def ret_def)
next
  case False
  have ok: "r \<noteq> [] \<and> (\<forall>c \<in> set r. clean_cell c)" if "r \<in> set rows" for r
    using assms that by auto
  have line: "parse_gpu_line fieldNames (smi_line r) E s = (Ret (Map.empty(fieldNames [\<mapsto>] r)), s)"
    if "r \<in> set rows" for r
    using parse_gpu_line_run [of fieldNames "smi_line r" E s] smi_line_split [of r] ok [OF that] assms that
    by (metis length_map order_refl)
  have lines: "filter (\<lambda>l. l \<noteq> []) (map smi_line rows) = map smi_line rows"
    using ok smi_line_clean(1) by (auto simp: filter_id_conv)
  have g: "parse_gpu_line fieldNames l E s = (Ret (Map.empty(fieldNames [\<mapsto>] map strings_TrimSpace (strings_Split l CHR '',''))), s)"
    if "l \<in> set (map smi_line rows)" for l
    using that line ok smi_line_split by fastforce
  let ?h = "\<lambda>l. Map.empty(fieldNames [\<mapsto>] map strings_TrimSpace (strings_Split l CHR '',''))"
  have "map ?h (map smi_line rows) = map (\<lambda>r. Map.empty(fieldNames [\<mapsto>] r)) rows"
    using ok smi_line_split by simp
  moreover have "split_lines (smi_text rows) = map smi_line rows"
    using False ok by (simp add: split_lines_smi)
  ultimately show ?thesis
    unfolding parse_gpu_lines_def using lines
    by (subst bindM_forM_collect [where h = ?h]) (simp_all add: g run_ret)
qed

theorem parse_gpu_lines_smi_text_witness:
  "parse_gpu_lines [''device_minor'', ''gpu_uuid''] (smi_text [[''0'', ''GPU-a''], [''1'', ''GPU-b'']]) (void_env :: unit env) (start ())
    = (Ret [[''device_minor'' \<mapsto> ''0'', ''gpu_uuid'' \<mapsto> ''GPU-a''], [''device_minor'' \<mapsto> ''1'', ''gpu_uuid'' \<mapsto> ''GPU-b'']], start ())"
  using parse_gpu_lines_smi_text [of "[''device_minor'', ''gpu_uuid'']" "[[''0'', ''GPU-a''], [''1'', ''GPU-b'']]"
      "void_env :: unit env" "start ()"]
  by (simp add: clean_cell_def is_space_def)

section \<open>The load check\<close>

text \<open>The lines of the process query, and the GPU column of one of them.\<close>

definition app_lines :: "string \<Rightarrow> string list" where
  "app_lines stdOut = filter (\<lambda>l. l \<noteq> []) (split_lines stdOut)"

definition app_gpu :: "string \<Rightarrow> string" where
  "app_gpu line = strings_TrimSpace (hd (strings_Split line CHR '',''))"

definition has_columns :: "string \<Rightarrow> bool" where
  "has_columns line \<longleftrightarrow> 2 \<le> length (strings_Split line CHR '','')"

definition app_of :: "string \<Rightarrow> AccountedAppInfo" where
  "app_of line = \<lparr>app_GPUUUID = app_gpu line,
     app_ProcessName = strings_TrimSpace (strings_Split line CHR '','' ! 1)\<rparr>"

lemma parse_app_of: "has_columns line \<Longrightarrow> parse_app line E s = (Ret (app_of line), s)"
  by (simp add: app_of_def has_columns_def app_gpu_def parse_app_def index_def bindM_def ret_def Let_def
      hd_conv_nth)

lemma parse_apps_run:
  assumes "\<forall>l \<in> set (app_lines stdOut). has_columns l"
  shows "parse_apps stdOut E s = (Ret (map app_of (app_lines stdOut)), s)"
  unfolding parse_apps_def app_lines_def
  by (subst bindM_forM_collect [where h = app_of])
     (use assms in \<open>auto simp: app_lines_def parse_app_of run_ret\<close>)

lemma find_load:
  "forM (map app_of ls) () (\<lambda>appInfo _. bindM (deref (Some u)) (\<lambda>target.
      if app_GPUUUID appInfo = target then ret (Return (f target)) else ret (Next ()))) E s
    = (Ret (if u \<in> app_gpu ` set ls then Inl (f u) else Inr ()), s)"
  by (induction ls) (auto simp: deref_def app_of_def bindM_def ret_def)

lemma parse_apps_bind:
  "\<forall>l \<in> set (app_lines stdOut). has_columns l
    \<Longrightarrow> bindM (parse_apps stdOut) k E s = k (map app_of (app_lines stdOut)) E s"
  by (rule run_bindM(1)) (rule parse_apps_run)

lemma find_load_bind:
  "bindM (forM (map app_of ls) () (\<lambda>appInfo _. bindM (deref (Some u)) (\<lambda>target.
      if app_GPUUUID appInfo = target then ret (Return (f target)) else ret (Next ())))) k E s
    = k (if u \<in> app_gpu ` set ls then Inl (f u) else Inr ()) E s"
  by (rule run_bindM(1)) (rule find_load)

text \<open>A command's answer, as \<^verbatim>\<open>execCommandInPod\<close> passes it on.\<close>

type_synonym cmd_output = "string \<times> string \<times> error option"

text \<open>The process query found nothing in the way: the node has no device, or the command ran
  without an error and its lines name no process, or none on the GPU \<open>u\<close>.\<close>

fun quiet :: "string option \<Rightarrow> cmd_output \<Rightarrow> bool" where
  "quiet gpu (stdOut, stdErr, execErr) \<longleftrightarrow>
     strings_TrimSpace stdOut = ''No devices were found''
     \<or> stdErr = [] \<and> execErr = None
       \<and> (\<forall>l \<in> set (app_lines stdOut). \<exists>u. gpu = Some u \<and> app_gpu l \<noteq> u)"

text \<open>The query's lines have the two columns asked for, where they are read at all.\<close>

fun readable :: "cmd_output \<Rightarrow> bool" where
  "readable (stdOut, stdErr, execErr) \<longleftrightarrow>
     strings_TrimSpace stdOut = ''No devices were found'' \<or> stdErr \<noteq> [] \<or> execErr \<noteq> None
     \<or> (\<forall>l \<in> set (app_lines stdOut). 2 \<le> length (strings_Split l CHR '',''))"

lemma check_loads_in_run:
  assumes run: "exec_in pod cmd E s = (Ret out, s')"
    and cols: "readable out"
    and target: "driverEnabled \<or> target \<noteq> None"
  shows "\<exists>r. check_loads_in driverEnabled pod cmd node target E s = (Ret r, s')
     \<and> (r = None \<longleftrightarrow> quiet (if driverEnabled then None else target) out)"
proof -
  obtain stdOut stdErr execErr where out: "out = (stdOut, stdErr, execErr)" by (cases out)
  note run' = run_bindM(1) [where m = "exec_in pod cmd", OF run [unfolded out]]
  show ?thesis
  proof (cases "strings_TrimSpace stdOut = no_devices \<or> stdErr \<noteq> [] \<or> execErr \<noteq> None")
    case True
    then show ?thesis
      unfolding check_loads_in_def run' by (auto simp: out run_ret no_devices_def)
  next
    case False
    then have cols': "\<forall>l \<in> set (app_lines stdOut). has_columns l"
      using cols by (auto simp: out no_devices_def has_columns_def)
    have l: "(\<forall>l \<in> set (app_lines stdOut). app_gpu l \<noteq> u) \<longleftrightarrow> u \<notin> app_gpu ` set (app_lines stdOut)" for u
      by auto
    show ?thesis
      unfolding check_loads_in_def run' using False target
      by (cases target)
         (auto simp: out run_ret parse_apps_bind [OF cols'] find_load_bind l no_devices_def)
  qed
qed

subsection \<open>The scan of the proc file system\<close>

lemma parse_proc_lines_run:
  assumes "\<And>parts. pick_fields (proc_fields parts) fs (\<lambda>_. None) = Inr (G parts)"
  shows "\<forall>l \<in> set lines. l \<noteq> [] \<longrightarrow> 3 \<le> length (strings_Split l CHR '','') \<Longrightarrow>
      parse_proc_lines fs lines acc
        = Inr (acc @ map (\<lambda>l. G (strings_Split l CHR '','')) (filter (\<lambda>l. l \<noteq> []) lines))"
    and "\<not> (\<forall>l \<in> set lines. l \<noteq> [] \<longrightarrow> 3 \<le> length (strings_Split l CHR '','')) \<Longrightarrow>
      \<exists>e. parse_proc_lines fs lines acc = Inl e"
  by (induction lines arbitrary: acc) (auto simp: assms Let_def not_le)

lemma pick_uuid:
  "pick_fields (proc_fields parts) [''gpu_uuid''] (\<lambda>_. None) = Inr [''gpu_uuid'' \<mapsto> strings_TrimSpace (parts ! 1)]"
  by (simp add: proc_fields_def strings_TrimSpace_def trim_while_def is_space_def)

text \<open>The scan succeeded, and the GPU \<open>u\<close> is on one of its lines.\<close>

fun scan_ok :: "cmd_output \<Rightarrow> bool" where
  "scan_ok (stdOut, stdErr, execErr) \<longleftrightarrow> stdErr = [] \<and> execErr = None
     \<and> (\<forall>l \<in> set (app_lines stdOut). 3 \<le> length (strings_Split l CHR '',''))"

fun scan_shows :: "cmd_output \<Rightarrow> string \<Rightarrow> bool" where
  "scan_shows (stdOut, stdErr, execErr) u \<longleftrightarrow>
     (\<exists>l \<in> set (app_lines stdOut). strings_TrimSpace (strings_Split l CHR '','' ! 1) = u)"

lemma blank_lines: "strings_TrimSpace stdOut = [] \<Longrightarrow> app_lines stdOut = []"
  by (simp add: app_lines_def split_lines_def)

lemma proc_scan_run:
  assumes run: "exec_in pod [''/bin/chroot'', ''/host-root'', ''/bin/sh'', ''-c'', procScan] E s = (Ret out, s')"
  shows "scan_ok out \<Longrightarrow> getGPUInfoFromProcInCroNodeAgentPod pod ''gpu_uuid'' E s =
      (Ret (Inr (map (\<lambda>l. [''gpu_uuid'' \<mapsto> strings_TrimSpace (strings_Split l CHR '','' ! 1)]) (app_lines (fst out)))), s')"
    and "\<not> scan_ok out \<Longrightarrow> \<exists>e. getGPUInfoFromProcInCroNodeAgentPod pod ''gpu_uuid'' E s = (Ret (Inl e), s')"
proof -
  obtain stdOut stdErr execErr where out: "out = (stdOut, stdErr, execErr)" by (cases out)
  have f: "strings_Split ''gpu_uuid'' CHR '','' = [''gpu_uuid'']" by simp
  have r: "getGPUInfoFromProcInCroNodeAgentPod pod ''gpu_uuid'' E s =
      (Ret (if stdErr \<noteq> [] \<or> execErr \<noteq> None then Inl (info_failed execErr stdErr stdOut)
         else if strings_TrimSpace stdOut = [] then Inr []
         else parse_proc_lines [''gpu_uuid''] (split_lines stdOut) []), s')"
    unfolding getGPUInfoFromProcInCroNodeAgentPod_def Let_def f using run
    by (simp add: out bindM_def run_ret)
  note p = parse_proc_lines_run [where fs = "[''gpu_uuid'']", OF pick_uuid, where lines = "split_lines stdOut" and acc = "[]"]
  show "getGPUInfoFromProcInCroNodeAgentPod pod ''gpu_uuid'' E s =
      (Ret (Inr (map (\<lambda>l. [''gpu_uuid'' \<mapsto> strings_TrimSpace (strings_Split l CHR '','' ! 1)]) (app_lines (fst out)))), s')"
    if "scan_ok out"
    unfolding r using that p(1) blank_lines [of stdOut] by (auto simp: out app_lines_def)
  show "\<exists>e. getGPUInfoFromProcInCroNodeAgentPod pod ''gpu_uuid'' E s = (Ret (Inl e), s')" if "\<not> scan_ok out"
    unfolding r using that p(2) blank_lines [of stdOut] by (auto simp: out app_lines_def filter_empty_conv)
qed

lemma find_gpu_loop:
  "forM (map (\<lambda>l. [''gpu_uuid'' \<mapsto> f l]) ls) acc (\<lambda>gpuInfo foundGPU.
      bindM (deref (Some u)) (\<lambda>target.
      if str_at gpuInfo ''gpu_uuid'' = target then ret (Break True) else ret (Next foundGPU))) E s
    = (Ret (Inr (acc \<or> (\<exists>l \<in> set ls. f l = u))), s)"
  by (induction ls) (auto simp: deref_def str_at_def bindM_def run_ret)

lemma find_gpu_bind:
  "bindM (forM (map (\<lambda>l. [''gpu_uuid'' \<mapsto> f l]) ls) acc (\<lambda>gpuInfo foundGPU.
      bindM (deref (Some u)) (\<lambda>target.
      if str_at gpuInfo ''gpu_uuid'' = target then ret (Break True) else ret (Next foundGPU)))) k E s
    = k (Inr (acc \<or> (\<exists>l \<in> set ls. f l = u))) E s"
  by (rule run_bindM(1)) (rule find_gpu_loop)

subsection \<open>The whole check\<close>

text \<open>What the cluster answers: the cluster policy, the pods of the node agent and of the driver,
  and for a pod the outputs of the three commands, for as long as the check runs.\<close>

record node_report =
  rep_Policy :: "error + bool option"
  rep_Agents :: "error + Pod list"
  rep_Drivers :: "error + Pod list"
  rep_Scan :: "Pod \<Rightarrow> cmd_output"
  rep_AgentApps :: "Pod \<Rightarrow> cmd_output"
  rep_DriverApps :: "Pod \<Rightarrow> cmd_output"

definition answer :: "'w env \<Rightarrow> Pod \<Rightarrow> string list \<Rightarrow> 'w \<Rightarrow> cmd_output" where
  "answer E pod cmd w =
     (case pod_NewExecutor E pod cmd of
        Some err \<Rightarrow> ([], [], Some err)
      | None \<Rightarrow> fst (pod_Stream E pod (hd (pod_Containers pod)) cmd w))"

definition reports :: "'w env \<Rightarrow> string \<Rightarrow> node_report \<Rightarrow> bool" where
  "reports E n R \<longleftrightarrow> (\<forall>w.
     fst (api_GetClusterPolicy E ''cluster-policy'' w) = rep_Policy R
     \<and> fst (api_ListPods E ''app=cro-node-agent'' (Some n) w) = rep_Agents R
     \<and> fst (api_ListPods E ''app.kubernetes.io/component=nvidia-driver'' None w) = rep_Drivers R
     \<and> (\<forall>pod.
          answer E pod [''/bin/chroot'', ''/host-root'', ''/bin/sh'', ''-c'', procScan] w = rep_Scan R pod
        \<and> answer E pod [''/bin/chroot'', ''/host-root'', ''/usr/bin/nvidia-smi'',
            ''--query-compute-apps=gpu_uuid,process_name'', ''--format=csv,noheader,nounits''] w = rep_AgentApps R pod
        \<and> answer E pod [''/usr/bin/nvidia-smi'',
            ''--query-compute-apps=gpu_uuid,process_name'', ''--format=csv,noheader,nounits''] w = rep_DriverApps R pod))"

text \<open>No panic: pods have a container, and process lines have their columns.\<close>

definition report_ok :: "node_report \<Rightarrow> bool" where
  "report_ok R \<longleftrightarrow> (\<forall>pods. rep_Agents R = Inr pods \<or> rep_Drivers R = Inr pods \<longrightarrow>
     (\<forall>p \<in> set pods. pod_Containers p \<noteq> [] \<and> readable (rep_AgentApps R p) \<and> readable (rep_DriverApps R p)))"

text \<open>When a detach is allowed.  With a driver container: no driver pod is found on the node, or the
  first driver pod listed sees no process at all.  Without one: the first node agent pod of the
  node scans its GPUs without an error, and the target is not among them or no process is on it.\<close>

definition clear_with_driver :: "node_report \<Rightarrow> string \<Rightarrow> bool" where
  "clear_with_driver R n \<longleftrightarrow>
     (\<forall>pods. rep_Drivers R = Inr pods \<longrightarrow> (\<exists>p \<in> set pods. pod_NodeName p = n) \<longrightarrow>
        quiet None (rep_DriverApps R (hd pods)))"

definition clear_without_driver :: "node_report \<Rightarrow> string \<Rightarrow> bool" where
  "clear_without_driver R u \<longleftrightarrow>
     (\<exists>pods p. rep_Agents R = Inr pods
        \<and> find (\<lambda>p. strings_HasPrefix (pod_Name p) ''cro-node-agent'') pods = Some p
        \<and> scan_ok (rep_Scan R p) \<and> (scan_shows (rep_Scan R p) u \<longrightarrow> quiet (Some u) (rep_AgentApps R p)))"

definition detach_allowed :: "node_report \<Rightarrow> string \<Rightarrow> string option \<Rightarrow> bool" where
  "detach_allowed R n target \<longleftrightarrow>
     (case rep_Policy R of
        Inr (Some True) \<Rightarrow> clear_with_driver R n
      | Inr (Some False) \<Rightarrow> (\<exists>u. target = Some u \<and> clear_without_driver R u)
      | Inr None \<Rightarrow> False
      | Inl err \<Rightarrow> IsNotFound err \<and> (\<exists>u. target = Some u \<and> clear_without_driver R u))"

lemma exec_in_answer:
  "pod_Containers pod \<noteq> [] \<Longrightarrow> \<exists>s'. exec_in pod cmd E s = (Ret (answer E pod cmd (world s)), s')"
  by (auto simp: exec_in_def execCommandInPod_def answer_def hd_conv_nth prog_defs
      split: option.split prod.split)

lemma agent_pod_run:
  fixes E :: "'w env"
  assumes "reports E n R"
  obtains s' where "getCroNodeAgentPod n E s =
     (Ret (case rep_Agents R of
        Inl e \<Rightarrow> Inl (ErrorString (''failed to list pods: '' @ err_Error e))
      | Inr pods \<Rightarrow> (case find (\<lambda>p. strings_HasPrefix (pod_Name p) ''cro-node-agent'') pods of
            Some p \<Rightarrow> Inr p
          | None \<Rightarrow> Inl (ErrorString (''no Pod named '' @ squote ''cro-node-agent'' @ '' found on node '' @ n)))), s')"
proof -
  obtain a w where l: "api_ListPods E ''app=cro-node-agent'' (Some n) (world s) = (a, w)" by fastforce
  then have "a = rep_Agents R" using assms unfolding reports_def by (metis fst_conv)
  with l show thesis
    by (intro that [of "s\<lparr>world := w\<rparr>"])
       (simp add: getCroNodeAgentPod_def first_with_prefix_def prog_defs split: sum.split option.split)
qed

lemma check_without_driver:
  fixes E :: "'w env" and s :: "'w sys"
  assumes R: "reports E n R" "report_ok R" and p: "isContainerDriverEnabled E s = (Ret (Inr False), s1)"
  shows "\<exists>r. fst (CheckNoGPULoads n (Some u) E s) = Ret r \<and> (r = None \<longleftrightarrow> clear_without_driver R u)"
proof -
  obtain s2 where a: "getCroNodeAgentPod n E s1 =
     (Ret (case rep_Agents R of
        Inl e \<Rightarrow> Inl (ErrorString (''failed to list pods: '' @ err_Error e))
      | Inr pods \<Rightarrow> (case find (\<lambda>p. strings_HasPrefix (pod_Name p) ''cro-node-agent'') pods of
            Some p \<Rightarrow> Inr p
          | None \<Rightarrow> Inl (ErrorString (''no Pod named '' @ squote ''cro-node-agent'' @ '' found on node '' @ n)))), s2)"
    by (rule agent_pod_run [OF R(1)])
  note start = run_tryM(2) [where m = isContainerDriverEnabled, OF p]
  show ?thesis
  proof (cases "\<exists>pods pod. rep_Agents R = Inr pods
      \<and> find (\<lambda>p. strings_HasPrefix (pod_Name p) ''cro-node-agent'') pods = Some pod")
    case False
    then have "\<exists>e. getCroNodeAgentPod n E s1 = (Ret (Inl e), s2)"
      unfolding a by (auto split: sum.split option.split)
    with False show ?thesis
      by (auto simp: CheckNoGPULoads_def p clear_without_driver_def tryM_def bindM_def run_ret)
  next
    case True
    then obtain pods pod where f: "rep_Agents R = Inr pods"
      "find (\<lambda>p. strings_HasPrefix (pod_Name p) ''cro-node-agent'') pods = Some pod" by blast
    then have pod: "getCroNodeAgentPod n E s1 = (Ret (Inr pod), s2)" using a by simp
    have mem: "pod \<in> set pods" using f(2) by (auto simp: find_Some_iff)
    then have c: "pod_Containers pod \<noteq> []" "readable (rep_AgentApps R pod)"
      using R(2) f(1) by (auto simp: report_ok_def)
    obtain s3 where scan: "exec_in pod [''/bin/chroot'', ''/host-root'', ''/bin/sh'', ''-c'', procScan] E s2
        = (Ret (rep_Scan R pod), s3)"
      using exec_in_answer [OF c(1)] R(1) unfolding reports_def by metis
    have spec: "clear_without_driver R u \<longleftrightarrow> scan_ok (rep_Scan R pod)
        \<and> (scan_shows (rep_Scan R pod) u \<longrightarrow> quiet (Some u) (rep_AgentApps R pod))"
      using f by (simp add: clear_without_driver_def)
    note start2 = start run_tryM(2) [where m = "getCroNodeAgentPod n", OF pod]
    show ?thesis
    proof (cases "scan_ok (rep_Scan R pod)")
      case False
      then obtain e where "getGPUInfoFromProcInCroNodeAgentPod pod ''gpu_uuid'' E s2 = (Ret (Inl e), s3)"
        using proc_scan_run(2) [OF scan] by blast
      with False show ?thesis
        by (simp add: CheckNoGPULoads_def p pod spec tryM_def bindM_def run_ret)
    next
      case True
      let ?out = "fst (rep_Scan R pod)"
      let ?infos = "map (\<lambda>l. [''gpu_uuid'' \<mapsto> strings_TrimSpace (strings_Split l CHR '','' ! 1)]) (app_lines ?out)"
      have infos: "getGPUInfoFromProcInCroNodeAgentPod pod ''gpu_uuid'' E s2 = (Ret (Inr ?infos), s3)"
        by (rule proc_scan_run(1) [OF scan True])
      have shows_iff: "scan_shows (rep_Scan R pod) u \<longleftrightarrow>
          (\<exists>l \<in> set (app_lines ?out). strings_TrimSpace (strings_Split l CHR '','' ! 1) = u)"
        by (cases "rep_Scan R pod") simp
      have run: "CheckNoGPULoads n (Some u) E s =
          (if scan_shows (rep_Scan R pod) u
           then check_loads_in False pod ([''/bin/chroot'', ''/host-root''] @ smi_apps) n (Some u) E s3
           else (Ret None, s3))"
        unfolding CheckNoGPULoads_def start2
        by (simp add: start2 run_tryM(2) [where m = "getGPUInfoFromProcInCroNodeAgentPod pod ''gpu_uuid''", OF infos]
            find_gpu_bind shows_iff) (simp add: deref_def run_ret)
      obtain s4 where apps: "exec_in pod ([''/bin/chroot'', ''/host-root''] @ smi_apps) E s3
          = (Ret (rep_AgentApps R pod), s4)"
        using exec_in_answer [OF c(1), of "[''/bin/chroot'', ''/host-root''] @ smi_apps" E s3] R(1)
        unfolding reports_def smi_apps_def append_Cons append_Nil by metis
      show ?thesis
        using check_loads_in_run [OF apps c(2), of False "Some u" n] True by (auto simp: run spec)
    qed
  qed
qed

lemma foldl_found:
  "(foldl (\<lambda>found pod. if P pod then Some pod else found) acc pods = None) \<longleftrightarrow> acc = None \<and> (\<forall>p \<in> set pods. \<not> P p)"
  by (induction pods arbitrary: acc) auto

lemma driver_pod_choice:
  assumes "api_ListPods E ''app.kubernetes.io/component=nvidia-driver'' None (world s) = (Inr pods, w)"
  shows "\<exists>err. getNvidiaDriverDaemonsetPod n E s =
     (Ret (if \<exists>p \<in> set pods. pod_NodeName p = n then Inr (hd pods) else Inl err), s\<lparr>world := w\<rparr>)"
proof -
  let ?found = "foldl (\<lambda>found pod. if pod_NodeName pod = n then Some pod else found) None pods"
  have "(?found = None) \<longleftrightarrow> (\<forall>p \<in> set pods. pod_NodeName p \<noteq> n)" by (simp add: foldl_found)
  then show ?thesis
    using assms
    by (cases ?found; cases pods)
       (auto simp: getNvidiaDriverDaemonsetPod_def prog_defs)
qed

lemma driver_pod_run:
  fixes E :: "'w env"
  assumes "reports E n R"
  obtains s' e where "getNvidiaDriverDaemonsetPod n E s =
     (Ret (case rep_Drivers R of
        Inl _ \<Rightarrow> Inl e
      | Inr pods \<Rightarrow> if \<exists>p \<in> set pods. pod_NodeName p = n then Inr (hd pods) else Inl e), s')"
proof -
  obtain a w where l: "api_ListPods E ''app.kubernetes.io/component=nvidia-driver'' None (world s) = (a, w)" by fastforce
  have a: "a = rep_Drivers R" using assms l unfolding reports_def by (metis fst_conv)
  show thesis
  proof (cases a)
    case (Inl e)
    then have "rep_Drivers R = Inl e" "api_ListPods E ''app.kubernetes.io/component=nvidia-driver'' None (world s) = (Inl e, w)"
      using l a by simp_all
    then show thesis
      by (intro that [of "WrapError (''failed to list pods: '' @ err_Error e) e" "s\<lparr>world := w\<rparr>"])
         (simp add: getNvidiaDriverDaemonsetPod_def prog_defs)
  next
    case (Inr pods)
    then have "rep_Drivers R = Inr pods" using a by simp
    then show thesis
      using driver_pod_choice [OF l [unfolded Inr], of n] that by auto
  qed
qed

lemma check_with_driver:
  fixes E :: "'w env" and s :: "'w sys"
  assumes R: "reports E n R" "report_ok R" and p: "isContainerDriverEnabled E s = (Ret (Inr True), s1)"
  shows "\<exists>r. fst (CheckNoGPULoads n target E s) = Ret r \<and> (r = None \<longleftrightarrow> clear_with_driver R n)"
proof -
  note start = run_tryM(2) [where m = isContainerDriverEnabled, OF p]
  obtain s2 e where a: "getNvidiaDriverDaemonsetPod n E s1 =
     (Ret (case rep_Drivers R of
        Inl _ \<Rightarrow> Inl e
      | Inr pods \<Rightarrow> if \<exists>p \<in> set pods. pod_NodeName p = n then Inr (hd pods) else Inl e), s2)"
    by (rule driver_pod_run [OF R(1)])
  show ?thesis
  proof (cases "\<exists>pods. rep_Drivers R = Inr pods \<and> (\<exists>p \<in> set pods. pod_NodeName p = n)")
    case False
    then have "getNvidiaDriverDaemonsetPod n E s1 = (Ret (Inl e), s2)"
      unfolding a by (auto split: sum.split)
    with False show ?thesis
      by (auto simp: CheckNoGPULoads_def p clear_with_driver_def tryM_def bindM_def run_ret)
  next
    case True
    then obtain pods where f: "rep_Drivers R = Inr pods" "\<exists>p \<in> set pods. pod_NodeName p = n" by blast
    then have pod: "getNvidiaDriverDaemonsetPod n E s1 = (Ret (Inr (hd pods)), s2)" using a by simp
    have "hd pods \<in> set pods" using f(2) by (cases pods) auto
    then have c: "pod_Containers (hd pods) \<noteq> []" "readable (rep_DriverApps R (hd pods))"
      using R(2) f(1) by (auto simp: report_ok_def)
    obtain s4 where apps: "exec_in (hd pods) smi_apps E s2 = (Ret (rep_DriverApps R (hd pods)), s4)"
      using exec_in_answer [OF c(1), of smi_apps E s2] R(1) unfolding reports_def smi_apps_def by metis
    have "CheckNoGPULoads n target E s = check_loads_in True (hd pods) smi_apps n target E s2"
      by (simp add: CheckNoGPULoads_def start run_tryM(2) [where m = "getNvidiaDriverDaemonsetPod n", OF pod])
    then show ?thesis
      using check_loads_in_run [OF apps c(2), of True target n] f by (auto simp: clear_with_driver_def)
  qed
qed

text \<open>
  C35.  The load check is exact.  On a node that answers as the report \<open>R\<close> says for as long as the
  check runs, and does so in the expected shape (pods have a container, process lines two
  columns, and a target is given when there is no driver container), \<^verbatim>\<open>CheckNoGPULoads\<close> returns,
  and it succeeds exactly when
  the cluster policy enables a driver container and either no driver pod is found on the node or
  the process query in the first driver pod listed reports no process;
  or the policy is missing or disables it, a node agent pod is found, its scan of \<^verbatim>\<open>/proc\<close> runs
  without an error and with three columns on every line, and the target GPU is on no line, or the
  process query reports no process on it.
  A query that reports that the node has no device counts as one without processes, whatever else
  it reports; one that fails or writes to stderr makes the check fail, as does any other policy
  answer.
\<close>

theorem CheckNoGPULoads_exact:
  assumes "reports E n R" "report_ok R" "rep_Policy R = Inr (Some True) \<or> target \<noteq> None"
  shows "\<exists>r. fst (CheckNoGPULoads n target E s) = Ret r \<and> (r = None \<longleftrightarrow> detach_allowed R n target)"
proof -
  obtain a w where p: "api_GetClusterPolicy E ''cluster-policy'' (world s) = (a, w)" by fastforce
  have a: "a = rep_Policy R" using assms(1) p unfolding reports_def by (metis fst_conv)
  consider (on) "a = Inr (Some True)"
    | (off) u where "target = Some u" "a = Inr (Some False) \<or> (\<exists>e. a = Inl e \<and> IsNotFound e)"
    | (bad) "a = Inr None \<or> (\<exists>e. a = Inl e \<and> \<not> IsNotFound e)"
    using assms(3) [folded a] by (cases a; cases target; cases "projr a") auto
  then show ?thesis
  proof cases
    case on
    then have "isContainerDriverEnabled E s = (Ret (Inr True), s\<lparr>world := w\<rparr>)"
      using p by (simp add: isContainerDriverEnabled_def prog_defs)
    from check_with_driver [OF assms(1,2) this] on a show ?thesis by (auto simp: detach_allowed_def)
  next
    case off
    then have "isContainerDriverEnabled E s = (Ret (Inr False), s\<lparr>world := w\<rparr>)"
      using p by (auto simp: isContainerDriverEnabled_def prog_defs)
    from check_without_driver [OF assms(1,2) this, of u] off a show ?thesis by (auto simp: detach_allowed_def)
  next
    case bad
    then have "\<exists>e. isContainerDriverEnabled E s = (Ret (Inl e), s\<lparr>world := w\<rparr>)"
      using p by (auto simp: isContainerDriverEnabled_def prog_defs)
    with bad a show ?thesis
      by (auto simp: CheckNoGPULoads_def detach_allowed_def tryM_def bindM_def run_ret)
  qed
qed

text \<open>A node without a driver container and with two GPUs, one of which runs a process.\<close>

definition demo_pod :: Pod where
  "demo_pod = \<lparr>pod_Name = ''cro-node-agent-1'', pod_Namespace = ''ns'', pod_NodeName = ''n1'', pod_Containers = [''c'']\<rparr>"

definition busy_scan :: string where
  "busy_scan = ''0,GPU-a,0000:01:00.0'' @ [CHR 0x0A] @ ''1,GPU-b,0000:02:00.0''"

definition busy_env :: "unit env" where
  "busy_env = void_env\<lparr>
     api_ListPods := (\<lambda>_ _ w. (Inr [demo_pod], w)),
     pod_Stream := (\<lambda>_ _ cmd w. ((if last cmd = procScan then busy_scan else ''GPU-a, python'', [], None), w))\<rparr>"

definition busy_report :: node_report where
  "busy_report = \<lparr>rep_Policy = Inl (StatusError ''NotFound'' ''not found''), rep_Agents = Inr [demo_pod],
     rep_Drivers = Inr [demo_pod], rep_Scan = (\<lambda>_. (busy_scan, [], None)),
     rep_AgentApps = (\<lambda>_. (''GPU-a, python'', [], None)), rep_DriverApps = (\<lambda>_. (''GPU-a, python'', [], None))\<rparr>"

lemma busy_reports: "reports busy_env ''n1'' busy_report" "report_ok busy_report"
proof -
  have "procScan \<noteq> ''--format=csv,noheader,nounits''" by (simp add: procScan_def script_def)
  then show "reports busy_env ''n1'' busy_report"
    by (simp add: reports_def busy_env_def busy_report_def answer_def void_env_def missing_def)
  have "readable (''GPU-a, python'', [], None)" by code_simp
  then show "report_ok busy_report" by (simp add: report_ok_def busy_report_def demo_pod_def)
qed

lemma busy_allowed:
  "detach_allowed busy_report ''n1'' (Some u) \<longleftrightarrow> u \<noteq> ''GPU-a''"
proof -
  have "strings_HasPrefix (pod_Name demo_pod) ''cro-node-agent''" by code_simp
  moreover have "scan_ok (busy_scan, [], None)" by code_simp
  moreover have "app_lines busy_scan = [''0,GPU-a,0000:01:00.0'', ''1,GPU-b,0000:02:00.0'']" by code_simp
  moreover have "strings_TrimSpace (strings_Split ''0,GPU-a,0000:01:00.0'' CHR '','' ! 1) = ''GPU-a''"
    "strings_TrimSpace (strings_Split ''1,GPU-b,0000:02:00.0'' CHR '','' ! 1) = ''GPU-b''" by code_simp+
  moreover have "app_lines ''GPU-a, python'' = [''GPU-a, python'']" "app_gpu ''GPU-a, python'' = ''GPU-a''"
    "strings_TrimSpace ''GPU-a, python'' \<noteq> ''No devices were found''" by code_simp+
  ultimately show ?thesis
    by (auto simp: detach_allowed_def clear_without_driver_def busy_report_def)
qed

theorem CheckNoGPULoads_exact_witness:
  "fst (CheckNoGPULoads ''n1'' (Some ''GPU-b'') busy_env (start ())) = Ret None
   \<and> (\<exists>e. fst (CheckNoGPULoads ''n1'' (Some ''GPU-a'') busy_env (start ())) = Ret (Some e))"
  using CheckNoGPULoads_exact [OF busy_reports, of "Some ''GPU-b''" "start ()"]
    CheckNoGPULoads_exact [OF busy_reports, of "Some ''GPU-a''" "start ()"]
  by (auto simp: busy_allowed)

section \<open>Choosing the pod\<close>

text \<open>
  The driver pod of a node.  The lookup fails exactly when no driver pod runs on the node; when
  one does, the pod returned is the first of the whole list, on whatever node that one runs.
\<close>

theorem getNvidiaDriverDaemonsetPod_first:
  assumes "api_ListPods E ''app.kubernetes.io/component=nvidia-driver'' None (world s) = (Inr pods, w)"
  shows "\<exists>err. getNvidiaDriverDaemonsetPod n E s =
     (Ret (if \<exists>p \<in> set pods. pod_NodeName p = n then Inr (hd pods) else Inl err), s\<lparr>world := w\<rparr>)"
  using assms by (rule driver_pod_choice)

definition driver_pod :: "string \<Rightarrow> Pod" where
  "driver_pod n = \<lparr>pod_Name = ''nvidia-driver-'' @ n, pod_Namespace = ''gpu'', pod_NodeName = n, pod_Containers = [''c'']\<rparr>"

definition two_nodes :: "unit env" where
  "two_nodes = void_env\<lparr>api_ListPods := (\<lambda>_ _ w. (Inr [driver_pod ''n1'', driver_pod ''n2''], w))\<rparr>"

text \<open>Asked for the driver pod of node \<^verbatim>\<open>n2\<close>, the lookup gives the one of node \<^verbatim>\<open>n1\<close>.\<close>

theorem getNvidiaDriverDaemonsetPod_first_witness:
  "\<exists>p. fst (getNvidiaDriverDaemonsetPod ''n2'' two_nodes (start ())) = Ret (Inr p) \<and> pod_NodeName p = ''n1''"
  using getNvidiaDriverDaemonsetPod_first [of two_nodes "start ()" "[driver_pod ''n1'', driver_pod ''n2'']" "()" "''n2''"]
  by (auto simp: two_nodes_def start_def driver_pod_def)

text \<open>
  The node agent pod of a node: provided that the server's answer to a listing with a field
  selector only has pods of the selected node, a pod returned runs on the target node and has the
  agent's name prefix.
\<close>

theorem getCroNodeAgentPod_on_node:
  assumes selector: "\<And>lbl n w pods w'. api_ListPods E lbl (Some n) w = (Inr pods, w') \<Longrightarrow> \<forall>p \<in> set pods. pod_NodeName p = n"
    and "getCroNodeAgentPod n E s = (Ret (Inr p), s')"
  shows "pod_NodeName p = n \<and> strings_HasPrefix (pod_Name p) ''cro-node-agent''"
proof -
  obtain pods w' where l: "api_ListPods E ''app=cro-node-agent'' (Some n) (world s) = (Inr pods, w')"
    and "first_with_prefix ''cro-node-agent'' pods = Some p"
    using assms(2) by (auto simp: getCroNodeAgentPod_def prog_defs split: prod.splits sum.splits option.splits)
  then have "p \<in> set pods" "strings_HasPrefix (pod_Name p) ''cro-node-agent''"
    by (auto simp: first_with_prefix_def find_Some_iff)
  with selector [OF l] show ?thesis by simp
qed

definition agent_env :: "unit env" where
  "agent_env = void_env\<lparr>api_ListPods := (\<lambda>_ n w. (Inr (if n = Some ''n1'' then [demo_pod] else []), w))\<rparr>"

theorem getCroNodeAgentPod_on_node_witness:
  "pod_NodeName demo_pod = ''n1'' \<and> strings_HasPrefix (pod_Name demo_pod) ''cro-node-agent''"
proof (rule getCroNodeAgentPod_on_node [of agent_env "''n1''" "start ()" demo_pod "start ()"])
  show "\<forall>p \<in> set pods. pod_NodeName p = n"
    if "api_ListPods agent_env lbl (Some n) w = (Inr pods, w')" for lbl n w pods w'
    using that by (auto simp: agent_env_def demo_pod_def split: if_splits)
  show "getCroNodeAgentPod ''n1'' agent_env (start ()) = (Ret (Inr demo_pod), start ())"
    by (simp add: getCroNodeAgentPod_def agent_env_def demo_pod_def first_with_prefix_def strings_HasPrefix_def
        start_def prog_defs)
qed

section \<open>The taint rule\<close>

lemma slice_attributes_iff [simp]:
  "(rs, d, a, v) \<in> set (slice_attributes slices) \<longleftrightarrow>
     rs \<in> set slices \<and> d \<in> set (rs_Devices rs) \<and> (a, v) \<in> set (dev_Attributes d)"
  by (fastforce simp: slice_attributes_def)

lemma find_slice_device_sound:
  "find_slice_device xs u = (drv, pool, name) \<Longrightarrow> name \<noteq> [] \<Longrightarrow>
    \<exists>rs d. (rs, d, ''uuid'', Some u) \<in> set xs \<and> drv = rs_Driver rs \<and> pool = rs_PoolName rs \<and> name = dev_Name d"
  by (induction xs u rule: find_slice_device.induct) (auto split: if_splits)

lemma find_slice_device_complete:
  "find_slice_device xs u = (drv, pool, []) \<Longrightarrow> (rs, d, ''uuid'', Some u) \<in> set xs \<Longrightarrow>
    \<exists>rs' d'. (rs', d', ''uuid'', Some u) \<in> set xs \<and> dev_Name d' = []"
  by (induction xs u rule: find_slice_device.induct) (auto split: if_splits)

text \<open>A device of the slices that carries the given UUID.\<close>

definition listed_device :: "ResourceSlice list \<Rightarrow> string \<Rightarrow> string \<Rightarrow> string \<Rightarrow> string \<Rightarrow> bool" where
  "listed_device slices u drv pool name \<longleftrightarrow>
     (\<exists>rs \<in> set slices. \<exists>d \<in> set (rs_Devices rs). (''uuid'', Some u) \<in> set (dev_Attributes d)
        \<and> drv = rs_Driver rs \<and> pool = rs_PoolName rs \<and> name = dev_Name d)"

text \<open>
  The taint rule.  When there is no rule yet for the resource, one is created that forbids
  scheduling on a device which the published slices list under the resource's device UUID, with
  that device's driver, pool and name; if no named device has the UUID, nothing is created and the
  call succeeds.
\<close>

theorem CreateDeviceTaint_target:
  assumes "api_GetTaint E (taintName r) (world s) = (Inl err, w)" "IsNotFound err"
    and "api_ListResourceSlices E w = (Inr slices, w')"
    and named: "\<forall>rs \<in> set slices. \<forall>d \<in> set (rs_Devices rs). dev_Name d \<noteq> []"
  shows "if \<exists>drv pool name. listed_device slices (cr_DeviceID r) drv pool name
     then \<exists>drv pool name. listed_device slices (cr_DeviceID r) drv pool name
        \<and> trace (snd (CreateDeviceTaint r E s)) = trace s @ [EvCreateTaint (taint_rule r drv pool name)]
     else CreateDeviceTaint r E s = (Ret None, s\<lparr>world := w'\<rparr>)"
proof -
  obtain drv pool name where f: "find_slice_device (slice_attributes slices) (cr_DeviceID r) = (drv, pool, name)"
    by (metis prod_cases3)
  have run: "CreateDeviceTaint r E s =
      (if name = [] then (Ret None, s\<lparr>world := w'\<rparr>)
       else checkM (effect (EvCreateTaint (taint_rule r drv pool name)) (\<lambda>E. api_CreateTaint E (taint_rule r drv pool name)))
          (\<lambda>err. ret (Some (WrapError (''failed to create DeviceTaintRule '' @ taintName r @ '': '' @ err_Error err) err)))
          (ret None) E (s\<lparr>world := w'\<rparr>))"
    using assms f by (simp add: CreateDeviceTaint_def query_def bindM_def tryM_def run_ret Let_def)
  show ?thesis
  proof (cases "name = []")
    case True
    have "\<not> listed_device slices (cr_DeviceID r) a b c" for a b c
    proof
      assume "listed_device slices (cr_DeviceID r) a b c"
      then obtain rs d where "(rs, d, ''uuid'', Some (cr_DeviceID r)) \<in> set (slice_attributes slices)"
        by (auto simp: listed_device_def)
      from find_slice_device_complete [OF f [unfolded True] this] named show False by auto
    qed
    with run True show ?thesis by simp
  next
    case False
    have "listed_device slices (cr_DeviceID r) drv pool name"
      using find_slice_device_sound [OF f False] by (auto simp: listed_device_def)
    moreover have "trace (snd (CreateDeviceTaint r E s)) = trace s @ [EvCreateTaint (taint_rule r drv pool name)]"
      unfolding run using False by (simp add: prog_defs split: prod.split option.split)
    ultimately show ?thesis by auto
  qed
qed

definition demo_slice :: ResourceSlice where
  "demo_slice = \<lparr>rs_Driver = ''gpu.nvidia.com'', rs_PoolName = ''n1'',
     rs_Devices = [\<lparr>dev_Name = ''gpu-0'', dev_Attributes = [(''uuid'', Some ''GPU-a'')]\<rparr>]\<rparr>"

definition slice_env :: "unit env" where
  "slice_env = void_env\<lparr>api_ListResourceSlices := (\<lambda>w. (Inr [demo_slice], w))\<rparr>"

definition gpu_a :: ComposableResource where
  "gpu_a = empty_resource\<lparr>cr_Status := (cr_Status empty_resource)\<lparr>crst_DeviceID := ''GPU-a''\<rparr>\<rparr>"

theorem CreateDeviceTaint_target_witness:
  "trace (snd (CreateDeviceTaint gpu_a slice_env (start ())))
     = [EvCreateTaint (taint_rule gpu_a ''gpu.nvidia.com'' ''n1'' ''gpu-0'')]"
  using CreateDeviceTaint_target [of slice_env gpu_a "start ()" "StatusError ''NotFound'' ''not found''" "()" "[demo_slice]" "()"]
  by (auto simp: slice_env_def void_env_def missing_def listed_device_def demo_slice_def gpu_a_def start_def)

end
