(* ===== verification/Drain.thy ===== *)
theory Drain
  imports GpuQueries
begin

text \<open>
  Package utils, third part: \<^verbatim>\<open>DrainGPU\<close> of \<^verbatim>\<open>src/internal/utils/gpus.go\<close> and its helpers.
  The function has three variants: without a driver container (RKE2) under DRA, with one under
  DRA, and with one under the device plugin.  In the first variant the last GPU of a node is
  removed through sysfs by a command started in its own goroutine; the model records it as
  \<open>EvGoExec\<close> and lets the environment decide whether it has failed by the time its error flag is
  read.  The lemmas show in which order the commands reach the node and that a GPU in use, or one
  that is not there, is left alone.
\<close>

section \<open>Helpers\<close>

definition chroot :: "string list" where
  "chroot = [''/bin/chroot'', ''/host-root'']"

definition cmd_failed :: "string \<Rightarrow> string \<Rightarrow> error option \<Rightarrow> string \<Rightarrow> string \<Rightarrow> error" where
  "cmd_failed what desc execErr stdErr stdOut =
     ErrorString (what @ '' '' @ squote desc @ '' failed: '' @ squote (fmt_err execErr) @ '', stderr: ''
       @ squote stdErr @ '', stdout: '' @ squote stdOut)"

text \<open>A command whose failure ends the function: a non-empty stderr counts as one.\<close>

definition run_step :: "Pod \<Rightarrow> string \<Rightarrow> string \<Rightarrow> string list \<Rightarrow> ('w, error option) go" where
  "run_step pod what desc cmd =
     bindM (exec_in pod cmd) (\<lambda>(stdOut, stdErr, execErr).
     if execErr \<noteq> None \<or> stdErr \<noteq> [] then ret (Some (cmd_failed what desc execErr stdErr stdOut)) else ret None)"

fun drain_state :: "string list \<Rightarrow> bool option" where
  "drain_state [] = None"
| "drain_state (line # rest) =
     (let lower = strings_ToLower (strings_TrimSpace line) in
      if \<not> strings_Contains lower ''drain'' then drain_state rest
      else case strings_Index lower CHR '':'' of
             None \<Rightarrow> drain_state rest
           | Some idx \<Rightarrow>
               (let status = strings_Trim (strings_TrimSpace (drop (idx + 1) lower)) CHR ''.'' in
                if strings_Contains status ''not draining'' then Some False
                else if strings_Contains status ''draining'' then Some True
                else drain_state rest))"

definition checkGPUDrainStatus :: "Pod \<Rightarrow> string \<Rightarrow> string \<Rightarrow> ('w, error + bool) go" where
  "checkGPUDrainStatus pod targetNodeName targetGPUBusID =
     (let busID = strings_TrimSpace targetGPUBusID in
      if busID = [] then ret (Inl (ErrorString ''target GPU bus ID is empty''))
      else
        bindM (exec_in pod (chroot @ [''/usr/bin/nvidia-smi'', ''drain'', ''-p'', busID, ''-q''])) (\<lambda>(stdOut, stdErr, execErr).
        if execErr \<noteq> None \<or> stdErr \<noteq> [] then
          ret (Inl (ErrorString (''check gpu drain status command failed: '' @ squote (fmt_err execErr) @ '', stderr: ''
                @ squote stdErr @ '', stdout: '' @ squote stdOut)))
        else
          (let trimmed = strings_TrimSpace stdOut in
           if trimmed = [] then
             ret (Inl (ErrorString (''nvidia-smi drain query returned empty output (node='' @ targetNodeName @ '', busID=''
                   @ busID @ '')'')))
           else
             (case drain_state (strings_Split trimmed CHR 0x0A) of
                Some b \<Rightarrow> ret (Inr b)
              | None \<Rightarrow> ret (Inl (ErrorString (''nvidia-smi drain query did not contain recognizable drain state (node=''
                    @ targetNodeName @ '', busID='' @ busID @ '', raw='' @ trimmed @ '')'')))))))"

definition loaded_modules :: "string \<Rightarrow> bool \<times> bool" where
  "loaded_modules stdOut =
     (let names = map (\<lambda>line. case strings_Fields line of [] \<Rightarrow> [] | f # _ \<Rightarrow> f) (split_lines stdOut)
      in (''nvidia_drm'' \<in> set names, ''nvidia_uvm'' \<in> set names))"

definition modprobe :: "string \<Rightarrow> string list" where
  "modprobe m = chroot @ [''/usr/sbin/modprobe'', ''-r'', m]"

definition removeNvidiaDriverModule :: "Pod \<Rightarrow> ('w, error option) go" where
  "removeNvidiaDriverModule pod =
     bindM (exec_in pod (chroot @ [''/usr/sbin/lsmod''])) (\<lambda>(stdOut, stdErr, execErr).
     if stdErr \<noteq> [] \<or> execErr \<noteq> None then ret (Some (cmd_failed ''detach command'' ''lsmod'' execErr stdErr stdOut))
     else
       (case loaded_modules stdOut of (hasNvidiaDRM, hasNvidiaUVM) \<Rightarrow>
          if hasNvidiaDRM \<and> hasNvidiaUVM then
            checkM (run_step pod ''detach command'' ''remove nvidia_drm module'' (modprobe ''nvidia_drm'')) (\<lambda>e. ret (Some e))
              (run_step pod ''detach command'' ''remove nvidia_uvm module'' (modprobe ''nvidia_uvm''))
          else if hasNvidiaDRM then
            run_step pod ''detach command'' ''remove nvidia_drm module'' (modprobe ''nvidia_drm'')
          else if hasNvidiaUVM then
            run_step pod ''detach command'' ''remove nvidia_uvm module'' (modprobe ''nvidia_uvm'')
          else ret None))"

definition checkResetGPUCommandStillRunning :: "Pod \<Rightarrow> string \<Rightarrow> ('w, error + bool) go" where
  "checkResetGPUCommandStillRunning pod busIDForSysfs =
     bindM (exec_in pod (chroot @ [''/bin/sh'', ''-c'', checkRemoveShell busIDForSysfs])) (\<lambda>(stdOut, stdErr, execErr).
     if stdErr \<noteq> [] \<or> execErr \<noteq> None then
       ret (Inl (ErrorString (''check '' @ squote ''reset GPU'' @ '' command failed: '' @ squote (fmt_err execErr)
             @ '', stderr: '' @ squote stdErr)))
     else ret (Inr (strings_TrimSpace stdOut = ''true'')))"

section \<open>RKE2 and DRA\<close>

datatype drain_step = DisablePersistence | CheckDeviceFile | SetMaintenance | RemoveDeviceFile

fun step_desc :: "drain_step \<Rightarrow> string" where
  "step_desc DisablePersistence = ''disable persistence mode''"
| "step_desc CheckDeviceFile = ''check /dev/nvidiaX''"
| "step_desc SetMaintenance = ''set maintenance mode''"
| "step_desc RemoveDeviceFile = ''remove file /dev/nvidiaX''"

fun step_cmd :: "string \<Rightarrow> string \<Rightarrow> string \<Rightarrow> drain_step \<Rightarrow> string list" where
  "step_cmd uuid minor busID DisablePersistence = chroot @ [''/usr/bin/nvidia-smi'', ''-i'', uuid, ''-pm'', ''0'']"
| "step_cmd uuid minor busID CheckDeviceFile = chroot @ [''/bin/sh'', ''-c'', checkShell_agent minor]"
| "step_cmd uuid minor busID SetMaintenance = chroot @ [''/usr/bin/nvidia-smi'', ''drain'', ''-p'', busID, ''-m'', ''1'']"
| "step_cmd uuid minor busID RemoveDeviceFile = chroot @ [''/usr/bin/rm'', ''-f'', ''/dev/nvidia'' @ minor]"

definition agent_steps :: "drain_step list" where
  "agent_steps = [DisablePersistence, CheckDeviceFile, SetMaintenance, RemoveDeviceFile]"

definition agent_step :: "Pod \<Rightarrow> bool \<Rightarrow> string \<Rightarrow> string \<Rightarrow> string \<Rightarrow> drain_step \<Rightarrow> ('w, (unit, error) flow) go" where
  "agent_step draPod isDraining uuid minor busID step =
     (if isDraining \<and> (step = DisablePersistence \<or> step = SetMaintenance) then ret (Next ())
      else
        bindM (exec_in draPod (step_cmd uuid minor busID step)) (\<lambda>(stdOut, stdErr, execErr).
        if execErr \<noteq> None \<or> stdErr \<noteq> [] then
          ret (Return (cmd_failed ''deatch command'' (step_desc step) execErr stdErr stdOut))
        else if step = CheckDeviceFile \<and> stdOut \<noteq> [] then
          ret (Return (ErrorString (''check /dev/nvidiaX command failed: /dev/nvidiaX is in use by one or more processes: '' @ stdOut)))
        else ret (Next ())))"

definition run_agent_steps :: "Pod \<Rightarrow> bool \<Rightarrow> string \<Rightarrow> string \<Rightarrow> string \<Rightarrow> drain_step list \<Rightarrow> ('w, error option) go" where
  "run_agent_steps draPod isDraining uuid minor busID steps =
     bindM (forM steps () (\<lambda>step _. agent_step draPod isDraining uuid minor busID step))
       (\<lambda>r. case r of Inl e \<Rightarrow> ret (Some e) | Inr _ \<Rightarrow> ret None)"

definition sysfs_remove :: "string \<Rightarrow> string list" where
  "sysfs_remove busID = chroot @ [''/bin/sh'', ''-c'',
     ''/usr/bin/echo 1 | /usr/bin/tee /sys/bus/pci/devices/'' @ busID @ ''/remove > /dev/null'']"

text \<open>The last GPU: the flag \<^verbatim>\<open>isResetGPUCommandError\<close> belongs to the goroutine, if one was started.\<close>

definition load_flag :: "bool \<Rightarrow> ('w, bool) go" where
  "load_flag spawned = (if spawned then query (\<lambda>E. go_ErrorFlag E) else ret False)"

definition spawn_reset :: "Pod \<Rightarrow> string \<Rightarrow> bool \<Rightarrow> ('w, unit) go" where
  "spawn_reset draPod busIDForSysfs isStillRunning =
     (if isStillRunning then ret ()
      else bindM (index (pod_Containers draPod) 0) (\<lambda>c.
           effect (EvGoExec draPod (sysfs_remove busIDForSysfs)) (\<lambda>E. go_Spawn E draPod c (sysfs_remove busIDForSysfs))))"

definition drain_last_GPU :: "Pod \<Rightarrow> string \<Rightarrow> string \<Rightarrow> string \<Rightarrow> ('w, error option) go" where
  "drain_last_GPU draPod targetNodeName targetGPUUUID targetGPUBusID =
     checkM (removeNvidiaDriverModule draPod) (\<lambda>e. ret (Some e))
     (let busIDForSysfs = strings_ToLower targetGPUBusID in
      tryM (checkResetGPUCommandStillRunning draPod busIDForSysfs) (\<lambda>e. ret (Some e)) (\<lambda>isStillRunning.
      thenM (spawn_reset draPod busIDForSysfs isStillRunning)
      (checkM (removeNvidiaDriverModule draPod) (\<lambda>e. ret (Some e))
      (thenM (query (\<lambda>E. clock_Sleep E second))
      (tryM (checkResetGPUCommandStillRunning draPod busIDForSysfs) (\<lambda>e. ret (Some e)) (\<lambda>stillRunning.
       bindM (if stillRunning then ret True else load_flag (\<not> isStillRunning)) (\<lambda>incomplete.
       if \<not> incomplete then ret None
       else bindM (load_flag (\<not> isStillRunning)) (\<lambda>flag.
         ret (Some (ErrorString (''detach command '' @ squote ''reset GPU''
           @ '' did not complete, so it failed to drain the last GPU: targetNodeName='' @ targetNodeName
           @ '', targetGPUUUID='' @ targetGPUUUID @ '', resetCommandRunning='' @ fmt_t stillRunning
           @ '', resetCommandError='' @ fmt_t flag)))))))))))"

definition drain_agent :: "string \<Rightarrow> string \<Rightarrow> ('w, error option) go" where
  "drain_agent targetNodeName targetGPUUUID =
     tryM (getCroNodeAgentPod targetNodeName) (\<lambda>e. ret (Some e)) (\<lambda>draPod.
     tryM (getGPUInfoFromProcInCroNodeAgentPod draPod ''device_minor,gpu_uuid,pci.bus_id'') (\<lambda>e. ret (Some e)) (\<lambda>gpuInfosForProc.
     case find (\<lambda>gpuInfo. str_at gpuInfo ''gpu_uuid'' = targetGPUUUID) gpuInfosForProc of
       None \<Rightarrow> ret None
     | Some gpuInfo \<Rightarrow>
         (let targetGPUDeviceMinor = str_at gpuInfo ''device_minor'';
              targetGPUBusID = strings_ToUpper (strings_TrimSpace (str_at gpuInfo ''pci.bus_id''))
          in tryM (checkGPUDrainStatus draPod targetNodeName targetGPUBusID) (\<lambda>e. ret (Some e)) (\<lambda>isDraining.
             checkM (run_agent_steps draPod isDraining targetGPUUUID targetGPUDeviceMinor targetGPUBusID agent_steps)
               (\<lambda>e. ret (Some e))
               (if length gpuInfosForProc \<noteq> 1
                then run_step draPod ''detach command'' ''reset GPU''
                       (chroot @ [''/usr/bin/nvidia-smi'', ''drain'', ''-p'', targetGPUBusID, ''-r''])
                else drain_last_GPU draPod targetNodeName targetGPUUUID targetGPUBusID)))))"

section \<open>With a driver container\<close>

definition disable_cmd :: "string \<Rightarrow> string list" where
  "disable_cmd uuid = [''/usr/bin/nvidia-smi'', ''-i'', uuid, ''-pm'', ''0'']"

definition maintenance_cmd :: "string \<Rightarrow> string list" where
  "maintenance_cmd busID = [''/usr/bin/nvidia-smi'', ''drain'', ''-p'', busID, ''-m'', ''1'']"

definition reset_cmd :: "string \<Rightarrow> string list" where
  "reset_cmd busID = [''/usr/bin/nvidia-smi'', ''drain'', ''-p'', busID, ''-r'']"

text \<open>The device-file check of the driver container.\<close>

definition check_device_file :: "Pod \<Rightarrow> string \<Rightarrow> ('w, error option) go" where
  "check_device_file nvidiaPod minor =
     bindM (exec_in nvidiaPod [''sh'', ''-c'', checkShell_nvidia minor]) (\<lambda>(stdOut, stdErr, execErr).
     if stdErr \<noteq> [] \<or> execErr \<noteq> None then
       ret (Some (ErrorString (''check /dev/nvidiaX command failed: '' @ squote (fmt_err execErr) @ '', stderr: '' @ squote stdErr)))
     else if stdOut \<noteq> [] then
       ret (Some (ErrorString (''check /dev/nvidiaX command failed: there is a process '' @ stdOut @ '' occupied the nvidiaX file'')))
     else ret None)"

text \<open>Maintenance mode and reset; a failed reset is passed over.\<close>

definition detach_commands :: "Pod \<Rightarrow> string \<Rightarrow> ('w, error option) go" where
  "detach_commands nvidiaPod busID =
     checkM (run_step nvidiaPod ''detach command'' ''set maintenance mode'' (maintenance_cmd busID)) (\<lambda>e. ret (Some e))
     (bindM (exec_in nvidiaPod (reset_cmd busID)) (\<lambda>_. ret None))"

definition target_gpu :: "string \<Rightarrow> str_map list \<Rightarrow> string \<times> string" where
  "target_gpu uuid gpuInfos =
     (case find (\<lambda>gpuInfo. str_at gpuInfo ''gpu_uuid'' = uuid) gpuInfos of
        None \<Rightarrow> ([], [])
      | Some gpuInfo \<Rightarrow> (str_at gpuInfo ''device_minor'', strings_TrimPrefix (str_at gpuInfo ''pci.bus_id'') ''0000''))"

text \<open>OCP (Kubernetes) and DRA.\<close>

definition drain_dra :: "string \<Rightarrow> string \<Rightarrow> ('w, error option) go" where
  "drain_dra targetNodeName targetGPUUUID =
     tryM (getNvidiaDriverDaemonsetPod targetNodeName) (\<lambda>_. ret None) (\<lambda>nvidiaPod.
     tryM (getGPUInfoFromNvidiaPod targetNodeName ''device_minor,gpu_uuid,pci.bus_id'') (\<lambda>e. ret (Some e)) (\<lambda>gpuInfos.
     case target_gpu targetGPUUUID gpuInfos of (targetGPUDeviceMinor, targetGPUBusID) \<Rightarrow>
     if targetGPUBusID = [] then ret None
     else
       checkM (run_step nvidiaPod ''deatch command'' ''disable persistence mode'' (disable_cmd targetGPUUUID)) (\<lambda>e. ret (Some e))
       (checkM (check_device_file nvidiaPod targetGPUDeviceMinor) (\<lambda>e. ret (Some e))
       (checkM (run_step nvidiaPod ''delete device file command'' ''remove file /run/nvidia/driver/dev/nvidiaX''
                  [''/usr/bin/rm'', ''-f'', ''/run/nvidia/driver/dev/nvidia'' @ targetGPUDeviceMinor]) (\<lambda>e. ret (Some e))
       (tryM (getDRAKubeletPluginPod targetNodeName) (\<lambda>e. ret (Some e)) (\<lambda>draPod.
       checkM (run_step draPod ''delete device file command'' ''remove file /dev/nvidiaX''
                  [''/usr/bin/rm'', ''-f'', ''/dev/nvidia'' @ targetGPUDeviceMinor]) (\<lambda>e. ret (Some e))
       (detach_commands nvidiaPod targetGPUBusID)))))))"

text \<open>OCP and the device plugin.\<close>

definition drain_plugin :: "string \<Rightarrow> string \<Rightarrow> ('w, error option) go" where
  "drain_plugin targetNodeName targetGPUUUID =
     tryM (getNvidiaDriverDaemonsetPod targetNodeName) (\<lambda>e. ret (Some e)) (\<lambda>nvidiaPod.
     tryM (getGPUInfoFromNvidiaPod targetNodeName ''device_minor,gpu_uuid,pci.bus_id'') (\<lambda>e. ret (Some e)) (\<lambda>gpuInfos.
     case target_gpu targetGPUUUID gpuInfos of (targetGPUDeviceMinor, targetGPUBusID) \<Rightarrow>
     if targetGPUBusID = [] then ret None
     else
       checkM (run_step nvidiaPod ''deatch command'' ''disable persistence mode'' (disable_cmd targetGPUUUID)) (\<lambda>e. ret (Some e))
       (checkM (check_device_file nvidiaPod targetGPUDeviceMinor) (\<lambda>e. ret (Some e))
       (detach_commands nvidiaPod targetGPUBusID))))"

definition DrainGPU :: "string \<Rightarrow> string \<Rightarrow> string \<Rightarrow> ('w, error option) go" where
  "DrainGPU targetNodeName targetGPUUUID deviceResourceType =
     tryM isContainerDriverEnabled (\<lambda>e. ret (Some e)) (\<lambda>driverEnabled.
     if deviceResourceType = ''DRA'' then
       (if \<not> driverEnabled then drain_agent targetNodeName targetGPUUUID
        else drain_dra targetNodeName targetGPUUUID)
     else drain_plugin targetNodeName targetGPUUUID)"

section \<open>Footprint\<close>

text \<open>Draining only runs commands in pods, directly or in a goroutine.\<close>

lemma emits_drain_helpers [emits_intro]:
  assumes "\<And>p c. A (EvExec p c)"
  shows "emits A (run_step pod what desc cmd)"
    and "emits A (checkGPUDrainStatus pod n bus)"
    and "emits A (removeNvidiaDriverModule pod)"
    and "emits A (checkResetGPUCommandStillRunning pod bus)"
    and "emits A (run_agent_steps pod b u m bus steps)"
    and "emits A (check_device_file pod m)"
    and "emits A (detach_commands pod bus)"
    and "emits A (load_flag b)"
  unfolding run_step_def checkGPUDrainStatus_def removeNvidiaDriverModule_def checkResetGPUCommandStillRunning_def
    run_agent_steps_def agent_step_def check_device_file_def detach_commands_def load_flag_def
  by (intro emits_intro assms)+

lemma emits_DrainGPU [emits_intro]:
  assumes "\<And>p c. A (EvExec p c)" "\<And>p c. A (EvGoExec p c)"
  shows "emits A (DrainGPU n u t)"
  unfolding DrainGPU_def drain_agent_def drain_dra_def drain_plugin_def drain_last_GPU_def spawn_reset_def
  by (intro emits_intro assms)

lemma keeps_drain_helpers [keeps_intro]:
  assumes "untouched f" "\<And>p c. ignores f (EvExec p c)"
  shows "keeps f (run_step pod what desc cmd)"
    and "keeps f (checkGPUDrainStatus pod n bus)"
    and "keeps f (removeNvidiaDriverModule pod)"
    and "keeps f (checkResetGPUCommandStillRunning pod bus)"
    and "keeps f (run_agent_steps pod b u m bus steps)"
    and "keeps f (check_device_file pod m)"
    and "keeps f (detach_commands pod bus)"
    and "keeps f (load_flag b)"
  unfolding run_step_def checkGPUDrainStatus_def removeNvidiaDriverModule_def checkResetGPUCommandStillRunning_def
    run_agent_steps_def agent_step_def check_device_file_def detach_commands_def load_flag_def
  by (intro keeps_intro assms)+

lemma keeps_DrainGPU [keeps_intro]:
  assumes "untouched f" "\<And>p c. ignores f (EvExec p c)" "\<And>p c. ignores f (EvGoExec p c)"
  shows "keeps f (DrainGPU n u t)"
  unfolding DrainGPU_def drain_agent_def drain_dra_def drain_plugin_def drain_last_GPU_def spawn_reset_def
  by (intro keeps_intro assms)

section \<open>A GPU in use is left alone\<close>

text \<open>The commands that take a GPU away from its node, on the host or in the driver container:
  maintenance mode, reset, and removal of a device file, of a driver module or of the PCI device.\<close>

definition takes_away :: "string list \<Rightarrow> bool" where
  "takes_away cmd \<longleftrightarrow>
     (\<exists>pre \<in> {[], [''/bin/chroot'', ''/host-root'']}. \<exists>x.
        cmd = pre @ [''/usr/bin/nvidia-smi'', ''drain'', ''-p'', x, ''-m'', ''1'']
      \<or> cmd = pre @ [''/usr/bin/nvidia-smi'', ''drain'', ''-p'', x, ''-r'']
      \<or> cmd = pre @ [''/usr/bin/rm'', ''-f'', x]
      \<or> cmd = pre @ [''/usr/sbin/modprobe'', ''-r'', x]
      \<or> cmd = pre @ [''/bin/sh'', ''-c'',
          ''/usr/bin/echo 1 | /usr/bin/tee /sys/bus/pci/devices/'' @ x @ ''/remove > /dev/null''])"

fun harmless :: "event \<Rightarrow> bool" where
  "harmless (EvExec p cmd) = (\<not> takes_away cmd)"
| "harmless (EvGoExec p cmd) = (\<not> takes_away cmd)"
| "harmless _ = True"

text \<open>
  The GPU \<open>u\<close> has the device file of minor number \<open>m\<close>, and that file is in use.  The first part
  reads the text of the two listings of a node's GPUs: a line whose second column is \<open>u\<close> has \<open>m\<close>
  in its first column.  The second part is about the device file \<^verbatim>\<open>/dev/nvidia\<close>\<open>m\<close> only: looking
  for processes that hold it, with the script for the host or the one for the driver container,
  reports one, or fails.  Nothing is said of the device files of other GPUs.
\<close>

definition listings :: "string list set" where
  "listings = {[''/bin/chroot'', ''/host-root'', ''/bin/sh'', ''-c'', procScan],
     [''/usr/bin/nvidia-smi'', ''--query-gpu=device_minor,gpu_uuid,pci.bus_id'', ''--format=csv,noheader,nounits'']}"

definition lists_minor :: "string \<Rightarrow> string \<Rightarrow> string \<Rightarrow> bool" where
  "lists_minor u m stdOut \<longleftrightarrow>
     (\<forall>line \<in> set (strings_Split (strings_TrimSpace stdOut) CHR 0x0A).
        case map strings_TrimSpace (strings_Split line CHR '','') of
          minor # uuid # _ \<Rightarrow> uuid = u \<longrightarrow> minor = m
        | _ \<Rightarrow> True)"

definition device_checks :: "string \<Rightarrow> string list set" where
  "device_checks minor = {[''/bin/chroot'', ''/host-root'', ''/bin/sh'', ''-c'', checkShell_agent minor],
     [''sh'', ''-c'', checkShell_nvidia minor]}"

definition in_use :: "string \<Rightarrow> string \<Rightarrow> 'w env \<Rightarrow> bool" where
  "in_use u m E \<longleftrightarrow> (\<forall>pod c w cmd stdOut stdErr execErr w'.
     pod_Stream E pod c cmd w = ((stdOut, stdErr, execErr), w') \<longrightarrow>
       (cmd \<in> listings \<longrightarrow> lists_minor u m stdOut)
     \<and> (cmd \<in> device_checks m \<longrightarrow> stdOut \<noteq> [] \<or> stdErr \<noteq> [] \<or> execErr \<noteq> None))"

lemma in_useD:
  assumes "in_use u m E" "pod_Stream E pod c cmd w = ((stdOut, stdErr, execErr), w')"
  shows "cmd \<in> listings \<Longrightarrow> lists_minor u m stdOut"
    and "cmd \<in> device_checks m \<Longrightarrow> stdOut \<noteq> [] \<or> stdErr \<noteq> [] \<or> execErr \<noteq> None"
  using assms unfolding in_use_def by blast+

lemma exec_in_stream:
  assumes "exec_in pod cmd E s = (Ret (stdOut, stdErr, execErr), s')" "execErr = None"
  obtains c w where "pod_Stream E pod c cmd (world s) = ((stdOut, stdErr, execErr), w)"
  using assms
  by (cases "pod_NewExecutor E pod cmd")
     (auto simp: exec_in_def execCommandInPod_def prog_defs split: if_splits prod.splits)

lemma exec_in_use:
  assumes "in_use u m E" "exec_in pod cmd E s = (Ret (stdOut, stdErr, execErr), s')" "cmd \<in> device_checks m"
  shows "stdOut \<noteq> [] \<or> stdErr \<noteq> [] \<or> execErr \<noteq> None"
proof (cases "execErr = None")
  case True
  with assms(2) obtain c w where "pod_Stream E pod c cmd (world s) = ((stdOut, stdErr, execErr), w)"
    by (rule exec_in_stream)
  with in_useD(2) [OF assms(1)] assms(3) show ?thesis by blast
qed simp

lemma exec_in_lists:
  assumes "in_use u m E" "exec_in pod cmd E s = (Ret (stdOut, stdErr, None), s')" "cmd \<in> listings"
  shows "lists_minor u m stdOut"
proof -
  from assms(2) obtain c w where "pod_Stream E pod c cmd (world s) = ((stdOut, stdErr, None), w)"
    by (rule exec_in_stream) simp
  with in_useD(1) [OF assms(1)] assms(3) show ?thesis by blast
qed

lemma check_device_file_in_use: "in_use u m E \<Longrightarrow> fst (check_device_file pod m E s) \<noteq> Ret None"
  using exec_in_use [of u m E pod "[''sh'', ''-c'', checkShell_nvidia m]" s]
  by (auto simp: check_device_file_def bindM_def ret_def device_checks_def split: outcome.splits prod.splits)

subsection \<open>What the code reads off the listings\<close>

definition minor_read :: "string \<Rightarrow> string \<Rightarrow> str_map list \<Rightarrow> bool" where
  "minor_read u m gpus \<longleftrightarrow> (\<forall>g \<in> set gpus. str_at g ''gpu_uuid'' = u \<longrightarrow> str_at g ''device_minor'' = m)"

abbreviation gpu_fields :: "string list" where
  "gpu_fields \<equiv> [''device_minor'', ''gpu_uuid'', ''pci.bus_id'']"

lemma gpu_fields_split: "strings_Split ''device_minor,gpu_uuid,pci.bus_id'' CHR '','' = gpu_fields"
  by simp

lemma line_minor:
  assumes "lists_minor u m stdOut" "line \<in> set (split_lines stdOut)" "2 \<le> length (strings_Split line CHR '','')"
    and "strings_TrimSpace (strings_Split line CHR '','' ! 1) = u"
  shows "strings_TrimSpace (strings_Split line CHR '','' ! 0) = m"
proof -
  obtain a b r where "strings_Split line CHR '','' = a # b # r"
    using assms(3) by (metis One_nat_def Suc_1 Suc_le_length_iff)
  then show ?thesis
    using assms by (auto simp: lists_minor_def split_lines_def)
qed

lemma pick_gpu_fields:
  "pick_fields (proc_fields parts) gpu_fields (\<lambda>_. None) =
     Inr [''device_minor'' \<mapsto> strings_TrimSpace (parts ! 0), ''gpu_uuid'' \<mapsto> strings_TrimSpace (parts ! 1),
          ''pci.bus_id'' \<mapsto> strings_TrimSpace (parts ! 2)]"
  by (simp add: proc_fields_def strings_TrimSpace_def trim_while_def is_space_def)

lemma proc_minor:
  assumes "lists_minor u m stdOut" "parse_proc_lines gpu_fields (split_lines stdOut) [] = Inr gpus"
  shows "minor_read u m gpus"
proof -
  note p = parse_proc_lines_run [where fs = gpu_fields, OF pick_gpu_fields,
      where lines = "split_lines stdOut" and acc = "[]"]
  have cols: "\<forall>l \<in> set (split_lines stdOut). l \<noteq> [] \<longrightarrow> 3 \<le> length (strings_Split l CHR '','')"
    using assms(2) p(2) by fastforce
  show ?thesis
    using p(1) [OF cols] assms(2) cols line_minor [OF assms(1)]
    by (auto simp: minor_read_def str_at_def)
qed

lemma parse_gpu_line_columns:
  assumes "parse_gpu_line gpu_fields line E s = (Ret g, s')"
  shows "3 \<le> length (strings_Split line CHR '','')
     \<and> str_at g ''device_minor'' = strings_TrimSpace (strings_Split line CHR '','' ! 0)
     \<and> str_at g ''gpu_uuid'' = strings_TrimSpace (strings_Split line CHR '','' ! 1)"
  using assms by (auto simp: parse_gpu_line_def Let_def prog_defs str_at_def numeral_3_eq_3 split: if_splits)

lemma parse_gpu_loop_minor:
  assumes "lists_minor u m stdOut" "set lines \<subseteq> set (split_lines stdOut)" "minor_read u m acc"
    and "forM lines acc (\<lambda>line gpuInfos. if line = [] then ret (Next gpuInfos)
       else bindM (parse_gpu_line gpu_fields line) (\<lambda>g. ret (Next (gpuInfos @ [g])))) E s = (Ret r, s')"
  shows "\<exists>gpus. r = Inr gpus \<and> minor_read u m gpus"
  using assms(2-)
proof (induction lines arbitrary: acc s)
  case (Cons line lines)
  show ?case
  proof (cases "line = []")
    case True
    with Cons show ?thesis by (simp add: bindM_def run_ret)
  next
    case False
    obtain o1 s1 where p: "parse_gpu_line gpu_fields line E s = (o1, s1)" by fastforce
    with Cons.prems(3) False obtain g where g: "o1 = Ret g"
      by (cases o1) (simp_all add: bindM_def run_ret)
    have "minor_read u m (acc @ [g])"
      using Cons.prems(1,2) parse_gpu_line_columns [OF p [unfolded g]] line_minor [OF assms(1), of line]
      by (auto simp: minor_read_def)
    with Cons False p g show ?thesis by (simp add: bindM_def run_ret)
  qed
qed (auto simp: run_ret)

lemma proc_listing_minor:
  assumes "in_use u m E"
    and "fst (getGPUInfoFromProcInCroNodeAgentPod pod ''device_minor,gpu_uuid,pci.bus_id'' E s) = Ret (Inr gpus)"
  shows "minor_read u m gpus"
proof -
  let ?cmd = "[''/bin/chroot'', ''/host-root'', ''/bin/sh'', ''-c'', procScan]"
  obtain o1 s1 where x: "exec_in pod ?cmd E s = (o1, s1)" by fastforce
  obtain stdOut stdErr execErr where o1: "o1 = Ret (stdOut, stdErr, execErr)"
    using assms(2) x
    by (cases o1) (auto simp: getGPUInfoFromProcInCroNodeAgentPod_def Let_def bindM_def)
  have ok: "stdErr = []" "execErr = None"
    "gpus = [] \<or> parse_proc_lines gpu_fields (split_lines stdOut) [] = Inr gpus"
    using assms(2) x
    unfolding getGPUInfoFromProcInCroNodeAgentPod_def Let_def gpu_fields_split o1
    by (auto simp: bindM_def run_ret split: if_splits)
  have "lists_minor u m stdOut"
    using exec_in_lists [OF assms(1) x [unfolded o1 ok]] by (simp add: listings_def)
  with ok(3) proc_minor show ?thesis by (auto simp: minor_read_def)
qed

lemma smi_listing_minor:
  assumes "in_use u m E"
    and "fst (getGPUInfoFromNvidiaPod n ''device_minor,gpu_uuid,pci.bus_id'' E s) = Ret (Inr gpus)"
  shows "minor_read u m gpus"
proof -
  let ?args = "''device_minor,gpu_uuid,pci.bus_id''"
  let ?cmd = "[''/usr/bin/nvidia-smi'', ''--query-gpu='' @ ?args, ''--format=csv,noheader,nounits'']"
  obtain r s' where "getGPUInfoFromNvidiaPod n ?args E s = (r, s')" by fastforce
  then have "getGPUInfoFromNvidiaPod n ?args E s = (Ret (Inr gpus), s')" using assms(2) by simp
  then obtain pod s1 where q: "query_gpus pod [] ?args E s1 = (Ret (Inr gpus), s')"
    unfolding getGPUInfoFromNvidiaPod_def by (elim tryM_RetE) (simp add: run_ret)
  then obtain out s2 where x: "exec_in pod ([] @ ?cmd) E s1 = (Ret out, s2)"
    and k: "(case out of (stdOut, stdErr, execErr) \<Rightarrow>
         if strings_TrimSpace stdOut = no_devices then ret (Inr [])
         else if stdErr \<noteq> [] \<or> execErr \<noteq> None then ret (Inl (info_failed execErr stdErr stdOut))
         else bindM (parse_gpu_lines gpu_fields stdOut) (\<lambda>g. ret (Inr g))) E s2 = (Ret (Inr gpus), s')"
    unfolding query_gpus_def Let_def gpu_fields_split by (rule bindM_RetE)
  obtain stdOut stdErr execErr where out: "out = (stdOut, stdErr, execErr)" by (cases out)
  show ?thesis
  proof (cases "strings_TrimSpace stdOut = no_devices")
    case True
    with k show ?thesis by (simp add: out run_ret minor_read_def)
  next
    case False
    with k have ok: "stdErr = []" "execErr = None" by (auto simp: out run_ret split: if_splits)
    have l: "lists_minor u m stdOut"
      using exec_in_lists [OF assms(1) x [unfolded out ok]] by (simp add: listings_def)
    from False k have "bindM (parse_gpu_lines gpu_fields stdOut) (\<lambda>g. ret (Inr g)) E s2
        = (Ret (Inr gpus :: error + str_map list), s')"
      by (simp add: out ok)
    then have "parse_gpu_lines gpu_fields stdOut E s2 = (Ret gpus, s')"
      by (elim bindM_RetE) (simp add: run_ret)
    then obtain r s3 where f: "forM (split_lines stdOut) [] (\<lambda>line gpuInfos. if line = [] then ret (Next gpuInfos)
         else bindM (parse_gpu_line gpu_fields line) (\<lambda>g. ret (Next (gpuInfos @ [g])))) E s2 = (Ret r, s3)"
      and r: "(case r of Inl x \<Rightarrow> ret x | Inr gpuInfos \<Rightarrow> ret gpuInfos) E s3 = (Ret gpus, s')"
      unfolding parse_gpu_lines_def by (rule bindM_RetE)
    from parse_gpu_loop_minor [OF l order_refl _ f] r show ?thesis
      by (auto simp: run_ret minor_read_def)
  qed
qed

lemma found_minor:
  "minor_read u m gpus \<Longrightarrow> find (\<lambda>g. str_at g ''gpu_uuid'' = u) gpus = Some g \<Longrightarrow> str_at g ''device_minor'' = m"
  by (auto simp: minor_read_def find_Some_iff)

lemma target_gpu_minor:
  "minor_read u m gpus \<Longrightarrow> target_gpu u gpus = (minor, bus) \<Longrightarrow> bus \<noteq> [] \<Longrightarrow> minor = m"
  by (auto simp: target_gpu_def found_minor split: option.splits)

subsection \<open>Only harmless commands\<close>

lemmas command_defs = takes_away_def chroot_def maintenance_cmd_def reset_cmd_def modprobe_def sysfs_remove_def
  disable_cmd_def checkShell_agent_def checkShell_nvidia_def script_def procScan_def checkRemoveShell_def

lemma agent_step_no_break: "fst (agent_step pod d u minor bus step E s) \<noteq> Ret (Break a)"
  by (auto simp: agent_step_def bindM_def ret_def split: outcome.splits prod.splits)

lemma agent_step_stuck: "in_use u m E \<Longrightarrow> fst (agent_step pod d u' m bus CheckDeviceFile E s) \<noteq> Ret (Next a)"
  using exec_in_use [of u m E pod "step_cmd u' m bus CheckDeviceFile" s]
  by (auto simp: agent_step_def bindM_def ret_def device_checks_def chroot_def split: outcome.splits prod.splits)

lemma run_agent_steps_in_use:
  assumes "in_use u m E"
  shows "fst (run_agent_steps pod d u' m bus agent_steps E s) \<noteq> Ret None"
proof -
  have "fst (forM agent_steps () (\<lambda>step _. agent_step pod d u' m bus step) E s) \<noteq> Ret (Inr b)" for b
    using assms by (intro forM_never_ends [where x = CheckDeviceFile])
      (simp_all add: agent_steps_def agent_step_no_break agent_step_stuck)
  then show ?thesis
    unfolding run_agent_steps_def
    by (auto simp: bindM_def run_ret split: outcome.splits prod.splits sum.splits)
qed

lemma harmless_commands:
  "\<not> takes_away (chroot @ [''/bin/sh'', ''-c'', procScan])"
  "\<not> takes_away (step_cmd u m bus DisablePersistence)"
  "\<not> takes_away (step_cmd u m bus CheckDeviceFile)"
  "\<not> takes_away [''sh'', ''-c'', checkShell_nvidia m]"
  "\<not> takes_away (disable_cmd u)"
  "\<not> takes_away (chroot @ [''/usr/bin/nvidia-smi'', ''drain'', ''-p'', bus, ''-q''])"
  "\<not> takes_away [''/usr/bin/nvidia-smi'', ''--query-gpu='' @ args, ''--format=csv,noheader,nounits'']"
  by (simp_all add: command_defs)

lemma harmless_queries:
  "emits harmless (getGPUInfoFromNvidiaPod n args)"
  "emits harmless (getGPUInfoFromProcInCroNodeAgentPod pod args)"
  "emits harmless (checkGPUDrainStatus pod n bus)"
  "emits harmless (check_device_file pod m)"
  unfolding getGPUInfoFromNvidiaPod_def getGPUInfoFromProcInCroNodeAgentPod_def checkGPUDrainStatus_def
    check_device_file_def query_gpus_def
  by (intro emits_intro; simp add: harmless_commands harmless_commands [unfolded chroot_def, simplified])+

text \<open>The checks of the resource controller, visibility, loads and \<^verbatim>\<open>nvidia-smi\<close>, take nothing away.
  This is the rule for them from here on.\<close>

lemma check_commands:
  "\<not> takes_away ([''/bin/chroot'', ''/host-root''] @ smi_apps)" "\<not> takes_away smi_apps"
  "\<not> takes_away ([''/bin/chroot'', ''/host-root''] @ [''/usr/bin/nvidia-smi'', ''--query-gpu='' @ args, ''--format=csv,noheader,nounits''])"
  "\<not> takes_away ([] @ [''/usr/bin/nvidia-smi'', ''--query-gpu='' @ args, ''--format=csv,noheader,nounits''])"
  by (simp_all add: command_defs smi_apps_def)

lemma emits_checks_quiet [emits_intro]:
  assumes A: "\<And>p c. \<not> takes_away c \<Longrightarrow> A (EvExec p c)"
  shows "emits A (CheckGPUVisible t r)" "emits A (CheckNoGPULoads n u)" "emits A (RunNvidiaSmi n)"
proof -
  have q: "emits A (query_gpus pod [] args)" "emits A (query_gpus pod [''/bin/chroot'', ''/host-root''] args)"
    "emits A (getGPUInfoFromProcInCroNodeAgentPod pod args)" for pod args
    unfolding query_gpus_def getGPUInfoFromProcInCroNodeAgentPod_def
    by (intro emits_intro A check_commands harmless_commands [unfolded chroot_def, simplified])+
  have l: "emits A (check_loads_in d pod smi_apps n u)"
    "emits A (check_loads_in d pod ([''/bin/chroot'', ''/host-root''] @ smi_apps) n u)" for d pod
    unfolding check_loads_in_def by (intro emits_intro A check_commands)+
  show "emits A (CheckGPUVisible t r)" "emits A (CheckNoGPULoads n u)" "emits A (RunNvidiaSmi n)"
    unfolding CheckGPUVisible_def CheckNoGPULoads_def RunNvidiaSmi_def getGPUInfoFromNvidiaPod_def
      getGPUInfoFromCroNodeAgentPod_def
    by (intro q l em.rules [where H = "\<lambda>_. True", folded emits_def] emits_query emits_lookups)+
qed

declare emits_checks [emits_intro del]

lemma agent_step_harmless:
  "step \<in> {DisablePersistence, CheckDeviceFile} \<Longrightarrow> emits harmless (agent_step pod d u minor bus step)"
  unfolding agent_step_def
  by (intro emits_intro) (auto simp: harmless_commands simp del: step_cmd.simps)

lemma run_agent_steps_harmless:
  "within (in_use u m) (appends harmless) (run_agent_steps pod d u' m bus agent_steps)"
proof -
  have steps: "agent_steps = [DisablePersistence] @ CheckDeviceFile # [SetMaintenance, RemoveDeviceFile]"
    by (simp add: agent_steps_def)
  have "within (in_use u m) (appends harmless) (forM agent_steps () (\<lambda>step _. agent_step pod d u' m bus step))"
    unfolding steps
    by (intro em.w_forM_upto agent_step_stuck [of u m] emits_under [OF agent_step_harmless]) auto
  then show ?thesis
    unfolding run_agent_steps_def by (intro em.w_bindM em.w_sum em.w_ret)
qed

lemma guarded:
  "(\<And>e. within (in_use u m) (appends harmless) (h e)) \<Longrightarrow> minor = m \<Longrightarrow>
     within (in_use u m) (appends harmless) (checkM (check_device_file pod minor) h k)"
  "(\<And>e. within (in_use u m) (appends harmless) (h e)) \<Longrightarrow> minor = m \<Longrightarrow>
     within (in_use u m) (appends harmless) (checkM (run_agent_steps pod d u' minor bus agent_steps) h k)"
  by (hypsubst, intro em.w_checkM_never; simp add: check_device_file_in_use run_agent_steps_in_use
        emits_under [OF harmless_queries(4)] run_agent_steps_harmless)+

lemma harmless_run_step:
  "\<not> takes_away cmd \<Longrightarrow> emits harmless (run_step pod what desc cmd)"
  unfolding run_step_def by (intro emits_intro) simp

lemma drain_agent_harmless: "within (in_use u m) (appends harmless) (drain_agent n u)"
  unfolding drain_agent_def
proof (intro em.w_tryM_res em.w_ret em.w_option em.w_let emits_under [OF emits_lookups(3)]
    emits_under [OF harmless_queries(2)] emits_under [OF harmless_queries(3)] guarded)
  fix pod gpus g
  assume "\<exists>E s. in_use u m E \<and> fst (getGPUInfoFromProcInCroNodeAgentPod pod ''device_minor,gpu_uuid,pci.bus_id'' E s)
      = Ret (Inr gpus)"
    and "find (\<lambda>g. str_at g ''gpu_uuid'' = u) gpus = Some g"
  then show "str_at g ''device_minor'' = m" using proc_listing_minor found_minor by blast
qed

lemma drain_driver_harmless:
  "within (in_use u m) (appends harmless) (drain_dra n u)"
  "within (in_use u m) (appends harmless) (drain_plugin n u)"
proof -
  have minor: "minor = m"
    if "\<exists>E s. in_use u m E \<and> fst (getGPUInfoFromNvidiaPod n ''device_minor,gpu_uuid,pci.bus_id'' E s) = Ret (Inr gpus)"
      "target_gpu u gpus = (minor, bus)" "bus \<noteq> []" for gpus minor bus
    using that smi_listing_minor target_gpu_minor by blast
  show "within (in_use u m) (appends harmless) (drain_dra n u)"
    "within (in_use u m) (appends harmless) (drain_plugin n u)"
    unfolding drain_dra_def drain_plugin_def
    by (intro em.w_tryM_res em.w_ret em.w_prod em.w_if guarded em.w_checkM
        emits_under [OF emits_lookups(1)] emits_under [OF harmless_queries(1)]
        emits_under [OF harmless_run_step] harmless_commands minor; assumption)+
qed

lemma DrainGPU_harmless: "within (in_use u m) (appends harmless) (DrainGPU n u t)"
  unfolding DrainGPU_def
  by (intro em.w_tryM em.w_ret em.w_if emits_under [OF emits_lookups(4)] drain_agent_harmless drain_driver_harmless)

text \<open>
  C6.  A GPU in use is never taken away.  When the listings of the node give the target GPU the
  minor number \<open>m\<close> and looking for holders of the device file \<open>m\<close> (of no other) reports a process,
  or fails, no run of \<^verbatim>\<open>DrainGPU\<close> for this GPU, in any of its three variants, issues a command
  that sets maintenance mode or resets a GPU, or removes a device file, a driver module or a PCI
  device.
\<close>

theorem DrainGPU_in_use:
  assumes "in_use u m E"
  shows "\<exists>evs. trace (snd (DrainGPU n u t E s)) = trace s @ evs
     \<and> (\<forall>pod cmd. takes_away cmd \<longrightarrow> EvExec pod cmd \<notin> set evs \<and> EvGoExec pod cmd \<notin> set evs)"
proof -
  obtain evs where "trace (snd (DrainGPU n u t E s)) = trace s @ evs" "list_all harmless evs"
    using DrainGPU_harmless [of u m n t] assms by (auto simp: within_def appends_def)
  then show ?thesis by (fastforce simp: list_all_iff)
qed

text \<open>A node with two GPUs, of which the first one is held by a process and the second one is free.\<close>

definition held_env :: "unit env" where
  "held_env = agent_env\<lparr>pod_Stream := (\<lambda>_ _ cmd w.
     ((if last cmd = procScan \<or> last cmd = ''--format=csv,noheader,nounits'' then busy_scan
       else if last cmd = ''-q'' then ''drain: not draining''
       else if cmd \<in> device_checks ''0'' then ''42 python'' else [], [], None), w))\<rparr>"

lemma held_in_use: "in_use ''GPU-a'' ''0'' held_env"
proof -
  have "lists_minor ''GPU-a'' ''0'' busy_scan" by code_simp
  moreover have "last cmd \<noteq> procScan \<and> last cmd \<noteq> ''-q'' \<and> last cmd \<noteq> ''--format=csv,noheader,nounits''"
    if "cmd \<in> device_checks ''0''" for cmd
    using that
    by (auto simp: device_checks_def checkShell_agent_def checkShell_nvidia_def procScan_def script_def target_file_line_def)
  moreover have "last cmd = procScan \<or> last cmd = ''--format=csv,noheader,nounits''" if "cmd \<in> listings" for cmd
    using that by (auto simp: listings_def)
  ultimately show ?thesis by (auto simp: in_use_def held_env_def)
qed

theorem DrainGPU_in_use_witness:
  "\<exists>evs. trace (snd (DrainGPU ''n1'' ''GPU-a'' ''DRA'' held_env (start ()))) = evs
     \<and> (\<forall>pod cmd. takes_away cmd \<longrightarrow> EvExec pod cmd \<notin> set evs \<and> EvGoExec pod cmd \<notin> set evs)"
  using DrainGPU_in_use [OF held_in_use, of "''n1''" "''DRA''" "start ()"] by (simp add: start_def)

section \<open>The order of the commands\<close>

text \<open>When a step of the sequence lets it continue, the command was issued and succeeded.\<close>

lemma agent_step_Next:
  "agent_step pod d u minor bus step E s = (Ret (Next x), s') \<Longrightarrow>
     trace s' = trace s @ (if d \<and> (step = DisablePersistence \<or> step = SetMaintenance) then []
                           else [EvExec pod (step_cmd u minor bus step)])"
  by (auto simp: agent_step_def exec_in_def execCommandInPod_def prog_defs
      split: if_splits outcome.splits prod.splits option.splits)

lemma forM_steps_trace:
  "forM steps () (\<lambda>step _. agent_step pod d u minor bus step) E s = (Ret (Inr x), s') \<Longrightarrow>
     trace s' = trace s @ map (\<lambda>step. EvExec pod (step_cmd u minor bus step))
       (filter (\<lambda>step. \<not> (d \<and> (step = DisablePersistence \<or> step = SetMaintenance))) steps)"
proof (induction steps arbitrary: s)
  case (Cons step steps)
  obtain r s1 where r: "agent_step pod d u minor bus step E s = (r, s1)"
    by (cases "agent_step pod d u minor bus step E s")
  then obtain y where y: "r = Ret (Next y)" "forM steps () (\<lambda>step _. agent_step pod d u minor bus step) E s1 = (Ret (Inr x), s')"
    using Cons.prems agent_step_no_break [of pod d u minor bus step E s]
    by (auto simp: bindM_def run_ret split: outcome.splits flow.splits)
  from Cons.IH [OF y(2)] agent_step_Next [OF r [unfolded y(1)]] show ?case by auto
qed (simp add: run_ret)

text \<open>
  The order of the commands on the node agent: when the common detach sequence succeeds, it has
  issued exactly the commands of the source's table in that order (persistence mode off, check of the
  device file, maintenance mode, removal of the device file), leaving out the first and the third
  for a GPU that is already draining; so the device file is removed only after the check.
\<close>

theorem run_agent_steps_order:
  assumes "run_agent_steps pod isDraining u minor bus agent_steps E s = (Ret None, s')"
  shows "trace s' = trace s @ map (\<lambda>step. EvExec pod (step_cmd u minor bus step))
     (if isDraining then [CheckDeviceFile, RemoveDeviceFile]
      else [DisablePersistence, CheckDeviceFile, SetMaintenance, RemoveDeviceFile])"
proof -
  obtain x where "forM agent_steps () (\<lambda>step _. agent_step pod isDraining u minor bus step) E s = (Ret (Inr x), s')"
    using assms by (auto simp: run_agent_steps_def bindM_def run_ret split: outcome.splits prod.splits sum.splits)
  from forM_steps_trace [OF this] show ?thesis by (simp add: agent_steps_def)
qed

theorem run_agent_steps_order_witness:
  "trace (snd (run_agent_steps demo_pod True ''GPU-a'' ''0'' ''0000:01:00.0'' agent_steps (void_env :: unit env) (start ())))
     = [EvExec demo_pod (chroot @ [''/bin/sh'', ''-c'', checkShell_agent ''0'']),
        EvExec demo_pod (chroot @ [''/usr/bin/rm'', ''-f'', ''/dev/nvidia0''])]"
proof -
  obtain s' where "run_agent_steps demo_pod True ''GPU-a'' ''0'' ''0000:01:00.0'' agent_steps (void_env :: unit env) (start ())
      = (Ret None, s')"
    by (simp add: run_agent_steps_def agent_steps_def agent_step_def exec_in_def execCommandInPod_def demo_pod_def
        void_env_def prog_defs)
  from run_agent_steps_order [OF this] this show ?thesis by (simp add: start_def)
qed

section \<open>A GPU that is gone\<close>

text \<open>
  Draining is idempotent: when the scan of the node finds no GPU with the target UUID, draining
  through the node agent succeeds and issues no command beyond the scan.
\<close>

theorem drain_agent_absent:
  assumes "getCroNodeAgentPod n E s = (Ret (Inr pod), s1)"
    and "getGPUInfoFromProcInCroNodeAgentPod pod ''device_minor,gpu_uuid,pci.bus_id'' E s1 = (Ret (Inr gpus), s2)"
    and "\<forall>g \<in> set gpus. str_at g ''gpu_uuid'' \<noteq> u"
  shows "drain_agent n u E s = (Ret None, s2)"
proof -
  have "find (\<lambda>g. str_at g ''gpu_uuid'' = u) gpus = None"
    using assms(3) by (simp add: find_None_iff)
  then show ?thesis
    using assms(1,2) by (simp add: drain_agent_def tryM_def bindM_def run_ret)
qed

theorem drain_agent_absent_witness:
  "fst (drain_agent ''n1'' ''GPU-b'' agent_env (start ())) = Ret None"
proof -
  have pod: "getCroNodeAgentPod ''n1'' agent_env (start ()) = (Ret (Inr demo_pod), start ())"
    by (simp add: getCroNodeAgentPod_def agent_env_def demo_pod_def first_with_prefix_def strings_HasPrefix_def
        start_def prog_defs)
  obtain s2 where "getGPUInfoFromProcInCroNodeAgentPod demo_pod ''device_minor,gpu_uuid,pci.bus_id'' agent_env (start ())
      = (Ret (Inr []), s2)"
    by (simp add: getGPUInfoFromProcInCroNodeAgentPod_def exec_in_def execCommandInPod_def demo_pod_def agent_env_def
        void_env_def prog_defs strings_TrimSpace_def trim_while_def)
  from drain_agent_absent [OF pod this, of "''GPU-b''"] show ?thesis by simp
qed

end
