(* ===== verification/Cdi.thy ===== *)
theory Cdi
  imports Drain
begin

text \<open>
  The interface between the resource controller and the services that compose hardware:
  \<^verbatim>\<open>CdiProvider\<close> of \<^verbatim>\<open>src/internal/cdi/client.go\<close>, and its contract as the locale
  \<open>cdi_provider\<close>.  An operation works on the object the reconciler points to (\<open>theResource\<close>),
  as the Go methods work on the pointer they are given.

  The contract says which requests an operation may send and what it does to the object: adding a
  device never sends a request to detach one and the other way round, checking and listing only
  read, and only \<^verbatim>\<open>RemoveResource\<close> may write the object's status, changing nothing but the
  error text.
\<close>

section \<open>The interface\<close>

record 'w CdiProvider =
  AddResource :: "('w, string \<times> string \<times> error option) go"
  RemoveResource :: "('w, error option) go"
  CheckResource :: "('w, error option) go"
  GetResources :: "('w, error + DeviceInfo list) go"

section \<open>Requests\<close>

text \<open>Requests that only read (a GET, or the login form), that attach and that detach.  The
  composition request of the Sunfish client does either, by the number of processors it asks
  for; for a model the client does not know it carries a processor request that names nothing.\<close>

definition reads_only :: "http_request \<Rightarrow> bool" where
  "reads_only h \<longleftrightarrow> (case req_Body h of NoBody \<Rightarrow> req_Method h = ''GET'' | FormBody _ \<Rightarrow> True | _ \<Rightarrow> False)"

definition asks_for :: "int \<Rightarrow> string \<Rightarrow> CompositionRequest \<Rightarrow> bool" where
  "asks_for n kind c \<longleftrightarrow> (case cmp_Members c of [p] \<Rightarrow> pr_RequestCount p = n \<and> pr_ProcType p = kind | _ \<Rightarrow> False)"

definition attaches :: "http_request \<Rightarrow> bool" where
  "attaches h \<longleftrightarrow> (case req_Body h of
     FM_ScaleUp _ \<Rightarrow> True | CM_ScaleUp _ \<Rightarrow> True | SunfishBody c \<Rightarrow> asks_for 1 ''GPU'' c | _ \<Rightarrow> False)"

definition detaches :: "http_request \<Rightarrow> bool" where
  "detaches h \<longleftrightarrow> (case req_Body h of
     FM_ScaleDown _ \<Rightarrow> True | CM_ScaleDown _ \<Rightarrow> True | SunfishBody c \<Rightarrow> asks_for 0 ''GPU'' c | _ \<Rightarrow> False)"

definition names_nothing :: "http_request \<Rightarrow> bool" where
  "names_nothing h \<longleftrightarrow> (case req_Body h of SunfishBody c \<Rightarrow> asks_for 0 [] c | _ \<Rightarrow> False)"

lemma attach_detach_disjoint: "attaches h \<Longrightarrow> \<not> detaches h \<and> \<not> names_nothing h \<and> \<not> reads_only h"
  by (auto simp: attaches_def detaches_def names_nothing_def reads_only_def asks_for_def
      split: http_body.splits list.splits)

fun http_only :: "(http_request \<Rightarrow> bool) \<Rightarrow> event \<Rightarrow> bool" where
  "http_only P (EvHttp h) = P h"
| "http_only P _ = False"

lemma http_only_mono: "http_only p ev \<Longrightarrow> (\<And>h. p h \<Longrightarrow> q h) \<Longrightarrow> http_only q ev"
  by (cases ev) simp_all

lemma emits_http_mono: "emits (http_only p) m \<Longrightarrow> (\<And>h. p h \<Longrightarrow> q h) \<Longrightarrow> emits (http_only q) m"
  by (erule emits_mono, erule http_only_mono)

section \<open>What the reconciler sees of its object\<close>

text \<open>The statuses written so far, and the object in memory.\<close>

fun statuses :: "event list \<Rightarrow> ComposableResourceStatus list" where
  "statuses [] = []"
| "statuses (EvUpdateResourceStatus r # es) = cr_Status r # statuses es"
| "statuses (_ # es) = statuses es"

lemma statuses_append [simp]: "statuses (xs @ ys) = statuses xs @ statuses ys"
  by (induction xs rule: statuses.induct) simp_all

definition rview :: "'w sys \<Rightarrow> ComposableResourceStatus list \<times> ComposableResource" where
  "rview s = (statuses (trace s), theResource s)"

text \<open>Named hypothesis on the API server: a successful status update answers with the object
  whose status is the one sent (the status subresource stores it).\<close>

definition status_echo :: "'w env \<Rightarrow> bool" where
  "status_echo E \<longleftrightarrow> (\<forall>r w r' w'. api_UpdateResourceStatus E r w = (Inr r', w') \<longrightarrow> cr_Status r' = cr_Status r)"

lemma untouched_rview [simp]: "untouched rview"
  by (simp add: untouched_def rview_def)

lemma ignores_rview [simp]:
  "ignores rview (EvUpdateRequest q)" "ignores rview (EvUpdateRequestStatus q)" "ignores rview (EvDeleteRequest q)"
  "ignores rview (EvCreateResource r)" "ignores rview (EvUpdateResource r)" "ignores rview (EvDeleteResource r)"
  "ignores rview (EvUpdateDaemonSet d)" "ignores rview (EvCreateTaint t)" "ignores rview (EvDeleteTaint t)"
  "ignores rview (EvExec p c)" "ignores rview (EvGoExec p c)" "ignores rview (EvHttp h)"
  by (simp_all add: ignores_def rview_def)

lemma rview_get [wpv_intro]: "Q r (sts, r) \<Longrightarrow> wpv H rview (getM theResource) Q X (sts, r)"
  by (rule wpv_getM [where g = snd]) (simp_all add: rview_def)

lemma rview_upd [wpv_intro]: "Q () (sts, f r) \<Longrightarrow> wpv H rview (upd_resource f) Q X (sts, r)"
  unfolding upd_resource_def
  by (rule wpv_modifyM [where g = "\<lambda>(sts, r). (sts, f r)"]) (simp_all add: rview_def)

lemma rview_status_update [wpv_intro]:
  assumes "\<And>res r'. cr_Status r' = cr_Status r \<Longrightarrow> Q res (sts @ [cr_Status r], r')"
  shows "wpv status_echo rview Status_Update_Resource Q X (sts, r)"
  using assms
  by (auto simp: wpv_def Status_Update_Resource_def rview_def status_echo_def prog_defs
      split: prod.splits sum.splits)

lemma rview_update [wpv_intro]:
  assumes "\<And>e. Q (Some e) (sts, r)" "\<And>r'. Q None (sts, r')"
  shows "wpv H rview Update_Resource Q X (sts, r)"
  using assms
  by (auto simp: wpv_def Update_Resource_def rview_def prog_defs split: prod.splits sum.splits)

text \<open>The calls that leave the view alone.\<close>

lemma rview_utils [wpv_intro]:
  "(\<And>x. Q0 x v) \<Longrightarrow> X v \<Longrightarrow> wpv H rview (CheckGPUVisible t r) Q0 X v"
  "(\<And>x. Q1 x v) \<Longrightarrow> X v \<Longrightarrow> wpv H rview (CheckNoGPULoads n p) Q1 X v"
  "(\<And>x. Q2 x v) \<Longrightarrow> X v \<Longrightarrow> wpv H rview (RunNvidiaSmi n) Q2 X v"
  "(\<And>x. Q3 x v) \<Longrightarrow> X v \<Longrightarrow> wpv H rview (RestartDaemonset ns n) Q3 X v"
  "(\<And>x. Q4 x v) \<Longrightarrow> X v \<Longrightarrow> wpv H rview (DrainGPU n u t) Q4 X v"
  "(\<And>x. Q5 x v) \<Longrightarrow> X v \<Longrightarrow> wpv H rview (CreateDeviceTaint r) Q5 X v"
  "(\<And>x. Q6 x v) \<Longrightarrow> X v \<Longrightarrow> wpv H rview (DeleteDeviceTaint r) Q6 X v"
  "(\<And>x. Q7 x v) \<Longrightarrow> X v \<Longrightarrow> wpv H rview (HasDeviceTaint r) Q7 X v"
  "(\<And>x. Q8 x v) \<Longrightarrow> X v \<Longrightarrow> wpv H rview (CheckNodeExisted n) Q8 X v"
  "(\<And>x. Q9 x v) \<Longrightarrow> X v \<Longrightarrow> wpv H rview (Delete_Resource r) Q9 X v"
  "(\<And>x. Q10 x v) \<Longrightarrow> X v \<Longrightarrow> wpv H rview (Getenv k) Q10 X v"
  "(\<And>x. Q11 x v) \<Longrightarrow> X v \<Longrightarrow> wpv H rview (query f) Q11 X v"
  "(\<And>x. Q12 x v) \<Longrightarrow> X v \<Longrightarrow> wpv H rview (pureE g) Q12 X v"
  by (intro wpv_keeps keeps_intro; simp)+

text \<open>The same with the whole trace in view, for statements about the order of calls.\<close>

definition tview :: "'w sys \<Rightarrow> event list \<times> ComposableResource" where
  "tview s = (trace s, theResource s)"

lemma tview_get [wpv_intro]: "Q r (tr, r) \<Longrightarrow> wpv H tview (getM theResource) Q X (tr, r)"
  by (rule wpv_getM [where g = snd]) (simp_all add: tview_def)

lemma tview_upd [wpv_intro]: "Q () (tr, f r) \<Longrightarrow> wpv H tview (upd_resource f) Q X (tr, r)"
  unfolding upd_resource_def
  by (rule wpv_modifyM [where g = "\<lambda>(tr, r). (tr, f r)"]) (simp_all add: tview_def)

lemma tview_status_update [wpv_intro]:
  assumes "\<And>res r'. cr_Status r' = cr_Status r \<Longrightarrow> Q res (tr @ [EvUpdateResourceStatus r], r')"
  shows "wpv status_echo tview Status_Update_Resource Q X (tr, r)"
  using assms
  by (auto simp: wpv_def Status_Update_Resource_def tview_def status_echo_def prog_defs
      split: prod.splits sum.splits)

lemma tview_emits:
  fixes m :: "('w, 'a) go"
  assumes "emits A m" "keeps theResource m"
    and "\<And>x evs. list_all A evs \<Longrightarrow> Q x (tr @ evs, r)" "\<And>evs. list_all A evs \<Longrightarrow> X (tr @ evs, r)"
  shows "wpv H tview m Q X (tr, r)"
  unfolding wpv_def
proof (intro allI impI)
  fix E and s :: "'w sys"
  assume v: "tview s = (tr, r)"
  obtain evs where "trace (snd (m E s)) = trace s @ evs" "list_all A evs"
    using assms(1) by (rule emits_trace)
  moreover have "theResource (snd (m E s)) = theResource s"
    using keepsD [OF assms(2)] by (metis prod.collapse)
  ultimately show "case m E s of (Ret x, s') \<Rightarrow> Q x (tview s') | (Panic _, s') \<Rightarrow> X (tview s')"
    using assms(3,4) v by (auto simp: tview_def split: prod.splits outcome.splits)
qed

text \<open>Programs that may also change the object: what they add to the trace is known, the object is not.\<close>

lemma tview_emits_any:
  fixes m :: "('w, 'a) go"
  assumes "emits A m"
    and "\<And>x evs r'. list_all A evs \<Longrightarrow> Q x (tr @ evs, r')" "\<And>evs r'. list_all A evs \<Longrightarrow> X (tr @ evs, r')"
  shows "wpv H tview m Q X (tr, r)"
  unfolding wpv_def
proof (intro allI impI)
  fix E and s :: "'w sys"
  assume v: "tview s = (tr, r)"
  obtain evs where "trace (snd (m E s)) = trace s @ evs" "list_all A evs"
    using assms(1) by (rule emits_trace)
  then show "case m E s of (Ret x, s') \<Rightarrow> Q x (tview s') | (Panic _, s') \<Rightarrow> X (tview s')"
    using assms(2,3) v by (auto simp: tview_def split: prod.splits outcome.splits)
qed

lemma tview_status_update_any:
  assumes "\<And>res r'. Q res (tr @ [EvUpdateResourceStatus r], r')"
  shows "wpv H tview Status_Update_Resource Q X (tr, r)"
  using assms
  by (auto simp: wpv_def Status_Update_Resource_def tview_def prog_defs split: prod.splits sum.splits)

lemma tview_update:
  assumes "\<And>res r'. Q res (tr @ [EvUpdateResource r], r')"
  shows "wpv H tview Update_Resource Q X (tr, r)"
  using assms
  by (auto simp: wpv_def Update_Resource_def tview_def prog_defs split: prod.splits sum.splits)

section \<open>The contract\<close>

text \<open>What \<^verbatim>\<open>RemoveResource\<close> may do to the object: nothing, or write an error text into its status.\<close>

definition only_error :: "ComposableResourceStatus list \<times> ComposableResource \<Rightarrow>
    ComposableResourceStatus list \<times> ComposableResource \<Rightarrow> bool" where
  "only_error v v' \<longleftrightarrow> v' = v \<or>
     (\<exists>e r'. v' = (fst v @ [(cr_Status (snd v))\<lparr>crst_Error := e\<rparr>], r')
        \<and> cr_Status r' = (cr_Status (snd v))\<lparr>crst_Error := e\<rparr>)"

fun removal_event :: "event \<Rightarrow> bool" where
  "removal_event (EvHttp h) = (reads_only h \<or> detaches h \<or> names_nothing h)"
| "removal_event (EvUpdateResourceStatus r) = True"
| "removal_event _ = False"

locale cdi_provider =
  fixes P :: "'w CdiProvider"
  assumes add_sends: "emits (http_only (\<lambda>h. reads_only h \<or> attaches h \<or> names_nothing h)) (AddResource P)"
    and add_view: "keeps rview (AddResource P)"
    and rem_sends: "emits removal_event (RemoveResource P)"
    and rem_view: "wpv status_echo rview (RemoveResource P) (\<lambda>_. only_error v) (only_error v) v"
    and chk_sends: "emits (http_only reads_only) (CheckResource P)"
    and chk_view: "keeps rview (CheckResource P)"
    and get_sends: "emits (http_only reads_only) (GetResources P)"
    and get_view: "keeps rview (GetResources P)"

end
