(* ===== verification/Token.thy ===== *)
theory Token
  imports Cdi
begin

text \<open>
  The token cache of the two FTI clients, \<^verbatim>\<open>src/internal/cdi/fti/token.go\<close>.  The cache is the
  field \<open>cachedToken\<close> of the state; the mutex around it has no counterpart, since a run of the
  model is one goroutine.  The lemmas show that a token handed out has more than the leeway left
  or was obtained in the call, that the cache then holds it, and that a failure leaves the cache
  as it was.
\<close>

definition leeway :: int where
  "leeway = 30 * second"

definition token_url :: "string \<Rightarrow> string \<Rightarrow> string" where
  "token_url endpoint realm = ''https://'' @ endpoint @ ''id_manager/realms/'' @ realm @ ''/protocol/openid-connect/token''"

definition token_request :: "string \<Rightarrow> str_map \<Rightarrow> http_request" where
  "token_request endpoint data =
     \<lparr>req_Method = ''POST'', req_URL = token_url endpoint (str_at data ''realm''), req_Query = [],
      req_Body = FormBody [(''client_id'', str_at data ''client_id''), (''client_secret'', str_at data ''client_secret''),
        (''username'', str_at data ''username''), (''password'', str_at data ''password''), (''scope'', ''openid''),
        (''response_type'', ''id_token token''), (''grant_type'', ''password'')],
      req_Token = None\<rparr>"

text \<open>What is done with the body of the answer: the expiry comes from the token's second part.\<close>

definition decode_token :: "string \<Rightarrow> 'w env \<Rightarrow> error + oauth2Token" where
  "decode_token body E =
     (case json_IdToken E body of
        Inl err \<Rightarrow> Inl (ErrorString (''failed to read id_manager response body into Token: '' @ err_Error err))
      | Inr responseToken \<Rightarrow>
          (let accessTokenParts = strings_Split (idt_AccessToken responseToken) CHR ''.'' in
           if length accessTokenParts \<noteq> 3
           then Inl (ErrorString (''invalid access token: '' @ idt_AccessToken responseToken))
           else (case base64_RawURLDecode E (accessTokenParts ! 1) of
               Inl err \<Rightarrow> Inl (ErrorString (''failed to decode id_manager payload: '' @ err_Error err))
             | Inr payloadBytes \<Rightarrow>
                 (case json_AccessToken E payloadBytes of
                    Inl err \<Rightarrow> Inl (ErrorString (''failed to unmarshal id_manager json: '' @ err_Error err))
                  | Inr expiry \<Rightarrow>
                      Inr \<lparr>tok_AccessToken = idt_AccessToken responseToken, tok_TokenType = idt_TokenType responseToken,
                           tok_RefreshToken = idt_RefreshToken responseToken, tok_Expiry = expiry * second\<rparr>))))"

definition Token :: "string \<Rightarrow> ('w, error + oauth2Token) go" where
  "Token endpoint =
     tryM (query (\<lambda>E. api_GetSecret E ''composable-resource-operator-system'' ''credentials'')) (\<lambda>err. ret (Inl err)) (\<lambda>data.
     let req = token_request endpoint data in
     bindM (pureE (\<lambda>E. http_NewRequest E ''POST'' (req_URL req))) (\<lambda>bad. case bad of
       Some err \<Rightarrow> ret (Inl err)
     | None \<Rightarrow>
         tryM (send req) (\<lambda>err. ret (Inl err)) (\<lambda>response.
         case resp_Body response of
           Inl err \<Rightarrow> ret (Inl (ErrorString (''failed to read id_manager response body: '' @ err_Error err)))
         | Inr body \<Rightarrow>
             if resp_StatusCode response \<noteq> 200
             then ret (Inl (ErrorString (''http returned code: '' @ fmt_d (resp_StatusCode response)
                     @ '', response body: '' @ body)))
             else pureE (decode_token body))))"

definition still_valid :: "oauth2Token option \<Rightarrow> time \<Rightarrow> bool" where
  "still_valid token now = (case token of None \<Rightarrow> False | Some t \<Rightarrow> tok_Expiry t - leeway > now)"

text \<open>The cached token is looked at twice, the second time under the write lock.\<close>

definition GetToken :: "string \<Rightarrow> ('w, error + oauth2Token) go" where
  "GetToken endpoint =
     bindM time_Now (\<lambda>now.
     bindM (getM cachedToken) (\<lambda>token.
     if still_valid token now then ret (Inr (the token))
     else
       bindM (getM cachedToken) (\<lambda>token.
       if still_valid token now then ret (Inr (the token))
       else
         tryM (Token endpoint)
           (\<lambda>err. ret (Inl (WrapError (''unable to rotate token: '' @ err_Error err) err)))
           (\<lambda>token. thenM (modifyM (\<lambda>s. s\<lparr>cachedToken := Some token\<rparr>)) (ret (Inr token))))))"

section \<open>Footprint\<close>

lemma reads_only_token [simp]: "reads_only (token_request endpoint data)"
  by (simp add: reads_only_def token_request_def)

lemma emits_Token: "(\<And>d. A (EvHttp (token_request endpoint d))) \<Longrightarrow> emits A (Token endpoint)"
  unfolding Token_def by (intro emits_intro)

lemma emits_GetToken [emits_intro]: "(\<And>d. A (EvHttp (token_request endpoint d))) \<Longrightarrow> emits A (GetToken endpoint)"
  unfolding GetToken_def by (intro emits_intro emits_Token; simp)

lemma keeps_Token: "untouched f \<Longrightarrow> (\<And>h. ignores f (EvHttp h)) \<Longrightarrow> keeps f (Token endpoint)"
  unfolding Token_def by (intro keeps_intro)

lemma keeps_GetToken [keeps_intro]:
  assumes "untouched f" "\<And>h. ignores f (EvHttp h)" "\<And>s t. f (s\<lparr>cachedToken := t\<rparr>) = f s"
  shows "keeps f (GetToken endpoint)"
  unfolding GetToken_def by (intro keeps_intro keeps_Token assms)

lemma rview_cachedToken [simp]: "rview (s\<lparr>cachedToken := t\<rparr>) = rview s"
  by (simp add: rview_def)

section \<open>Validity\<close>

text \<open>A token that was just obtained: one login request was sent, and its expiry is the \<^verbatim>\<open>exp\<close> claim
  in its payload.\<close>

definition fresh :: "string \<Rightarrow> 'w env \<Rightarrow> oauth2Token \<Rightarrow> event list \<Rightarrow> bool" where
  "fresh endpoint E tok evs \<longleftrightarrow>
     (\<exists>data parts payload expiry. evs = [EvHttp (token_request endpoint data)]
        \<and> parts = strings_Split (tok_AccessToken tok) CHR ''.'' \<and> length parts = 3
        \<and> base64_RawURLDecode E (parts ! 1) = Inr payload \<and> json_AccessToken E payload = Inr expiry
        \<and> tok_Expiry tok = expiry * second)"

lemma decode_token_fresh:
  "decode_token body E = Inr tok \<Longrightarrow> \<exists>parts payload expiry.
     parts = strings_Split (tok_AccessToken tok) CHR ''.'' \<and> length parts = 3
     \<and> base64_RawURLDecode E (parts ! 1) = Inr payload \<and> json_AccessToken E payload = Inr expiry
     \<and> tok_Expiry tok = expiry * second"
  by (auto simp: decode_token_def Let_def split: sum.splits if_splits)

lemma Token_fresh:
  assumes "Token endpoint E s = (Ret (Inr tok), s')"
  shows "\<exists>evs. trace s' = trace s @ evs \<and> fresh endpoint E tok evs"
proof -
  obtain data body where "trace s' = trace s @ [EvHttp (token_request endpoint data)]" "decode_token body E = Inr tok"
    using assms by (auto simp: Token_def send_def Let_def prog_defs split: prod.splits sum.splits option.splits if_splits)
  with decode_token_fresh show ?thesis unfolding fresh_def by fast
qed

text \<open>
  C34.  The token cache.  A token handed out is either the cached one, with more than the leeway of
  thirty seconds left and no request sent, or was obtained by one login request in this call and
  expires when its payload says; either way it is in the cache afterwards.
\<close>

theorem GetToken_valid_or_fresh:
  assumes "GetToken endpoint E s = (Ret (Inr tok), s')"
  shows "cachedToken s' = Some tok \<and>
     (cachedToken s = Some tok \<and> trace s' = trace s \<and> fst (clock_Now E (world s)) + leeway < tok_Expiry tok
      \<or> (\<exists>evs. trace s' = trace s @ evs \<and> fresh endpoint E tok evs))"
proof -
  let ?s1 = "s\<lparr>world := snd (clock_Now E (world s))\<rparr>" and ?now = "fst (clock_Now E (world s))"
  have now: "time_Now E s = (Ret ?now, ?s1)"
    by (simp add: time_Now_def query_def split: prod.split)
  show ?thesis
  proof (cases "still_valid (cachedToken s) ?now")
    case True
    then have "GetToken endpoint E s = (Ret (Inr (the (cachedToken s))), ?s1)"
      using now by (simp add: GetToken_def bindM_def getM_def run_ret)
    with assms True show ?thesis by (auto simp: still_valid_def split: option.splits)
  next
    case False
    then obtain s2 where "Token endpoint E ?s1 = (Ret (Inr tok), s2)" "s' = s2\<lparr>cachedToken := Some tok\<rparr>"
      using assms now
      by (auto simp: GetToken_def bindM_def getM_def run_ret tryM_def thenM_def modifyM_def
          split: prod.splits outcome.splits sum.splits)
    then show ?thesis using Token_fresh by fastforce
  qed
qed

definition token_env :: "unit env" where
  "token_env = void_env\<lparr>api_GetSecret := (\<lambda>_ _ w. (Inr (\<lambda>_. Some ''x''), w)),
     http_Do := (\<lambda>_ w. (Inr \<lparr>resp_StatusCode = 200, resp_Body = Inr []\<rparr>, w)),
     json_IdToken := (\<lambda>_. Inr \<lparr>idt_AccessToken = ''h.p.s'', idt_RefreshToken = [], idt_TokenType = ''Bearer''\<rparr>),
     base64_RawURLDecode := (\<lambda>p. Inr p), json_AccessToken := (\<lambda>_. Inr 1000)\<rparr>"

definition demo_token :: oauth2Token where
  "demo_token = \<lparr>tok_AccessToken = ''h.p.s'', tok_TokenType = ''Bearer'', tok_RefreshToken = [], tok_Expiry = 1000 * second\<rparr>"

theorem GetToken_valid_or_fresh_witness:
  "cachedToken (snd (GetToken ''cdi/'' token_env (start ()))) = Some demo_token"
proof -
  obtain s' where "GetToken ''cdi/'' token_env (start ()) = (Ret (Inr demo_token), s')"
    by (simp add: GetToken_def Token_def still_valid_def token_env_def void_env_def start_def demo_token_def
        decode_token_def send_def time_Now_def Let_def prog_defs)
  from GetToken_valid_or_fresh [OF this] this show ?thesis by simp
qed

end
