(* ===== verification/Sunfish.thy ===== *)
theory Sunfish
  imports Cdi
begin

text \<open>
  The Sunfish client, \<^verbatim>\<open>src/internal/cdi/sunfish/client.go\<close>, and its interpretation as a CDI
  provider.  A client is its endpoint.
\<close>

definition V100 :: string where "V100 = ''Tesla-V100-PCIE-16GB''"
definition A10040G :: string where "A10040G = ''NVIDIA-A100-PCIE-40GB''"
definition A10080G :: string where "A10080G = ''NVIDIA-A100-80GB-PCIe''"

definition NewSunfishClient :: "('w, string) go" where
  "NewSunfishClient =
     bindM (Getenv ''SUNFISH_ENDPOINT'') (\<lambda>ep.
     ret (if ep \<noteq> [] then ep else ''composition-service.cro-system.svc.cluster.local:5060''))"

definition sunfish_request :: "string \<Rightarrow> CompositionRequest \<Rightarrow> http_request" where
  "sunfish_request endpoint cr =
     \<lparr>req_Method = ''PATCH'', req_URL = ''http://'' @ endpoint @ ''/redfish/v1/Systems/System'', req_Query = [],
      req_Body = SunfishBody cr, req_Token = None\<rparr>"

definition sendPatchRequest :: "string \<Rightarrow> CompositionRequest \<Rightarrow> ('w, string \<times> string \<times> error option) go" where
  "sendPatchRequest endpoint cr =
     (let req = sunfish_request endpoint cr in
      bindM (pureE (\<lambda>E. http_NewRequest E ''PATCH'' (req_URL req))) (\<lambda>bad. case bad of
        Some err \<Rightarrow> ret ([], [], Some err)
      | None \<Rightarrow>
          tryM (send req) (\<lambda>err. ret ([], [], Some err)) (\<lambda>response.
          if resp_StatusCode response \<noteq> 200 \<and> resp_StatusCode response \<noteq> 204
          then ret ([], [], Some (ErrorString (''http returned code '' @ fmt_d (resp_StatusCode response))))
          else ret ([], [], None))))"

text \<open>The processor request: for a model that is not supported the zero value is sent.\<close>

definition processor_request :: "string \<Rightarrow> int \<Rightarrow> ProcessorRequest" where
  "processor_request model n =
     (if model \<in> {V100, A10080G, A10040G}
      then \<lparr>pr_RequestCount = n, pr_ProcType = ''GPU'', pr_Model = model\<rparr>
      else \<lparr>pr_RequestCount = 0, pr_ProcType = [], pr_Model = []\<rparr>)"

definition composition :: "ComposableResource \<Rightarrow> int \<Rightarrow> CompositionRequest" where
  "composition instance n =
     \<lparr>cmp_Name = cr_TargetNode instance, cmp_Members = [processor_request (crs_Model (cr_Spec instance)) n]\<rparr>"

definition sunfish_AddResource :: "string \<Rightarrow> ('w, string \<times> string \<times> error option) go" where
  "sunfish_AddResource endpoint =
     bindM (getM theResource) (\<lambda>instance. sendPatchRequest endpoint (composition instance 1))"

definition sunfish_RemoveResource :: "string \<Rightarrow> ('w, error option) go" where
  "sunfish_RemoveResource endpoint =
     bindM (getM theResource) (\<lambda>instance.
     bindM (sendPatchRequest endpoint (composition instance 0)) (\<lambda>(_, _, err). ret err))"

definition sunfish_CheckResource :: "('w, error option) go" where
  "sunfish_CheckResource = ret None"

definition sunfish_GetResources :: "('w, error + DeviceInfo list) go" where
  "sunfish_GetResources = ret (Inr [])"

definition sunfish_provider :: "string \<Rightarrow> 'w CdiProvider" where
  "sunfish_provider endpoint =
     \<lparr>AddResource = sunfish_AddResource endpoint, RemoveResource = sunfish_RemoveResource endpoint,
      CheckResource = sunfish_CheckResource, GetResources = sunfish_GetResources\<rparr>"

section \<open>The contract\<close>

lemma emits_sendPatchRequest [emits_intro]:
  "A (EvHttp (sunfish_request endpoint cr)) \<Longrightarrow> emits A (sendPatchRequest endpoint cr)"
  unfolding sendPatchRequest_def by (intro emits_intro)

lemma keeps_sendPatchRequest [keeps_intro]:
  assumes "untouched f" "\<And>h. ignores f (EvHttp h)"
  shows "keeps f (sendPatchRequest endpoint cr)"
  unfolding sendPatchRequest_def by (intro keeps_intro assms)

lemma only_error_refl [simp]: "only_error v v"
  by (simp add: only_error_def)

lemma keeps_only_error: "keeps rview m \<Longrightarrow> wpv H rview m (\<lambda>_. only_error v) (only_error v) v"
  by (rule wpv_keeps) simp_all

interpretation sunfish: cdi_provider "sunfish_provider endpoint :: 'w CdiProvider" for endpoint
proof unfold_locales
  let ?P = "sunfish_provider endpoint :: 'w CdiProvider"
  have bodies: "attaches (sunfish_request endpoint (composition r 1)) \<or> names_nothing (sunfish_request endpoint (composition r 1))"
    "detaches (sunfish_request endpoint (composition r 0)) \<or> names_nothing (sunfish_request endpoint (composition r 0))" for r
    by (simp_all add: attaches_def detaches_def names_nothing_def asks_for_def sunfish_request_def composition_def
        processor_request_def)
  show "emits (http_only (\<lambda>h. reads_only h \<or> attaches h \<or> names_nothing h)) (AddResource ?P)"
    using bodies(1) by (auto simp: sunfish_provider_def sunfish_AddResource_def intro!: emits_intro)
  show "emits removal_event (RemoveResource ?P)"
    using bodies(2) by (auto simp: sunfish_provider_def sunfish_RemoveResource_def intro!: emits_intro)
  show "keeps rview (AddResource ?P)"
    by (auto simp: sunfish_provider_def sunfish_AddResource_def intro!: keeps_intro)
  have "keeps rview (RemoveResource ?P)"
    by (auto simp: sunfish_provider_def sunfish_RemoveResource_def intro!: keeps_intro)
  then show "wpv status_echo rview (RemoveResource ?P) (\<lambda>_. only_error v) (only_error v) v" for v
    by (rule keeps_only_error)
qed (auto simp: sunfish_provider_def sunfish_CheckResource_def sunfish_GetResources_def intro!: emits_intro keeps_intro)

end
