(* ===== verification/FtiFM.thy ===== *)
theory FtiFM
  imports Token Sunfish
begin

text \<open>
  The fabric manager client, \<^verbatim>\<open>src/internal/cdi/fti/fm/client.go\<close>, and its interpretation as a
  CDI provider.  The client struct and the lookup of a node's machine through its Metal3Machine and
  BareMetalHost are shared with the cluster manager client, which has the same code.  The lemmas
  show which device an attach reports, that a detach request names exactly the resource's own
  device, and what the health check reports.
\<close>

record FTIClient =
  fti_compositionServiceEndpoint :: string
  fti_tenantID :: string
  fti_clusterID :: string

text \<open>A new client starts with an empty token cache.\<close>

definition fm_NewFTIClient :: "('w, FTIClient) go" where
  "fm_NewFTIClient =
     bindM (Getenv ''FTI_CDI_ENDPOINT'') (\<lambda>endpoint.
     bindM (Getenv ''FTI_CDI_TENANT_ID'') (\<lambda>tenantID.
     bindM (Getenv ''FTI_CDI_CLUSTER_ID'') (\<lambda>clusterID.
     let endpoint = (if \<not> strings_HasSuffix endpoint ''/'' then endpoint @ ''/'' else endpoint) in
     thenM (modifyM (\<lambda>s. s\<lparr>cachedToken := None\<rparr>))
     (ret \<lparr>fti_compositionServiceEndpoint = endpoint, fti_tenantID = tenantID, fti_clusterID = clusterID\<rparr>))))"

definition formatFMErrorDetail :: "FM_ErrorDetail \<Rightarrow> 'w env \<Rightarrow> string" where
  "formatFMErrorDetail detail E =
     (let message = (if fed_Message detail \<noteq> []
                     then (case json_String E (fed_Message detail) of
                             Inr msgString \<Rightarrow> msgString | Inl _ \<Rightarrow> strings_TrimSpace (fed_Message detail))
                     else [])
      in ''code: '' @ squote (fed_Code detail) @ '', error message: '' @ squote message)"

text \<open>The error for an answer whose status is not the expected one.\<close>

definition fm_failure :: "string \<Rightarrow> string \<Rightarrow> string \<Rightarrow> ('w, error) go" where
  "fm_failure unmarshal process body =
     bindM (pureE (\<lambda>E. json_FM_ErrorBody E body)) (\<lambda>r. case r of
       Inl err \<Rightarrow> ret (WrapError (unmarshal @ '' Original error: '' @ err_Error err) err)
     | Inr errBody \<Rightarrow>
         bindM (pureE (formatFMErrorDetail (feb_Detail errBody))) (\<lambda>d.
         ret (ErrorString (process @ '' FM returned '' @ d))))"

text \<open>\<^verbatim>\<open>s[:1]\<close>: slicing the empty string panics.\<close>

definition first_byte :: "string \<Rightarrow> ('w, string) go" where
  "first_byte s = (if s = [] then panic ''slice bounds out of range'' else ret (take 1 s))"

section \<open>The machine of a node\<close>

definition metal3_machine :: "string \<Rightarrow> Node \<Rightarrow> ('w, error + string) go" where
  "metal3_machine shownName node =
     (let machineInfo = str_at (node_Annotations node) ''machine.openshift.io/machine'';
          machineInfoParts = strings_Split machineInfo CHR ''/''
      in if length machineInfoParts \<noteq> 2
         then ret (Inl (ErrorString (''failed to get annotation '' @ squote ''machine.openshift.io/machine'' @ '' from Node ''
                @ shownName @ '', now is '' @ squote machineInfo)))
         else
           tryM (query (\<lambda>E. api_GetMachine E (machineInfoParts ! 0) (machineInfoParts ! 1))) (\<lambda>err. ret (Inl err)) (\<lambda>machine.
           let bmhInfo = str_at (ao_Annotations machine) ''metal3.io/BareMetalHost'';
               bmhInfoParts = strings_Split bmhInfo CHR ''/''
           in if length bmhInfoParts \<noteq> 2
              then ret (Inl (ErrorString (''failed to get annotation '' @ squote ''metal3.io/BareMetalHost'' @ '' from Machine ''
                     @ ao_Name machine @ '', now is '' @ squote bmhInfo)))
              else
                tryM (query (\<lambda>E. api_GetBareMetalHost E (bmhInfoParts ! 0) (bmhInfoParts ! 1))) (\<lambda>err. ret (Inl err)) (\<lambda>bmh.
                let machineUUID = str_at (ao_Annotations bmh) ''cluster-manager.cdi.io/machine''
                in if machineUUID = []
                   then ret (Inl (ErrorString (''failed to get annotation '' @ squote ''cluster-manager.cdi.io/machine''
                          @ '' from BareMetalHost '' @ ao_Name bmh @ '', now is '' @ squote machineUUID)))
                   else ret (Inr machineUUID))))"

definition fm_getNodeMachineID :: "FTIClient \<Rightarrow> string \<Rightarrow> ('w, error + string) go" where
  "fm_getNodeMachineID f nodeName =
     (if fti_clusterID f \<noteq> [] then
        tryM (query (\<lambda>E. api_GetNode E nodeName)) (\<lambda>err. ret (Inl err)) (\<lambda>node. metal3_machine nodeName node)
      else
        tryM (query (\<lambda>E. api_GetNode E nodeName)) (\<lambda>err. ret (Inl err)) (\<lambda>node.
        case strings_CutPrefix (node_ProviderID node) ''fsas-cdi://'' of (machineUUID, found) \<Rightarrow>
          if \<not> found
          then ret (Inl (ErrorString (''invalid format: expected '' @ squote ''fsas-cdi://machineUUID'' @ '', now is ''
                 @ squote (node_ProviderID node))))
          else ret (Inr machineUUID)))"

section \<open>Requests\<close>

definition fm_request :: "FTIClient \<Rightarrow> string \<Rightarrow> string \<Rightarrow> http_body \<Rightarrow> oauth2Token \<Rightarrow> http_request" where
  "fm_request f meth path body token =
     \<lparr>req_Method = meth, req_URL = ''https://'' @ fti_compositionServiceEndpoint f @ path,
      req_Query = [(''tenant_uuid'', fti_tenantID f)], req_Body = body, req_Token = Some token\<rparr>"

definition fm_machine_path :: "string \<Rightarrow> string" where
  "fm_machine_path machineID = ''fabric_manager/api/v1/machines/'' @ machineID"

definition fm_update_path :: "string \<Rightarrow> string" where
  "fm_update_path machineID = ''fabric_manager/api/v1/machines/'' @ machineID @ ''/update''"

definition fm_url :: "FTIClient \<Rightarrow> string \<Rightarrow> string" where
  "fm_url f path = ''https://'' @ fti_compositionServiceEndpoint f @ path"

definition fm_getMachineInfo :: "FTIClient \<Rightarrow> string \<Rightarrow> ('w, error + GetMachineItem list) go" where
  "fm_getMachineInfo f machineID =
     bindM (pureE (\<lambda>E. http_NewRequest E ''GET'' (fm_url f (fm_machine_path machineID)))) (\<lambda>bad. case bad of
       Some err \<Rightarrow> ret (Inl err)
     | None \<Rightarrow>
         tryM (GetToken (fti_compositionServiceEndpoint f)) (\<lambda>err. ret (Inl err)) (\<lambda>token.
         tryM (send (fm_request f ''GET'' (fm_machine_path machineID) NoBody token)) (\<lambda>err. ret (Inl err)) (\<lambda>response.
         case resp_Body response of
           Inl err \<Rightarrow> ret (Inl err)
         | Inr body \<Rightarrow>
             if resp_StatusCode response \<noteq> 200 then
               bindM (fm_failure ''failed to unmarshal FM get error response body into errBody.''
                        ''failed to process FM get request.'' body) (\<lambda>err. ret (Inl err))
             else
               bindM (pureE (\<lambda>E. json_FM_GetMachineResponse E body)) (\<lambda>r. case r of
                 Inl err \<Rightarrow> ret (Inl (WrapError (''failed to unmarshal FM get machine response body into machineData: ''
                               @ err_Error err) err))
               | Inr machines \<Rightarrow> ret (Inr machines)))))"

section \<open>AddResource\<close>

definition model_condition :: "string \<Rightarrow> ConditionItem" where
  "model_condition model = \<lparr>ci_Column = ''model'', ci_Operator = ''eq'', ci_Value = model\<rparr>"

definition fm_scale_up :: "FTIClient \<Rightarrow> ComposableResource \<Rightarrow> string \<Rightarrow> ScaleUpBody" where
  "fm_scale_up f instance machineID =
     \<lparr>sub_TenantUUID = fti_tenantID f,
      sub_Machines = [\<lparr>sum_MachineUUID = machineID,
        sum_Resources = [[\<lparr>sur_Type = crs_Type (cr_Spec instance),
          sur_Condition = [model_condition (crs_Model (cr_Spec instance))], sur_Num = 1\<rparr>]]\<rparr>]\<rparr>"

text \<open>The device reported by the answer to the scale-up request.\<close>

definition fm_attached :: "ComposableResource \<Rightarrow> FM_Resource \<Rightarrow> ('w, string \<times> string \<times> error option) go" where
  "fm_attached instance resource =
     bindM (first_byte (fr_OptionStatus resource)) (\<lambda>b.
     if b = ''0'' then ret (fr_SerialNum resource, fr_ResourceUUID resource, None)
     else if b = ''1'' then ret (fr_SerialNum resource, fr_ResourceUUID resource, None)
     else if b = ''2'' then
       ret ([], [], Some (ErrorString (''the FM attached device called by '' @ cr_Name instance @ '' is in Critical state in FM'')))
     else
       ret ([], [], Some (ErrorString (''the FM attached device called by '' @ cr_Name instance @ '' is in unknown state ''
              @ squote (fr_OptionStatus resource) @ '' in FM''))))"

definition fm_added_device :: "ComposableResource \<Rightarrow> ScaleUpResponseMachineItem list \<Rightarrow> ('w, string \<times> string \<times> error option) go" where
  "fm_added_device instance machines =
     (let notFound = ret ([], [], Some (ErrorString ''can not find the added gpu when using FM to add gpu'')) in
      case machines of
        [] \<Rightarrow> notFound
      | m # _ \<Rightarrow>
          (case srm_Resources m of
             [] \<Rightarrow> notFound
           | resource # _ \<Rightarrow>
               if fr_Type resource = crs_Type (cr_Spec instance)
                  \<and> (\<exists>spec \<in> set (fr_Condition resource). spec = model_condition (crs_Model (cr_Spec instance)))
               then fm_attached instance resource
               else notFound))"

text \<open>The answer to the scale-up: an error, or the device of its first machine.\<close>

definition fm_scaled_up :: "ComposableResource \<Rightarrow> http_response \<Rightarrow> ('w, string \<times> string \<times> error option) go" where
  "fm_scaled_up instance response =
     (case resp_Body response of
        Inl err \<Rightarrow> ret ([], [], Some err)
      | Inr data \<Rightarrow>
          if resp_StatusCode response \<noteq> 200 then
            bindM (fm_failure ''failed to unmarshal FM scaleup error response body into errBody.''
                     ''failed to process FM scaleup request.'' data) (\<lambda>err. ret ([], [], Some err))
          else
            bindM (pureE (\<lambda>E. json_FM_ScaleUpResponse E data)) (\<lambda>r. case r of
              Inl err \<Rightarrow> ret ([], [], Some (WrapError
                (''failed to unmarshal FM scaleup response body into scaleUpResponse. Original error: '' @ err_Error err) err))
            | Inr machines \<Rightarrow> fm_added_device instance machines))"

definition fm_add :: "FTIClient \<Rightarrow> ComposableResource \<Rightarrow> ('w, string \<times> string \<times> error option) go" where
  "fm_add f instance =
     tryM (fm_getNodeMachineID f (cr_TargetNode instance)) (\<lambda>err. ret ([], [], Some err)) (\<lambda>machineID.
     tryM (GetToken (fti_compositionServiceEndpoint f)) (\<lambda>err. ret ([], [], Some err)) (\<lambda>token.
     bindM (pureE (\<lambda>E. http_NewRequest E ''PATCH'' (fm_url f (fm_update_path machineID)))) (\<lambda>bad. case bad of
       Some err \<Rightarrow> ret ([], [], Some err)
     | None \<Rightarrow>
         tryM (send (fm_request f ''PATCH'' (fm_update_path machineID) (FM_ScaleUp (fm_scale_up f instance machineID)) token))
           (\<lambda>err. ret ([], [], Some err)) (fm_scaled_up instance))))"

definition fm_AddResource :: "FTIClient \<Rightarrow> ('w, string \<times> string \<times> error option) go" where
  "fm_AddResource f = bindM (getM theResource) (fm_add f)"

section \<open>RemoveResource\<close>

definition fm_scale_down :: "FTIClient \<Rightarrow> ComposableResource \<Rightarrow> string \<Rightarrow> ScaleDownBody" where
  "fm_scale_down f instance machineID =
     \<lparr>sdb_TenantUUID = fti_tenantID f,
      sdb_Machines = [\<lparr>sdm_MachineUUID = machineID,
        sdm_Resources = [[\<lparr>sdr_Type = crs_Type (cr_Spec instance), sdr_ResourceUUID = cr_CDIDeviceID instance,
          sdr_Num = 1\<rparr>]]\<rparr>]\<rparr>"

definition fm_remove :: "FTIClient \<Rightarrow> ComposableResource \<Rightarrow> ('w, error option) go" where
  "fm_remove f instance =
     tryM (fm_getNodeMachineID f (cr_TargetNode instance)) (\<lambda>err. ret (Some err)) (\<lambda>machineID.
     tryM (fm_getMachineInfo f machineID) (\<lambda>err. ret (Some err)) (\<lambda>machines.
     bindM (index machines 0) (\<lambda>machine.
     if \<not> (\<exists>resource \<in> set (gmi_Resources machine).
             fr_Type resource = crs_Type (cr_Spec instance) \<and> fr_ResourceUUID resource = cr_CDIDeviceID instance)
     then ret None
     else
       tryM (GetToken (fti_compositionServiceEndpoint f)) (\<lambda>err. ret (Some err)) (\<lambda>token.
       bindM (pureE (\<lambda>E. http_NewRequest E ''DELETE'' (fm_url f (fm_update_path machineID)))) (\<lambda>bad. case bad of
         Some err \<Rightarrow> ret (Some err)
       | None \<Rightarrow>
           tryM (send (fm_request f ''DELETE'' (fm_update_path machineID) (FM_ScaleDown (fm_scale_down f instance machineID)) token))
             (\<lambda>err. ret (Some err)) (\<lambda>response.
           if resp_StatusCode response \<noteq> 200 \<and> resp_StatusCode response \<noteq> 204 then
             (case resp_Body response of
                Inl err \<Rightarrow> ret (Some err)
              | Inr data \<Rightarrow>
                  bindM (fm_failure ''failed to unmarshal scaledown error response body into errBody.''
                           ''failed to process FM scaledown request.'' data) (\<lambda>err. ret (Some err)))
           else ret None))))))"

definition fm_RemoveResource :: "FTIClient \<Rightarrow> ('w, error option) go" where
  "fm_RemoveResource f = bindM (getM theResource) (fm_remove f)"

section \<open>CheckResource\<close>

text \<open>The health of the device found, and of the first one listed for the resource.\<close>

definition fm_health :: "ComposableResource \<Rightarrow> FM_Resource \<Rightarrow> ('w, error option) go" where
  "fm_health instance resource =
     bindM (first_byte (fr_OptionStatus resource)) (\<lambda>b.
     if b = ''0'' then ret None
     else if b = ''1'' then
       ret (Some (ErrorString (''the target gpu '' @ squote (cr_DeviceID instance) @ '' is showing a Warning status in FM'')))
     else if b = ''2'' then
       ret (Some (ErrorString (''the target gpu '' @ squote (cr_DeviceID instance) @ '' is showing a Critical status in FM'')))
     else
       ret (Some (ErrorString (''the target gpu '' @ squote (cr_DeviceID instance) @ '' has unknown status ''
              @ squote (fr_OptionStatus resource) @ '' in FM''))))"

definition fm_listed :: "ComposableResource \<Rightarrow> FM_Resource \<Rightarrow> bool" where
  "fm_listed instance resource \<longleftrightarrow>
     fr_Type resource = crs_Type (cr_Spec instance)
     \<and> (\<exists>condition \<in> set (fr_Condition resource). condition = model_condition (crs_Model (cr_Spec instance)))
     \<and> fr_SerialNum resource = cr_DeviceID instance"

definition fm_check :: "FTIClient \<Rightarrow> ComposableResource \<Rightarrow> ('w, error option) go" where
  "fm_check f instance =
     tryM (fm_getNodeMachineID f (cr_TargetNode instance)) (\<lambda>err. ret (Some err)) (\<lambda>machineID.
     tryM (fm_getMachineInfo f machineID) (\<lambda>err. ret (Some err)) (\<lambda>machines.
     bindM (index machines 0) (\<lambda>machine.
     case find (fm_listed instance) (gmi_Resources machine) of
       Some resource \<Rightarrow> fm_health instance resource
     | None \<Rightarrow> ret (Some (ErrorString (''the target device '' @ squote (cr_DeviceID instance)
                 @ '' cannot be found in CDI system''))))))"

definition fm_CheckResource :: "FTIClient \<Rightarrow> ('w, error option) go" where
  "fm_CheckResource f = bindM (getM theResource) (fm_check f)"

section \<open>GetResources\<close>

text \<open>The model column of a resource: the first condition on it.\<close>

definition fm_model :: "ConditionItem list \<Rightarrow> string" where
  "fm_model cs = (case find (\<lambda>c. ci_Column c = ''model'' \<and> ci_Operator c = ''eq'') cs of
      None \<Rightarrow> [] | Some c \<Rightarrow> ci_Value c)"

definition fm_device_info :: "string \<Rightarrow> string \<Rightarrow> FM_Resource \<Rightarrow> DeviceInfo" where
  "fm_device_info nodeName machineID resource =
     \<lparr>di_NodeName = nodeName, di_MachineUUID = machineID, di_DeviceType = fr_Type resource,
      di_Model = fm_model (fr_Condition resource), di_DeviceID = fr_SerialNum resource,
      di_CDIDeviceID = fr_ResourceUUID resource\<rparr>"

definition fm_GetResources :: "FTIClient \<Rightarrow> ('w, error + DeviceInfo list) go" where
  "fm_GetResources f =
     tryM (query (\<lambda>E. api_ListNodes E)) (\<lambda>err. ret (Inl err)) (\<lambda>nodes.
     bindM (forM nodes [] (\<lambda>node deviceInfoList.
        bindM (fm_getNodeMachineID f (node_Name node)) (\<lambda>r. case r of
          Inl err \<Rightarrow> ret (Next deviceInfoList)
        | Inr machineID \<Rightarrow>
            bindM (fm_getMachineInfo f machineID) (\<lambda>r. case r of
              Inl err \<Rightarrow> ret (Next deviceInfoList)
            | Inr machines \<Rightarrow>
                (case machines of
                   [] \<Rightarrow> ret (Next deviceInfoList)
                 | m # _ \<Rightarrow>
                     ret (Next (deviceInfoList @ map (fm_device_info (node_Name node) machineID)
                       (filter (\<lambda>resource. fr_Type resource = ''gpu'') (gmi_Resources m)))))))))
       (\<lambda>r. case r of Inl x \<Rightarrow> ret x | Inr deviceInfoList \<Rightarrow> ret (Inr deviceInfoList)))"

definition fm_provider :: "FTIClient \<Rightarrow> 'w CdiProvider" where
  "fm_provider f =
     \<lparr>AddResource = fm_AddResource f, RemoveResource = fm_RemoveResource f,
      CheckResource = fm_CheckResource f, GetResources = fm_GetResources f\<rparr>"

section \<open>The contract\<close>

lemma emits_fm_helpers [emits_intro]:
  "emits A fm_NewFTIClient" "emits A (fm_failure a b c)" "emits A (first_byte x)" "emits A (metal3_machine x node)"
  "emits A (fm_getNodeMachineID f n)" "emits A (fm_attached r d)" "emits A (fm_added_device r ms)" "emits A (fm_health r d)"
  unfolding fm_NewFTIClient_def fm_failure_def first_byte_def metal3_machine_def fm_getNodeMachineID_def
    fm_added_device_def fm_attached_def fm_health_def Let_def
  by (intro emits_intro; simp)+

lemma keeps_fm_helpers [keeps_intro]:
  assumes "untouched f"
  shows "keeps f (fm_failure a b c)" "keeps f (first_byte x)" "keeps f (metal3_machine y node)"
    "keeps f (fm_getNodeMachineID fti n)" "keeps f (fm_attached r d)" "keeps f (fm_added_device r ms)" "keeps f (fm_health r d)"
  unfolding fm_failure_def first_byte_def metal3_machine_def fm_getNodeMachineID_def
    fm_added_device_def fm_attached_def fm_health_def Let_def
  by (intro keeps_intro assms)+

lemma emits_fm_getMachineInfo [emits_intro]:
  assumes "\<And>h. reads_only h \<Longrightarrow> A (EvHttp h)"
  shows "emits A (fm_getMachineInfo f m)"
  unfolding fm_getMachineInfo_def
  by (intro emits_intro; rule assms; simp add: reads_only_def token_request_def fm_request_def)

lemma keeps_fm_getMachineInfo [keeps_intro]:
  assumes "untouched f" "\<And>h. ignores f (EvHttp h)" "\<And>s t. f (s\<lparr>cachedToken := t\<rparr>) = f s"
  shows "keeps f (fm_getMachineInfo fti m)"
  unfolding fm_getMachineInfo_def by (intro keeps_intro assms)

text \<open>Every request an operation sends besides the reading ones.\<close>

definition fm_scale_up_request :: "FTIClient \<Rightarrow> ComposableResource \<Rightarrow> http_request \<Rightarrow> bool" where
  "fm_scale_up_request f instance h \<longleftrightarrow>
     (\<exists>machineID token. h = fm_request f ''PATCH'' (fm_update_path machineID) (FM_ScaleUp (fm_scale_up f instance machineID)) token)"

definition fm_scale_down_request :: "FTIClient \<Rightarrow> ComposableResource \<Rightarrow> http_request \<Rightarrow> bool" where
  "fm_scale_down_request f instance h \<longleftrightarrow>
     (\<exists>machineID token. h = fm_request f ''DELETE'' (fm_update_path machineID) (FM_ScaleDown (fm_scale_down f instance machineID)) token)"

lemma emits_fm_add: "emits (http_only (\<lambda>h. reads_only h \<or> fm_scale_up_request f r h)) (fm_add f r)"
  unfolding fm_add_def fm_scaled_up_def by (intro emits_intro; auto simp: fm_scale_up_request_def)

lemma emits_fm_remove: "emits (http_only (\<lambda>h. reads_only h \<or> fm_scale_down_request f r h)) (fm_remove f r)"
  unfolding fm_remove_def by (intro emits_intro; auto simp: fm_scale_down_request_def)

lemma emits_fm_check: "emits (http_only reads_only) (fm_check f r)"
  unfolding fm_check_def by (intro emits_intro; simp)

lemma emits_fm_GetResources: "emits (http_only reads_only) (fm_GetResources f)"
  unfolding fm_GetResources_def by (intro emits_intro; simp)

lemma keeps_fm_operations:
  assumes "untouched g" "\<And>h. ignores g (EvHttp h)" "\<And>s t. g (s\<lparr>cachedToken := t\<rparr>) = g s"
  shows "keeps g (fm_AddResource f)" "keeps g (fm_RemoveResource f)" "keeps g (fm_CheckResource f)" "keeps g (fm_GetResources f)"
  unfolding fm_AddResource_def fm_RemoveResource_def fm_CheckResource_def fm_GetResources_def
    fm_add_def fm_scaled_up_def fm_remove_def fm_check_def
  by (intro keeps_intro assms)+

lemma http_only_removal: "http_only (\<lambda>h. reads_only h \<or> detaches h) ev \<Longrightarrow> removal_event ev"
  by (cases ev) auto

interpretation fm: cdi_provider "fm_provider f :: 'w CdiProvider" for f
proof unfold_locales
  let ?P = "fm_provider f :: 'w CdiProvider"
  have up: "attaches h" if "fm_scale_up_request f r h" for r h
    using that by (auto simp: fm_scale_up_request_def fm_request_def attaches_def)
  have down: "detaches h" if "fm_scale_down_request f r h" for r h
    using that by (auto simp: fm_scale_down_request_def fm_request_def detaches_def)
  show "emits (http_only (\<lambda>h. reads_only h \<or> attaches h \<or> names_nothing h)) (AddResource ?P)"
    unfolding fm_provider_def fm_AddResource_def CdiProvider.simps
    by (intro emits_intro emits_http_mono [OF emits_fm_add]) (use up in blast)
  have "emits (http_only (\<lambda>h. reads_only h \<or> detaches h)) (RemoveResource ?P)"
    unfolding fm_provider_def fm_RemoveResource_def CdiProvider.simps
    by (intro emits_intro emits_http_mono [OF emits_fm_remove]) (use down in blast)
  then show "emits removal_event (RemoveResource ?P)"
    by (rule emits_mono) (rule http_only_removal)
  show "emits (http_only reads_only) (CheckResource ?P)" "emits (http_only reads_only) (GetResources ?P)"
    by (simp_all add: fm_provider_def fm_CheckResource_def emits_fm_GetResources emits_rules emits_fm_check)
  show "keeps rview (AddResource ?P)" "keeps rview (CheckResource ?P)" "keeps rview (GetResources ?P)"
    by (simp_all add: fm_provider_def keeps_fm_operations)
  have "keeps rview (RemoveResource ?P)"
    by (simp add: fm_provider_def keeps_fm_operations)
  then show "wpv status_echo rview (RemoveResource ?P) (\<lambda>_. only_error v) (only_error v) v" for v
    by (rule keeps_only_error)
qed

section \<open>What is attached and detached\<close>

lemma fm_added_device_run:
  assumes "fm_added_device r machines E s = (Ret (deviceID, CDIDeviceID, None), s')"
  obtains m ms d ds where "machines = m # ms" "srm_Resources m = d # ds"
    "fr_Type d = crs_Type (cr_Spec r)" "model_condition (crs_Model (cr_Spec r)) \<in> set (fr_Condition d)"
    "take 1 (fr_OptionStatus d) \<in> {''0'', ''1''}"
    "deviceID = fr_SerialNum d" "CDIDeviceID = fr_ResourceUUID d" "s' = s"
  using assms
  by (auto simp: fm_added_device_def fm_attached_def first_byte_def Let_def bindM_def run_ret panic_def
      split: list.splits if_splits)

text \<open>The request that asks for one device of the given type and model, for one machine.\<close>

definition one_device :: "FTIClient \<Rightarrow> ComposableResource \<Rightarrow> string \<Rightarrow> http_request \<Rightarrow> bool" where
  "one_device f r machineID h \<longleftrightarrow>
     req_Method h = ''PATCH''
     \<and> req_URL h = ''https://'' @ fti_compositionServiceEndpoint f @ ''fabric_manager/api/v1/machines/'' @ machineID @ ''/update''
     \<and> req_Query h = [(''tenant_uuid'', fti_tenantID f)]
     \<and> req_Body h = FM_ScaleUp \<lparr>sub_TenantUUID = fti_tenantID f,
         sub_Machines = [\<lparr>sum_MachineUUID = machineID,
           sum_Resources = [[\<lparr>sur_Type = crs_Type (cr_Spec r),
             sur_Condition = [\<lparr>ci_Column = ''model'', ci_Operator = ''eq'', ci_Value = crs_Model (cr_Spec r)\<rparr>],
             sur_Num = 1\<rparr>]]\<rparr>]\<rparr>"

text \<open>The answer to the request: code 200, and the device is the first resource of its first
  machine, of the type and model asked for and in state normal or warning.\<close>

definition answered :: "'w env \<Rightarrow> ComposableResource \<Rightarrow> http_response \<Rightarrow> string \<Rightarrow> string \<Rightarrow> bool" where
  "answered E r response deviceID CDIDeviceID \<longleftrightarrow>
     (\<exists>data m ms d ds. resp_StatusCode response = 200 \<and> resp_Body response = Inr data
        \<and> json_FM_ScaleUpResponse E data = Inr (m # ms) \<and> srm_Resources m = d # ds
        \<and> fr_Type d = crs_Type (cr_Spec r)
        \<and> \<lparr>ci_Column = ''model'', ci_Operator = ''eq'', ci_Value = crs_Model (cr_Spec r)\<rparr> \<in> set (fr_Condition d)
        \<and> take 1 (fr_OptionStatus d) \<in> {''0'', ''1''}
        \<and> fr_SerialNum d = deviceID \<and> fr_ResourceUUID d = CDIDeviceID)"

lemma fm_scaled_up_answered:
  assumes "fm_scaled_up r response E s = (Ret (deviceID, CDIDeviceID, None), s')"
  shows "answered E r response deviceID CDIDeviceID" "s' = s"
proof -
  note rest = assms [unfolded fm_scaled_up_def]
  obtain data where data: "resp_Body response = Inr data" using rest by (cases "resp_Body response") (simp_all add: run_ret)
  have code: "resp_StatusCode response = 200"
    using rest by (rule_tac ccontr) (auto simp: data run_ret elim!: bindM_RetE)
  obtain machines where json: "json_FM_ScaleUpResponse E data = Inr machines"
    using rest by (cases "json_FM_ScaleUpResponse E data") (simp_all add: data code pureE_def bindM_def run_ret)
  have "fm_added_device r machines E s = (Ret (deviceID, CDIDeviceID, None), s')"
    using rest by (simp add: data code json pureE_def bindM_def)
  then obtain m ms d ds where d: "machines = m # ms" "srm_Resources m = d # ds"
    "fr_Type d = crs_Type (cr_Spec r)" "model_condition (crs_Model (cr_Spec r)) \<in> set (fr_Condition d)"
    "take 1 (fr_OptionStatus d) \<in> {''0'', ''1''}"
    "deviceID = fr_SerialNum d" "CDIDeviceID = fr_ResourceUUID d" "s' = s"
    by (rule fm_added_device_run)
  from d data code json show "answered E r response deviceID CDIDeviceID" by (auto simp: answered_def model_condition_def)
  show "s' = s" by (rule d(8))
qed

text \<open>
  C32.  Attaching through the fabric manager.  When \<^verbatim>\<open>AddResource\<close> hands out a device, its last request
  asked for one device of the type and model of the resource's spec, for the machine found for the
  target node; the answer it received had code 200 and its first machine's first resource has that
  type and model and is in state normal or warning; and the identifiers handed out are this
  resource's serial number and UUID.
\<close>

theorem fm_AddResource_sound:
  assumes "fm_AddResource f E s = (Ret (deviceID, CDIDeviceID, None), s')"
  shows "\<exists>machineID s1 tr h w response.
     fm_getNodeMachineID f (cr_TargetNode (theResource s)) E s = (Ret (Inr machineID), s1)
     \<and> trace s' = tr @ [EvHttp h] \<and> one_device f (theResource s) machineID h
     \<and> http_Do E h w = (Inr response, world s')
     \<and> answered E (theResource s) response deviceID CDIDeviceID"
proof -
  let ?r = "theResource s"
  let ?send = "\<lambda>machineID token. send (fm_request f ''PATCH'' (fm_update_path machineID) (FM_ScaleUp (fm_scale_up f ?r machineID)) token)"
  have add: "fm_add f ?r E s = (Ret (deviceID, CDIDeviceID, None), s')"
    using assms by (simp add: fm_AddResource_def)
  obtain machineID s1 where m: "fm_getNodeMachineID f (cr_TargetNode ?r) E s = (Ret (Inr machineID), s1)"
    using add unfolding fm_add_def by (elim tryM_RetE) (auto simp: run_ret)
  obtain token s2 where tok: "GetToken (fti_compositionServiceEndpoint f) E s1 = (Ret (Inr token), s2)"
    using add unfolding fm_add_def run_tryM(2) [where m = "fm_getNodeMachineID _ _", OF m]
    by (elim tryM_RetE) (auto simp: run_ret)
  have new: "http_NewRequest E ''PATCH'' (fm_url f (fm_update_path machineID)) = None"
    using add unfolding fm_add_def run_tryM(2) [where m = "fm_getNodeMachineID _ _", OF m]
      run_tryM(2) [where m = "GetToken _", OF tok]
    by (cases "http_NewRequest E ''PATCH'' (fm_url f (fm_update_path machineID))") (simp_all add: pureE_def bindM_def run_ret)
  obtain response s3 where snd: "?send machineID token E s2 = (Ret (Inr response), s3)"
    using add unfolding fm_add_def run_tryM(2) [where m = "fm_getNodeMachineID _ _", OF m]
      run_tryM(2) [where m = "GetToken _", OF tok]
    by (simp add: pureE_def run_bindM new) (elim tryM_RetE; simp add: run_ret)
  have "fm_scaled_up ?r response E s3 = (Ret (deviceID, CDIDeviceID, None), s')"
    using add unfolding fm_add_def run_tryM(2) [where m = "fm_getNodeMachineID _ _", OF m]
      run_tryM(2) [where m = "GetToken _", OF tok]
    by (simp add: pureE_def run_bindM new run_tryM(2) [where m = "?send machineID token", OF snd])
  note answer = fm_scaled_up_answered [OF this]
  let ?h = "fm_request f ''PATCH'' (fm_update_path machineID) (FM_ScaleUp (fm_scale_up f ?r machineID)) token"
  have "one_device f ?r machineID ?h"
    by (simp add: one_device_def fm_request_def fm_update_path_def fm_scale_up_def model_condition_def)
  moreover have "trace s3 = trace s2 @ [EvHttp ?h]" "http_Do E ?h (world s2) = (Inr response, world s3)"
    using snd by (auto simp: send_def effect_def split: prod.splits)
  ultimately show ?thesis using m answer by blast
qed

definition demo_resource :: ComposableResource where
  "demo_resource = \<lparr>cr_Meta = empty_meta\<lparr>om_Name := ''gpu-1''\<rparr>,
     cr_Spec = \<lparr>crs_Type = ''gpu'', crs_Model = ''A100'', crs_TargetNode = ''n1'', crs_ForceDetach = False\<rparr>,
     cr_Status = \<lparr>crst_State = ''Attaching'', crst_Error = [], crst_DeviceID = [], crst_CDIDeviceID = []\<rparr>\<rparr>"

definition demo_fm_device :: FM_Resource where
  "demo_fm_device = \<lparr>fr_ResourceUUID = ''res-1'', fr_ResourceName = ''g'', fr_Type = ''gpu'', fr_Status = 0,
     fr_OptionStatus = ''00'', fr_SerialNum = ''GPU-a'', fr_Condition = [model_condition ''A100'']\<rparr>"

definition demo_fm_machine :: ScaleUpResponseMachineItem where
  "demo_fm_machine = \<lparr>srm_FabricUUID = [], srm_FabricID = 0, srm_MachineUUID = ''m1'', srm_MachineID = 0,
     srm_MachineName = [], srm_TenantUUID = [], srm_Resources = [demo_fm_device]\<rparr>"

text \<open>A fabric manager that hands out one GPU, to a client that holds a valid token.\<close>

definition demo_fm_env :: "unit env" where
  "demo_fm_env = void_env\<lparr>
     api_GetNode := (\<lambda>n w. (Inr \<lparr>node_Name = n, node_Annotations = (\<lambda>_. None), node_ProviderID = ''fsas-cdi://m1'',
        node_Capacity = (\<lambda>_. None)\<rparr>, w)),
     http_Do := (\<lambda>_ w. (Inr \<lparr>resp_StatusCode = 200, resp_Body = Inr ''{}''\<rparr>, w)),
     json_FM_ScaleUpResponse := (\<lambda>_. Inr [demo_fm_machine])\<rparr>"

definition demo_fm_client :: FTIClient where
  "demo_fm_client = \<lparr>fti_compositionServiceEndpoint = ''cdi/'', fti_tenantID = ''t'', fti_clusterID = []\<rparr>"

definition demo_fm_state :: "unit sys" where
  "demo_fm_state = (start ())\<lparr>theResource := demo_resource, cachedToken := Some demo_token\<rparr>"

theorem fm_AddResource_sound_witness:
  "fst (fm_AddResource demo_fm_client demo_fm_env demo_fm_state) = Ret (''GPU-a'', ''res-1'', None)
   \<and> (\<exists>tr h response. trace (snd (fm_AddResource demo_fm_client demo_fm_env demo_fm_state)) = tr @ [EvHttp h]
        \<and> (\<exists>machineID. one_device demo_fm_client demo_resource machineID h)
        \<and> answered demo_fm_env demo_resource response ''GPU-a'' ''res-1'')"
proof -
  obtain s' where run: "fm_AddResource demo_fm_client demo_fm_env demo_fm_state = (Ret (''GPU-a'', ''res-1'', None), s')"
    by (simp add: fm_AddResource_def fm_add_def fm_scaled_up_def fm_getNodeMachineID_def strings_CutPrefix_def strings_HasPrefix_def
        GetToken_def still_valid_def leeway_def second_def demo_fm_client_def demo_fm_state_def demo_token_def
        demo_fm_env_def void_env_def start_def send_def demo_resource_def demo_fm_machine_def demo_fm_device_def
        fm_added_device_def fm_attached_def first_byte_def model_condition_def time_Now_def prog_eval Let_def cong: prog_cong)
  have "theResource demo_fm_state = demo_resource" by (simp add: demo_fm_state_def)
  with fm_AddResource_sound [OF run] run show ?thesis by (metis fst_conv snd_conv)
qed

text \<open>
  C31.  Detaching through the fabric manager: every request sent either only reads, or asks to remove
  exactly one device, the one recorded in the resource's status, from one machine; so no other
  device is ever detached on behalf of a resource.
\<close>

theorem fm_RemoveResource_only_own_device:
  "\<exists>evs. trace (snd (fm_RemoveResource f E s)) = trace s @ evs \<and>
     list_all (http_only (\<lambda>h. reads_only h \<or>
        (\<exists>machineID. req_Body h = FM_ScaleDown \<lparr>sdb_TenantUUID = fti_tenantID f,
           sdb_Machines = [\<lparr>sdm_MachineUUID = machineID,
             sdm_Resources = [[\<lparr>sdr_Type = crs_Type (cr_Spec (theResource s)),
                sdr_ResourceUUID = cr_CDIDeviceID (theResource s), sdr_Num = 1\<rparr>]]\<rparr>]\<rparr>))) evs"
proof -
  have "fm_RemoveResource f E s = fm_remove f (theResource s) E s"
    by (simp add: fm_RemoveResource_def)
  moreover have "emits (http_only (\<lambda>h. reads_only h \<or>
        (\<exists>machineID. req_Body h = FM_ScaleDown \<lparr>sdb_TenantUUID = fti_tenantID f,
           sdb_Machines = [\<lparr>sdm_MachineUUID = machineID,
             sdm_Resources = [[\<lparr>sdr_Type = crs_Type (cr_Spec (theResource s)),
                sdr_ResourceUUID = cr_CDIDeviceID (theResource s), sdr_Num = 1\<rparr>]]\<rparr>]\<rparr>))) (fm_remove f (theResource s))"
    by (rule emits_http_mono [OF emits_fm_remove])
       (auto simp: fm_scale_down_request_def fm_request_def fm_scale_down_def)
  ultimately show ?thesis
    by (metis (no_types, lifting) emits_trace)
qed

end
