(* ===== verification/FtiCM.thy ===== *)
theory FtiCM
  imports FtiFM
begin

text \<open>
  The cluster manager client, \<^verbatim>\<open>src/internal/cdi/fti/cm/client.go\<close>, and its interpretation as
  a CDI provider.  The cluster manager only changes device counts: to attach, the client first looks
  for a device of a matching resource spec that no ComposableResource has, and asks for one more only
  if there is none.  The lemmas show that a device handed out is unused and complete, that a detach
  request names the resource's own device, and what is requested while a device is being attached.
\<close>

definition addComplete :: string where "addComplete = ''ADD_COMPLETE''"
definition addFailed :: string where "addFailed = ''ADD_FAILED''"
definition removeFailed :: string where "removeFailed = ''REMOVE_FAILED''"

definition cm_NewFTIClient :: "('w, FTIClient) go" where
  "cm_NewFTIClient =
     bindM (Getenv ''FTI_CDI_ENDPOINT'') (\<lambda>endpoint.
     bindM (Getenv ''FTI_CDI_TENANT_ID'') (\<lambda>tenantID.
     bindM (Getenv ''FTI_CDI_CLUSTER_ID'') (\<lambda>clusterID.
     let endpoint = (if \<not> strings_HasSuffix endpoint ''/'' then endpoint @ ''/'' else endpoint) in
     thenM (modifyM (\<lambda>s. s\<lparr>cachedToken := None\<rparr>))
     (ret \<lparr>fti_compositionServiceEndpoint = endpoint, fti_tenantID = tenantID, fti_clusterID = clusterID\<rparr>))))"

section \<open>Choosing a device\<close>

fun isSpecMatch_conditions :: "ConditionItem list \<Rightarrow> string \<Rightarrow> bool" where
  "isSpecMatch_conditions [] model = False"
| "isSpecMatch_conditions (condition # rest) model =
     (if ci_Column condition = ''model'' \<and> ci_Operator condition = ''eq'' \<and> ci_Value condition = model
      then True else isSpecMatch_conditions rest model)"

definition isSpecMatch :: "CM_ResourceSpec \<Rightarrow> ComposableResource \<Rightarrow> bool" where
  "isSpecMatch resourceSpec instance =
     (if rsp_Type resourceSpec \<noteq> crs_Type (cr_Spec instance) then False
      else isSpecMatch_conditions (rsp_Conditions resourceSpec) (crs_Model (cr_Spec instance)))"

definition findAvailableDevice :: "CM_ResourceSpec \<Rightarrow> (string \<Rightarrow> bool) \<Rightarrow> CM_Device option" where
  "findAvailableDevice resourceSpec existingDevices =
     find (\<lambda>device. \<not> existingDevices (cmd_DeviceUUID device)) (rsp_Devices resourceSpec)"

definition existing_devices :: "ComposableResource list \<Rightarrow> string \<Rightarrow> bool" where
  "existing_devices items u \<longleftrightarrow> (\<exists>resource \<in> set items. cr_DeviceID resource = u)"

fun checkAdding_specs :: "CM_ResourceSpec list \<Rightarrow> (string \<Rightarrow> bool) \<Rightarrow> ComposableResource
    \<Rightarrow> string \<times> int \<times> string \<times> string \<times> error option" where
  "checkAdding_specs [] existingDevices instance = ([], 0, [], [], None)"
| "checkAdding_specs (resourceSpec # rest) existingDevices instance =
     (if \<not> isSpecMatch resourceSpec instance then checkAdding_specs rest existingDevices instance
      else
        (let continue = (rsp_SpecUUID resourceSpec, rsp_DeviceCount resourceSpec, [], [], None) in
         case findAvailableDevice resourceSpec existingDevices of
           Some unusedDevice \<Rightarrow>
             if cmd_Status unusedDevice = addComplete then
               ([], 0, cmd_DeviceUUID unusedDevice, dd_ResourceUUID (cmd_Detail unusedDevice), None)
             else if cmd_Status unusedDevice = addFailed then
               ([], 0, cmd_DeviceUUID unusedDevice, dd_ResourceUUID (cmd_Detail unusedDevice),
                Some (ErrorString (''an error occurred with the resource in CM: '' @ squote (cmd_StatusReason unusedDevice))))
             else continue
         | None \<Rightarrow> continue))"

definition checkAddingResources :: "CM_Machine \<Rightarrow> ComposableResource list \<Rightarrow> ComposableResource
    \<Rightarrow> string \<times> int \<times> string \<times> string \<times> error option" where
  "checkAddingResources machine composableResourceList instance =
     checkAdding_specs (mch_ResourceSpecs machine) (existing_devices composableResourceList) instance"

fun checkRemoving_specs :: "CM_ResourceSpec list \<Rightarrow> ComposableResource \<Rightarrow> string \<times> int \<times> error option" where
  "checkRemoving_specs [] instance = ([], 0, None)"
| "checkRemoving_specs (resourceSpec # rest) instance =
     (if \<not> isSpecMatch resourceSpec instance then checkRemoving_specs rest instance
      else
        (case find (\<lambda>device. cmd_DeviceUUID device = cr_DeviceID instance) (rsp_Devices resourceSpec) of
           Some device \<Rightarrow>
             (rsp_SpecUUID resourceSpec, rsp_DeviceCount resourceSpec,
              if cmd_Status device = removeFailed then Some (ErrorString (cmd_StatusReason device)) else None)
         | None \<Rightarrow> ([], 0, None)))"

definition checkRemovingResources :: "CM_Machine \<Rightarrow> ComposableResource \<Rightarrow> string \<times> int \<times> error option" where
  "checkRemovingResources machine instance = checkRemoving_specs (mch_ResourceSpecs machine) instance"

section \<open>Requests\<close>

definition cm_getNodeMachineID :: "string \<Rightarrow> ('w, error + string) go" where
  "cm_getNodeMachineID nodeName =
     tryM (query (\<lambda>E. api_GetNode E nodeName)) (\<lambda>err. ret (Inl err)) (\<lambda>node. metal3_machine (node_Name node) node)"

definition cm_machine_url :: "FTIClient \<Rightarrow> string \<Rightarrow> string" where
  "cm_machine_url f machineID =
     ''https://'' @ fti_compositionServiceEndpoint f @ ''cluster_manager/cluster_autoscaler/v3/tenants/'' @ fti_tenantID f
       @ ''/clusters/'' @ fti_clusterID f @ ''/machines/'' @ machineID"

definition cm_resize_url :: "FTIClient \<Rightarrow> string \<Rightarrow> string" where
  "cm_resize_url f machineID = cm_machine_url f machineID @ ''/actions/resize''"

definition cm_request :: "string \<Rightarrow> string \<Rightarrow> http_body \<Rightarrow> oauth2Token \<Rightarrow> http_request" where
  "cm_request meth url body token =
     \<lparr>req_Method = meth, req_URL = url, req_Query = [], req_Body = body, req_Token = Some token\<rparr>"

text \<open>The error for an answer with another status than 200; \<open>q\<close> quotes the fields of the message.\<close>

definition cm_failure :: "(string \<Rightarrow> string) \<Rightarrow> string \<Rightarrow> string \<Rightarrow> string \<Rightarrow> ('w, error) go" where
  "cm_failure q unmarshal process body =
     bindM (pureE (\<lambda>E. json_CM_ErrorBody E body)) (\<lambda>r. case r of
       Inl err \<Rightarrow> ret (WrapError (unmarshal @ '' Original error: '' @ err_Error err) err)
     | Inr errBody \<Rightarrow>
         ret (ErrorString (process @ '' http returned status: '' @ q (fmt_d (ceb_Status errBody)) @ '', cm return code: ''
           @ q (ceb_Code errBody) @ '', error message: '' @ q (ceb_Message errBody))))"

definition cm_getMachineInfo :: "FTIClient \<Rightarrow> string \<Rightarrow> ('w, error + CM_Machine) go" where
  "cm_getMachineInfo f machineID =
     tryM (GetToken (fti_compositionServiceEndpoint f)) (\<lambda>err. ret (Inl err)) (\<lambda>token.
     bindM (pureE (\<lambda>E. http_NewRequest E ''GET'' (cm_machine_url f machineID))) (\<lambda>bad. case bad of
       Some err \<Rightarrow> ret (Inl err)
     | None \<Rightarrow>
         tryM (send (cm_request ''GET'' (cm_machine_url f machineID) NoBody token)) (\<lambda>err. ret (Inl err)) (\<lambda>response.
         case resp_Body response of
           Inl err \<Rightarrow> ret (Inl err)
         | Inr body \<Rightarrow>
             if resp_StatusCode response \<noteq> 200 then
               bindM (cm_failure squote ''failed to unmarshal CM get error response body into errBody.''
                        ''failed to process CM get request.'' body) (\<lambda>err. ret (Inl err))
             else
               bindM (pureE (\<lambda>E. json_CM_MachineData E body)) (\<lambda>r. case r of
                 Inl err \<Rightarrow> ret (Inl (WrapError (''failed to unmarshal CM get machine response body into machineData: ''
                               @ err_Error err) err))
               | Inr machine \<Rightarrow> ret (Inr machine)))))"

section \<open>AddResource\<close>

definition cm_scale_up :: "FTIClient \<Rightarrow> string \<Rightarrow> string \<Rightarrow> int \<Rightarrow> ('w, string \<times> string \<times> error option) go" where
  "cm_scale_up f machineUUID specUUID deviceCount =
     (let body = CM_ScaleUp \<lparr>sut_SpecUUID = specUUID, sut_DeviceCount = int64_wrap (deviceCount + 1)\<rparr>;
          url = cm_resize_url f machineUUID
      in bindM (pureE (\<lambda>E. http_NewRequest E ''POST'' url)) (\<lambda>bad. case bad of
           Some err \<Rightarrow> ret ([], [], Some err)
         | None \<Rightarrow>
             tryM (GetToken (fti_compositionServiceEndpoint f)) (\<lambda>err. ret ([], [], Some err)) (\<lambda>token.
             tryM (send (cm_request ''POST'' url body token)) (\<lambda>err. ret ([], [], Some err)) (\<lambda>response.
             case resp_Body response of
               Inl err \<Rightarrow> ret ([], [], Some err)
             | Inr body \<Rightarrow>
                 if resp_StatusCode response \<noteq> 200 then
                   bindM (cm_failure squote ''failed to unmarshal CM scaleup error response body into errBody.''
                            ''failed to process CM scaleup request.'' body) (\<lambda>err. ret ([], [], Some err))
                 else ret ([], [], Some ErrWaitingDeviceAttaching)))))"

definition cm_take_or_scale :: "FTIClient \<Rightarrow> string \<Rightarrow> string \<times> int \<times> string \<times> string \<times> error option
    \<Rightarrow> ('w, string \<times> string \<times> error option) go" where
  "cm_take_or_scale f machineUUID found =
     (case found of
        (matchingSpecUUID, matchingSpecDeviceCount, unusedDeviceUUID, unusedResourceUUID, unusedDeviceErrorMessage) \<Rightarrow>
          if unusedDeviceUUID \<noteq> [] then ret (unusedDeviceUUID, unusedResourceUUID, unusedDeviceErrorMessage)
          else cm_scale_up f machineUUID matchingSpecUUID matchingSpecDeviceCount)"

definition cm_add :: "FTIClient \<Rightarrow> ComposableResource \<Rightarrow> ('w, string \<times> string \<times> error option) go" where
  "cm_add f instance =
     tryM (cm_getNodeMachineID (cr_TargetNode instance)) (\<lambda>err. ret ([], [], Some err)) (\<lambda>machineUUID.
     tryM (cm_getMachineInfo f machineUUID) (\<lambda>err. ret ([], [], Some err)) (\<lambda>machineData.
     tryM (query (\<lambda>E. api_ListResources E None)) (\<lambda>err. ret ([], [], Some err)) (\<lambda>composableResourceList.
     cm_take_or_scale f machineUUID (checkAddingResources machineData composableResourceList instance))))"

definition cm_AddResource :: "FTIClient \<Rightarrow> ('w, string \<times> string \<times> error option) go" where
  "cm_AddResource f = bindM (getM theResource) (cm_add f)"

section \<open>RemoveResource\<close>

definition cm_scale_down :: "FTIClient \<Rightarrow> string \<Rightarrow> string \<Rightarrow> int \<Rightarrow> ('w, error option) go" where
  "cm_scale_down f machineID specUUID deviceCount =
     bindM (getM theResource) (\<lambda>instance.
     let body = CM_ScaleDown \<lparr>sdt_SpecUUID = specUUID, sdt_DeviceCount = int64_wrap (deviceCount - 1),
                  sdt_Devices = [cr_DeviceID instance]\<rparr>;
         url = cm_resize_url f machineID
     in bindM (pureE (\<lambda>E. http_NewRequest E ''POST'' url)) (\<lambda>bad. case bad of
          Some err \<Rightarrow> ret (Some err)
        | None \<Rightarrow>
            tryM (GetToken (fti_compositionServiceEndpoint f)) (\<lambda>err. ret (Some err)) (\<lambda>token.
            tryM (send (cm_request ''POST'' url body token)) (\<lambda>err. ret (Some err)) (\<lambda>response.
            case resp_Body response of
              Inl err \<Rightarrow> ret (Some err)
            | Inr body \<Rightarrow>
                if resp_StatusCode response \<noteq> 200 then
                  bindM (cm_failure (\<lambda>x. x) ''failed to unmarshal CM scaledown error response body into errBody.''
                           ''failed to process CM scaledown request.'' body) (\<lambda>err. ret (Some err))
                else ret (Some ErrWaitingDeviceDetaching)))))"

text \<open>The error of a failed removal is written into the object's status before the next attempt.\<close>

definition cm_note_error :: "error option \<Rightarrow> ('w, error option) go" where
  "cm_note_error err =
     (case err of
        None \<Rightarrow> ret None
      | Some e \<Rightarrow>
          thenM (upd_resource (\<lambda>r. r\<lparr>cr_Status := (cr_Status r)\<lparr>crst_Error := err_Error e\<rparr>\<rparr>)) Status_Update_Resource)"

definition cm_RemoveResource :: "FTIClient \<Rightarrow> ('w, error option) go" where
  "cm_RemoveResource f =
     bindM (getM theResource) (\<lambda>instance.
     tryM (cm_getNodeMachineID (cr_TargetNode instance)) (\<lambda>err. ret (Some err)) (\<lambda>machineID.
     tryM (cm_getMachineInfo f machineID) (\<lambda>err. ret (Some err)) (\<lambda>machineData.
     case checkRemovingResources machineData instance of (specUUID, deviceCount, err) \<Rightarrow>
       checkM (cm_note_error err) (\<lambda>e. ret (Some e))
       (if specUUID = [] then ret None else cm_scale_down f machineID specUUID deviceCount))))"

section \<open>CheckResource\<close>

definition cm_health :: "ComposableResource \<Rightarrow> CM_Device \<Rightarrow> ('w, error option) go" where
  "cm_health instance device =
     bindM (first_byte (dd_ResourceOPStatus (cmd_Detail device))) (\<lambda>b.
     if b = ''0'' then ret None
     else if b = ''1'' then
       ret (Some (ErrorString (''the target gpu '' @ squote (cr_DeviceID instance) @ '' is showing a Warning status in CM'')))
     else if b = ''2'' then
       ret (Some (ErrorString (''the target gpu '' @ squote (cr_DeviceID instance) @ '' is showing a Critical status in CM'')))
     else
       ret (Some (ErrorString (''the target gpu '' @ squote (cr_DeviceID instance) @ '' has unknown status ''
              @ squote (dd_ResourceOPStatus (cmd_Detail device)) @ '' in CM''))))"

text \<open>The devices the nested loops look at, in their order: those of the matching specs.\<close>

definition cm_candidates :: "ComposableResource \<Rightarrow> CM_Machine \<Rightarrow> CM_Device list" where
  "cm_candidates instance machine =
     concat (map rsp_Devices (filter (\<lambda>spec. isSpecMatch spec instance) (mch_ResourceSpecs machine)))"

definition cm_check :: "FTIClient \<Rightarrow> ComposableResource \<Rightarrow> ('w, error option) go" where
  "cm_check f instance =
     tryM (cm_getNodeMachineID (cr_TargetNode instance)) (\<lambda>err. ret (Some err)) (\<lambda>machineID.
     tryM (cm_getMachineInfo f machineID) (\<lambda>err. ret (Some err)) (\<lambda>machineData.
     case find (\<lambda>device. cmd_DeviceUUID device = cr_DeviceID instance) (cm_candidates instance machineData) of
       Some device \<Rightarrow> cm_health instance device
     | None \<Rightarrow> ret (Some (ErrorString (''the target device '' @ squote (cr_DeviceID instance)
                 @ '' cannot be found in CDI system'')))))"

definition cm_CheckResource :: "FTIClient \<Rightarrow> ('w, error option) go" where
  "cm_CheckResource f = bindM (getM theResource) (cm_check f)"

section \<open>GetResources\<close>

definition cm_device_info :: "string \<Rightarrow> string \<Rightarrow> CM_ResourceSpec \<Rightarrow> CM_Device \<Rightarrow> DeviceInfo" where
  "cm_device_info nodeName machineID resourceSpec device =
     \<lparr>di_NodeName = nodeName, di_MachineUUID = machineID, di_DeviceType = rsp_Type resourceSpec, di_Model = [],
      di_DeviceID = cmd_DeviceUUID device, di_CDIDeviceID = dd_ResourceUUID (cmd_Detail device)\<rparr>"

definition cm_machine_devices :: "string \<Rightarrow> string \<Rightarrow> CM_Machine \<Rightarrow> DeviceInfo list" where
  "cm_machine_devices nodeName machineID machine =
     concat (map (\<lambda>spec. map (cm_device_info nodeName machineID spec) (rsp_Devices spec))
       (filter (\<lambda>spec. rsp_Type spec = ''gpu'') (mch_ResourceSpecs machine)))"

definition cm_GetResources :: "FTIClient \<Rightarrow> ('w, error + DeviceInfo list) go" where
  "cm_GetResources f =
     tryM (query (\<lambda>E. api_ListNodes E)) (\<lambda>err. ret (Inl err)) (\<lambda>nodes.
     bindM (forM nodes [] (\<lambda>node deviceInfoList.
        tryM (cm_getNodeMachineID (node_Name node)) (\<lambda>err. ret (Return (Inl err))) (\<lambda>machineID.
        tryM (cm_getMachineInfo f machineID) (\<lambda>err. ret (Return (Inl err))) (\<lambda>machineData.
        ret (Next (deviceInfoList @ cm_machine_devices (node_Name node) machineID machineData))))))
       (\<lambda>r. case r of Inl x \<Rightarrow> ret x | Inr deviceInfoList \<Rightarrow> ret (Inr deviceInfoList)))"

definition cm_provider :: "FTIClient \<Rightarrow> 'w CdiProvider" where
  "cm_provider f =
     \<lparr>AddResource = cm_AddResource f, RemoveResource = cm_RemoveResource f,
      CheckResource = cm_CheckResource f, GetResources = cm_GetResources f\<rparr>"

section \<open>The contract\<close>

lemma emits_cm_helpers [emits_intro]:
  "emits A cm_NewFTIClient" "emits A (cm_failure q a b c)" "emits A (cm_getNodeMachineID n)" "emits A (cm_health r d)"
  unfolding cm_NewFTIClient_def cm_failure_def cm_getNodeMachineID_def cm_health_def Let_def
  by (intro emits_intro; simp)+

lemma keeps_cm_helpers [keeps_intro]:
  assumes "untouched f"
  shows "keeps f (cm_failure q a b c)" "keeps f (cm_getNodeMachineID n)" "keeps f (cm_health r d)"
  unfolding cm_failure_def cm_getNodeMachineID_def cm_health_def by (intro keeps_intro assms)+

lemma emits_cm_getMachineInfo [emits_intro]:
  assumes "\<And>h. reads_only h \<Longrightarrow> A (EvHttp h)"
  shows "emits A (cm_getMachineInfo f m)"
  unfolding cm_getMachineInfo_def
  by (intro emits_intro; rule assms; simp add: reads_only_def token_request_def cm_request_def)

lemma keeps_cm_getMachineInfo [keeps_intro]:
  assumes "untouched f" "\<And>h. ignores f (EvHttp h)" "\<And>s t. f (s\<lparr>cachedToken := t\<rparr>) = f s"
  shows "keeps f (cm_getMachineInfo fti m)"
  unfolding cm_getMachineInfo_def by (intro keeps_intro assms)

lemma emits_cm_add: "emits (http_only (\<lambda>h. reads_only h \<or> attaches h \<or> names_nothing h)) (cm_add f r)"
  unfolding cm_add_def cm_take_or_scale_def cm_scale_up_def
  by (intro emits_intro; auto simp: attaches_def cm_request_def)

lemma emits_cm_remove: "emits removal_event (cm_RemoveResource f)"
  unfolding cm_RemoveResource_def cm_scale_down_def cm_note_error_def
  by (intro emits_intro; auto simp: detaches_def cm_request_def)

lemma emits_cm_check: "emits (http_only reads_only) (cm_check f r)"
  unfolding cm_check_def by (intro emits_intro; simp)

lemma emits_cm_GetResources: "emits (http_only reads_only) (cm_GetResources f)"
  unfolding cm_GetResources_def by (intro emits_intro; simp)

lemma keeps_cm_operations:
  assumes "untouched g" "\<And>h. ignores g (EvHttp h)" "\<And>s t. g (s\<lparr>cachedToken := t\<rparr>) = g s"
  shows "keeps g (cm_AddResource f)" "keeps g (cm_CheckResource f)" "keeps g (cm_GetResources f)"
    "keeps g (cm_scale_down f m u n)"
  unfolding cm_AddResource_def cm_CheckResource_def cm_GetResources_def cm_add_def cm_take_or_scale_def cm_check_def cm_scale_up_def
    cm_scale_down_def
  by (intro keeps_intro assms)+

lemma cm_remove_view:
  "wpv status_echo rview (cm_RemoveResource f) (\<lambda>_. only_error v) (only_error v) v"
proof -
  obtain sts r where v: "v = (sts, r)" by (cases v)
  have quiet: "wpv status_echo rview (cm_scale_down f m sp n) (\<lambda>_. only_error v) (only_error v) v'"
    if "only_error v v'" for m sp n v'
    by (rule wpv_keeps) (auto intro!: keeps_intro keeps_cm_operations that)
  show ?thesis
    unfolding cm_RemoveResource_def cm_note_error_def v
    by (intro wpv_intro quiet [unfolded v] wpv_keeps [where m = "cm_getNodeMachineID _"]
        wpv_keeps [where m = "cm_getMachineInfo _ _"] conjI allI impI keeps_intro) (auto simp: only_error_def)
qed

interpretation cm: cdi_provider "cm_provider f :: 'w CdiProvider" for f
proof unfold_locales
  let ?P = "cm_provider f :: 'w CdiProvider"
  show "emits (http_only (\<lambda>h. reads_only h \<or> attaches h \<or> names_nothing h)) (AddResource ?P)"
    by (simp add: cm_provider_def cm_AddResource_def emits_rules emits_cm_add)
  show "emits removal_event (RemoveResource ?P)"
    by (simp add: cm_provider_def emits_cm_remove)
  show "emits (http_only reads_only) (CheckResource ?P)" "emits (http_only reads_only) (GetResources ?P)"
    by (simp_all add: cm_provider_def cm_CheckResource_def emits_cm_GetResources emits_rules emits_cm_check)
  show "keeps rview (AddResource ?P)" "keeps rview (CheckResource ?P)" "keeps rview (GetResources ?P)"
    by (simp_all add: cm_provider_def keeps_cm_operations)
  show "wpv status_echo rview (RemoveResource ?P) (\<lambda>_. only_error v) (only_error v) v" for v
    by (simp add: cm_provider_def cm_remove_view)
qed

section \<open>What is attached\<close>

lemma checkAdding_specs_sound:
  "checkAdding_specs specs used r = (u, n, dev, cdi, None) \<Longrightarrow> dev \<noteq> [] \<Longrightarrow>
    \<exists>spec \<in> set specs. isSpecMatch spec r \<and> (\<exists>d \<in> set (rsp_Devices spec). cmd_DeviceUUID d = dev
      \<and> dd_ResourceUUID (cmd_Detail d) = cdi \<and> cmd_Status d = addComplete \<and> \<not> used dev)"
proof (induction specs used r rule: checkAdding_specs.induct)
  case (2 spec rest used r)
  then show ?case
    by (fastforce simp: Let_def findAvailableDevice_def find_Some_iff split: if_splits option.splits)
qed simp

lemma cm_scale_up_fails: "fst (cm_scale_up f m u n E s) \<noteq> Ret (dev, cdi, None)"
  by (auto simp: cm_scale_up_def Let_def bindM_def tryM_def run_ret
      split: prod.splits outcome.splits sum.splits option.splits)

text \<open>
  C28.  No device is given to two resources.  When attaching through the cluster manager succeeds, the
  device is named, no ComposableResource in the listing made by the call has it, and the machine
  data read in the call lists it as completely added under a resource spec that matches the
  resource's type and model.
\<close>

theorem cm_AddResource_unused:
  assumes "cm_AddResource f E s = (Ret (dev, cdi, None), s')"
  shows "dev \<noteq> [] \<and> (\<exists>w items w'. api_ListResources E None w = (Inr items, w') \<and> dev \<notin> cr_DeviceID ` set items)
     \<and> (\<exists>m s1 machine s2 spec d. cm_getMachineInfo f m E s1 = (Ret (Inr machine), s2)
          \<and> spec \<in> set (mch_ResourceSpecs machine) \<and> isSpecMatch spec (theResource s) \<and> d \<in> set (rsp_Devices spec)
          \<and> cmd_DeviceUUID d = dev \<and> dd_ResourceUUID (cmd_Detail d) = cdi \<and> cmd_Status d = addComplete)"
proof -
  have "cm_add f (theResource s) E s = (Ret (dev, cdi, None), s')"
    using assms by (simp add: cm_AddResource_def)
  then obtain m s1 machine s2 items s3 where
    mi: "cm_getMachineInfo f m E s1 = (Ret (Inr machine), s2)"
    and ls: "query (\<lambda>E. api_ListResources E None) E s2 = (Ret (Inr items), s3)"
    and k: "cm_take_or_scale f m (checkAddingResources machine items (theResource s)) E s3 = (Ret (dev, cdi, None), s')"
    unfolding cm_add_def by (elim tryM_RetE) (auto simp: run_ret)
  obtain u n dv cd err where c: "checkAddingResources machine items (theResource s) = (u, n, dv, cd, err)"
    by (metis prod_cases5)
  have "dv = dev" "cd = cdi" "err = None" "dev \<noteq> []"
    using k cm_scale_up_fails [of f m u n E s3 dev cdi] by (auto simp: c cm_take_or_scale_def run_ret split: if_splits)
  with c checkAdding_specs_sound [of "mch_ResourceSpecs machine" "existing_devices items" "theResource s" u n dev cdi]
  have "\<exists>spec \<in> set (mch_ResourceSpecs machine). isSpecMatch spec (theResource s) \<and> (\<exists>d \<in> set (rsp_Devices spec).
      cmd_DeviceUUID d = dev \<and> dd_ResourceUUID (cmd_Detail d) = cdi \<and> cmd_Status d = addComplete \<and> \<not> existing_devices items dev)"
    by (simp add: checkAddingResources_def)
  moreover have "\<exists>w'. api_ListResources E None (world s2) = (Inr items, w')"
    using ls by (auto simp: query_def split: prod.splits)
  ultimately show ?thesis
    using mi \<open>dev \<noteq> []\<close> by (fastforce simp: existing_devices_def)
qed

text \<open>A machine with one spec and one device in a given state.\<close>

definition demo_cm_spec :: "string \<Rightarrow> CM_ResourceSpec" where
  "demo_cm_spec status = \<lparr>rsp_SpecUUID = ''spec-1'', rsp_Type = ''gpu'', rsp_Conditions = [model_condition ''A100''],
     rsp_MinCount = 0, rsp_MaxCount = 4, rsp_DeviceCount = 1,
     rsp_Devices = [\<lparr>cmd_DeviceUUID = ''GPU-a'', cmd_Status = status, cmd_StatusReason = [],
       cmd_Detail = \<lparr>dd_ResourceUUID = ''res-1'', dd_ResourceOPStatus = ''0''\<rparr>\<rparr>]\<rparr>"

definition demo_cm_machine :: "string \<Rightarrow> CM_Machine" where
  "demo_cm_machine status = \<lparr>mch_UUID = ''m1'', mch_Name = [], mch_Status = [], mch_StatusReason = [],
     mch_ResourceSpecs = [demo_cm_spec status]\<rparr>"

definition demo_node :: Node where
  "demo_node = \<lparr>node_Name = ''n1'', node_Annotations = (\<lambda>_. Some ''a/b''), node_ProviderID = [], node_Capacity = (\<lambda>_. None)\<rparr>"

definition cm_env :: "string \<Rightarrow> unit env" where
  "cm_env status = token_env\<lparr>
     api_GetNode := (\<lambda>_ w. (Inr demo_node, w)),
     api_GetMachine := (\<lambda>_ _ w. (Inr \<lparr>ao_Name = ''b'', ao_Annotations = (\<lambda>_. Some ''c/d'')\<rparr>, w)),
     api_GetBareMetalHost := (\<lambda>_ _ w. (Inr \<lparr>ao_Name = ''d'', ao_Annotations = (\<lambda>_. Some ''m1'')\<rparr>, w)),
     api_ListResources := (\<lambda>_ w. (Inr [demo_resource], w)),
     json_CM_MachineData := (\<lambda>_. Inr (demo_cm_machine status))\<rparr>"

definition demo_fti :: FTIClient where
  "demo_fti = \<lparr>fti_compositionServiceEndpoint = ''cdi/'', fti_tenantID = ''t'', fti_clusterID = ''c''\<rparr>"

definition attaching :: "unit sys" where
  "attaching = (start ())\<lparr>theResource := demo_resource\<rparr>"

text \<open>The runs up to the choice of a device, in this environment.\<close>

definition tok_ev :: event where
  "tok_ev = EvHttp (token_request ''cdi/'' (\<lambda>_. Some ''x''))"

definition machine_ev :: event where
  "machine_ev = EvHttp (cm_request ''GET'' (cm_machine_url demo_fti ''m1'') NoBody demo_token)"

lemma cm_env_machine: "cm_getNodeMachineID ''n1'' (cm_env status) s = (Ret (Inr ''m1''), s)"
  by (simp add: cm_getNodeMachineID_def metal3_machine_def cm_env_def demo_node_def str_at_def prog_defs)

lemma cm_env_token:
  "cachedToken s = None \<Longrightarrow> GetToken ''cdi/'' (cm_env status) s
     = (Ret (Inr demo_token), s\<lparr>trace := trace s @ [tok_ev], cachedToken := Some demo_token\<rparr>)"
  by (simp add: GetToken_def Token_def still_valid_def cm_env_def token_env_def void_env_def demo_token_def tok_ev_def
      decode_token_def send_def time_Now_def Let_def prog_defs)

lemma cm_env_cached:
  "cachedToken s = Some demo_token \<Longrightarrow> GetToken ''cdi/'' (cm_env status) s = (Ret (Inr demo_token), s)"
  by (simp add: GetToken_def still_valid_def cm_env_def token_env_def void_env_def demo_token_def leeway_def second_def
      time_Now_def prog_defs)

lemma cm_env_info:
  "cachedToken s = None \<Longrightarrow> cm_getMachineInfo demo_fti ''m1'' (cm_env status) s
     = (Ret (Inr (demo_cm_machine status)), s\<lparr>trace := trace s @ [tok_ev, machine_ev], cachedToken := Some demo_token\<rparr>)"
  unfolding cm_getMachineInfo_def
  by (subst run_tryM(2), simp add: demo_fti_def, erule cm_env_token)
     (simp add: cm_env_def token_env_def void_env_def send_def machine_ev_def prog_defs)

theorem cm_AddResource_unused_witness:
  "\<exists>s'. cm_AddResource demo_fti (cm_env addComplete) attaching = (Ret (''GPU-a'', ''res-1'', None), s')
     \<and> ''GPU-a'' \<notin> cr_DeviceID ` set [demo_resource]"
proof -
  have "cm_add demo_fti demo_resource (cm_env addComplete) attaching
      = (Ret (''GPU-a'', ''res-1'', None), attaching\<lparr>trace := [tok_ev, machine_ev], cachedToken := Some demo_token\<rparr>)"
    unfolding cm_add_def
    by (subst run_tryM(2), simp add: demo_resource_def, rule cm_env_machine, subst run_tryM(2), rule cm_env_info)
       (simp_all add: attaching_def start_def cm_env_def checkAddingResources_def cm_take_or_scale_def demo_cm_machine_def demo_cm_spec_def
          isSpecMatch_def demo_resource_def model_condition_def findAvailableDevice_def existing_devices_def prog_defs)
  then have r: "cm_AddResource demo_fti (cm_env addComplete) attaching
      = (Ret (''GPU-a'', ''res-1'', None), attaching\<lparr>trace := [tok_ev, machine_ev], cachedToken := Some demo_token\<rparr>)"
    by (simp add: cm_AddResource_def) (simp add: attaching_def)
  from cm_AddResource_unused [OF this] obtain w items w' where
    "api_ListResources (cm_env addComplete) None w = (Inr items, w')" "''GPU-a'' \<notin> cr_DeviceID ` set items"
    by blast
  then have "''GPU-a'' \<notin> cr_DeviceID ` set [demo_resource]" by (simp add: cm_env_def)
  with r show ?thesis by blast
qed

text \<open>
  Asking for one more.  When the first unused device of the matching spec is neither completely
  added nor failed, which is the case while it is being attached, the client asks the cluster manager to
  raise the device count of the spec by one over the count it has just read, and reports that it is
  waiting; so each retry during an attach asks again.
\<close>

theorem cm_asks_while_attaching:
  assumes "cm_getNodeMachineID (cr_TargetNode r) E s = (Ret (Inr m), s1)"
    and "cm_getMachineInfo f m E s1 = (Ret (Inr machine), s2)"
    and "api_ListResources E None (world s2) = (Inr items, w)"
    and first: "find (\<lambda>spec. isSpecMatch spec r) (mch_ResourceSpecs machine) = Some spec"
    and pending: "findAvailableDevice spec (existing_devices items) = Some d" "cmd_Status d \<notin> {addComplete, addFailed}"
    and "http_NewRequest E ''POST'' (cm_resize_url f m) = None"
    and "GetToken (fti_compositionServiceEndpoint f) E (s2\<lparr>world := w\<rparr>) = (Ret (Inr tok), s3)"
  shows "trace (snd (cm_add f r E s)) = trace s3 @ [EvHttp (cm_request ''POST'' (cm_resize_url f m)
     (CM_ScaleUp \<lparr>sut_SpecUUID = rsp_SpecUUID spec, sut_DeviceCount = int64_wrap (rsp_DeviceCount spec + 1)\<rparr>) tok)]"
proof -
  have "checkAdding_specs specs used r = (rsp_SpecUUID spec, rsp_DeviceCount spec, [], [], None)"
    if "find (\<lambda>spec. isSpecMatch spec r) specs = Some spec" "findAvailableDevice spec used = Some d" for specs used
    using that pending(2) by (induction specs) (auto simp: Let_def split: if_splits)
  then have "checkAddingResources machine items r = (rsp_SpecUUID spec, rsp_DeviceCount spec, [], [], None)"
    using first pending(1) by (simp add: checkAddingResources_def)
  then have "cm_add f r E s = cm_scale_up f m (rsp_SpecUUID spec) (rsp_DeviceCount spec) E (s2\<lparr>world := w\<rparr>)"
    using assms(1,2,3) by (simp add: cm_add_def tryM_def bindM_def query_def cm_take_or_scale_def)
  then show ?thesis
    using assms(7,8)
    by (auto simp: cm_scale_up_def Let_def send_def cm_failure_def prog_defs
        split: prod.splits sum.splits)
qed

theorem cm_asks_while_attaching_witness:
  "trace (snd (cm_add demo_fti demo_resource (cm_env ''ADDING'') attaching))
     = [tok_ev, machine_ev, EvHttp (cm_request ''POST'' (cm_resize_url demo_fti ''m1'')
         (CM_ScaleUp \<lparr>sut_SpecUUID = ''spec-1'', sut_DeviceCount = 2\<rparr>) demo_token)]"
proof -
  have n: "cr_TargetNode demo_resource = ''n1''" by (simp add: demo_resource_def)
  have tok: "GetToken (fti_compositionServiceEndpoint demo_fti) (cm_env ''ADDING'')
      ((attaching\<lparr>trace := [tok_ev, machine_ev], cachedToken := Some demo_token\<rparr>)\<lparr>world := ()\<rparr>)
      = (Ret (Inr demo_token), attaching\<lparr>trace := [tok_ev, machine_ev], cachedToken := Some demo_token\<rparr>)"
    using cm_env_cached [of "attaching\<lparr>trace := [tok_ev, machine_ev], cachedToken := Some demo_token\<rparr>" "''ADDING''"]
    by (simp add: demo_fti_def attaching_def start_def)
  have info: "cm_getMachineInfo demo_fti ''m1'' (cm_env ''ADDING'') attaching
      = (Ret (Inr (demo_cm_machine ''ADDING'')), attaching\<lparr>trace := [tok_ev, machine_ev], cachedToken := Some demo_token\<rparr>)"
    using cm_env_info [of attaching "''ADDING''"] by (simp add: attaching_def start_def)
  show ?thesis
    using cm_asks_while_attaching [OF cm_env_machine [of "''ADDING''" attaching, folded n] info, of "[demo_resource]" "()"
        "demo_cm_spec ''ADDING''" _ demo_token] tok
    by (simp add: cm_env_def token_env_def void_env_def demo_cm_machine_def demo_cm_spec_def isSpecMatch_def demo_resource_def
        model_condition_def findAvailableDevice_def existing_devices_def addComplete_def addFailed_def int64_wrap_def)
qed

section \<open>What is detached\<close>

fun own_removal :: "string \<Rightarrow> event \<Rightarrow> bool" where
  "own_removal dev (EvHttp h) = (reads_only h \<or> (\<exists>u n. req_Body h = CM_ScaleDown \<lparr>sdt_SpecUUID = u, sdt_DeviceCount = n, sdt_Devices = [dev]\<rparr>))"
| "own_removal dev (EvUpdateResourceStatus r) = (cr_DeviceID r = dev)"
| "own_removal dev _ = False"

lemma cm_remove_own:
  "wpv status_echo tview (cm_RemoveResource f)
     (\<lambda>_ v. \<exists>evs. fst v = tr @ evs \<and> list_all (own_removal (cr_DeviceID r)) evs)
     (\<lambda>v. \<exists>evs. fst v = tr @ evs \<and> list_all (own_removal (cr_DeviceID r)) evs) (tr, r)"
    (is "wpv _ _ _ (\<lambda>_. ?post) _ _")
proof -
  let ?A = "own_removal (cr_DeviceID r)"
  have down: "wpv status_echo tview (cm_scale_down f m u n) (\<lambda>_. ?post) ?post (tr @ evs, r')"
    if "list_all ?A evs" "cr_DeviceID r' = cr_DeviceID r" for m u n evs r'
    unfolding cm_scale_down_def
    by (intro wpv_bindM tview_get tview_emits [where A = ?A])
       (auto intro!: emits_intro keeps_intro simp: that cm_request_def)
  have note_error: "wpv status_echo tview (cm_note_error err) (\<lambda>res v. \<exists>evs r'. v = (tr @ evs, r')
        \<and> list_all ?A evs \<and> cr_DeviceID r' = cr_DeviceID r) ?post (tr @ evs, r)"
    if "list_all ?A evs" for err evs
    unfolding cm_note_error_def by (intro wpv_intro) (use that in auto)
  have rest: "wpv status_echo tview (checkM (cm_note_error err) (\<lambda>e. ret (Some e))
        (if u = [] then ret None else cm_scale_down f m u n)) (\<lambda>_. ?post) ?post (tr @ evs, r)"
    if "list_all ?A evs" for m u n err evs
    by (rule wpv_checkM, rule wpv_conseq [OF note_error [OF that]]) (auto intro!: wpv_intro down)
  have info: "wpv status_echo tview (cm_getMachineInfo f m) Q X (tr @ evs, r)"
    if "\<And>x evs. list_all ?A evs \<Longrightarrow> Q x (tr @ evs, r)" "\<And>evs. list_all ?A evs \<Longrightarrow> X (tr @ evs, r)" "list_all ?A evs" for m Q X evs
    by (rule tview_emits [where A = ?A]) (auto intro!: emits_intro keeps_intro simp: that)
  have node: "wpv status_echo tview (cm_getNodeMachineID n) Q X (tr, r)"
    if "\<And>x evs. list_all ?A evs \<Longrightarrow> Q x (tr @ evs, r)" "\<And>evs. list_all ?A evs \<Longrightarrow> X (tr @ evs, r)" for n Q X
    by (rule tview_emits [where A = ?A]) (auto intro!: emits_intro keeps_intro simp: that)
  show ?thesis
    unfolding cm_RemoveResource_def
    by (intro wpv_bindM tview_get wpv_tryM wpv_prod node info rest conjI allI impI wpv_ret) auto
qed

text \<open>
  C30.  Detaching through the cluster manager, where a status update is answered with the status sent:
  every request either only reads, or asks to remove exactly the device recorded in the resource's
  status; status updates made on the way keep that device.
\<close>

theorem cm_RemoveResource_only_own_device:
  assumes "status_echo E"
  shows "\<exists>evs. trace (snd (cm_RemoveResource f E s)) = trace s @ evs
     \<and> list_all (own_removal (cr_DeviceID (theResource s))) evs"
proof -
  have v: "tview s = (trace s, theResource s)" by (simp add: tview_def)
  obtain res s' where run: "cm_RemoveResource f E s = (res, s')" by (cases "cm_RemoveResource f E s")
  show ?thesis
    using wpvD [OF cm_remove_own assms v, of f] run by (cases res) (auto simp: tview_def)
qed

definition detaching :: "unit sys" where
  "detaching = (start ())\<lparr>theResource := demo_resource\<lparr>cr_Status := \<lparr>crst_State = ''Detaching'', crst_Error = [],
     crst_DeviceID = ''GPU-a'', crst_CDIDeviceID = ''res-1''\<rparr>\<rparr>\<rparr>"

text \<open>A removal that failed before: its error is written, the server answers with the status sent, and the removal is asked for again.\<close>

definition cm_retry_env :: "unit env" where
  "cm_retry_env = (cm_env removeFailed)\<lparr>api_UpdateResourceStatus := (\<lambda>r w. (Inr r, w))\<rparr>"

lemma cm_retry_asks:
  "EvHttp (cm_request ''POST'' (cm_resize_url demo_fti ''m1'')
       (CM_ScaleDown \<lparr>sdt_SpecUUID = ''spec-1'', sdt_DeviceCount = 0, sdt_Devices = [''GPU-a'']\<rparr>) demo_token)
     \<in> set (trace (snd (cm_RemoveResource demo_fti cm_retry_env detaching)))"
proof -
  have spec: "checkRemovingResources (demo_cm_machine removeFailed) (theResource detaching) = (''spec-1'', 1, Some (ErrorString []))"
    by (simp add: checkRemovingResources_def demo_cm_machine_def demo_cm_spec_def detaching_def demo_resource_def isSpecMatch_def
        model_condition_def)
  have endp: "fti_compositionServiceEndpoint demo_fti = ''cdi/''" by (simp add: demo_fti_def)
  show ?thesis
    using spec
    by (simp add: cm_RemoveResource_def endp cm_getNodeMachineID_def metal3_machine_def demo_node_def str_at_def cm_getMachineInfo_def cm_scale_down_def cm_note_error_def
      GetToken_def Token_def still_valid_def decode_token_def send_def time_Now_def
      cm_retry_env_def cm_env_def token_env_def void_env_def detaching_def start_def demo_resource_def
      demo_token_def upd_resource_def Status_Update_Resource_def leeway_def second_def int64_wrap_def
      Let_def prog_eval cong: prog_cong)
qed

theorem cm_RemoveResource_only_own_device_witness:
  "\<exists>evs. trace (snd (cm_RemoveResource demo_fti cm_retry_env detaching)) = evs
     \<and> list_all (own_removal ''GPU-a'') evs \<and> (\<exists>h. EvHttp h \<in> set evs \<and> detaches h)"
proof -
  have "detaches (cm_request ''POST'' u (CM_ScaleDown b) t)" for u b t by (simp add: detaches_def cm_request_def)
  with cm_retry_asks have asks: "\<exists>h. EvHttp h \<in> set (trace (snd (cm_RemoveResource demo_fti cm_retry_env detaching))) \<and> detaches h" by blast
  have "status_echo cm_retry_env" by (simp add: status_echo_def cm_retry_env_def)
  from cm_RemoveResource_only_own_device [OF this, of demo_fti detaching] asks show ?thesis
    by (simp add: detaching_def start_def)
qed

end
