(* ===== verification/ResourceController.thy ===== *)
theory ResourceController
  imports FtiCM
begin

text \<open>
  The reconciler of ComposableResources: \<^verbatim>\<open>composableresource_controller.go\<close> and
  \<^verbatim>\<open>composableresource_adapter.go\<close> under \<^verbatim>\<open>src/internal/controller\<close>.  The object the Go
  code points to is \<open>theResource\<close>; every handler of the source is one definition.  The handlers
  that talk to a CDI service take the provider as an argument, and what is proved of them is
  proved in the contract \<open>cdi_provider\<close>, for any provider.
\<close>

type_synonym reconciled = "Result \<times> error option"

definition composabilityRequestFinalizer :: string where
  "composabilityRequestFinalizer = ''com.ie.ibm.hpsys/finalizer''"

definition doNotRequeue :: "('w, reconciled) go" where
  "doNotRequeue = ret (\<lparr>RequeueAfter = 0\<rparr>, None)"

definition requeueAfter :: "int \<Rightarrow> error option \<Rightarrow> ('w, reconciled) go" where
  "requeueAfter duration err = ret (\<lparr>RequeueAfter = duration\<rparr>, err)"

section \<open>The adapter\<close>

definition NewComposableResourceAdapter :: "('w, error + 'w CdiProvider) go" where
  "NewComposableResourceAdapter =
     bindM (Getenv ''DEVICE_RESOURCE_TYPE'') (\<lambda>deviceResourceType.
     if deviceResourceType \<noteq> ''DEVICE_PLUGIN'' \<and> deviceResourceType \<noteq> ''DRA'' then
       ret (Inl (ErrorString (''the env variable DEVICE_RESOURCE_TYPE has an invalid value: '' @ squote deviceResourceType)))
     else
       bindM (Getenv ''CDI_PROVIDER_TYPE'') (\<lambda>cdiProviderType.
       if cdiProviderType = ''SUNFISH'' then
         bindM NewSunfishClient (\<lambda>endpoint. ret (Inr (sunfish_provider endpoint)))
       else if cdiProviderType = ''FTI_CDI'' then
         bindM (Getenv ''FTI_CDI_CLUSTER_ID'') (\<lambda>clusterUUID.
         if clusterUUID = [] \<and> deviceResourceType = ''DEVICE_PLUGIN'' then
           ret (Inl (ErrorString ''The cluster in RKE2 does not support DEVICE_PLUGIN, please use DRA''))
         else
           bindM (Getenv ''FTI_CDI_API_TYPE'') (\<lambda>ftiAPIType.
           if ftiAPIType = ''CM'' then bindM cm_NewFTIClient (\<lambda>f. ret (Inr (cm_provider f)))
           else if ftiAPIType = ''FM'' then bindM fm_NewFTIClient (\<lambda>f. ret (Inr (fm_provider f)))
           else ret (Inl (ErrorString (''the env variable FTI_CDI_API_TYPE has an invalid value: '' @ squote ftiAPIType)))))
       else ret (Inl (ErrorString (''the env variable CDI_PROVIDER_TYPE has an invalid value: '' @ squote cdiProviderType)))))"

section \<open>Status\<close>

definition upd_status :: "(ComposableResourceStatus \<Rightarrow> ComposableResourceStatus) \<Rightarrow> ('w, unit) go" where
  "upd_status f = upd_resource (\<lambda>r. r\<lparr>cr_Status := f (cr_Status r)\<rparr>)"

text \<open>\<^verbatim>\<open>return ctrl.Result{}, r.Status().Update(ctx, resource)\<close>\<close>

definition return_update :: "('w, reconciled) go" where
  "return_update = bindM Status_Update_Resource (\<lambda>err. ret (\<lparr>RequeueAfter = 0\<rparr>, err))"

definition Resource_requeueOnErr :: "error \<Rightarrow> ('w, reconciled) go" where
  "Resource_requeueOnErr err =
     thenM (upd_status (crst_Error_update (\<lambda>_. err_Error err)))
     (bindM Status_Update_Resource (\<lambda>_. ret (\<lparr>RequeueAfter = 0\<rparr>, Some err)))"

section \<open>Garbage collection\<close>

definition gc_mark :: "('w, error + bool) go" where
  "gc_mark =
     bindM (getM theResource) (\<lambda>resource.
     if cr_State resource \<noteq> ''Deleting'' then
       thenM (upd_status (\<lambda>st. st\<lparr>crst_State := ''Deleting'',
                crst_Error := ''target node '' @ cr_TargetNode resource @ '' not found''\<rparr>))
       (bindM Status_Update_Resource (\<lambda>r. case r of
          None \<Rightarrow> ret (Inr True)
        | Some err \<Rightarrow> if \<not> IsNotFound err then ret (Inl err) else ret (Inr True)))
     else ret (Inr False))"

definition gc_delete :: "bool \<Rightarrow> ('w, error + bool) go" where
  "gc_delete needRet =
     bindM (getM theResource) (\<lambda>resource.
     if om_DeletionTimestamp (cr_Meta resource) = None then
       bindM (Delete_Resource resource) (\<lambda>r. case r of
         None \<Rightarrow> ret (Inr True)
       | Some err \<Rightarrow> if \<not> IsNotFound err then ret (Inl err) else ret (Inr True))
     else ret (Inr needRet))"

definition Resource_performGarbageCollection :: "('w, error + bool) go" where
  "Resource_performGarbageCollection =
     bindM (getM theResource) (\<lambda>resource.
     if cr_TargetNode resource = [] then ret (Inr False)
     else
       bindM (CheckNodeExisted (cr_TargetNode resource)) (\<lambda>r. case r of
         None \<Rightarrow> ret (Inr False)
       | Some err \<Rightarrow>
           if IsNotFound err then
             tryM (HasDeviceTaint resource) (\<lambda>err. ret (Inl err)) (\<lambda>hasTaint.
             checkM (if hasTaint then DeleteDeviceTaint resource else ret None) (\<lambda>err. ret (Inl err))
             (tryM gc_mark (\<lambda>err. ret (Inl err)) (\<lambda>needRet. gc_delete needRet)))
           else ret (Inl err)))"

section \<open>The handlers\<close>

abbreviation "readyDeviceLabel \<equiv> ''cohdi.io/ready-to-detach-device-id''"
abbreviation "readyCDIDeviceLabel \<equiv> ''cohdi.io/ready-to-detach-cdi-device-id''"

definition label :: "ComposableResource \<Rightarrow> string \<Rightarrow> string" where
  "label resource k = str_at (om_Labels (cr_Meta resource)) k"

definition upd_finalizers :: "(string list \<Rightarrow> string list) \<Rightarrow> ('w, unit) go" where
  "upd_finalizers f = upd_resource (\<lambda>r. r\<lparr>cr_Meta := (cr_Meta r)\<lparr>om_Finalizers := f (om_Finalizers (cr_Meta r))\<rparr>\<rparr>)"

definition Resource_handleNoneState :: "('w, reconciled) go" where
  "Resource_handleNoneState =
     bindM (getM theResource) (\<lambda>resource.
     checkM (if composabilityRequestFinalizer \<notin> set (om_Finalizers (cr_Meta resource)) then
               thenM (upd_finalizers (\<lambda>fs. fs @ [composabilityRequestFinalizer])) Update_Resource
             else ret None)
       (\<lambda>err. Resource_requeueOnErr err)
     (thenM (upd_resource (\<lambda>r.
        if label r readyDeviceLabel \<noteq> [] then
          r\<lparr>cr_Status := (cr_Status r)\<lparr>crst_DeviceID := label r readyDeviceLabel,
              crst_CDIDeviceID := (if label r readyCDIDeviceLabel \<noteq> [] then label r readyCDIDeviceLabel else cr_CDIDeviceID r)\<rparr>\<rparr>
        else r))
     (thenM (upd_status (\<lambda>st. st\<lparr>crst_State := ''Attaching'', crst_Error := []\<rparr>))
      return_update)))"

text \<open>The three parts of the Attaching handler; a part that ends the handler gives its result.\<close>

definition attach_device :: "'w CdiProvider \<Rightarrow> ('w, reconciled option) go" where
  "attach_device P =
     bindM (getM theResource) (\<lambda>resource.
     if cr_DeviceID resource = [] then
       bindM (AddResource P) (\<lambda>(deviceID, CDIDeviceID, err). case err of
         Some err \<Rightarrow>
           if errors_Is err ErrWaitingDeviceAttaching then bindM (requeueAfter (30 * second) None) (\<lambda>x. ret (Some x))
           else bindM (Resource_requeueOnErr err) (\<lambda>x. ret (Some x))
       | None \<Rightarrow>
           thenM (upd_status (\<lambda>st. st\<lparr>crst_Error := [], crst_DeviceID := deviceID, crst_CDIDeviceID := CDIDeviceID\<rparr>))
           (checkM Status_Update_Resource (\<lambda>err. bindM (Resource_requeueOnErr err) (\<lambda>x. ret (Some x)))
              (ret None)))
     else ret None)"

text \<open>A step whose error is only written into the status.\<close>

definition report :: "('w, error option) go \<Rightarrow> ('w, reconciled option) go" where
  "report m =
     bindM m (\<lambda>r. case r of
       None \<Rightarrow> ret None
     | Some err \<Rightarrow>
         thenM (upd_status (crst_Error_update (\<lambda>_. err_Error err)))
         (checkM Status_Update_Resource (\<lambda>err. bindM (Resource_requeueOnErr err) (\<lambda>x. ret (Some x)))
            (ret None)))"

definition refresh_node :: "string \<Rightarrow> ('w, reconciled option) go" where
  "refresh_node deviceResourceType =
     bindM (getM theResource) (\<lambda>resource.
     if deviceResourceType = ''DEVICE_PLUGIN'' then
       bindM (CheckNoGPULoads (cr_TargetNode resource) None) (\<lambda>_.
       checkM (report (RestartDaemonset ''nvidia-gpu-operator'' ''nvidia-device-plugin-daemonset'')) (\<lambda>x. ret (Some x))
       (report (RestartDaemonset ''nvidia-gpu-operator'' ''nvidia-dcgm'')))
     else if deviceResourceType = ''DRA'' then
       checkM (report (RunNvidiaSmi (cr_TargetNode resource))) (\<lambda>x. ret (Some x))
       (report (RestartDaemonset ''nvidia-dra-driver-gpu'' ''nvidia-dra-driver-gpu-kubelet-plugin''))
     else ret None)"

definition recognise :: "string \<Rightarrow> ('w, reconciled) go" where
  "recognise deviceResourceType =
     bindM (getM theResource) (\<lambda>resource.
     tryM (CheckGPUVisible deviceResourceType resource) (\<lambda>err. Resource_requeueOnErr err) (\<lambda>visible.
     if visible then
       thenM (upd_status (\<lambda>st. st\<lparr>crst_State := ''Online'', crst_Error := []\<rparr>)) return_update
     else requeueAfter (30 * second) None))"

definition Resource_handleAttachingState :: "'w CdiProvider \<Rightarrow> ('w, reconciled) go" where
  "Resource_handleAttachingState P =
     bindM (getM theResource) (\<lambda>resource.
     if om_DeletionTimestamp (cr_Meta resource) \<noteq> None \<and> cr_DeviceID resource = [] then
       thenM (upd_status (crst_State_update (\<lambda>_. ''Deleting''))) return_update
     else if om_DeletionTimestamp (cr_Meta resource) \<noteq> None \<and> cr_Error resource \<noteq> [] then
       thenM (upd_status (crst_State_update (\<lambda>_. ''Detaching''))) return_update
     else
       bindM (Getenv ''DEVICE_RESOURCE_TYPE'') (\<lambda>deviceResourceType.
       checkM (attach_device P) (\<lambda>x. ret x)
       (checkM (refresh_node deviceResourceType) (\<lambda>x. ret x)
       (recognise deviceResourceType))))"

definition Resource_handleOnlineState :: "'w CdiProvider \<Rightarrow> ('w, reconciled) go" where
  "Resource_handleOnlineState P =
     bindM (getM theResource) (\<lambda>resource.
     if om_DeletionTimestamp (cr_Meta resource) \<noteq> None then
       thenM (upd_status (crst_State_update (\<lambda>_. ''Detaching''))) return_update
     else if label resource readyDeviceLabel \<noteq> [] then
       bindM (Delete_Resource resource) (\<lambda>r. case r of
         None \<Rightarrow> doNotRequeue
       | Some err \<Rightarrow> if \<not> IsNotFound err then Resource_requeueOnErr err else doNotRequeue)
     else
       bindM (CheckResource P) (\<lambda>r.
       thenM (upd_status (crst_Error_update (\<lambda>_. case r of Some err \<Rightarrow> err_Error err | None \<Rightarrow> [])))
       (checkM Status_Update_Resource (\<lambda>err. Resource_requeueOnErr err)
       (requeueAfter (30 * second) None))))"

text \<open>The Detaching handler: its load check, what follows the removal, and the whole.\<close>

definition check_loads :: "string \<Rightarrow> ('w, error option) go" where
  "check_loads deviceResourceType =
     bindM (getM theResource) (\<lambda>resource.
     if crs_ForceDetach (cr_Spec resource) then ret None
     else if deviceResourceType = ''DEVICE_PLUGIN'' then CheckNoGPULoads (cr_TargetNode resource) None
     else CheckNoGPULoads (cr_TargetNode resource) (Some (cr_DeviceID resource)))"

definition restart_daemonsets :: "string \<Rightarrow> ('w, error option) go" where
  "restart_daemonsets deviceResourceType =
     (if deviceResourceType = ''DEVICE_PLUGIN'' then
        checkM (RestartDaemonset ''nvidia-gpu-operator'' ''nvidia-device-plugin-daemonset'') (\<lambda>err. ret (Some err))
        (RestartDaemonset ''nvidia-gpu-operator'' ''nvidia-dcgm'')
      else RestartDaemonset ''nvidia-dra-driver-gpu'' ''nvidia-dra-driver-gpu-kubelet-plugin'')"

definition finish_detach :: "('w, reconciled) go" where
  "finish_detach = thenM (upd_status (crst_State_update (\<lambda>_. ''Deleting''))) return_update"

definition confirm_detached :: "string \<Rightarrow> ('w, reconciled) go" where
  "confirm_detached deviceResourceType =
     bindM (getM theResource) (\<lambda>resource.
     tryM (CheckGPUVisible deviceResourceType resource) (\<lambda>err. Resource_requeueOnErr err) (\<lambda>visible.
     if visible then requeueAfter (3 * second) None
     else
       checkM (if deviceResourceType = ''DRA'' then DeleteDeviceTaint resource else ret None) (\<lambda>err. Resource_requeueOnErr err)
       (thenM (upd_status (\<lambda>st. st\<lparr>crst_Error := [], crst_DeviceID := [], crst_CDIDeviceID := []\<rparr>))
       (checkM Status_Update_Resource (\<lambda>err. Resource_requeueOnErr err)
       finish_detach))))"

definition remove_device :: "'w CdiProvider \<Rightarrow> string \<Rightarrow> ('w, reconciled) go" where
  "remove_device P deviceResourceType =
     checkM (RemoveResource P)
       (\<lambda>err. if errors_Is err ErrWaitingDeviceDetaching then requeueAfter (30 * second) None else Resource_requeueOnErr err)
     (checkM (restart_daemonsets deviceResourceType) (\<lambda>err. Resource_requeueOnErr err)
     (confirm_detached deviceResourceType))"

definition Resource_handleDetachingState :: "'w CdiProvider \<Rightarrow> ('w, reconciled) go" where
  "Resource_handleDetachingState P =
     bindM (Getenv ''DEVICE_RESOURCE_TYPE'') (\<lambda>deviceResourceType.
     bindM (getM theResource) (\<lambda>resource.
     if cr_DeviceID resource \<noteq> [] then
       checkM (check_loads deviceResourceType) (\<lambda>err. Resource_requeueOnErr err)
       (checkM (if deviceResourceType = ''DRA'' then CreateDeviceTaint resource else ret None) (\<lambda>err. Resource_requeueOnErr err)
       (checkM (DrainGPU (cr_TargetNode resource) (cr_DeviceID resource) deviceResourceType) (\<lambda>err. Resource_requeueOnErr err)
       (remove_device P deviceResourceType)))
     else finish_detach))"

definition Resource_handleDeletingState :: "('w, reconciled) go" where
  "Resource_handleDeletingState =
     thenM (upd_finalizers (removeAll composabilityRequestFinalizer))
     (checkM Update_Resource (\<lambda>err. Resource_requeueOnErr err)
     doNotRequeue)"

section \<open>Reconcile\<close>

definition dispatch :: "'w CdiProvider \<Rightarrow> string \<Rightarrow> ('w, reconciled) go" where
  "dispatch P state =
     (if state = [] then Resource_handleNoneState
      else if state = ''Attaching'' then Resource_handleAttachingState P
      else if state = ''Online'' then Resource_handleOnlineState P
      else if state = ''Detaching'' then Resource_handleDetachingState P
      else if state = ''Deleting'' then Resource_handleDeletingState
      else doNotRequeue)"

definition handle_state :: "'w CdiProvider \<Rightarrow> ('w, reconciled) go" where
  "handle_state P =
     bindM (getM theResource) (\<lambda>resource.
     bindM (dispatch P (cr_State resource)) (\<lambda>(result, err). case err of
       Some err \<Rightarrow> Resource_requeueOnErr err
     | None \<Rightarrow> ret (result, None)))"

definition Resource_Reconcile_object :: "('w, reconciled) go" where
  "Resource_Reconcile_object =
     tryM Resource_performGarbageCollection (\<lambda>err. Resource_requeueOnErr err) (\<lambda>gcDone.
     if gcDone then doNotRequeue
     else tryM NewComposableResourceAdapter (\<lambda>err. Resource_requeueOnErr err) handle_state)"

definition Resource_Reconcile :: "string \<Rightarrow> ('w, reconciled) go" where
  "Resource_Reconcile name =
     bindM (query (\<lambda>E. api_GetResource E name)) (\<lambda>r. case r of
       Inl err \<Rightarrow> if IsNotFound err then doNotRequeue else ret (\<lparr>RequeueAfter = 0\<rparr>, Some err)
     | Inr resource \<Rightarrow>
         thenM (modifyM (\<lambda>s. s\<lparr>theResource := resource\<rparr>)) Resource_Reconcile_object)"

section \<open>The lifecycle\<close>

text \<open>
  The abstract specification: the steps the status of a resource may take.  \<open>start\<close> may take any
  device identifiers, because they come from the labels of a resource made for detaching.
\<close>

inductive lifecycle :: "ComposableResourceStatus \<Rightarrow> ComposableResourceStatus \<Rightarrow> bool" where
  note_error: "lifecycle st (st\<lparr>crst_Error := e\<rparr>)"
| start_attach: "crst_State st = [] \<Longrightarrow> crst_State st' = ''Attaching'' \<Longrightarrow> crst_Error st' = [] \<Longrightarrow> lifecycle st st'"
| assign: "crst_State st = ''Attaching'' \<Longrightarrow> crst_DeviceID st = []
    \<Longrightarrow> lifecycle st (st\<lparr>crst_Error := [], crst_DeviceID := d, crst_CDIDeviceID := c\<rparr>)"
| come_online: "crst_State st = ''Attaching'' \<Longrightarrow> lifecycle st (st\<lparr>crst_State := ''Online'', crst_Error := []\<rparr>)"
| give_up: "crst_State st = ''Attaching'' \<Longrightarrow> crst_DeviceID st = [] \<Longrightarrow> lifecycle st (st\<lparr>crst_State := ''Deleting''\<rparr>)"
| abandon: "crst_State st = ''Attaching'' \<Longrightarrow> crst_DeviceID st \<noteq> [] \<Longrightarrow> crst_Error st \<noteq> []
    \<Longrightarrow> lifecycle st (st\<lparr>crst_State := ''Detaching''\<rparr>)"
| release: "crst_State st = ''Online'' \<Longrightarrow> lifecycle st (st\<lparr>crst_State := ''Detaching''\<rparr>)"
| clear: "crst_State st = ''Detaching''
    \<Longrightarrow> lifecycle st (st\<lparr>crst_Error := [], crst_DeviceID := [], crst_CDIDeviceID := []\<rparr>)"
| finish: "crst_State st = ''Detaching'' \<Longrightarrow> crst_DeviceID st = [] \<Longrightarrow> lifecycle st (st\<lparr>crst_State := ''Deleting''\<rparr>)"
| collect: "crst_State st \<noteq> ''Deleting''
    \<Longrightarrow> lifecycle st (st\<lparr>crst_State := ''Deleting'', crst_Error := ''target node '' @ n @ '' not found''\<rparr>)"

inductive_cases lifecycleE: "lifecycle st st'"

text \<open>The writes so far form a path of the lifecycle from \<open>st0\<close> and end in \<open>st\<close>; in sync, \<open>st\<close> is the
  status in memory.\<close>

definition legal :: "ComposableResourceStatus list \<Rightarrow> ComposableResourceStatus
    \<Rightarrow> ComposableResourceStatus list \<times> ComposableResource \<Rightarrow> bool" where
  "legal sts0 st0 v \<longleftrightarrow> (\<exists>st. written lifecycle sts0 st0 st (fst v))"

definition insync :: "ComposableResourceStatus list \<Rightarrow> ComposableResourceStatus
    \<Rightarrow> ComposableResourceStatus list \<times> ComposableResource \<Rightarrow> bool" where
  "insync sts0 st0 v \<longleftrightarrow> written lifecycle sts0 st0 (cr_Status (snd v)) (fst v)"

lemma written_error: "written lifecycle a b st sts \<Longrightarrow> written lifecycle a b (st\<lparr>crst_Error := e\<rparr>) (sts @ [st\<lparr>crst_Error := e\<rparr>])"
  by (erule written_write) (rule note_error)

lemma written_insync: "written lifecycle a b (cr_Status r) sts \<Longrightarrow> insync a b (sts, r)"
  by (simp add: insync_def)

lemma insync_legal: "insync a b v \<Longrightarrow> legal a b v"
  by (auto simp: insync_def legal_def)

text \<open>A handler that returns leaves a legal history, in sync if it returns an error (which is then
  written once more).\<close>

definition ends_legal :: "ComposableResourceStatus list \<Rightarrow> ComposableResourceStatus \<Rightarrow> reconciled
    \<Rightarrow> ComposableResourceStatus list \<times> ComposableResource \<Rightarrow> bool" where
  "ends_legal a b x v \<longleftrightarrow> legal a b v \<and> (snd x \<noteq> None \<longrightarrow> insync a b v)"

lemma insync_ends: "insync a b v \<Longrightarrow> ends_legal a b x v"
  by (simp add: ends_legal_def insync_legal)

subsection \<open>Running the building blocks\<close>

lemma rview_upd_status [wpv_intro]:
  "Q () (sts, r\<lparr>cr_Status := f (cr_Status r)\<rparr>) \<Longrightarrow> wpv H rview (upd_status f) Q X (sts, r)"
  unfolding upd_status_def by (rule rview_upd)

lemma rview_upd_finalizers [wpv_intro]:
  "(\<And>r'. cr_Status r' = cr_Status r \<Longrightarrow> Q () (sts, r')) \<Longrightarrow> wpv H rview (upd_finalizers f) Q X (sts, r)"
  unfolding upd_finalizers_def by (rule rview_upd) simp

text \<open>A change of the status followed by its update: the change has to be a step from the last write.\<close>

lemma write_status:
  assumes "insync a b (sts, r)" "lifecycle (cr_Status r) (f (cr_Status r))"
    and "\<And>res sts' r'. insync a b (sts', r') \<Longrightarrow> cr_Status r' = f (cr_Status r) \<Longrightarrow> wpv status_echo rview (k res) Q X (sts', r')"
  shows "wpv status_echo rview (thenM (upd_status f) (bindM Status_Update_Resource k)) Q X (sts, r)"
  by (intro wpv_intro assms(3) written_insync)
     (use assms(1,2) in \<open>simp_all add: insync_def written_write\<close>)

lemma write_return:
  assumes "insync a b (sts, r)" "lifecycle (cr_Status r) (f (cr_Status r))"
  shows "wpv status_echo rview (thenM (upd_status f) return_update) (ends_legal a b) X (sts, r)"
  unfolding return_update_def by (intro write_status [where f = f, OF assms] wpv_ret insync_ends)

lemma write_checked:
  assumes "insync a b (sts, r)" "lifecycle (cr_Status r) (f (cr_Status r))"
    and "\<And>e sts' r'. insync a b (sts', r') \<Longrightarrow> cr_Status r' = f (cr_Status r) \<Longrightarrow> wpv status_echo rview (h e) Q X (sts', r')"
    and "\<And>sts' r'. insync a b (sts', r') \<Longrightarrow> cr_Status r' = f (cr_Status r) \<Longrightarrow> wpv status_echo rview k Q X (sts', r')"
  shows "wpv status_echo rview (thenM (upd_status f) (checkM Status_Update_Resource h k)) Q X (sts, r)"
  unfolding checkM_def by (intro write_status [where f = f, OF assms(1,2)] wpv_option assms(3,4))

lemma requeueOnErr_run:
  assumes "insync a b (sts, r)"
    and "\<And>sts' r'. insync a b (sts', r') \<Longrightarrow> cr_Status r' = (cr_Status r)\<lparr>crst_Error := err_Error err\<rparr>
      \<Longrightarrow> Q (\<lparr>RequeueAfter = 0\<rparr>, Some err) (sts', r')"
  shows "wpv status_echo rview (Resource_requeueOnErr err) Q X (sts, r)"
  unfolding Resource_requeueOnErr_def
  by (rule write_status [OF assms(1)]) (auto intro: lifecycle.note_error wpv_ret assms(2))

lemma requeueOnErr_legal: "insync a b (sts, r) \<Longrightarrow> wpv status_echo rview (Resource_requeueOnErr err) (ends_legal a b) X (sts, r)"
  by (erule requeueOnErr_run) (rule insync_ends)

subsection \<open>The handlers follow the lifecycle\<close>

lemma handleNone_legal:
  assumes "insync a b (sts, r)" "cr_State r = []"
  shows "wpv status_echo rview Resource_handleNoneState (ends_legal a b) (legal a b) (sts, r)"
proof -
  have w: "written lifecycle a b (cr_Status r) sts" "crst_State (cr_Status r) = []" using assms by (simp_all add: insync_def)
  have go: "wpv status_echo rview return_update (ends_legal a b) X (sts, r')"
    if "crst_State (cr_Status r') = ''Attaching''" "crst_Error (cr_Status r') = []" for r' X
    unfolding return_update_def
    by (intro wpv_intro insync_ends written_insync) (simp add: written_write [OF w(1) start_attach [OF w(2)]] that)
  show ?thesis
    unfolding Resource_handleNoneState_def
    by (intro wpv_intro conjI allI impI go requeueOnErr_legal [where a = a and b = b])
       (use assms in \<open>auto simp: insync_def\<close>)
qed

text \<open>A part of a handler either ends it or leaves the object in sync and in its state.\<close>

definition passes :: "ComposableResourceStatus list \<Rightarrow> ComposableResourceStatus \<Rightarrow> string \<Rightarrow> reconciled option
    \<Rightarrow> ComposableResourceStatus list \<times> ComposableResource \<Rightarrow> bool" where
  "passes a b state x v \<longleftrightarrow>
     (case x of Some y \<Rightarrow> ends_legal a b y v | None \<Rightarrow> insync a b v \<and> cr_State (snd v) = state)"

lemma requeueOnErr_passes:
  "insync a b (sts, r) \<Longrightarrow>
     wpv status_echo rview (bindM (Resource_requeueOnErr err) (\<lambda>x. ret (Some x))) (passes a b state) X (sts, r)"
  by (intro wpv_bindM, erule requeueOnErr_run) (rule wpv_ret, simp add: passes_def insync_ends)

lemma report_legal:
  assumes "keeps rview m" "insync a b (sts, r)" "cr_State r = state"
  shows "wpv status_echo rview (report m) (passes a b state) (legal a b) (sts, r)"
  unfolding report_def
  by (intro wpv_bindM wpv_keeps [OF assms(1)] wpv_option write_checked [where a = a and b = b] requeueOnErr_passes wpv_ret)
     (use assms in \<open>auto simp: passes_def lifecycle.note_error insync_legal\<close>)

lemma keeps_rview_utils:
  "keeps rview (RestartDaemonset ns n)" "keeps rview (RunNvidiaSmi n)"
  by (intro keeps_intro; simp)+

lemma refresh_node_legal:
  assumes "insync a b (sts, r)" "cr_State r = state"
  shows "wpv status_echo rview (refresh_node t) (passes a b state) (legal a b) (sts, r)"
proof -
  have two: "wpv status_echo rview (checkM (report m) (\<lambda>x. ret (Some x)) (report m')) (passes a b state) (legal a b) (sts, r)"
    if "keeps rview m" "keeps rview m'" for m m'
    by (rule wpv_checkM, rule wpv_conseq [OF report_legal [OF that(1) assms]])
       (auto intro!: wpv_ret report_legal that simp: passes_def split: option.splits)
  show ?thesis
    unfolding refresh_node_def
    by (intro wpv_bindM rview_get wpv_if rview_utils two keeps_rview_utils wpv_ret)
       (use assms in \<open>simp_all add: passes_def insync_legal\<close>)
qed

lemma recognise_legal:
  assumes "insync a b (sts, r)" "cr_State r = ''Attaching''"
  shows "wpv status_echo rview (recognise t) (ends_legal a b) (legal a b) (sts, r)"
  unfolding recognise_def requeueAfter_def
  by (intro wpv_bindM rview_get wpv_tryM rview_utils wpv_if wpv_ret conjI allI impI write_return requeueOnErr_legal
      lifecycle.come_online insync_ends)
     (use assms in \<open>simp_all add: insync_legal\<close>)

context cdi_provider
begin

lemma add_run: "(\<And>x. Q x v) \<Longrightarrow> X v \<Longrightarrow> wpv H rview (AddResource P) Q X v"
  by (rule wpv_keeps [OF add_view])

lemma chk_run: "(\<And>x. Q x v) \<Longrightarrow> X v \<Longrightarrow> wpv H rview (CheckResource P) Q X v"
  by (rule wpv_keeps [OF chk_view])

lemma rem_run:
  assumes "insync a b (sts, r)"
    and "\<And>x sts' r'. insync a b (sts', r') \<Longrightarrow> cr_State r' = cr_State r \<Longrightarrow> Q x (sts', r')"
    and "\<And>sts' r'. insync a b (sts', r') \<Longrightarrow> X (sts', r')"
  shows "wpv status_echo rview (RemoveResource P) Q X (sts, r)"
proof -
  have "insync a b v \<and> cr_State (snd v) = cr_State r" if "only_error (sts, r) v" for v
    using that assms(1) unfolding only_error_def
    by (auto simp: insync_def written_error)
  then show ?thesis
    using assms(2,3) by (intro wpv_conseq [OF rem_view]) (metis prod.collapse snd_conv)+
qed

lemma attach_device_legal:
  assumes "insync a b (sts, r)" "cr_State r = ''Attaching''"
  shows "wpv status_echo rview (attach_device P) (passes a b ''Attaching'') (legal a b) (sts, r)"
  unfolding attach_device_def requeueAfter_def
  by (intro wpv_bindM rview_get wpv_if add_run wpv_prod wpv_option wpv_ret requeueOnErr_passes
      write_checked [where a = a and b = b] lifecycle.assign)
     (use assms in \<open>auto simp: passes_def insync_legal insync_ends\<close>)

lemma handleAttaching_legal:
  assumes "insync a b (sts, r)" "cr_State r = ''Attaching''"
  shows "wpv status_echo rview (Resource_handleAttachingState P) (ends_legal a b) (legal a b) (sts, r)"
proof -
  have rest: "wpv status_echo rview (checkM (refresh_node t) (\<lambda>x. ret x) (recognise t)) (ends_legal a b) (legal a b) v"
    if "insync a b v" "cr_State (snd v) = ''Attaching''" for t v
    using that by (cases v; hypsubst) (rule wpv_checkM, rule wpv_conseq [OF refresh_node_legal],
      auto intro!: wpv_ret recognise_legal simp: passes_def split: option.splits)
  have all: "wpv status_echo rview (checkM (attach_device P) (\<lambda>x. ret x) (checkM (refresh_node t) (\<lambda>x. ret x) (recognise t)))
      (ends_legal a b) (legal a b) (sts, r)" for t
    by (rule wpv_checkM, rule wpv_conseq [OF attach_device_legal [OF assms]])
       (auto intro!: wpv_ret rest simp: passes_def split: option.splits)
  show ?thesis
    unfolding Resource_handleAttachingState_def
    by (intro wpv_bindM rview_get wpv_if rview_utils write_return lifecycle.give_up lifecycle.abandon all)
       (use assms in \<open>auto simp: insync_legal\<close>)
qed

lemma handleOnline_legal:
  assumes "insync a b (sts, r)" "cr_State r = ''Online''"
  shows "wpv status_echo rview (Resource_handleOnlineState P) (ends_legal a b) (legal a b) (sts, r)"
  unfolding Resource_handleOnlineState_def doNotRequeue_def requeueAfter_def
  by (intro wpv_bindM rview_get wpv_if rview_utils write_return lifecycle.release wpv_option wpv_ret requeueOnErr_legal
      chk_run write_checked [where a = a and b = b])
     (use assms in \<open>auto simp: insync_legal insync_ends lifecycle.note_error\<close>)

lemma finish_legal:
  assumes "insync a b (sts, r)" "cr_State r = ''Detaching''" "cr_DeviceID r = []"
  shows "wpv status_echo rview finish_detach (ends_legal a b) X (sts, r)"
  unfolding finish_detach_def using assms by (intro write_return lifecycle.finish)

lemma confirm_legal:
  assumes "insync a b (sts, r)" "cr_State r = ''Detaching''"
  shows "wpv status_echo rview (confirm_detached t) (ends_legal a b) (legal a b) (sts, r)"
  unfolding confirm_detached_def requeueAfter_def
  by (intro wpv_bindM rview_get wpv_tryM wpv_checkM rview_utils wpv_if wpv_ret conjI allI impI requeueOnErr_legal insync_ends
      write_checked [where a = a and b = b] lifecycle.clear finish_legal)
     (use assms in \<open>auto simp: insync_legal\<close>)

lemma restart_run:
  "(\<And>x. Q x v) \<Longrightarrow> X v \<Longrightarrow> wpv H rview (restart_daemonsets t) Q X v"
  unfolding restart_daemonsets_def by (intro wpv_intro conjI allI impI)

lemma remove_device_legal:
  assumes "insync a b (sts, r)" "cr_State r = ''Detaching''"
  shows "wpv status_echo rview (remove_device P t) (ends_legal a b) (legal a b) (sts, r)"
  unfolding remove_device_def requeueAfter_def
  by (intro wpv_checkM rem_run [OF assms(1)] restart_run conjI allI impI wpv_if wpv_ret requeueOnErr_legal insync_ends
      confirm_legal)
     (use assms in \<open>auto simp: insync_legal\<close>)

lemma check_loads_run:
  "(\<And>x. Q x (sts, r)) \<Longrightarrow> X (sts, r) \<Longrightarrow> wpv H rview (check_loads t) Q X (sts, r)"
  unfolding check_loads_def by (intro wpv_intro)

lemma handleDetaching_legal:
  assumes "insync a b (sts, r)" "cr_State r = ''Detaching''"
  shows "wpv status_echo rview (Resource_handleDetachingState P) (ends_legal a b) (legal a b) (sts, r)"
  unfolding Resource_handleDetachingState_def
  by (intro wpv_bindM rview_get wpv_if wpv_checkM check_loads_run rview_utils wpv_ret conjI allI impI requeueOnErr_legal
      remove_device_legal finish_legal)
     (use assms in \<open>auto simp: insync_legal\<close>)

lemma handleDeleting_legal:
  assumes "insync a b (sts, r)"
  shows "wpv status_echo rview Resource_handleDeletingState (ends_legal a b) (legal a b) (sts, r)"
  unfolding Resource_handleDeletingState_def doNotRequeue_def
  by (intro wpv_intro conjI allI impI requeueOnErr_legal)
     (use assms in \<open>auto simp: insync_def legal_def ends_legal_def\<close>)

lemma dispatch_legal:
  assumes "insync a b (sts, r)"
  shows "wpv status_echo rview (dispatch P (cr_State r)) (ends_legal a b) (legal a b) (sts, r)"
  unfolding dispatch_def doNotRequeue_def
  by (intro wpv_if handleNone_legal handleAttaching_legal handleOnline_legal handleDetaching_legal handleDeleting_legal
      wpv_ret insync_ends)
     (use assms in auto)

lemma handle_state_legal:
  assumes "insync a b v"
  shows "wpv status_echo rview (handle_state P) (\<lambda>_. legal a b) (legal a b) v"
proof -
  obtain sts r where v: "v = (sts, r)" by (cases v)
  have last: "wpv status_echo rview (case x of (result, err) \<Rightarrow> case err of Some e \<Rightarrow> Resource_requeueOnErr e | None \<Rightarrow> ret (result, None))
      (\<lambda>_. legal a b) (legal a b) v'" if "ends_legal a b x v'" for x v'
    using that
    by (cases v'; hypsubst) (auto intro!: wpv_prod wpv_option wpv_ret
        wpv_conseq [OF requeueOnErr_legal [where a = a and b = b]] simp: ends_legal_def)
  show ?thesis
    unfolding handle_state_def v
    by (intro wpv_bindM rview_get, rule wpv_conseq [OF dispatch_legal]) (use assms v last in auto)
qed

end

subsection \<open>Reconcile\<close>

lemma adapter_run:
  assumes frame: "\<And>s t. vw (s\<lparr>cachedToken := t\<rparr>) = vw s"
    and Q: "\<And>e. Q (Inl e) v" "\<And>P. cdi_provider P \<Longrightarrow> Q (Inr P) v" "X v"
  shows "wpv H vw NewComposableResourceAdapter Q X v"
proof -
  have texts: "wpv H vw NewSunfishClient Q' X' v" "wpv H vw (Getenv k) Q' X' v"
    if "\<And>x. Q' x v" "X' v" for Q' X' k
    unfolding NewSunfishClient_def by (intro wpv_keeps keeps_intro; simp add: that)+
  have clients: "wpv H vw cm_NewFTIClient Q' X' v" "wpv H vw fm_NewFTIClient Q' X' v"
    if "\<And>x. Q' x v" "X' v" for Q' X'
    unfolding cm_NewFTIClient_def fm_NewFTIClient_def Let_def
    by (intro wpv_keeps keeps_intro; simp add: that frame)+
  show ?thesis
    unfolding NewComposableResourceAdapter_def
    by (intro wpv_bindM wpv_if wpv_ret texts clients Q sunfish.cdi_provider_axioms
        cm.cdi_provider_axioms fm.cdi_provider_axioms)
qed

lemma gc_legal:
  assumes "insync a b (sts, r)"
  shows "wpv status_echo rview Resource_performGarbageCollection (\<lambda>_. insync a b) (legal a b) (sts, r)"
proof -
  have mark: "wpv status_echo rview gc_mark (\<lambda>_. insync a b) (legal a b) (sts, r)"
    unfolding gc_mark_def
    by (intro wpv_bindM rview_get wpv_if wpv_ret write_status [where a = a and b = b] wpv_option lifecycle.collect)
       (use assms in auto)
  have del: "wpv status_echo rview (gc_delete nr) (\<lambda>_. insync a b) (legal a b) v" if "insync a b v" for nr v
    using that unfolding gc_delete_def
    by (cases v; hypsubst) (intro wpv_bindM rview_get wpv_if wpv_ret rview_utils wpv_option; simp add: insync_legal)
  have both: "wpv status_echo rview (tryM gc_mark (\<lambda>err. ret (Inl err)) gc_delete) (\<lambda>_. insync a b) (legal a b) (sts, r)"
    by (rule wpv_tryM, rule wpv_conseq [OF mark]) (auto intro!: wpv_ret del)
  show ?thesis
    unfolding Resource_performGarbageCollection_def
    by (intro wpv_bindM rview_get wpv_if wpv_ret rview_utils wpv_option wpv_tryM [where m = "HasDeviceTaint _"] wpv_checkM
        conjI allI impI both) (use assms in \<open>auto simp: insync_legal\<close>)
qed

lemma reconcile_legal:
  assumes "insync a b v"
  shows "wpv status_echo rview Resource_Reconcile_object (\<lambda>_. legal a b) (legal a b) v"
proof -
  obtain sts r where v: "v = (sts, r)" by (cases v)
  have err: "wpv status_echo rview (Resource_requeueOnErr e) (\<lambda>_. legal a b) (legal a b) v'" if "insync a b v'" for e v'
    using that by (cases v'; hypsubst)
      (rule wpv_conseq [OF requeueOnErr_legal [where a = a and b = b]], auto simp: ends_legal_def)
  have rest: "wpv status_echo rview (if gcDone then doNotRequeue
      else tryM NewComposableResourceAdapter (\<lambda>err. Resource_requeueOnErr err) handle_state) (\<lambda>_. legal a b) (legal a b) v'"
    if "insync a b v'" for v' gcDone
    unfolding doNotRequeue_def
    by (intro wpv_if wpv_ret wpv_tryM adapter_run conjI allI impI err cdi_provider.handle_state_legal rview_cachedToken)
       (use that in \<open>auto simp: insync_legal\<close>)
  show ?thesis
    unfolding Resource_Reconcile_object_def
    by (rule wpv_tryM, rule wpv_conseq [OF gc_legal [OF assms [unfolded v], folded v]])
       (intro conjI allI impI, erule err, erule rest, assumption)
qed

lemma reconcile_path:
  assumes "status_echo E" and "api_GetResource E name (world s) = (Inr resource, w)"
  obtains new where "statuses (trace (snd (Resource_Reconcile name E s))) = statuses (trace s) @ new"
    "steps_path lifecycle (cr_Status resource) new"
proof -
  let ?s1 = "s\<lparr>world := w, theResource := resource\<rparr>"
  have run: "Resource_Reconcile name E s = Resource_Reconcile_object E ?s1"
    using assms(2) by (simp add: Resource_Reconcile_def bindM_def query_def thenM_def modifyM_def)
  have "insync (statuses (trace s)) (cr_Status resource) (rview ?s1)"
    by (auto simp: insync_def written_def rview_def intro: exI [of _ "[]"])
  note safe = wpvD [OF reconcile_legal [OF this] assms(1) refl]
  obtain res s' where r: "Resource_Reconcile_object E ?s1 = (res, s')"
    by (cases "Resource_Reconcile_object E ?s1")
  then have "legal (statuses (trace s)) (cr_Status resource) (rview s')"
    using safe by (cases res) auto
  then show ?thesis
    using run r that by (auto simp: legal_def written_def rview_def)
qed

text \<open>
  C1.  The reconciler refines the lifecycle.  Where the API server answers a status update with the
  status sent, the statuses a run of \<^verbatim>\<open>Reconcile\<close> writes, from the one it read on and whether or not
  the run panics, are a path of the abstract lifecycle: each write is one of its steps from the
  write before.
\<close>

theorem Resource_Reconcile_lifecycle:
  assumes "status_echo E" and "api_GetResource E name (world s) = (Inr resource, w)"
  shows "\<exists>new. statuses (trace (snd (Resource_Reconcile name E s))) = statuses (trace s) @ new
     \<and> steps_path lifecycle (cr_Status resource) new"
  using reconcile_path [OF assms] by metis

definition lone_env :: "ComposableResource \<Rightarrow> unit env" where
  "lone_env r = void_env\<lparr>api_GetResource := (\<lambda>_ w. (Inr r, w)),
     api_UpdateResource := (\<lambda>r w. (Inr r, w)), api_UpdateResourceStatus := (\<lambda>r w. (Inr r, w)),
     api_GetNode := (\<lambda>_ w. (Inr demo_node, w)),
     os_Getenv := (\<lambda>v. if v = ''DEVICE_RESOURCE_TYPE'' then ''DRA'' else if v = ''CDI_PROVIDER_TYPE'' then ''SUNFISH'' else [])\<rparr>"

definition new_resource :: ComposableResource where
  "new_resource = demo_resource\<lparr>cr_Status := (cr_Status demo_resource)\<lparr>crst_State := []\<rparr>\<rparr>"

theorem Resource_Reconcile_lifecycle_witness:
  "\<exists>new. statuses (trace (snd (Resource_Reconcile ''gpu-1'' (lone_env new_resource) (start ())))) = new
     \<and> steps_path lifecycle (cr_Status new_resource) new"
proof -
  have "status_echo (lone_env new_resource)" by (simp add: status_echo_def lone_env_def)
  moreover have "api_GetResource (lone_env new_resource) ''gpu-1'' (world (start ())) = (Inr new_resource, ())"
    by (simp add: lone_env_def)
  ultimately show ?thesis
    using Resource_Reconcile_lifecycle [of "lone_env new_resource" "''gpu-1''" "start ()" new_resource "()"]
    by (simp add: start_def)
qed

subsection \<open>No way back\<close>

definition rank :: "string \<Rightarrow> nat" where
  "rank state = (if state = ''Attaching'' then 1 else if state = ''Online'' then 2
     else if state = ''Detaching'' then 3 else if state = ''Deleting'' then 4 else 0)"

lemma lifecycle_rank: "lifecycle st st' \<Longrightarrow> rank (crst_State st) \<le> rank (crst_State st')"
  by (induction rule: lifecycle.induct) (auto simp: rank_def)

lemma lifecycle_reachable_rank: "lifecycle\<^sup>*\<^sup>* st st' \<Longrightarrow> rank (crst_State st) \<le> rank (crst_State st')"
  by (induction rule: rtranclp_induct) (auto dest: lifecycle_rank)

text \<open>A device, once recorded, is dropped only by the clearing step of a detach, or by a new start.\<close>

lemma lifecycle_device:
  "lifecycle st st' \<Longrightarrow> crst_DeviceID st' \<noteq> crst_DeviceID st \<Longrightarrow>
     crst_State st = [] \<or> crst_State st = ''Attaching'' \<and> crst_DeviceID st = []
     \<or> crst_State st = ''Detaching'' \<and> crst_DeviceID st' = []"
  by (induction rule: lifecycle.induct) auto

text \<open>
  A resource never goes back.  Every status a run of \<^verbatim>\<open>Reconcile\<close> writes is at least as far in the
  order none, Attaching, Online, Detaching, Deleting as the status read; in particular nothing leaves
  Deleting.
\<close>

theorem Resource_Reconcile_monotone:
  assumes "status_echo E" and "api_GetResource E name (world s) = (Inr resource, w)"
  shows "\<exists>new. statuses (trace (snd (Resource_Reconcile name E s))) = statuses (trace s) @ new
     \<and> (\<forall>st \<in> set new. rank (cr_State resource) \<le> rank (crst_State st))"
  using reconcile_path [OF assms] lifecycle_reachable_rank steps_path_rtranclp by metis

theorem Resource_Reconcile_monotone_witness:
  "\<exists>new. statuses (trace (snd (Resource_Reconcile ''gpu-1'' (lone_env demo_resource) (start ())))) = new
     \<and> (\<forall>st \<in> set new. 1 \<le> rank (crst_State st))"
proof -
  have "status_echo (lone_env demo_resource)" by (simp add: status_echo_def lone_env_def)
  moreover have "api_GetResource (lone_env demo_resource) ''gpu-1'' (world (start ())) = (Inr demo_resource, ())"
    by (simp add: lone_env_def)
  ultimately show ?thesis
    using Resource_Reconcile_monotone [of "lone_env demo_resource" "''gpu-1''" "start ()" demo_resource "()"]
    by (simp add: start_def demo_resource_def rank_def)
qed

section \<open>What a reconciliation may do, by state\<close>

text \<open>The calls with an effect allowed for a resource read as \<open>r\<close>.\<close>

fun allowed :: "ComposableResource \<Rightarrow> event \<Rightarrow> bool" where
  "allowed r (EvHttp h) = (reads_only h
     \<or> cr_State r = ''Attaching'' \<and> cr_DeviceID r = [] \<and> (attaches h \<or> names_nothing h)
     \<or> cr_State r = ''Detaching'' \<and> cr_DeviceID r \<noteq> [] \<and> (detaches h \<or> names_nothing h))"
| "allowed r (EvUpdateResource r') =
     (if cr_State r = [] then composabilityRequestFinalizer \<in> set (om_Finalizers (cr_Meta r')) else cr_State r = ''Deleting'')"
| "allowed r (EvUpdateResourceStatus r') = True"
| "allowed r (EvDeleteResource r') = True"
| "allowed r (EvDeleteTaint t) = True"
| "allowed r (EvCreateTaint t) = (cr_State r = ''Detaching'' \<and> cr_DeviceID r \<noteq> [])"
| "allowed r (EvExec p c) = (cr_State r = ''Attaching'' \<and> \<not> takes_away c
     \<or> cr_State r = ''Detaching'' \<and> cr_DeviceID r \<noteq> [])"
| "allowed r (EvGoExec p c) = (cr_State r = ''Detaching'' \<and> cr_DeviceID r \<noteq> [])"
| "allowed r (EvUpdateDaemonSet d) = (cr_State r = ''Attaching'' \<or> cr_State r = ''Detaching'' \<and> cr_DeviceID r \<noteq> [])"
| "allowed r _ = False"

lemma emits_upd_status [emits_intro]: "emits A (upd_status f)" "emits A (upd_finalizers g)"
  unfolding upd_status_def upd_finalizers_def by (intro emits_intro)+

lemma emits_resource_blocks [emits_intro]:
  assumes "\<And>r. A (EvUpdateResourceStatus r)"
  shows "emits A return_update" "emits A (Resource_requeueOnErr err)" "emits A doNotRequeue" "emits A (requeueAfter d e)"
    "emits A finish_detach"
  unfolding return_update_def Resource_requeueOnErr_def doNotRequeue_def requeueAfter_def finish_detach_def
  by (intro emits_intro assms)+

lemma emits_node_work [emits_intro]:
  assumes "\<And>r. A (EvUpdateResourceStatus r)" "\<And>p c. \<not> takes_away c \<Longrightarrow> A (EvExec p c)" "\<And>d. A (EvUpdateDaemonSet d)"
  shows "emits A (refresh_node t)" "emits A (recognise t)" "emits A (check_loads t)" "emits A (restart_daemonsets t)"
  unfolding refresh_node_def recognise_def report_def check_loads_def restart_daemonsets_def
  by (intro emits_intro assms; assumption)+

lemma emits_confirm [emits_intro]:
  assumes "\<And>r. A (EvUpdateResourceStatus r)" "\<And>p c. A (EvExec p c)" "\<And>t. A (EvDeleteTaint t)"
  shows "emits A (confirm_detached t)"
  unfolding confirm_detached_def by (intro emits_intro assms)

text \<open>Within the contract: the handlers that talk to the provider.\<close>

definition stays :: "ComposableResource \<Rightarrow> event list \<Rightarrow> event list \<times> ComposableResource \<Rightarrow> bool" where
  "stays r tr v \<longleftrightarrow> (\<exists>evs. fst v = tr @ evs \<and> list_all (allowed r) evs)"

lemma stays_emits:
  "emits (allowed r) m \<Longrightarrow> wpv H tview m (\<lambda>_. stays r tr) (stays r tr) (tr, r')"
  by (rule tview_emits_any) (auto simp: stays_def)

lemma stays_again:
  assumes "stays r tr v" "emits (allowed r) m"
  shows "wpv H tview m (\<lambda>_. stays r tr) (stays r tr) v"
proof -
  obtain evs r' where v: "v = (tr @ evs, r')" "list_all (allowed r) evs"
    using assms(1) by (cases v) (auto simp: stays_def)
  show ?thesis
    unfolding v(1) by (rule tview_emits_any [OF assms(2)]) (use v(2) in \<open>auto simp: stays_def\<close>)
qed

context cdi_provider
begin

lemma emits_add:
  "(\<And>h. reads_only h \<or> attaches h \<or> names_nothing h \<Longrightarrow> A (EvHttp h)) \<Longrightarrow> emits A (AddResource P)"
  by (rule emits_mono [OF add_sends]) (case_tac e; simp)

lemma emits_rem:
  "(\<And>h. reads_only h \<or> detaches h \<or> names_nothing h \<Longrightarrow> A (EvHttp h)) \<Longrightarrow> (\<And>r. A (EvUpdateResourceStatus r)) \<Longrightarrow> emits A (RemoveResource P)"
  by (rule emits_mono [OF rem_sends]) (case_tac e; simp)

lemma emits_chk: "(\<And>h. reads_only h \<Longrightarrow> A (EvHttp h)) \<Longrightarrow> emits A (CheckResource P)"
  by (rule emits_mono [OF chk_sends]) (case_tac e; simp)

lemma attaching_allowed:
  assumes "cr_State r = ''Attaching''"
  shows "wpv H tview (Resource_handleAttachingState P) (\<lambda>_. stays r tr) (stays r tr) (tr, r)"
proof (cases "cr_DeviceID r = []")
  case True
  then show ?thesis
    unfolding Resource_handleAttachingState_def attach_device_def
    by (intro stays_emits emits_intro emits_add) (use assms in auto)
next
  case False
  have rest: "emits (allowed r) (checkM (refresh_node t) (\<lambda>x. ret x) (recognise t))" for t
    by (intro emits_intro) (use assms in auto)
  have upd: "emits (allowed r) (thenM (upd_status f) return_update)" for f
    by (intro emits_intro) simp
  have skip: "wpv H tview (attach_device P) Q X (tr, r)" if "Q None (tr, r)" for Q X
    unfolding attach_device_def using False that by (intro wpv_bindM tview_get wpv_if wpv_ret) simp_all
  have env: "wpv H tview (Getenv k) Q X (tr, r)" if "\<And>x. Q x (tr, r)" "X (tr, r)" for k Q X
    by (rule wpv_keeps) (auto intro!: keeps_intro simp: that)
  show ?thesis
    unfolding Resource_handleAttachingState_def
    by (intro wpv_bindM tview_get wpv_if stays_emits upd env wpv_checkM [where m = "attach_device P"] skip conjI allI impI
        rest wpv_ret) (auto simp: stays_def)
qed

lemma online_allowed:
  "cr_State r = ''Online'' \<Longrightarrow> emits (allowed r) (Resource_handleOnlineState P)"
  unfolding Resource_handleOnlineState_def by (intro emits_intro emits_chk) auto

lemma detaching_allowed:
  assumes "cr_State r = ''Detaching''"
  shows "wpv H tview (Resource_handleDetachingState P) (\<lambda>_. stays r tr) (stays r tr) (tr, r)"
proof (cases "cr_DeviceID r = []")
  case True
  have env: "wpv H tview (Getenv k) Q X (tr, r)" if "\<And>x. Q x (tr, r)" "X (tr, r)" for k Q X
    by (rule wpv_keeps) (auto intro!: keeps_intro simp: that)
  show ?thesis
    unfolding Resource_handleDetachingState_def
    by (intro wpv_bindM tview_get env wpv_if stays_emits) (use True in \<open>auto simp: stays_def intro!: emits_intro\<close>)
next
  case False
  then show ?thesis
    unfolding Resource_handleDetachingState_def remove_device_def
    by (intro stays_emits emits_intro emits_rem) (use assms in auto)
qed

lemma none_allowed:
  assumes "cr_State r = []"
  shows "wpv H tview Resource_handleNoneState (\<lambda>_. stays r tr) (stays r tr) (tr, r)"
proof -
  have rest: "emits (allowed r) (thenM (upd_resource f) (thenM (upd_status g) return_update))" for f g
    by (intro emits_intro) simp
  have err: "emits (allowed r) (Resource_requeueOnErr e)" for e
    by (intro emits_intro) simp
  show ?thesis
    unfolding Resource_handleNoneState_def upd_finalizers_def
    by (intro wpv_bindM wpv_checkM tview_get wpv_if wpv_thenM [where k = Update_Resource] tview_upd tview_update wpv_ret
        conjI allI impI stays_again err rest)
       (use assms in \<open>auto simp: stays_def\<close>)
qed

lemma deleting_allowed: "cr_State r = ''Deleting'' \<Longrightarrow> emits (allowed r) Resource_handleDeletingState"
  unfolding Resource_handleDeletingState_def by (intro emits_intro) auto

lemma handle_state_allowed: "wpv H tview (handle_state P) (\<lambda>_. stays r tr) (stays r tr) (tr, r)"
proof -
  have none: "emits (allowed r) doNotRequeue" by (intro emits_intro) simp
  have d: "wpv H tview (dispatch P (cr_State r)) (\<lambda>_. stays r tr) (stays r tr) (tr, r)"
    unfolding dispatch_def
    by (intro wpv_if none_allowed attaching_allowed detaching_allowed stays_emits online_allowed deleting_allowed none)
  have last: "emits (allowed r) (case x of (result, err) \<Rightarrow> case err of Some e \<Rightarrow> Resource_requeueOnErr e | None \<Rightarrow> ret (result, None))" for x
    by (intro emits_intro) simp
  show ?thesis
    unfolding handle_state_def
    by (intro wpv_bindM tview_get, rule wpv_conseq [OF d]) (erule stays_again, rule last, assumption)
qed

end

lemma untouched_tview [simp]: "untouched tview"
  by (simp add: untouched_def tview_def)

lemma tview_delete:
  "(\<And>x. Q x (tr @ [EvDeleteResource r'], r)) \<Longrightarrow> wpv H tview (Delete_Resource r') Q X (tr, r)"
  by (simp add: wpv_def Delete_Resource_def effect_def tview_def split: prod.split)

text \<open>Garbage collection that does not end the run has left the object alone.\<close>

lemma gc_allowed:
  "wpv H tview Resource_performGarbageCollection (\<lambda>x v. stays r tr v \<and> (x = Inr False \<longrightarrow> snd v = r)) (stays r tr) (tr, r)"
proof -
  have quiet: "wpv H tview (CheckNodeExisted n) Q1 X' v" "wpv H tview (HasDeviceTaint r'') Q2 X' v"
    if "\<And>x. Q1 x v" "\<And>x. Q2 x v" "X' v" for n r'' Q1 Q2 X' v
    unfolding HasDeviceTaint_def by (intro wpv_keeps keeps_intro; simp add: that)+
  have del_taint: "wpv H tview (DeleteDeviceTaint r'') Q X' (tr, r)"
    if "\<And>x evs. list_all (allowed r) evs \<Longrightarrow> Q x (tr @ evs, r)" "\<And>evs. list_all (allowed r) evs \<Longrightarrow> X' (tr @ evs, r)" for r'' Q X'
    by (rule tview_emits [where A = "allowed r"]) (auto intro!: emits_intro keeps_intro simp: that)
  have del: "wpv H tview (gc_delete nr) (\<lambda>x v. stays r tr v \<and> (x = Inr False \<longrightarrow> \<not> nr \<and> snd v = r'')) (stays r tr) (tr', r'')"
    if "stays r tr (tr', r'')" for nr tr' r''
    unfolding gc_delete_def
    by (intro wpv_bindM tview_get wpv_if wpv_ret wpv_option tview_delete) (use that in \<open>auto simp: stays_def\<close>)
  have mark: "wpv H tview gc_mark (\<lambda>x v. stays r tr v \<and> (x = Inr False \<longrightarrow> snd v = r)) (stays r tr) (tr @ evs, r)"
    if "list_all (allowed r) evs" for evs
    unfolding gc_mark_def upd_status_def
    by (intro wpv_bindM tview_get wpv_if wpv_ret wpv_option wpv_thenM tview_upd tview_status_update_any)
       (use that in \<open>auto simp: stays_def\<close>)
  have after_mark: "wpv H tview (gc_delete nr) (\<lambda>x v. stays r tr v \<and> (x = Inr False \<longrightarrow> snd v = r)) (stays r tr) v"
    if "stays r tr v" "\<not> nr \<longrightarrow> snd v = r" for nr v
    using that by (cases v; hypsubst) (rule wpv_conseq [OF del], auto)
  have both: "wpv H tview (tryM gc_mark (\<lambda>err. ret (Inl err)) gc_delete)
      (\<lambda>x v. stays r tr v \<and> (x = Inr False \<longrightarrow> snd v = r)) (stays r tr) (tr @ evs, r)"
    if "list_all (allowed r) evs" for evs
    by (rule wpv_tryM, rule wpv_conseq [OF mark [OF that]])
       (auto intro!: wpv_ret after_mark)
  show ?thesis
    unfolding Resource_performGarbageCollection_def
    by (intro wpv_bindM tview_get wpv_if wpv_ret quiet wpv_option wpv_tryM [where m = "HasDeviceTaint _"] wpv_checkM
        conjI allI impI del_taint both both [of "[]", simplified]) (auto simp: stays_def)
qed

lemma reconcile_allowed: "wpv H tview Resource_Reconcile_object (\<lambda>_. stays r tr) (stays r tr) (tr, r)"
proof -
  have err: "emits (allowed r) (Resource_requeueOnErr e)" "emits (allowed r) doNotRequeue" for e
    by (intro emits_intro; simp)+
  have state: "wpv H tview (handle_state P) (\<lambda>_. stays r tr) (stays r tr) v"
    if P: "cdi_provider P" and st: "stays r tr v" and eq: "snd v = r" for P v
  proof -
    obtain evs where "fst v = tr @ evs" and evs: "list_all (allowed r) evs"
      using st by (auto simp: stays_def)
    with eq have v: "v = (tr @ evs, r)" by (simp add: prod_eq_iff)
    have "stays r (tr @ evs) v' \<Longrightarrow> stays r tr v'" for v'
      using evs by (auto simp: stays_def)
    then show ?thesis
      unfolding v by (intro wpv_conseq [OF cdi_provider.handle_state_allowed [OF P]])
  qed
  have rest: "wpv H tview (if gcDone then doNotRequeue
      else tryM NewComposableResourceAdapter (\<lambda>err. Resource_requeueOnErr err) handle_state) (\<lambda>_. stays r tr) (stays r tr) v"
    if "stays r tr v" "\<not> gcDone \<longrightarrow> snd v = r" for v gcDone
    by (intro wpv_if stays_again [OF that(1)] err wpv_tryM adapter_run conjI allI impI state)
       (use that in \<open>auto simp: tview_def\<close>)
  show ?thesis
    unfolding Resource_Reconcile_object_def
    by (rule wpv_tryM, rule wpv_conseq [OF gc_allowed])
       (intro conjI allI impI stays_again err rest; simp)+
qed

lemma Resource_Reconcile_stays:
  assumes "api_GetResource E name (world s) = (Inr r, w)"
  obtains evs where "trace (snd (Resource_Reconcile name E s)) = trace s @ evs" "list_all (allowed r) evs"
proof -
  let ?s1 = "s\<lparr>world := w, theResource := r\<rparr>"
  have run: "Resource_Reconcile name E s = Resource_Reconcile_object E ?s1"
    using assms by (simp add: Resource_Reconcile_def bindM_def query_def thenM_def modifyM_def)
  obtain res s' where r: "Resource_Reconcile_object E ?s1 = (res, s')"
    by (cases "Resource_Reconcile_object E ?s1")
  have v: "tview ?s1 = (trace s, r)" by (simp add: tview_def)
  have "stays r (trace s) (tview s')"
    using wpvD [OF reconcile_allowed [of "\<lambda>_. True"] TrueI v] r by (cases res) auto
  then show ?thesis
    using run r that by (auto simp: stays_def tview_def)
qed

text \<open>
  C2.  The fabric and the nodes are only changed where they should be.  In a run of \<^verbatim>\<open>Reconcile\<close>, with
  any provider the adapter can choose and in any environment, a request that attaches a device (a
  scale-up, or a composition request for one GPU) is sent only for a resource read in state
  Attaching without a device, one that detaches (a scale-down, or a composition request for no
  GPU) only for a resource in state Detaching with a device; the composition request that names
  nothing, which the Sunfish client sends for a model it does not know, occurs in these two
  situations only, and every other request only reads.  Commands run in pods for an Attaching
  resource never take a GPU away; all others, and the reset started in a goroutine, belong to a
  resource in state Detaching with a device.
\<close>

theorem Resource_Reconcile_fabric_guard:
  assumes "api_GetResource E name (world s) = (Inr r, w)"
  shows "\<exists>evs. trace (snd (Resource_Reconcile name E s)) = trace s @ evs \<and>
     (\<forall>h. EvHttp h \<in> set evs \<longrightarrow> reads_only h
        \<or> cr_State r = ''Attaching'' \<and> cr_DeviceID r = [] \<and> (attaches h \<or> names_nothing h)
        \<or> cr_State r = ''Detaching'' \<and> cr_DeviceID r \<noteq> [] \<and> (detaches h \<or> names_nothing h)) \<and>
     (\<forall>pod cmd. EvExec pod cmd \<in> set evs \<longrightarrow>
        cr_State r = ''Attaching'' \<and> \<not> takes_away cmd \<or> cr_State r = ''Detaching'' \<and> cr_DeviceID r \<noteq> []) \<and>
     (\<forall>pod cmd. EvGoExec pod cmd \<in> set evs \<longrightarrow> cr_State r = ''Detaching'' \<and> cr_DeviceID r \<noteq> [])"
proof -
  obtain evs where evs: "trace (snd (Resource_Reconcile name E s)) = trace s @ evs" "list_all (allowed r) evs"
    using assms by (rule Resource_Reconcile_stays)
  then have "allowed r ev" if "ev \<in> set evs" for ev
    using that unfolding list_all_iff by blast
  then have "\<And>h. EvHttp h \<in> set evs \<Longrightarrow> allowed r (EvHttp h)"
    "\<And>pod cmd. EvExec pod cmd \<in> set evs \<Longrightarrow> allowed r (EvExec pod cmd)"
    "\<And>pod cmd. EvGoExec pod cmd \<in> set evs \<Longrightarrow> allowed r (EvGoExec pod cmd)" by blast+
  with evs(1) show ?thesis unfolding allowed.simps by blast
qed

definition v100_resource :: ComposableResource where
  "v100_resource = demo_resource\<lparr>cr_Spec := (cr_Spec demo_resource)\<lparr>crs_Model := ''Tesla-V100-PCIE-16GB''\<rparr>\<rparr>"

text \<open>A run in state Attaching that sends an attach request.\<close>

theorem Resource_Reconcile_fabric_guard_witness:
  "\<exists>evs. trace (snd (Resource_Reconcile ''gpu-1'' (lone_env v100_resource) (start ()))) = evs
     \<and> (\<exists>h. EvHttp h \<in> set evs \<and> attaches h)
     \<and> (\<forall>h. EvHttp h \<in> set evs \<longrightarrow> reads_only h \<or> attaches h \<or> names_nothing h)
     \<and> (\<forall>pod cmd. EvExec pod cmd \<in> set evs \<longrightarrow> \<not> takes_away cmd)"
proof -
  let ?run = "Resource_Reconcile ''gpu-1'' (lone_env v100_resource) (start ())"
  have "\<exists>h. EvHttp h \<in> set (trace (snd ?run)) \<and> attaches h"
    by (simp add: Resource_Reconcile_def Resource_Reconcile_object_def Resource_performGarbageCollection_def
        CheckNodeExisted_def getNode_def NewComposableResourceAdapter_def NewSunfishClient_def Getenv_def handle_state_def
        dispatch_def Resource_handleAttachingState_def attach_device_def sunfish_provider_def sunfish_AddResource_def
        sendPatchRequest_def send_def Resource_requeueOnErr_def upd_status_def upd_resource_def Status_Update_Resource_def
        v100_resource_def demo_resource_def empty_meta_def lone_env_def void_env_def missing_def start_def
        attaches_def asks_for_def sunfish_request_def composition_def processor_request_def V100_def
        prog_eval Let_def cong: prog_cong)
  moreover obtain evs where "trace (snd ?run) = evs"
    "\<forall>h. EvHttp h \<in> set evs \<longrightarrow> reads_only h \<or> attaches h \<or> names_nothing h"
    "\<forall>pod cmd. EvExec pod cmd \<in> set evs \<longrightarrow> \<not> takes_away cmd"
    using Resource_Reconcile_fabric_guard [of "lone_env v100_resource" "''gpu-1''" "start ()" v100_resource "()"]
    by (auto simp: start_def lone_env_def v100_resource_def demo_resource_def)
  ultimately show ?thesis by blast
qed

text \<open>
  C29.  The finalizer holds a resource until it is done.  A run of \<^verbatim>\<open>Reconcile\<close> updates the object itself
  (as opposed to its status) only for a resource read without a state, and then with the finalizer
  in place, or for one in state Deleting; so the finalizer is given up in state Deleting only.
\<close>

theorem Resource_Reconcile_finalizer:
  assumes "api_GetResource E name (world s) = (Inr r, w)"
  shows "\<exists>evs. trace (snd (Resource_Reconcile name E s)) = trace s @ evs \<and>
     (\<forall>r'. EvUpdateResource r' \<in> set evs \<longrightarrow>
        cr_State r = [] \<and> composabilityRequestFinalizer \<in> set (om_Finalizers (cr_Meta r')) \<or> cr_State r = ''Deleting'')"
proof -
  obtain evs where evs: "trace (snd (Resource_Reconcile name E s)) = trace s @ evs" "list_all (allowed r) evs"
    using assms by (rule Resource_Reconcile_stays)
  have "cr_State r = [] \<and> composabilityRequestFinalizer \<in> set (om_Finalizers (cr_Meta r')) \<or> cr_State r = ''Deleting''"
    if "EvUpdateResource r' \<in> set evs" for r'
  proof -
    have "allowed r (EvUpdateResource r')" using that evs(2) unfolding list_all_iff by blast
    then show ?thesis by (simp split: if_splits)
  qed
  with evs(1) show ?thesis by blast
qed

theorem Resource_Reconcile_finalizer_witness:
  "\<exists>evs. trace (snd (Resource_Reconcile ''gpu-1'' (lone_env new_resource) (start ()))) = evs
     \<and> (\<forall>r'. EvUpdateResource r' \<in> set evs \<longrightarrow> composabilityRequestFinalizer \<in> set (om_Finalizers (cr_Meta r')))"
  using Resource_Reconcile_finalizer [of "lone_env new_resource" "''gpu-1''" "start ()" new_resource "()"]
  by (simp add: start_def lone_env_def new_resource_def)

section \<open>Loads and errors\<close>

fun is_exec :: "event \<Rightarrow> bool" where
  "is_exec (EvExec p c) = True"
| "is_exec _ = False"

text \<open>
  C3.  A GPU under load is not detached.  For a resource with a device and without forced detachment,
  when the load check fails, the Detaching handler has done nothing but run the commands of the check
  and write the error into the status: no taint, no drain command in a goroutine, no daemon set update
  and no request to the fabric follows, and the error is returned so that the run is repeated.
\<close>

theorem Resource_detach_blocked_by_load:
  assumes device: "cr_DeviceID (theResource s) \<noteq> []" "\<not> crs_ForceDetach (cr_Spec (theResource s))"
    and load: "CheckNoGPULoads (cr_TargetNode (theResource s))
        (if os_Getenv E ''DEVICE_RESOURCE_TYPE'' = ''DEVICE_PLUGIN'' then None else Some (cr_DeviceID (theResource s))) E s
      = (Ret (Some err), s1)"
  shows "\<exists>evs. trace (snd (Resource_handleDetachingState P E s)) = trace s @ evs
        @ [EvUpdateResourceStatus ((theResource s)\<lparr>cr_Status := (cr_Status (theResource s))\<lparr>crst_Error := err_Error err\<rparr>\<rparr>)]
      \<and> list_all is_exec evs
      \<and> fst (Resource_handleDetachingState P E s) = Ret (\<lparr>RequeueAfter = 0\<rparr>, Some err)"
proof -
  have "check_loads (os_Getenv E ''DEVICE_RESOURCE_TYPE'') E s = (Ret (Some err), s1)"
    using device load by (auto simp: check_loads_def split: if_splits)
  then have run: "Resource_handleDetachingState P E s = Resource_requeueOnErr err E s1"
    using device by (simp add: Resource_handleDetachingState_def Getenv_def pureE_def bindM_def getM_def checkM_def)
  have res: "theResource s1 = theResource s"
    by (rule keepsD [where f = theResource, OF keeps_checks(2) load]) simp_all
  obtain evs where evs: "trace (snd (CheckNoGPULoads (cr_TargetNode (theResource s))
        (if os_Getenv E ''DEVICE_RESOURCE_TYPE'' = ''DEVICE_PLUGIN'' then None else Some (cr_DeviceID (theResource s))) E s))
      = trace s @ evs" "list_all is_exec evs"
    by (rule emits_trace [OF emits_checks(2), of is_exec]) auto
  show ?thesis
    using evs load res unfolding run
    by (auto simp: Resource_requeueOnErr_def upd_status_def upd_resource_def Status_Update_Resource_def prog_defs
        split: prod.splits sum.splits)
qed

definition busy_detach :: "unit sys" where
  "busy_detach = (start ())\<lparr>theResource := demo_resource\<lparr>cr_Status := \<lparr>crst_State = ''Detaching'', crst_Error = [],
     crst_DeviceID = ''GPU-a'', crst_CDIDeviceID = ''res-1''\<rparr>\<rparr>\<rparr>"

text \<open>Without a node agent pod the load cannot be checked, which blocks the detachment too.\<close>

theorem Resource_detach_blocked_by_load_witness:
  "\<exists>err. fst (Resource_handleDetachingState (sunfish_provider ''x'') (void_env :: unit env) busy_detach)
     = Ret (\<lparr>RequeueAfter = 0\<rparr>, Some err)"
proof -
  obtain err where "CheckNoGPULoads ''n1'' (Some ''GPU-a'') (void_env :: unit env) busy_detach = (Ret (Some err), busy_detach)"
    by (simp add: CheckNoGPULoads_def isContainerDriverEnabled_def getCroNodeAgentPod_def void_env_def missing_def
        prog_defs busy_detach_def start_def)
  then show ?thesis
    using Resource_detach_blocked_by_load [of busy_detach "void_env :: unit env" err busy_detach "sunfish_provider ''x''"]
    by (auto simp: busy_detach_def demo_resource_def void_env_def)
qed

text \<open>The last write holds the error returned.\<close>

definition error_shown :: "reconciled \<Rightarrow> event list \<times> ComposableResource \<Rightarrow> bool" where
  "error_shown x v \<longleftrightarrow> (\<forall>err. snd x = Some err \<longrightarrow>
     (\<exists>tr r. fst v = tr @ [EvUpdateResourceStatus r] \<and> cr_Error r = err_Error err))"

lemma wpv_any: "(\<And>x v. Q x v) \<Longrightarrow> (\<And>v. X v) \<Longrightarrow> wpv H vw m Q X v"
  by (simp add: wpv_def split: prod.split outcome.split)

lemma requeueOnErr_shown: "wpv H tview (Resource_requeueOnErr err) error_shown (\<lambda>_. True) v"
  unfolding Resource_requeueOnErr_def upd_status_def
  by (cases v; hypsubst) (intro wpv_bindM wpv_thenM tview_upd tview_status_update_any wpv_ret, simp add: error_shown_def)

lemma no_error_shown: "snd x = None \<Longrightarrow> wpv H tview (ret x) error_shown (\<lambda>_. True) v"
  by (rule wpv_ret) (simp add: error_shown_def)

lemma handle_state_shown: "wpv H tview (handle_state P) error_shown (\<lambda>_. True) v"
  unfolding handle_state_def
  by (intro wpv_bindM wpv_any wpv_prod wpv_option requeueOnErr_shown no_error_shown) simp_all

lemma reconcile_shown: "wpv H tview Resource_Reconcile_object error_shown (\<lambda>_. True) v"
  unfolding Resource_Reconcile_object_def doNotRequeue_def
  by (intro wpv_tryM wpv_any conjI allI impI wpv_if requeueOnErr_shown no_error_shown handle_state_shown) simp_all

text \<open>
  C33.  No error is silent.  When a run of \<^verbatim>\<open>Reconcile\<close> on an object that was read returns an error, its
  last call has been an update of the object's status with the text of that error.
\<close>

theorem Resource_Reconcile_error_recorded:
  assumes "api_GetResource E name (world s) = (Inr r, w)"
    and "Resource_Reconcile name E s = (Ret (result, Some err), s')"
  shows "\<exists>tr r'. trace s' = tr @ [EvUpdateResourceStatus r'] \<and> cr_Error r' = err_Error err"
proof -
  have "Resource_Reconcile_object E (s\<lparr>world := w, theResource := r\<rparr>) = (Ret (result, Some err), s')"
    using assms by (simp add: Resource_Reconcile_def bindM_def query_def thenM_def modifyM_def)
  from wpvD(1) [OF reconcile_shown [of "\<lambda>_. True"] TrueI refl this] show ?thesis
    by (simp add: error_shown_def tview_def)
qed

theorem Resource_Reconcile_error_recorded_witness:
  "\<exists>tr r'. trace (snd (Resource_Reconcile ''gpu-1'' (void_env\<lparr>api_GetResource := (\<lambda>_ w. (Inr empty_resource, w))\<rparr>) (start ())))
     = tr @ [EvUpdateResourceStatus r']
     \<and> cr_Error r' = ''the env variable DEVICE_RESOURCE_TYPE has an invalid value: '' @ squote []"
proof -
  let ?E = "void_env\<lparr>api_GetResource := (\<lambda>_ w. (Inr empty_resource, w))\<rparr> :: unit env"
  obtain s' where run: "Resource_Reconcile ''gpu-1'' ?E (start ())
      = (Ret (\<lparr>RequeueAfter = 0\<rparr>, Some (ErrorString (''the env variable DEVICE_RESOURCE_TYPE has an invalid value: '' @ squote []))), s')"
    by (simp add: Resource_Reconcile_def Resource_Reconcile_object_def Resource_performGarbageCollection_def
        NewComposableResourceAdapter_def Resource_requeueOnErr_def upd_status_def upd_resource_def Status_Update_Resource_def
        Getenv_def void_env_def empty_resource_def start_def missing_def prog_defs)
  from Resource_Reconcile_error_recorded [OF _ run, of empty_resource "()"] run show ?thesis by simp
qed

end
