(* ===== verification/ResourceDeletion.thy ===== *)
theory ResourceDeletion
  imports ResourceController
begin

text \<open>
  Liveness of detachment.  A resource that is being deleted goes away: on an API server that stores what
  it is sent, and when the node is idle and the services do what they are asked, at most three runs of
  \<^verbatim>\<open>Reconcile\<close> take it from Online through Detaching and Deleting to its removal, and on the way its
  device is removed through the provider.
\<close>

section \<open>The hypotheses\<close>

text \<open>The API server, as for requests: \<open>stored\<close> reads the resource of that name in the world.\<close>

definition stores_resource :: "'w env \<Rightarrow> string \<Rightarrow> ('w \<Rightarrow> ComposableResource option) \<Rightarrow> bool" where
  "stores_resource E name stored \<longleftrightarrow> (\<forall>w r r0. stored w = Some r0 \<longrightarrow>
     (\<exists>w'. api_GetResource E name w = (Inr r0, w') \<and> stored w' = Some r0)
     \<and> (\<forall>n. \<exists>node w'. api_GetNode E n w = (Inr node, w') \<and> stored w' = Some r0)
     \<and> (cr_Name r = name \<longrightarrow>
          (\<exists>w'. api_UpdateResourceStatus E r w = (Inr (r0\<lparr>cr_Status := cr_Status r\<rparr>), w')
             \<and> stored w' = Some (r0\<lparr>cr_Status := cr_Status r\<rparr>))
        \<and> (\<exists>w'. api_UpdateResource E r w = (Inr (r\<lparr>cr_Status := cr_Status r0\<rparr>), w')
             \<and> stored w' = (if om_DeletionTimestamp (cr_Meta r) \<noteq> None \<and> om_Finalizers (cr_Meta r) = [] then None
                  else Some (r\<lparr>cr_Status := cr_Status r0\<rparr>)))))"

text \<open>A step that gives \<open>x\<close> and leaves the stored resource and the one in memory at \<open>r\<close>.\<close>

definition gives :: "'w env \<Rightarrow> ('w \<Rightarrow> ComposableResource option) \<Rightarrow> ComposableResource \<Rightarrow> ('w, 'a) go \<Rightarrow> 'a \<Rightarrow> bool" where
  "gives E stored r m x \<longleftrightarrow> (\<forall>s. theResource s = r \<and> stored (world s) = Some r \<longrightarrow>
     (\<exists>s'. m E s = (Ret x, s') \<and> theResource s' = r \<and> stored (world s') = Some r))"

text \<open>The node is idle and the services comply: no load, the taint can be set and removed, the GPU drains, the
  provider removes the device, the daemon sets can be restarted, and the GPU is no longer visible then.\<close>

definition detach_complies :: "'w env \<Rightarrow> ('w \<Rightarrow> ComposableResource option) \<Rightarrow> 'w CdiProvider \<Rightarrow> ComposableResource \<Rightarrow> bool" where
  "detach_complies E stored P r \<longleftrightarrow> (let t = os_Getenv E ''DEVICE_RESOURCE_TYPE'' in
     gives E stored r (check_loads t) None
     \<and> gives E stored r (CreateDeviceTaint r) None
     \<and> gives E stored r (DrainGPU (cr_TargetNode r) (cr_DeviceID r) t) None
     \<and> gives E stored r (RemoveResource P) None
     \<and> gives E stored r (restart_daemonsets t) None
     \<and> gives E stored r (CheckGPUVisible t r) (Inr False)
     \<and> gives E stored r (DeleteDeviceTaint r) None)"

definition adapter_gives :: "'w env \<Rightarrow> 'w CdiProvider \<Rightarrow> bool" where
  "adapter_gives E P \<longleftrightarrow> (\<forall>s. \<exists>s'. NewComposableResourceAdapter E s = (Ret (Inr P), s')
     \<and> world s' = world s \<and> theResource s' = theResource s)"

lemma resource_getD:
  assumes "stores_resource E name stored" "stored w = Some r0"
  obtains w' where "api_GetResource E name w = (Inr r0, w')" "stored w' = Some r0"
  using assms unfolding stores_resource_def by meson

lemma resource_nodeD:
  assumes "stores_resource E name stored" "stored w = Some r0"
  obtains node w' where "api_GetNode E n w = (Inr node, w')" "stored w' = Some r0"
  using assms unfolding stores_resource_def by meson

lemma resource_updateD:
  assumes "stores_resource E name stored" "stored w = Some r0" "cr_Name r = name"
  obtains w1 w2 where "api_UpdateResourceStatus E r w = (Inr (r0\<lparr>cr_Status := cr_Status r\<rparr>), w1)"
    "stored w1 = Some (r0\<lparr>cr_Status := cr_Status r\<rparr>)"
    "api_UpdateResource E r w = (Inr (r\<lparr>cr_Status := cr_Status r0\<rparr>), w2)"
    "stored w2 = (if om_DeletionTimestamp (cr_Meta r) \<noteq> None \<and> om_Finalizers (cr_Meta r) = [] then None
       else Some (r\<lparr>cr_Status := cr_Status r0\<rparr>))"
proof -
  note laws = assms(1) [unfolded stores_resource_def, rule_format, OF assms(2), of r]
  from laws assms(3) show ?thesis using that by blast
qed

lemma givesD:
  assumes "gives E stored r m x" "theResource s = r" "stored (world s) = Some r"
  obtains s' where "m E s = (Ret x, s')" "theResource s' = r" "stored (world s') = Some r"
  using assms unfolding gives_def by blast

lemma gives_if: "gives E stored r m None \<Longrightarrow> gives E stored r (if b then m else ret None) None"
  by (simp add: gives_def ret_def)

section \<open>One run\<close>

lemma resource_gc_passes:
  assumes "stores_resource E name stored" "stored (world s) = Some r" "theResource s = r"
  obtains w where "Resource_performGarbageCollection E s = (Ret (Inr False), s\<lparr>world := w\<rparr>)" "stored w = Some r"
proof (cases "cr_TargetNode r = []")
  case True
  then show ?thesis using that [of "world s"] assms by (simp add: Resource_performGarbageCollection_def prog_eval)
next
  case False
  obtain node w where "api_GetNode E (cr_TargetNode r) (world s) = (Inr node, w)" "stored w = Some r"
    using resource_nodeD [OF assms(1,2)] by blast
  with False show ?thesis using that [of w] assms
    by (simp add: Resource_performGarbageCollection_def CheckNodeExisted_def getNode_def prog_eval)
qed

lemma adapter_trace: "NewComposableResourceAdapter E s = (Ret x, s') \<Longrightarrow> trace s' = trace s"
  by (rule wpvD(1) [where H = "\<lambda>_. True" and vw = trace and m = NewComposableResourceAdapter
        and Q = "\<lambda>_ tr. tr = trace s" and X = "\<lambda>_. True", OF adapter_run TrueI refl]) simp_all

lemma adapter_provider:
  assumes "adapter_gives E P"
  shows "cdi_provider P"
proof -
  obtain s' where run: "NewComposableResourceAdapter E (undefined :: 'a sys) = (Ret (Inr P), s')"
    using assms unfolding adapter_gives_def by blast
  show ?thesis
    using wpvD(1) [where H = "\<lambda>_. True" and vw = "\<lambda>_. ()" and m = NewComposableResourceAdapter
        and Q = "\<lambda>x _. case x of Inr P \<Rightarrow> cdi_provider P | Inl _ \<Rightarrow> True" and X = "\<lambda>_. True", OF adapter_run TrueI refl run]
    by simp
qed

lemma resource_run_to_handler_trace:
  assumes "stores_resource E name stored" "adapter_gives E P" "stored (world s) = Some r"
  obtains s' where "stored (world s') = Some r" "theResource s' = r" "trace s' = trace s"
    "Resource_Reconcile name E s = bindM (dispatch P (cr_State r)) (\<lambda>(result, err). case err of
       Some err \<Rightarrow> Resource_requeueOnErr err | None \<Rightarrow> ret (result, None)) E s'"
proof -
  obtain w1 where w1: "api_GetResource E name (world s) = (Inr r, w1)" "stored w1 = Some r"
    using resource_getD [OF assms(1,3)] by metis
  let ?s = "s\<lparr>world := w1, theResource := r\<rparr>"
  obtain w where w: "Resource_performGarbageCollection E ?s = (Ret (Inr False), ?s\<lparr>world := w\<rparr>)" "stored w = Some r"
    using resource_gc_passes [OF assms(1), of ?s r] w1 by auto
  obtain s' where s': "NewComposableResourceAdapter E (?s\<lparr>world := w\<rparr>) = (Ret (Inr P), s')" "world s' = w" "theResource s' = r"
    using assms(2) unfolding adapter_gives_def by fastforce
  have "trace s' = trace s" using adapter_trace [OF s'(1)] by simp
  then show ?thesis
    by (intro that [of s']) (use w s' w1(1) in \<open>simp_all add: Resource_Reconcile_def Resource_Reconcile_object_def handle_state_def prog_eval\<close>)
qed

lemma resource_run_to_handler:
  assumes "stores_resource E name stored" "adapter_gives E P" "stored (world s) = Some r"
  obtains s' where "stored (world s') = Some r" "theResource s' = r"
    "Resource_Reconcile name E s = bindM (dispatch P (cr_State r)) (\<lambda>(result, err). case err of
       Some err \<Rightarrow> Resource_requeueOnErr err | None \<Rightarrow> ret (result, None)) E s'"
  by (rule resource_run_to_handler_trace [OF assms])

text \<open>Writing the status: it is stored, and the object in memory is the stored one.\<close>

definition with_status :: "(ComposableResourceStatus \<Rightarrow> ComposableResourceStatus) \<Rightarrow> ComposableResource \<Rightarrow> ComposableResource" where
  "with_status f r = r\<lparr>cr_Status := f (cr_Status r)\<rparr>"

lemma write_stores:
  assumes "stores_resource E name stored" "stored (world s) = Some r" "theResource s = r" "cr_Name r = name"
  obtains s' where "thenM (upd_status f) (bindM Status_Update_Resource k) E s = k None E s'"
    "stored (world s') = Some (with_status f r)" "theResource s' = with_status f r"
proof -
  obtain w where "api_UpdateResourceStatus E (with_status f r) (world s) = (Inr (with_status f r), w)" "stored w = Some (with_status f r)"
    using resource_updateD [OF assms(1,2), of "with_status f r"] assms(4) by (auto simp: with_status_def)
  then show ?thesis
    using assms(3) by (intro that) (auto simp: upd_status_def upd_resource_def Status_Update_Resource_def with_status_def prog_eval)
qed

lemma finish_stores:
  assumes "stores_resource E name stored" "stored (world s) = Some r" "theResource s = r" "cr_Name r = name"
  obtains s' where "finish_detach E s = (Ret (\<lparr>RequeueAfter = 0\<rparr>, None), s')"
    "stored (world s') = Some (with_status (crst_State_update (\<lambda>_. ''Deleting'')) r)"
proof -
  obtain s' where "thenM (upd_status (crst_State_update (\<lambda>_. ''Deleting''))) return_update E s = ret (\<lparr>RequeueAfter = 0\<rparr>, None) E s'"
      "stored (world s') = Some (with_status (crst_State_update (\<lambda>_. ''Deleting'')) r)"
    unfolding return_update_def by (rule write_stores [OF assms])
  then show ?thesis by (intro that [of s']) (simp_all add: finish_detach_def run_ret)
qed

lemma confirm_stores:
  assumes "stores_resource E name stored" "stored (world s) = Some r" "theResource s = r" "cr_Name r = name"
    and "gives E stored r (CheckGPUVisible t r) (Inr False)" "gives E stored r (DeleteDeviceTaint r) None"
  obtains s' r' where "confirm_detached t E s = (Ret (\<lparr>RequeueAfter = 0\<rparr>, None), s')" "stored (world s') = Some r'"
    "cr_State r' = ''Deleting''" "cr_Meta r' = cr_Meta r"
proof -
  obtain s1 where s1: "CheckGPUVisible t r E s = (Ret (Inr False), s1)" "theResource s1 = r" "stored (world s1) = Some r"
    by (rule givesD [OF assms(5,3,2)])
  obtain s2 where s2: "(if t = ''DRA'' then DeleteDeviceTaint r else ret None) E s1 = (Ret None, s2)" "theResource s2 = r" "stored (world s2) = Some r"
    by (rule givesD [OF gives_if [OF assms(6)] s1(2,3)])
  let ?f = "\<lambda>st. st\<lparr>crst_Error := [], crst_DeviceID := [], crst_CDIDeviceID := []\<rparr>"
  obtain s3 where s3: "thenM (upd_status ?f) (checkM Status_Update_Resource (\<lambda>err. Resource_requeueOnErr err) finish_detach) E s2 = finish_detach E s3"
      "stored (world s3) = Some (with_status ?f r)" "theResource s3 = with_status ?f r"
    using write_stores [OF assms(1) s2(3,2) assms(4), of ?f "\<lambda>e. case e of Some e \<Rightarrow> Resource_requeueOnErr e | None \<Rightarrow> finish_detach"]
    unfolding checkM_def by auto
  obtain s4 where s4: "finish_detach E s3 = (Ret (\<lparr>RequeueAfter = 0\<rparr>, None), s4)"
      "stored (world s4) = Some (with_status (crst_State_update (\<lambda>_. ''Deleting'')) (with_status ?f r))"
    using finish_stores [OF assms(1) s3(2,3)] assms(4) by (auto simp: with_status_def)
  have "confirm_detached t E s = (Ret (\<lparr>RequeueAfter = 0\<rparr>, None), s4)"
    unfolding confirm_detached_def run_getM assms(3) run_tryM(2) [where m = "CheckGPUVisible t r", OF s1(1)] if_False
      run_checkM(2) [where m = "if t = ''DRA'' then DeleteDeviceTaint r else ret None", OF s2(1)] s3(1) by (rule s4(1))
  from this s4(2) show ?thesis by (rule that) (simp_all add: with_status_def)
qed

text \<open>Between the traces \<open>tr\<close> and \<open>tr'\<close> of a program, \<^verbatim>\<open>RemoveResource\<close> of the provider was called for the object
  \<open>r\<close>, and it succeeded.\<close>

definition removed_between :: "'w env \<Rightarrow> 'w CdiProvider \<Rightarrow> ComposableResource \<Rightarrow> event list \<Rightarrow> event list \<Rightarrow> bool" where
  "removed_between E P r tr tr' \<longleftrightarrow>
     (\<exists>s1 s2 before call after. RemoveResource P E s1 = (Ret None, s2) \<and> theResource s1 = r
        \<and> trace s1 = tr @ before \<and> trace s2 = trace s1 @ call \<and> tr' = trace s2 @ after)"

lemma removed_between_extend:
  "removed_between E P r (tr @ pre) tr' \<Longrightarrow> removed_between E P r tr (tr' @ post)"
  unfolding removed_between_def by fastforce

lemma grows:
  assumes "emits (\<lambda>_. True) m" "m E s = (x, s')"
  obtains evs where "trace s' = trace s @ evs"
  using emits_trace [OF assms(1), of E s] assms(2) by auto

lemma grow_handlers:
  "emits (\<lambda>_. True) (check_loads t)" "emits (\<lambda>_. True) (if b then CreateDeviceTaint r else ret None)"
  "emits (\<lambda>_. True) (DrainGPU n u t)" "emits (\<lambda>_. True) (restart_daemonsets t)" "emits (\<lambda>_. True) (confirm_detached t)"
  by (intro emits_intro; simp)+

lemma detaching_stores:
  assumes "stores_resource E name stored" "stored (world s) = Some r" "theResource s = r" "cr_Name r = name"
    and "cr_State r = ''Detaching''" "cr_DeviceID r = [] \<or> detach_complies E stored P r" "cdi_provider P"
  obtains s' r' where "Resource_handleDetachingState P E s = (Ret (\<lparr>RequeueAfter = 0\<rparr>, None), s')" "stored (world s') = Some r'"
    "cr_State r' = ''Deleting''" "cr_Meta r' = cr_Meta r"
    "cr_DeviceID r \<noteq> [] \<longrightarrow> removed_between E P r (trace s) (trace s')"
proof (cases "cr_DeviceID r = []")
  case True
  obtain s' where "finish_detach E s = (Ret (\<lparr>RequeueAfter = 0\<rparr>, None), s')"
      "stored (world s') = Some (with_status (crst_State_update (\<lambda>_. ''Deleting'')) r)"
    by (rule finish_stores [OF assms(1-4)])
  with True show ?thesis
    using assms(3) by (intro that [of s' "with_status (crst_State_update (\<lambda>_. ''Deleting'')) r"])
      (simp_all add: Resource_handleDetachingState_def Getenv_def prog_eval with_status_def)
next
  case False
  define t where "t = os_Getenv E ''DEVICE_RESOURCE_TYPE''"
  have c: "gives E stored r (check_loads t) None" "gives E stored r (CreateDeviceTaint r) None"
    "gives E stored r (DrainGPU (cr_TargetNode r) (cr_DeviceID r) t) None" "gives E stored r (RemoveResource P) None"
    "gives E stored r (restart_daemonsets t) None" "gives E stored r (CheckGPUVisible t r) (Inr False)"
    "gives E stored r (DeleteDeviceTaint r) None"
    using assms(6) False by (simp_all add: detach_complies_def t_def Let_def)
  obtain s1 where s1: "check_loads t E s = (Ret None, s1)" "theResource s1 = r" "stored (world s1) = Some r"
    by (rule givesD [OF c(1) assms(3,2)])
  obtain s2 where s2: "(if t = ''DRA'' then CreateDeviceTaint r else ret None) E s1 = (Ret None, s2)" "theResource s2 = r" "stored (world s2) = Some r"
    by (rule givesD [OF gives_if [OF c(2)] s1(2,3)])
  obtain s3 where s3: "DrainGPU (cr_TargetNode r) (cr_DeviceID r) t E s2 = (Ret None, s3)" "theResource s3 = r" "stored (world s3) = Some r"
    by (rule givesD [OF c(3) s2(2,3)])
  obtain s4 where s4: "RemoveResource P E s3 = (Ret None, s4)" "theResource s4 = r" "stored (world s4) = Some r"
    by (rule givesD [OF c(4) s3(2,3)])
  obtain s5 where s5: "restart_daemonsets t E s4 = (Ret None, s5)" "theResource s5 = r" "stored (world s5) = Some r"
    by (rule givesD [OF c(5) s4(2,3)])
  obtain s6 r' where s6: "confirm_detached t E s5 = (Ret (\<lparr>RequeueAfter = 0\<rparr>, None), s6)" "stored (world s6) = Some r'"
      "cr_State r' = ''Deleting''" "cr_Meta r' = cr_Meta r"
    by (rule confirm_stores [OF assms(1) s5(3,2) assms(4) c(6,7)])
  have "remove_device P t E s3 = confirm_detached t E s5"
    unfolding remove_device_def run_checkM(2) [where m = "RemoveResource P", OF s4(1)] run_checkM(2) [where m = "restart_daemonsets t", OF s5(1)] ..
  then have "checkM (check_loads t) (\<lambda>err. Resource_requeueOnErr err)
       (checkM (if t = ''DRA'' then CreateDeviceTaint r else ret None) (\<lambda>err. Resource_requeueOnErr err)
       (checkM (DrainGPU (cr_TargetNode r) (cr_DeviceID r) t) (\<lambda>err. Resource_requeueOnErr err) (remove_device P t))) E s
      = confirm_detached t E s5"
    unfolding run_checkM(2) [where m = "check_loads t", OF s1(1)]
      run_checkM(2) [where m = "if t = ''DRA'' then CreateDeviceTaint r else ret None", OF s2(1)]
      run_checkM(2) [where m = "DrainGPU (cr_TargetNode r) (cr_DeviceID r) t", OF s3(1)] .
  then have "Resource_handleDetachingState P E s = confirm_detached t E s5"
    unfolding Resource_handleDetachingState_def Getenv_def run_bindM(1) [where m = "pureE _", OF eval_calls(3)] run_getM assms(3)
      t_def [symmetric] by (simp only: False not_False_eq_True if_True)
  with s6(1) have run: "Resource_handleDetachingState P E s = (Ret (\<lparr>RequeueAfter = 0\<rparr>, None), s6)" by simp
  have "emits (\<lambda>_. True) (RemoveResource P)" by (rule cdi_provider.emits_rem [OF assms(7)]) simp_all
  then obtain call where call: "trace s4 = trace s3 @ call" using s4(1) by (rule grows)
  obtain e1 where 1: "trace s1 = trace s @ e1" by (rule grows [OF grow_handlers(1) s1(1)])
  obtain e2 where 2: "trace s2 = trace s1 @ e2" by (rule grows [OF grow_handlers(2) s2(1)])
  obtain e3 where 3: "trace s3 = trace s2 @ e3" by (rule grows [OF grow_handlers(3) s3(1)])
  obtain e5 where 5: "trace s5 = trace s4 @ e5" by (rule grows [OF grow_handlers(4) s5(1)])
  obtain e6 where 6: "trace s6 = trace s5 @ e6" by (rule grows [OF grow_handlers(5) s6(1)])
  have "removed_between E P r (trace s) (trace s6)"
    unfolding removed_between_def
    by (rule exI [of _ s3], rule exI [of _ s4]) (use 1 2 3 5 6 call s4(1) s3(2) in simp)
  with run s6(2-4) show ?thesis by (intro that) blast+
qed

section \<open>The deletion completes\<close>

primrec resource_runs :: "nat \<Rightarrow> string \<Rightarrow> 'w env \<Rightarrow> 'w sys \<Rightarrow> 'w sys" where
  "resource_runs 0 name E s = s"
| "resource_runs (Suc n) name E s = resource_runs n name E (snd (Resource_Reconcile name E s))"

lemma deletion_steps:
  assumes "stores_resource E name stored" "adapter_gives E P" "stored (world s) = Some r" "cr_Name r = name"
    and del: "om_DeletionTimestamp (cr_Meta r) \<noteq> None"
  shows "cr_State r = ''Online'' \<Longrightarrow> stored (world (snd (Resource_Reconcile name E s))) = Some (with_status (crst_State_update (\<lambda>_. ''Detaching'')) r)"
    and "cr_State r = ''Detaching'' \<Longrightarrow> cr_DeviceID r = [] \<or> detach_complies E stored P r
      \<Longrightarrow> \<exists>r'. stored (world (snd (Resource_Reconcile name E s))) = Some r' \<and> cr_State r' = ''Deleting'' \<and> cr_Meta r' = cr_Meta r
         \<and> (cr_DeviceID r \<noteq> [] \<longrightarrow> removed_between E P r (trace s) (trace (snd (Resource_Reconcile name E s))))"
    and "cr_State r = ''Deleting'' \<Longrightarrow> set (om_Finalizers (cr_Meta r)) \<subseteq> {composabilityRequestFinalizer}
      \<Longrightarrow> stored (world (snd (Resource_Reconcile name E s))) = None"
proof -
  obtain s' where s': "stored (world s') = Some r" "theResource s' = r" and tr: "trace s' = trace s"
    and run: "Resource_Reconcile name E s = bindM (dispatch P (cr_State r)) (\<lambda>(result, err). case err of
       Some err \<Rightarrow> Resource_requeueOnErr err | None \<Rightarrow> ret (result, None)) E s'"
    by (rule resource_run_to_handler_trace [OF assms(1-3)])
  show "stored (world (snd (Resource_Reconcile name E s))) = Some (with_status (crst_State_update (\<lambda>_. ''Detaching'')) r)"
    if "cr_State r = ''Online''"
  proof -
    obtain s2 where "thenM (upd_status (crst_State_update (\<lambda>_. ''Detaching''))) return_update E s' = ret (\<lparr>RequeueAfter = 0\<rparr>, None) E s2"
        "stored (world s2) = Some (with_status (crst_State_update (\<lambda>_. ''Detaching'')) r)"
      unfolding return_update_def by (rule write_stores [OF assms(1) s' assms(4)])
    moreover from this have "dispatch P (cr_State r) E s' = (Ret (\<lparr>RequeueAfter = 0\<rparr>, None), s2)"
      using that del s'(2) by (simp add: dispatch_def Resource_handleOnlineState_def run_ret)
    ultimately show ?thesis unfolding run by (simp add: run_bindM(1) run_ret)
  qed
  show "\<exists>r'. stored (world (snd (Resource_Reconcile name E s))) = Some r' \<and> cr_State r' = ''Deleting'' \<and> cr_Meta r' = cr_Meta r
      \<and> (cr_DeviceID r \<noteq> [] \<longrightarrow> removed_between E P r (trace s) (trace (snd (Resource_Reconcile name E s))))"
    if "cr_State r = ''Detaching''" "cr_DeviceID r = [] \<or> detach_complies E stored P r"
  proof -
    note pre = that
    obtain s2 r' where "Resource_handleDetachingState P E s' = (Ret (\<lparr>RequeueAfter = 0\<rparr>, None), s2)" "stored (world s2) = Some r'"
        "cr_State r' = ''Deleting''" "cr_Meta r' = cr_Meta r" "cr_DeviceID r \<noteq> [] \<longrightarrow> removed_between E P r (trace s') (trace s2)"
      by (rule detaching_stores [OF assms(1) s' assms(4) pre adapter_provider [OF assms(2)]])
    with that(1) show ?thesis unfolding run tr by (simp add: dispatch_def run_bindM(1) run_ret)
  qed
  show "stored (world (snd (Resource_Reconcile name E s))) = None"
    if "cr_State r = ''Deleting''" "set (om_Finalizers (cr_Meta r)) \<subseteq> {composabilityRequestFinalizer}"
  proof -
    let ?r = "r\<lparr>cr_Meta := (cr_Meta r)\<lparr>om_Finalizers := removeAll composabilityRequestFinalizer (om_Finalizers (cr_Meta r))\<rparr>\<rparr>"
    have "removeAll composabilityRequestFinalizer (om_Finalizers (cr_Meta r)) = []" using that(2) by (auto simp: removeAll_filter_not_eq filter_empty_conv)
    then obtain w3 where "api_UpdateResource E ?r (world s') = (Inr (?r\<lparr>cr_Status := cr_Status r\<rparr>), w3)" "stored w3 = None"
      using resource_updateD [OF assms(1) s'(1), of ?r] assms(4) del by auto
    then show ?thesis
      unfolding run using that(1) s'(2) by (simp add: dispatch_def Resource_handleDeletingState_def upd_finalizers_def upd_resource_def
          Update_Resource_def doNotRequeue_def prog_eval)
  qed
qed

lemma reconcile_grows:
  assumes "stores_resource E name stored" "stored (world s) = Some r"
  obtains evs where "trace (snd (Resource_Reconcile name E s)) = trace s @ evs"
proof -
  obtain w where "api_GetResource E name (world s) = (Inr r, w)" using resource_getD [OF assms] by metis
  then obtain evs where "trace (snd (Resource_Reconcile name E s)) = trace s @ evs" by (rule Resource_Reconcile_stays)
  then show ?thesis by (rule that)
qed

lemma detaching_completes:
  assumes "stores_resource E name stored" "adapter_gives E P" "stored (world s) = Some r" "cr_Name r = name"
    and "om_DeletionTimestamp (cr_Meta r) \<noteq> None" "set (om_Finalizers (cr_Meta r)) \<subseteq> {composabilityRequestFinalizer}"
    and "cr_State r = ''Detaching''" "cr_DeviceID r = [] \<or> detach_complies E stored P r"
  shows "stored (world (resource_runs 2 name E s)) = None
     \<and> (cr_DeviceID r \<noteq> [] \<longrightarrow> removed_between E P r (trace s) (trace (resource_runs 2 name E s)))"
proof -
  let ?s1 = "snd (Resource_Reconcile name E s)"
  obtain r' where r': "stored (world ?s1) = Some r'" "cr_State r' = ''Deleting''" "cr_Meta r' = cr_Meta r"
      "cr_DeviceID r \<noteq> [] \<longrightarrow> removed_between E P r (trace s) (trace ?s1)"
    using deletion_steps(2) [OF assms(1-5,7,8)] by blast
  obtain post where post: "trace (snd (Resource_Reconcile name E ?s1)) = trace ?s1 @ post"
    by (rule reconcile_grows [OF assms(1) r'(1)])
  have "stored (world (snd (Resource_Reconcile name E ?s1))) = None"
    using deletion_steps(3) [OF assms(1,2) r'(1) _ _ r'(2)] assms(4-6) r'(3) by simp
  moreover have "cr_DeviceID r \<noteq> [] \<longrightarrow> removed_between E P r (trace s) (trace (snd (Resource_Reconcile name E ?s1)))"
    using removed_between_extend [of E P r "trace s" "[]" "trace ?s1" post] r'(4) by (simp add: post)
  ultimately show ?thesis by (simp add: numeral_2_eq_2)
qed

text \<open>
  C11.  A device that is no longer wanted is detached and its resource goes away.  On an API server that stores what it
  is sent, with a provider the adapter gives, an idle node and complying services, a resource with a device that is being
  deleted, in state Online or Detaching and with no finalizer but the operator's, is removed within three runs of
  \<^verbatim>\<open>Reconcile\<close>; and in the course of these runs \<^verbatim>\<open>RemoveResource\<close> of the provider was called for the resource in state
  Detaching, with its device, and succeeded.
\<close>

theorem resource_deletion_completes:
  assumes "stores_resource E name stored" "adapter_gives E P" "stored (world s) = Some r" "cr_Name r = name"
    and "om_DeletionTimestamp (cr_Meta r) \<noteq> None" "set (om_Finalizers (cr_Meta r)) \<subseteq> {composabilityRequestFinalizer}"
    and "cr_State r \<in> {''Online'', ''Detaching''}" "cr_DeviceID r \<noteq> []"
    and "detach_complies E stored P (r\<lparr>cr_Status := (cr_Status r)\<lparr>crst_State := ''Detaching''\<rparr>\<rparr>)"
  shows "\<exists>n \<le> 3. stored (world (resource_runs n name E s)) = None
     \<and> removed_between E P (r\<lparr>cr_Status := (cr_Status r)\<lparr>crst_State := ''Detaching''\<rparr>\<rparr>)
         (trace s) (trace (resource_runs n name E s))"
proof -
  let ?d = "r\<lparr>cr_Status := (cr_Status r)\<lparr>crst_State := ''Detaching''\<rparr>\<rparr>"
  have d: "cr_Name ?d = name" "cr_Meta ?d = cr_Meta r" "cr_State ?d = ''Detaching''" "cr_DeviceID ?d \<noteq> []"
    using assms(4,8) by simp_all
  have detaching: "stored (world (resource_runs 2 name E s)) = None
      \<and> removed_between E P ?d (trace s) (trace (resource_runs 2 name E s))" if pre: "stored (world s) = Some ?d" for s
    using detaching_completes [OF assms(1,2) pre d(1)] assms(5,6,9) d by simp
  show ?thesis
    using assms(7) unfolding insert_iff
  proof (elim disjE)
    assume "cr_State r = ''Online''"
    then have "stored (world (snd (Resource_Reconcile name E s))) = Some ?d"
      using deletion_steps(1) [OF assms(1-5)] by (simp add: with_status_def)
    from detaching [OF this] have two: "stored (world (resource_runs 3 name E s)) = None"
      "removed_between E P ?d (trace (snd (Resource_Reconcile name E s))) (trace (resource_runs 3 name E s))"
      by (simp_all add: numeral_3_eq_3 numeral_2_eq_2)
    obtain pre where "trace (snd (Resource_Reconcile name E s)) = trace s @ pre"
      by (rule reconcile_grows [OF assms(1,3)])
    with two removed_between_extend [of E P ?d "trace s" pre "trace (resource_runs 3 name E s)" "[]"] show ?thesis by auto
  next
    assume "cr_State r = ''Detaching''"
    then have "?d = r" by (cases r, cases "cr_Status r") simp
    with detaching assms(3) show ?thesis by (intro exI [of _ 2]) simp
  qed simp
qed

text \<open>A server that is its one resource, on a node without a driver pod, with a Sunfish service that agrees.\<close>

definition released_env :: "ComposableResource option env" where
  "released_env = void_env\<lparr>
     api_GetResource := (\<lambda>_ w. case w of Some r \<Rightarrow> (Inr r, w) | None \<Rightarrow> missing w),
     api_GetNode := (\<lambda>n w. (Inr (demo_node\<lparr>node_Name := n\<rparr>), w)),
     api_UpdateResourceStatus := (\<lambda>r w. case w of
         Some r0 \<Rightarrow> (Inr (r0\<lparr>cr_Status := cr_Status r\<rparr>), Some (r0\<lparr>cr_Status := cr_Status r\<rparr>)) | None \<Rightarrow> missing w),
     api_UpdateResource := (\<lambda>r w. case w of
         Some r0 \<Rightarrow> (Inr (r\<lparr>cr_Status := cr_Status r0\<rparr>),
           if om_DeletionTimestamp (cr_Meta r) \<noteq> None \<and> om_Finalizers (cr_Meta r) = [] then None
           else Some (r\<lparr>cr_Status := cr_Status r0\<rparr>))
       | None \<Rightarrow> missing w),
     api_ListResourceSlices := (\<lambda>w. (Inr [], w)), api_ListPods := (\<lambda>_ _ w. (Inr [], w)),
     api_GetClusterPolicy := (\<lambda>_ w. (Inr (Some True), w)),
     api_GetDaemonSet := (\<lambda>ns n w. (Inr \<lparr>ds_Namespace = ns, ds_Name = n, ds_DesiredNumberScheduled = 0, ds_NumberReady = 0,
         ds_CurrentNumberScheduled = 0, ds_NumberUnavailable = 0, ds_NumberMisscheduled = 0, ds_TemplateAnnotations = Map.empty\<rparr>, w)),
     http_Do := (\<lambda>_ w. (Inr \<lparr>resp_StatusCode = 204, resp_Body = Inr []\<rparr>, w)),
     os_Getenv := (\<lambda>v. if v = ''DEVICE_RESOURCE_TYPE'' then ''DRA'' else if v = ''CDI_PROVIDER_TYPE'' then ''SUNFISH''
         else if v = ''SUNFISH_ENDPOINT'' then ''sunfish'' else [])\<rparr>"

definition released_resource :: ComposableResource where
  "released_resource = empty_resource\<lparr>
     cr_Meta := empty_meta\<lparr>om_Name := ''gpu-1'', om_Finalizers := [composabilityRequestFinalizer], om_DeletionTimestamp := Some 0\<rparr>,
     cr_Spec := \<lparr>crs_Type = ''gpu'', crs_Model = A10040G, crs_TargetNode = ''n1'', crs_ForceDetach = True\<rparr>,
     cr_Status := \<lparr>crst_State = ''Online'', crst_Error = [], crst_DeviceID = ''GPU-a'', crst_CDIDeviceID = ''res-1''\<rparr>\<rparr>"

lemma released_complies:
  "adapter_gives released_env (sunfish_provider ''sunfish'')"
  "crs_ForceDetach (cr_Spec r) \<Longrightarrow> detach_complies released_env id (sunfish_provider ''sunfish'') r"
proof -
  have env: "os_Getenv released_env ''DEVICE_RESOURCE_TYPE'' = ''DRA''" by (simp add: released_env_def)
  show "adapter_gives released_env (sunfish_provider ''sunfish'')"
    by (simp add: adapter_gives_def NewComposableResourceAdapter_def NewSunfishClient_def Getenv_def prog_eval released_env_def)
  assume force: "crs_ForceDetach (cr_Spec r)"
  show "detach_complies released_env id (sunfish_provider ''sunfish'') r"
    unfolding detach_complies_def Let_def env
    by (intro conjI; use force in \<open>auto simp: gives_def check_loads_def CreateDeviceTaint_def DrainGPU_def isContainerDriverEnabled_def
        drain_dra_def getNvidiaDriverDaemonsetPod_def sunfish_provider_def sunfish_RemoveResource_def sendPatchRequest_def send_def
        restart_daemonsets_def RestartDaemonset_def CheckGPUVisible_def DeleteDeviceTaint_def slice_attributes_def
        released_env_def void_env_def missing_def Let_def prog_eval\<close>)
qed

theorem resource_deletion_completes_witness:
  "\<exists>n \<le> 3. world (resource_runs n ''gpu-1'' released_env (start (Some released_resource))) = None
     \<and> (\<exists>h. EvHttp h \<in> set (trace (resource_runs n ''gpu-1'' released_env (start (Some released_resource)))) \<and> detaches h)"
proof -
  let ?d = "released_resource\<lparr>cr_Status := (cr_Status released_resource)\<lparr>crst_State := ''Detaching''\<rparr>\<rparr>"
  have "stores_resource released_env ''gpu-1'' id" by (simp add: stores_resource_def released_env_def)
  moreover have "detach_complies released_env id (sunfish_provider ''sunfish'') ?d"
    by (rule released_complies(2)) (simp add: released_resource_def)
  ultimately obtain n where n: "n \<le> 3" "world (resource_runs n ''gpu-1'' released_env (start (Some released_resource))) = None"
      "removed_between released_env (sunfish_provider ''sunfish'') ?d []
         (trace (resource_runs n ''gpu-1'' released_env (start (Some released_resource))))"
    using resource_deletion_completes [of released_env "''gpu-1''" id "sunfish_provider ''sunfish''" "start (Some released_resource)" released_resource]
      released_complies(1) by (auto simp: start_def released_resource_def)
  have "trace s2 = trace s1 @ [EvHttp (sunfish_request ''sunfish'' (composition ?d 0))]"
    if "RemoveResource (sunfish_provider ''sunfish'') released_env s1 = (Ret None, s2)" "theResource s1 = ?d" for s1 s2
    using that by (auto simp: sunfish_provider_def sunfish_RemoveResource_def sendPatchRequest_def send_def released_env_def
        void_env_def Let_def sunfish_request_def prog_eval)
  moreover have "detaches (sunfish_request ''sunfish'' (composition ?d 0))"
    by (simp add: detaches_def sunfish_request_def composition_def processor_request_def asks_for_def released_resource_def)
  ultimately show ?thesis
    using n unfolding removed_between_def by fastforce
qed

end
