(* ===== verification/Allocation.thy ===== *)
theory Allocation
  imports ResourceController
begin

text \<open>
  The allocation of a ComposabilityRequest: \<^verbatim>\<open>handleNodeAllocatingState\<close> of
  \<^verbatim>\<open>src/internal/controller/composabilityrequest_controller.go\<close>, which decides which of the
  resources a request has are kept, which are given up, and on which nodes new ones are placed.
  Each of its loops is one definition.  The map \<^verbatim>\<open>Status.Resources\<close> is changed in the object
  in memory, \<open>theRequest\<close>, as the code does it, so a run that fails half way writes what it has
  removed so far.  \<^verbatim>\<open>sort.Slice\<close> is the stable \<open>sort_key\<close>, which is what Go does for at most
  twelve elements; the lemmas only use that the result is sorted.
\<close>

section \<open>Status of the request\<close>

definition upd_request_status :: "(ComposabilityRequestStatus \<Rightarrow> ComposabilityRequestStatus) \<Rightarrow> ('w, unit) go" where
  "upd_request_status f = upd_request (\<lambda>q. q\<lparr>crq_Status := f (crq_Status q)\<rparr>)"

text \<open>\<^verbatim>\<open>return ctrl.Result{}, r.Status().Update(ctx, request)\<close>\<close>

definition return_update_request :: "('w, reconciled) go" where
  "return_update_request = bindM Status_Update_Request (\<lambda>err. ret (\<lparr>RequeueAfter = 0\<rparr>, err))"

definition Request_requeueOnErr :: "error \<Rightarrow> ('w, reconciled) go" where
  "Request_requeueOnErr err =
     thenM (upd_request_status (crqs_Error_update (\<lambda>_. err_Error err)))
     (bindM Status_Update_Request (\<lambda>_. ret (\<lparr>RequeueAfter = 0\<rparr>, Some err)))"

text \<open>\<^verbatim>\<open>delete(request.Status.Resources, name)\<close>\<close>

definition remove_entry :: "string \<Rightarrow> ('w, unit) go" where
  "remove_entry name = upd_request_status (crqs_Resources_update (AList.delete name))"

section \<open>What is kept\<close>

definition live :: "ComposableResource \<Rightarrow> bool" where
  "live cr \<longleftrightarrow> cr_State cr \<noteq> ''Detaching'' \<and> cr_State cr \<noteq> ''Deleting''"

text \<open>The variables of the loop.\<close>

record tally =
  resourcesToAllocate :: int
  resourcesToDelete :: int
  allocatedNodesForDifferentPolicy :: "string list"
  targetNodeForSamePolicy :: string

definition fits_spec :: "ScalarResourceDetails \<Rightarrow> ComposableResource \<Rightarrow> bool" where
  "fits_spec spec resource \<longleftrightarrow>
     crs_Type (cr_Spec resource) = srd_Type spec \<and> crs_Model (cr_Spec resource) = srd_Model spec
     \<and> crs_ForceDetach (cr_Spec resource) = srd_ForceDetach spec
     \<and> (srd_TargetNode spec = [] \<or> cr_TargetNode resource = srd_TargetNode spec)"

definition capacity_ok :: "ScalarResourceDetails \<Rightarrow> string \<Rightarrow> ('w, error + bool) go" where
  "capacity_ok spec nodeName =
     (case srd_OtherSpec spec of None \<Rightarrow> ret (Inr True) | Some other \<Rightarrow> CheckNodeCapacitySufficient nodeName other)"

text \<open>The switch on the policy; \<open>None\<close> when the resource's node breaks it.\<close>

definition policy_check :: "ScalarResourceDetails \<Rightarrow> string \<Rightarrow> tally \<Rightarrow> tally option" where
  "policy_check spec node t =
     (if srd_AllocationPolicy spec = ''differentnode'' then
        if node \<in> set (allocatedNodesForDifferentPolicy t) then None
        else Some (t\<lparr>allocatedNodesForDifferentPolicy := allocatedNodesForDifferentPolicy t @ [node]\<rparr>)
      else if srd_AllocationPolicy spec = ''samenode'' then
        if targetNodeForSamePolicy t = [] then Some (t\<lparr>targetNodeForSamePolicy := node\<rparr>)
        else if targetNodeForSamePolicy t \<noteq> node then None else Some t
      else Some t)"

definition keep_step :: "ScalarResourceDetails \<Rightarrow> ComposableResource \<Rightarrow> tally \<Rightarrow> ('w, (tally, error) flow) go" where
  "keep_step spec resource t =
     (if resourcesToAllocate t > 0 then
        if \<not> fits_spec spec resource then thenM (remove_entry (cr_Name resource)) (ret (Next t))
        else
          tryM (capacity_ok spec (cr_TargetNode resource)) (\<lambda>err. ret (Return err)) (\<lambda>isSufficient.
          if \<not> isSufficient then thenM (remove_entry (cr_Name resource)) (ret (Next t))
          else case policy_check spec (cr_TargetNode resource) t of
            None \<Rightarrow> thenM (remove_entry (cr_Name resource)) (ret (Next t))
          | Some t' \<Rightarrow> ret (Next (t'\<lparr>resourcesToAllocate := resourcesToAllocate t' - 1\<rparr>)))
      else ret (Next (t\<lparr>resourcesToDelete := resourcesToDelete t + 1\<rparr>)))"

definition first_tally :: "ScalarResourceDetails \<Rightarrow> tally" where
  "first_tally spec = \<lparr>resourcesToAllocate = srd_Size spec, resourcesToDelete = 0,
     allocatedNodesForDifferentPolicy = [], targetNodeForSamePolicy = []\<rparr>"

definition keep_resources :: "ScalarResourceDetails \<Rightarrow> ComposableResource list \<Rightarrow> ('w, error + tally) go" where
  "keep_resources spec items = forM items (first_tally spec) (keep_step spec)"

section \<open>What is given up\<close>

definition deletion_key :: "ComposableResource \<Rightarrow> time" where
  "deletion_key r =
     (case time_Parse (str_at (om_Annotations (cr_Meta r)) ''cohdi.io/last-used-time'') of
        Some t \<Rightarrow> t | None \<Rightarrow> om_CreationTimestamp (cr_Meta r))"

definition deletion_priority :: "ComposableResource \<Rightarrow> nat" where
  "deletion_priority r =
     (if cr_State r = ''None'' \<or> cr_State r = ''Attaching'' \<and> cr_DeviceID r = [] then 0
      else if cr_State r = ''Online'' \<and> str_at (om_Annotations (cr_Meta r)) ''cohdi.io/delete-device'' = ''true'' then 1
      else if cr_State r = ''Attaching'' then 2
      else if cr_State r = ''Online'' then 3
      else 4)"

definition priority_bucket :: "ComposableResource list \<Rightarrow> nat \<Rightarrow> ComposableResource list" where
  "priority_bucket items p = sort_key deletion_key (filter (\<lambda>r. deletion_priority r = p) items)"

definition priority_buckets :: "ComposableResource list \<Rightarrow> ComposableResource list list" where
  "priority_buckets items = map (priority_bucket items) [0..<5]"

text \<open>
  The loop without a condition: it takes bucket after bucket, indexing past the last one panics,
  and it ends when the count has come down to zero.
\<close>

definition give_up_step :: "ComposableResource \<Rightarrow> int \<Rightarrow> ('w, (int, unit) flow) go" where
  "give_up_step resource n =
     thenM (remove_entry (cr_Name resource)) (if n - 1 = 0 then ret (Return ()) else ret (Next (n - 1)))"

fun delete_by_priority :: "ComposableResource list list \<Rightarrow> int \<Rightarrow> ('w, unit) go" where
  "delete_by_priority [] n = panic ''index out of range''"
| "delete_by_priority (bucket # rest) n =
     bindM (forM bucket n give_up_step) (\<lambda>r. case r of Inl _ \<Rightarrow> ret () | Inr n' \<Rightarrow> delete_by_priority rest n')"

section \<open>Where new ones are placed\<close>

text \<open>The node another request occupies: for the policy samenode its target node or that of the
  first of its resources.\<close>

definition request_node :: "ComposabilityRequest \<Rightarrow> string" where
  "request_node req =
     (if srd_AllocationPolicy (crq_Resource req) = ''samenode'' then
        if srd_TargetNode (crq_Resource req) = [] then
          (case crq_Resources req of [] \<Rightarrow> [] | (_, v) # _ \<Rightarrow> srs_NodeName v)
        else srd_TargetNode (crq_Resource req)
      else [])"

definition occupied :: "ComposabilityRequest list \<Rightarrow> string \<Rightarrow> string \<Rightarrow> bool" where
  "occupied requests self node \<longleftrightarrow> (\<exists>req \<in> set requests. crq_Name req \<noteq> self \<and> request_node req = node)"

definition insufficient_nodes :: error where
  "insufficient_nodes = ErrorString ''insufficient number of available nodes''"

definition allocate_target :: "ScalarResourceDetails \<Rightarrow> int \<Rightarrow> ('w, error + string list) go" where
  "allocate_target spec n =
     bindM (CheckNodeExisted (srd_TargetNode spec)) (\<lambda>r. case r of
       Some _ \<Rightarrow> ret (Inl (ErrorString ''the target node does not existed''))
     | None \<Rightarrow>
         tryM (capacity_ok spec (srd_TargetNode spec)) (\<lambda>err. ret (Inl err)) (\<lambda>result.
         if \<not> result then ret (Inl (ErrorString ''TargetNode does not meet spec's requirements''))
         else ret (Inr (replicate (nat n) (srd_TargetNode spec)))))"

definition allocate_same :: "ScalarResourceDetails \<Rightarrow> int \<Rightarrow> ComposabilityRequest list \<Rightarrow> string \<Rightarrow> Node list
    \<Rightarrow> ('w, error + string list) go" where
  "allocate_same spec n requests self nodes =
     tryM (forM nodes [] (\<lambda>node allocatingNodes.
        tryM (capacity_ok spec (node_Name node)) (\<lambda>err. ret (Return err)) (\<lambda>result.
        if \<not> result then ret (Next allocatingNodes)
        else if occupied requests self (node_Name node) then ret (Next allocatingNodes)
        else ret (Break (allocatingNodes @ replicate (nat n) (node_Name node))))))
       (\<lambda>err. ret (Inl err)) (\<lambda>allocatingNodes.
     if int (length allocatingNodes) \<noteq> n then ret (Inl insufficient_nodes) else ret (Inr allocatingNodes))"

definition different_step :: "ScalarResourceDetails \<Rightarrow> int \<Rightarrow> string list \<Rightarrow> Node \<Rightarrow> string list
    \<Rightarrow> ('w, (string list, error) flow) go" where
  "different_step spec n allocated node allocatingNodes =
     tryM (capacity_ok spec (node_Name node)) (\<lambda>err. ret (Return err)) (\<lambda>result.
     if \<not> result then ret (Next allocatingNodes)
     else
       let allocatingNodes = (if \<not> ContainsString allocatingNodes (node_Name node) \<and> node_Name node \<notin> set allocated
                              then allocatingNodes @ [node_Name node] else allocatingNodes)
       in if int (length allocatingNodes) = n then ret (Break allocatingNodes) else ret (Next allocatingNodes))"

definition allocate_different :: "ScalarResourceDetails \<Rightarrow> int \<Rightarrow> string list \<Rightarrow> Node list
    \<Rightarrow> ('w, error + string list) go" where
  "allocate_different spec n allocated nodes =
     tryM (forM nodes [] (different_step spec n allocated)) (\<lambda>err. ret (Inl err)) (\<lambda>allocatingNodes.
     if int (length allocatingNodes) \<noteq> n then ret (Inl insufficient_nodes) else ret (Inr allocatingNodes))"

definition allocate_nodes :: "ComposabilityRequest \<Rightarrow> tally \<Rightarrow> ComposabilityRequest list \<Rightarrow> Node list
    \<Rightarrow> ('w, error + string list) go" where
  "allocate_nodes request t requests nodes =
     (let spec = crq_Resource request; n = resourcesToAllocate t in
      if srd_AllocationPolicy spec = ''samenode'' \<and> srd_TargetNode spec \<noteq> [] then allocate_target spec n
      else if srd_AllocationPolicy spec = ''samenode'' then
        if crq_Resources request \<noteq> [] then ret (Inr (replicate (nat n) (targetNodeForSamePolicy t)))
        else allocate_same spec n requests (crq_Name request) nodes
      else if srd_AllocationPolicy spec = ''differentnode'' then
        allocate_different spec n (allocatedNodesForDifferentPolicy t) nodes
      else ret (Inr []))"

definition new_entry :: "string \<Rightarrow> ScalarResourceStatus" where
  "new_entry node = \<lparr>srs_State = [], srs_DeviceID = [], srs_CDIDeviceID = [], srs_NodeName = node, srs_Error = []\<rparr>"

fun record_nodes :: "string \<Rightarrow> string list \<Rightarrow> ('w, unit) go" where
  "record_nodes tname [] = ret ()"
| "record_nodes tname (node # nodes) =
     bindM (GenerateComposableResourceName tname) (\<lambda>resourceName.
     thenM (upd_request_status (crqs_Resources_update (AList.update resourceName (new_entry node))))
     (record_nodes tname nodes))"

section \<open>The handler\<close>

definition give_up_resources :: "ComposableResource list \<Rightarrow> int \<Rightarrow> ('w, unit) go" where
  "give_up_resources items n = (if n > 0 then delete_by_priority (priority_buckets items) n else ret ())"

text \<open>From the loop over the listed resources on, with what the API server has listed.\<close>

definition place_resources :: "ComposableResource list \<Rightarrow> ComposabilityRequest list \<Rightarrow> Node list \<Rightarrow> ('w, reconciled) go" where
  "place_resources items requests nodes =
     bindM (getM theRequest) (\<lambda>request.
     tryM (keep_resources (crq_Resource request) items) (\<lambda>err. Request_requeueOnErr err) (\<lambda>t.
     thenM (give_up_resources items (resourcesToDelete t))
     (bindM (getM theRequest) (\<lambda>request.
     tryM (allocate_nodes request t requests nodes) (\<lambda>err. Request_requeueOnErr err) (\<lambda>allocatingNodes.
     thenM (record_nodes (srd_Type (crq_Resource request)) allocatingNodes)
     (thenM (upd_request (\<lambda>q. q\<lparr>crq_Status := (crq_Status q)\<lparr>crqs_State := ''Updating'', crqs_Error := [],
               crqs_ScalarResource := crq_Resource q\<rparr>\<rparr>))
     return_update_request))))))"

definition Request_handleNodeAllocatingState :: "('w, reconciled) go" where
  "Request_handleNodeAllocatingState =
     bindM (getM theRequest) (\<lambda>request.
     if om_DeletionTimestamp (crq_Meta request) \<noteq> None then
       thenM (upd_request_status (crqs_State_update (\<lambda>_. ''Cleaning''))) return_update_request
     else
       tryM (query (\<lambda>E. api_ListResources E (Some (crq_Name request)))) (\<lambda>err. Request_requeueOnErr err) (\<lambda>listed.
       tryM (query (\<lambda>E. api_ListRequests E)) (\<lambda>err. Request_requeueOnErr err) (\<lambda>requests.
       tryM GetAllNodes (\<lambda>err. Request_requeueOnErr err) (\<lambda>nodes.
       place_resources (filter live listed) requests nodes))))"

section \<open>Running on the trace and the request\<close>

definition qview :: "'w sys \<Rightarrow> event list \<times> ComposabilityRequest" where
  "qview s = (trace s, theRequest s)"

lemma untouched_qview [simp]: "untouched qview"
  by (simp add: untouched_def qview_def)

lemma qview_get [wpv_intro]: "Q q (tr, q) \<Longrightarrow> wpv H qview (getM theRequest) Q X (tr, q)"
  by (rule wpv_getM [where g = snd]) (simp_all add: qview_def)

lemma qview_upd [wpv_intro]: "Q () (tr, f q) \<Longrightarrow> wpv H qview (upd_request f) Q X (tr, q)"
  unfolding upd_request_def
  by (rule wpv_modifyM [where g = "\<lambda>(tr, q). (tr, f q)"]) (simp_all add: qview_def)

lemma qview_upd_status [wpv_intro]:
  "Q () (tr, q\<lparr>crq_Status := f (crq_Status q)\<rparr>) \<Longrightarrow> wpv H qview (upd_request_status f) Q X (tr, q)"
  unfolding upd_request_status_def by (rule qview_upd)

lemma qview_status_update:
  "(\<And>res q'. Q res (tr @ [EvUpdateRequestStatus q], q')) \<Longrightarrow> wpv H qview Status_Update_Request Q X (tr, q)"
  by (auto simp: wpv_def Status_Update_Request_def qview_def prog_defs split: prod.splits sum.splits)

lemma qview_update:
  "(\<And>e. Q (Some e) (tr @ [EvUpdateRequest q], q)) \<Longrightarrow> (\<And>q'. Q None (tr @ [EvUpdateRequest q], q'))
    \<Longrightarrow> wpv H qview Update_Request Q X (tr, q)"
  by (auto simp: wpv_def Update_Request_def qview_def prog_defs split: prod.splits sum.splits)

lemma keeps_capacity [keeps_intro]:
  "untouched f \<Longrightarrow> keeps f (CheckNodeCapacitySufficient n c)" "untouched f \<Longrightarrow> keeps f (GetAllNodes)"
  "untouched f \<Longrightarrow> keeps f (GenerateComposableResourceName t)" "untouched f \<Longrightarrow> keeps f (capacity_ok spec n)"
  unfolding CheckNodeCapacitySufficient_def getNode_def GetAllNodes_def GenerateComposableResourceName_def capacity_ok_def
  by (intro keeps_intro; assumption)+

lemma keeps_allocate [keeps_intro]:
  "untouched f \<Longrightarrow> keeps f (allocate_nodes q t qs ns)"
  unfolding allocate_nodes_def allocate_target_def allocate_same_def allocate_different_def different_step_def Let_def
  by (intro keeps_intro)

lemma qview_query [wpv_intro]: "(\<And>x. Q x v) \<Longrightarrow> wpv H qview (query f) Q X v"
  by (simp add: wpv_def query_def qview_def split: prod.split)

lemma qview_reads [wpv_intro]:
  "(\<And>x. Q1 x v) \<Longrightarrow> wpv H qview GetAllNodes Q1 X v"
  "(\<And>x. Q2 x v) \<Longrightarrow> wpv H qview (CheckNodeExisted n) Q2 X v"
  "(\<And>x. Q3 x v) \<Longrightarrow> wpv H qview (capacity_ok spec n) Q3 X v"
  "(\<And>x. Q4 x v) \<Longrightarrow> wpv H qview (GenerateComposableResourceName t) Q4 X v"
  unfolding GetAllNodes_def CheckNodeExisted_def capacity_ok_def CheckNodeCapacitySufficient_def getNode_def
    GenerateComposableResourceName_def
  by (intro wpv_intro conjI allI impI; simp)+

text \<open>A loop over a list that leaves the view alone and never panics.\<close>

lemma wpv_forM_same:
  assumes "\<And>x acc. wpv H vw (f x acc) (\<lambda>_ v'. v' = v) X v" "\<And>x. Q x v"
  shows "wpv H vw (forM xs acc f) Q X v"
  by (rule wpv_forM [where I = "\<lambda>_ v'. v' = v"])
     (auto intro!: wpv_conseq [OF assms(1)] simp: assms(2) split: flow.split)

lemma allocate_nodes_run: "(\<And>x. Q x v) \<Longrightarrow> wpv H qview (allocate_nodes q t qs ns) Q X v"
  unfolding allocate_nodes_def allocate_target_def allocate_same_def allocate_different_def different_step_def
  by (intro wpv_let wpv_if wpv_ret wpv_bindM wpv_option wpv_tryM wpv_forM_same qview_reads conjI allI impI) auto

section \<open>Giving up resources\<close>

definition drop_entries :: "string list \<Rightarrow> ComposabilityRequest \<Rightarrow> ComposabilityRequest" where
  "drop_entries names q = q\<lparr>crq_Status := crqs_Resources_update (filter (\<lambda>e. fst e \<notin> set names)) (crq_Status q)\<rparr>"

lemma drop_entries_Nil [simp]: "drop_entries [] q = q"
  by (simp add: drop_entries_def)

lemma drop_entries_append [simp]: "drop_entries ns (drop_entries ms q) = drop_entries (ms @ ns) q"
  by (simp add: drop_entries_def comp_def conj_commute)

lemma drop_entries_simps [simp]:
  "crq_Meta (drop_entries ns q) = crq_Meta q" "crq_Resource (drop_entries ns q) = crq_Resource q"
  "crqs_State (crq_Status (drop_entries ns q)) = crq_State q"
  "crq_Resources (drop_entries ns q) = filter (\<lambda>e. fst e \<notin> set ns) (crq_Resources q)"
  by (simp_all add: drop_entries_def)

lemma run_remove_entry: "remove_entry n E s = (Ret (), s\<lparr>theRequest := drop_entries [n] (theRequest s)\<rparr>)"
proof -
  have "AList.delete n = filter (\<lambda>e :: string \<times> ScalarResourceStatus. fst e \<notin> set [n])"
    by (simp add: AList.delete_eq case_prod_beta' eq_commute)
  then show ?thesis
    by (simp add: remove_entry_def upd_request_status_def upd_request_def modifyM_def drop_entries_def)
qed

lemma run_give_up_step:
  "give_up_step r n E s = (Ret (if n = 1 then Return () else Next (n - 1)), s\<lparr>theRequest := drop_entries [cr_Name r] (theRequest s)\<rparr>)"
  by (simp add: give_up_step_def thenM_def bindM_def run_remove_entry run_ret)

lemma bind_give_up_step:
  "bindM (give_up_step r n) f E s
    = f (if n = 1 then Return () else Next (n - 1)) E (s\<lparr>theRequest := drop_entries [cr_Name r] (theRequest s)\<rparr>)"
  by (simp add: bindM_def run_give_up_step)

lemma run_bucket:
  "0 < n \<Longrightarrow> forM bucket n give_up_step E s
    = (if n \<le> int (length bucket)
       then (Ret (Inl ()), s\<lparr>theRequest := drop_entries (map cr_Name (take (nat n) bucket)) (theRequest s)\<rparr>)
       else (Ret (Inr (n - int (length bucket))), s\<lparr>theRequest := drop_entries (map cr_Name bucket) (theRequest s)\<rparr>))"
proof (induction bucket arbitrary: n s)
  case Nil
  then show ?case by (simp add: run_ret)
next
  case (Cons r rs)
  show ?case
  proof (cases "n = 1")
    case True
    then show ?thesis by (simp add: bind_give_up_step run_ret)
  next
    case False
    then have n: "0 < n - 1" "nat n = Suc (nat (n - 1))" using Cons.prems by simp_all
    show ?thesis
      using False by (simp add: bind_give_up_step Cons.IH [OF n(1)] n(2))
  qed
qed

lemma delete_by_priority_run:
  "0 < n \<Longrightarrow> n \<le> int (length (concat bs)) \<Longrightarrow> delete_by_priority bs n E s
     = (Ret (), s\<lparr>theRequest := drop_entries (map cr_Name (take (nat n) (concat bs))) (theRequest s)\<rparr>)"
proof (induction bs arbitrary: n s)
  case (Cons b bs)
  show ?case
  proof (cases "n \<le> int (length b)")
    case True
    then show ?thesis using Cons.prems by (simp add: bindM_def run_bucket run_ret)
  next
    case False
    then have n: "0 < n - int (length b)" "nat (n - int (length b)) = nat n - length b" by simp_all
    then have "take (nat n) b = b" using False by simp
    then show ?thesis
      using Cons.prems False n by (simp add: bindM_def run_bucket Cons.IH)
  qed
qed simp

lemma deletion_priority_lt: "deletion_priority r < 5"
  by (simp add: deletion_priority_def)

lemma mset_priority_buckets: "mset (concat (priority_buckets items)) = mset items"
proof -
  have five: "[0..<5] = [0, 1, 2, 3, 4 :: nat]" by (simp add: upt_rec)
  have "mset items = (\<Sum>p \<leftarrow> [0..<5]. filter_mset (\<lambda>r. deletion_priority r = p) (mset items))"
  proof (induction items)
    case (Cons r rs)
    moreover have "deletion_priority r \<in> {0, 1, 2, 3, 4}" using deletion_priority_lt [of r] by auto
    ultimately show ?case unfolding five by auto
  qed (simp add: five)
  then show ?thesis
    by (simp add: priority_buckets_def priority_bucket_def five ac_simps)
qed

text \<open>
  The order in which resources are given up, as a specification: those for which nothing has been
  attached yet, those Online that are marked for deletion, those being attached, the other ones
  Online, and the rest; within a class by the time of last use, for which the time of creation
  stands in where it is not recorded as a time.
\<close>

definition give_up_classes :: "(ComposableResource \<Rightarrow> bool) list" where
  "give_up_classes =
     [\<lambda>r. crst_State (cr_Status r) = ''None'' \<or> crst_State (cr_Status r) = ''Attaching'' \<and> crst_DeviceID (cr_Status r) = [],
      \<lambda>r. crst_State (cr_Status r) = ''Online'' \<and> om_Annotations (cr_Meta r) ''cohdi.io/delete-device'' = Some ''true'',
      \<lambda>r. crst_State (cr_Status r) = ''Attaching'',
      \<lambda>r. crst_State (cr_Status r) = ''Online'']"

definition give_up_class :: "ComposableResource \<Rightarrow> nat" where
  "give_up_class r = length (takeWhile (\<lambda>P. \<not> P r) give_up_classes)"

definition last_use :: "ComposableResource \<Rightarrow> time" where
  "last_use r =
     (case Option.bind (om_Annotations (cr_Meta r) ''cohdi.io/last-used-time'') time_Parse of
        Some t \<Rightarrow> t | None \<Rightarrow> om_CreationTimestamp (cr_Meta r))"

definition given_up_before :: "ComposableResource \<Rightarrow> ComposableResource \<Rightarrow> bool" where
  "given_up_before r r' \<longleftrightarrow> give_up_class r < give_up_class r'
     \<or> give_up_class r = give_up_class r' \<and> last_use r \<le> last_use r'"

lemma deletion_priority_class: "deletion_priority r = give_up_class r"
  by (auto simp: deletion_priority_def give_up_class_def give_up_classes_def str_at_def split: option.splits)

lemma deletion_key_last_use: "deletion_key r = last_use r"
proof -
  have "time_Parse [] = None" by code_simp
  then show ?thesis
    by (cases "om_Annotations (cr_Meta r) ''cohdi.io/last-used-time''") (simp_all add: deletion_key_def last_use_def str_at_def)
qed

lemma sorted_wrt_concat_upt:
  assumes "\<And>i. sorted_wrt R (f i)" "\<And>i j x y. i < j \<Longrightarrow> x \<in> set (f i) \<Longrightarrow> y \<in> set (f j) \<Longrightarrow> R x y"
  shows "sorted_wrt R (concat (map f [0..<n]))"
  by (induction n) (auto simp: sorted_wrt_append assms)

lemma sorted_priority_buckets: "sorted_wrt given_up_before (concat (priority_buckets items))"
proof -
  have "sorted_wrt given_up_before (priority_bucket items p)" for p
  proof -
    have "sorted_wrt (\<lambda>r r'. deletion_key r \<le> deletion_key r') (priority_bucket items p)"
      using sorted_sort_key [of deletion_key] by (simp add: priority_bucket_def sorted_map)
    then show ?thesis
      by (rule sorted_wrt_mono_rel [rotated])
         (auto simp: given_up_before_def priority_bucket_def deletion_priority_class deletion_key_last_use)
  qed
  then show ?thesis
    unfolding priority_buckets_def
    by (rule sorted_wrt_concat_upt) (auto simp: given_up_before_def priority_bucket_def deletion_priority_class)
qed

lemma give_up_chosen:
  assumes "0 < n" "n \<le> int (length items)"
  shows "\<exists>chosen rest. mset (chosen @ rest) = mset items \<and> int (length chosen) = n
     \<and> list_all (\<lambda>r. list_all (given_up_before r) rest) chosen
     \<and> give_up_resources items n E s
         = (Ret (), s\<lparr>theRequest := drop_entries (map cr_Name chosen) (theRequest s)\<rparr>)"
proof -
  let ?all = "concat (priority_buckets items)"
  have len: "length ?all = length items"
    using mset_priority_buckets [of items] by (metis size_mset)
  have "sorted_wrt given_up_before (take (nat n) ?all @ drop (nat n) ?all)"
    by (simp add: sorted_priority_buckets)
  then have "list_all (\<lambda>r. list_all (given_up_before r) (drop (nat n) ?all)) (take (nat n) ?all)"
    unfolding sorted_wrt_append list_all_iff by blast
  moreover have "give_up_resources items n E s
      = (Ret (), s\<lparr>theRequest := drop_entries (map cr_Name (take (nat n) ?all)) (theRequest s)\<rparr>)"
    using assms len by (simp add: give_up_resources_def delete_by_priority_run)
  ultimately show ?thesis
    using assms len mset_priority_buckets [of items]
    by (intro exI [of _ "take (nat n) ?all"] exI [of _ "drop (nat n) ?all"]) simp
qed

lemma removed_count:
  assumes "distinct (map fst es)" "distinct ns" "set ns \<subseteq> fst ` set es"
  shows "length (filter (\<lambda>e. fst e \<notin> set ns) es) + length ns = length es"
proof -
  let ?gone = "filter (\<lambda>e. fst e \<in> set ns) es"
  have "set (map fst ?gone) = set ns" using assms(3) by force
  moreover have "distinct (map fst ?gone)" using assms(1) by (rule distinct_map_filter)
  ultimately have "length ?gone = length ns" using assms(2) by (metis distinct_card length_map)
  then show ?thesis using sum_length_filter_compl [of "\<lambda>e. fst e \<in> set ns" es] by simp
qed

text \<open>
  C9.  Giving up resources.  To bring the number of resources down by \<open>n\<close>, with at least as many
  listed, the loop ends without an index error and chooses \<open>n\<close> of the listed resources, each of
  which comes before every resource not chosen in the order of the specification; it then removes
  from the request's status the entries with their names and changes nothing else.  The entries
  removed are \<open>n\<close> in number if the names listed are different from each other and each has an
  entry.
\<close>

theorem give_up_resources_order:
  assumes "0 < n" "n \<le> int (length items)"
  shows "\<exists>chosen rest es. mset (chosen @ rest) = mset items \<and> int (length chosen) = n
     \<and> list_all (\<lambda>r. list_all (given_up_before r) rest) chosen
     \<and> es = filter (\<lambda>e. fst e \<notin> (\<lambda>r. om_Name (cr_Meta r)) ` set chosen) (crqs_Resources (crq_Status (theRequest s)))
     \<and> give_up_resources items n E s = (Ret (), s\<lparr>theRequest := (theRequest s)\<lparr>crq_Status :=
          (crq_Status (theRequest s))\<lparr>crqs_Resources := es\<rparr>\<rparr>\<rparr>)
     \<and> (distinct (map (\<lambda>r. om_Name (cr_Meta r)) items) \<and> distinct (map fst (crqs_Resources (crq_Status (theRequest s))))
        \<and> list_all (\<lambda>r. om_Name (cr_Meta r) \<in> fst ` set (crqs_Resources (crq_Status (theRequest s)))) items
        \<longrightarrow> int (length es) = int (length (crqs_Resources (crq_Status (theRequest s)))) - n)"
proof -
  let ?es = "crq_Resources (theRequest s)"
  obtain chosen rest where c: "mset (chosen @ rest) = mset items" "int (length chosen) = n"
      "list_all (\<lambda>r. list_all (given_up_before r) rest) chosen"
      "give_up_resources items n E s = (Ret (), s\<lparr>theRequest := drop_entries (map cr_Name chosen) (theRequest s)\<rparr>)"
    using give_up_chosen [OF assms] by metis
  have drop: "drop_entries (map cr_Name chosen) (theRequest s) = (theRequest s)\<lparr>crq_Status :=
      (crq_Status (theRequest s))\<lparr>crqs_Resources := filter (\<lambda>e. fst e \<notin> cr_Name ` set chosen) ?es\<rparr>\<rparr>"
    by (cases "crq_Status (theRequest s)") (simp add: drop_entries_def)
  have "int (length (filter (\<lambda>e. fst e \<notin> cr_Name ` set chosen) ?es)) = int (length ?es) - n"
    if "distinct (map cr_Name items)" "distinct (map fst ?es)" "list_all (\<lambda>r. cr_Name r \<in> fst ` set ?es) items"
  proof -
    have "mset (map cr_Name (chosen @ rest)) = mset (map cr_Name items)" using c(1) by (metis mset_map)
    then have "distinct (map cr_Name (chosen @ rest))" using that(1) by (metis mset_eq_imp_distinct_iff)
    then have d: "distinct (map cr_Name chosen)" by simp
    have "set chosen \<subseteq> set items" using c(1) by (metis mset_eq_setD set_append sup_ge1)
    then have "set (map cr_Name chosen) \<subseteq> fst ` set ?es" using that(3) by (auto simp: list_all_iff)
    from removed_count [OF that(2) d this] c(2) show ?thesis by simp
  qed
  with c drop show ?thesis
    by (intro exI [of _ chosen] exI [of _ rest] exI [of _ "filter (\<lambda>e. fst e \<notin> cr_Name ` set chosen) ?es"]) simp
qed

section \<open>The handler never panics\<close>

lemma qview_remove [wpv_intro]:
  "Q () (tr, drop_entries [n] q) \<Longrightarrow> wpv H qview (remove_entry n) Q X (tr, q)"
  by (auto simp: wpv_def run_remove_entry qview_def)

text \<open>What the first loop has done: it has only removed entries, and marked at most the listed
  resources for deletion.\<close>

definition kept_so_far :: "event list \<Rightarrow> ComposabilityRequest \<Rightarrow> tally \<Rightarrow> nat \<Rightarrow> error + tally
    \<Rightarrow> event list \<times> ComposabilityRequest \<Rightarrow> bool" where
  "kept_so_far tr q t n x v \<longleftrightarrow> fst v = tr \<and> (\<exists>ns. snd v = drop_entries ns q)
     \<and> (\<forall>t'. x = Inr t' \<longrightarrow> resourcesToDelete t' \<le> resourcesToDelete t + int n)"

lemma kept_stop: "kept_so_far tr q t n (Inl e) (tr, q)"
  by (auto simp: kept_so_far_def intro: exI [of _ "[]"])

lemma policy_check_toDelete [simp]:
  "policy_check spec n t = Some t' \<Longrightarrow> resourcesToDelete t' = resourcesToDelete t"
  "policy_check spec n t = Some t' \<Longrightarrow> resourcesToAllocate t' = resourcesToAllocate t"
  by (auto simp: policy_check_def split: if_splits)

lemma keep_step_run:
  assumes "\<And>e. Q (Return e) (tr, q)"
    and "\<And>t' ns. resourcesToDelete t' \<le> resourcesToDelete t + 1 \<Longrightarrow> Q (Next t') (tr, drop_entries ns q)"
  shows "wpv H qview (keep_step spec r t) Q X (tr, q)"
  unfolding keep_step_def
  by (intro wpv_if wpv_thenM qview_remove wpv_ret wpv_tryM qview_reads conjI allI impI wpv_option)
     (use assms assms(2) [where ns = "[]"] in auto)

lemma keep_loop_run:
  "wpv H qview (forM items t (keep_step spec)) (kept_so_far tr q t (length items)) X (tr, q)"
proof (induction items arbitrary: t q)
  case Nil
  then show ?case by (auto intro!: wpv_ret simp: kept_so_far_def intro: exI [of _ "[]"])
next
  case (Cons r rs)
  have next_step: "wpv H qview (forM rs t' (keep_step spec)) (kept_so_far tr q t (length (r # rs))) X (tr, drop_entries ns q)"
    if "resourcesToDelete t' \<le> resourcesToDelete t + 1" for t' ns
    by (rule wpv_conseq [OF Cons.IH]) (use that in \<open>force simp: kept_so_far_def\<close>)+
  show ?case
    unfolding forM.simps
    by (intro wpv_bindM keep_step_run; simp only: flow.case; intro wpv_ret next_step kept_stop)
qed

lemma give_up_run:
  assumes "n \<le> int (length items)" "\<And>ns. Q () (tr, drop_entries ns q)"
  shows "wpv H qview (give_up_resources items n) Q X (tr, q)"
proof -
  have "length (concat (priority_buckets items)) = length items"
    using mset_priority_buckets [of items] by (metis size_mset)
  then show ?thesis
    using assms assms(2) [of "[]"] unfolding give_up_resources_def
    by (auto simp: wpv_def delete_by_priority_run qview_def run_ret)
qed

definition add_entries :: "resources \<Rightarrow> ComposabilityRequest \<Rightarrow> ComposabilityRequest" where
  "add_entries es q = q\<lparr>crq_Status := crqs_Resources_update (\<lambda>rs. rs @ es) (crq_Status q)\<rparr>"

lemma record_nodes_any:
  "(\<And>rs. Q () (tr, q\<lparr>crq_Status := crqs_Resources_update (\<lambda>_. rs) (crq_Status q)\<rparr>)) \<Longrightarrow> wpv H qview (record_nodes tname ns) Q X (tr, q)"
proof (induction ns arbitrary: q)
  case Nil
  from Nil [of "crq_Resources q"] show ?case by (simp add: wpv_ret)
next
  case (Cons n ns)
  show ?case
    unfolding record_nodes.simps
    by (intro wpv_bindM qview_reads wpv_thenM qview_upd_status Cons.IH) (use Cons.prems in simp)
qed

lemma requeueOnErr_Request_run:
  "(\<And>q'. Q (\<lparr>RequeueAfter = 0\<rparr>, Some err)
      (tr @ [EvUpdateRequestStatus (q\<lparr>crq_Status := (crq_Status q)\<lparr>crqs_Error := err_Error err\<rparr>\<rparr>)], q'))
    \<Longrightarrow> wpv H qview (Request_requeueOnErr err) Q X (tr, q)"
  unfolding Request_requeueOnErr_def
  by (intro wpv_thenM wpv_bindM qview_upd_status qview_status_update wpv_ret) simp

lemma keep_resources_run:
  assumes "\<And>e ns. Q (Inl e) (tr, drop_entries ns q)"
    and "\<And>t ns. resourcesToDelete t \<le> int (length items) \<Longrightarrow> Q (Inr t) (tr, drop_entries ns q)"
  shows "wpv H qview (keep_resources spec items) Q X (tr, q)"
  unfolding keep_resources_def
proof (rule wpv_conseq [OF keep_loop_run [of H items "first_tally spec" spec tr q X]])
  fix x v
  assume "kept_so_far tr q (first_tally spec) (length items) x v"
  then show "Q x v"
    using assms by (cases v; cases x) (auto simp: kept_so_far_def first_tally_def)
qed

lemma allocating_safe: "wpv H qview Request_handleNodeAllocatingState (\<lambda>_ _. True) (\<lambda>_. False) (tr, q)"
  unfolding Request_handleNodeAllocatingState_def place_resources_def return_update_request_def
  by (intro wpv_bindM wpv_thenM wpv_tryM wpv_let wpv_if qview_get qview_query qview_reads qview_upd qview_upd_status
      keep_resources_run give_up_run allocate_nodes_run record_nodes_any requeueOnErr_Request_run qview_status_update
      conjI allI impI wpv_ret) auto

text \<open>
  C23.  The allocation handler always returns.  Whatever the API server answers, no run of it panics; in
  particular the loop over the deletion priorities, which has no bound of its own, never indexes
  past the last priority.
\<close>

theorem Request_handleNodeAllocatingState_returns:
  "\<exists>result err s'. Request_handleNodeAllocatingState E s = (Ret (result, err), s')"
proof -
  obtain o' s' where run: "Request_handleNodeAllocatingState E s = (o', s')"
    by (cases "Request_handleNodeAllocatingState E s")
  show ?thesis
    using wpvD(2) [OF allocating_safe [of "\<lambda>_. True"] TrueI, of s "trace s" "theRequest s" E] run
    by (cases o') (auto simp: qview_def)
qed

section \<open>Placing new resources\<close>

text \<open>
  A node is taken when some other request with the policy samenode has it as its target node, or,
  without a target node, as the node of the first entry of its status.
\<close>

definition taken_by_other :: "ComposabilityRequest list \<Rightarrow> string \<Rightarrow> string \<Rightarrow> bool" where
  "taken_by_other requests self node \<longleftrightarrow>
     (\<exists>req \<in> set requests. om_Name (crq_Meta req) \<noteq> self
        \<and> srd_AllocationPolicy (crq_Resource req) = ''samenode''
        \<and> (srd_TargetNode (crq_Resource req) \<noteq> [] \<and> srd_TargetNode (crq_Resource req) = node
           \<or> srd_TargetNode (crq_Resource req) = []
             \<and> (\<exists>name entry rest. crqs_Resources (crq_Status req) = (name, entry) # rest \<and> srs_NodeName entry = node)))"

lemma taken_occupied: "taken_by_other requests self node \<Longrightarrow> occupied requests self node"
  unfolding taken_by_other_def occupied_def request_node_def by (force split: list.splits)

text \<open>What an allocation that succeeds has chosen.\<close>

definition placement :: "ComposabilityRequest \<Rightarrow> tally \<Rightarrow> ComposabilityRequest list \<Rightarrow> Node list \<Rightarrow> string list \<Rightarrow> bool" where
  "placement request t requests nodes ns \<longleftrightarrow>
     (let spec = crq_Resource request in
      int (length ns) = resourcesToAllocate t
      \<and> (if srd_AllocationPolicy spec = ''differentnode'' then
           distinct ns \<and> set ns \<inter> set (allocatedNodesForDifferentPolicy t) = {} \<and> set ns \<subseteq> node_Name ` set nodes
         else if srd_TargetNode spec \<noteq> [] then set ns \<subseteq> {srd_TargetNode spec}
         else if crq_Resources request \<noteq> [] then set ns \<subseteq> {targetNodeForSamePolicy t}
         else \<exists>node. set ns \<subseteq> {node}
                \<and> (ns \<noteq> [] \<longrightarrow> node \<in> node_Name ` set nodes \<and> \<not> taken_by_other requests (crq_Name request) node)))"

lemma allocate_different_sound:
  assumes "\<And>ns. int (length ns) = n \<Longrightarrow> distinct ns \<Longrightarrow> set ns \<inter> set allocated = {} \<Longrightarrow> set ns \<subseteq> node_Name ` set nodes
      \<Longrightarrow> Q (Inr ns) v" "\<And>e. Q (Inl e) v"
  shows "wpv H qview (allocate_different spec n allocated nodes) Q X v"
proof -
  let ?I = "\<lambda>ns v'. v' = v \<and> distinct ns \<and> set ns \<inter> set allocated = {} \<and> set ns \<subseteq> node_Name ` set nodes"
  show ?thesis
    unfolding allocate_different_def different_step_def
    by (intro wpv_tryM wpv_forM [where I = ?I] qview_reads wpv_if wpv_let wpv_ret conjI allI impI)
       (use assms in \<open>auto intro!: wpv_ret\<close>)
qed

lemma allocate_same_sound:
  assumes "\<And>ns node. int (length ns) = n \<Longrightarrow> set ns \<subseteq> {node}
      \<Longrightarrow> (ns \<noteq> [] \<longrightarrow> node \<in> node_Name ` set nodes \<and> \<not> taken_by_other requests self node) \<Longrightarrow> Q (Inr ns) v" "\<And>e. Q (Inl e) v"
  shows "wpv H qview (allocate_same spec n requests self nodes) Q X v"
proof -
  let ?I = "\<lambda>ns v'. v' = v \<and> ns = []"
  have none: "Q (Inr []) v" if "n = 0"
    by (rule assms(1) [where node = "[]"]) (use that in simp_all)
  have some: "Q (Inr (replicate (nat n) (node_Name node))) v"
    if "0 \<le> n" "node \<in> set nodes" "\<not> occupied requests self (node_Name node)" for node
    by (rule assms(1) [where node = "node_Name node"]) (use that taken_occupied in auto)
  show ?thesis
    unfolding allocate_same_def
    by (intro wpv_tryM wpv_forM [where I = ?I] qview_reads wpv_if wpv_let wpv_ret conjI allI impI)
       (use none some assms(2) in \<open>auto intro!: wpv_ret\<close>)
qed

lemma allocate_nodes_sound:
  assumes "srd_AllocationPolicy (crq_Resource request) \<in> {''samenode'', ''differentnode''}" "0 \<le> resourcesToAllocate t"
    and "\<And>ns. placement request t requests nodes ns \<Longrightarrow> Q (Inr ns) v" "\<And>e. Q (Inl e) v"
  shows "wpv H qview (allocate_nodes request t requests nodes) Q X v"
proof -
  have repl: "Q (Inr (replicate (nat (resourcesToAllocate t)) node)) v"
    if "srd_AllocationPolicy (crq_Resource request) = ''samenode''"
      "srd_TargetNode (crq_Resource request) \<noteq> [] \<and> node = srd_TargetNode (crq_Resource request)
       \<or> srd_TargetNode (crq_Resource request) = [] \<and> crq_Resources request \<noteq> [] \<and> node = targetNodeForSamePolicy t" for node
    by (rule assms(3)) (use that assms(2) in \<open>auto simp: placement_def Let_def\<close>)
  show ?thesis
    unfolding allocate_nodes_def allocate_target_def
    by (intro wpv_let wpv_if wpv_bindM qview_reads wpv_option wpv_tryM wpv_ret conjI allI impI repl
        allocate_same_sound allocate_different_sound)
       (use assms in \<open>auto simp: placement_def Let_def\<close>)
qed


section \<open>Scaling a settled request\<close>

text \<open>
  A request is settled when its live resources all match it, lie on nodes as its policy demands,
  and are those its status lists.
\<close>

definition policy_holds :: "string \<Rightarrow> string list \<Rightarrow> bool" where
  "policy_holds policy ns \<longleftrightarrow> (if policy = ''differentnode'' then distinct ns else \<exists>node. set ns \<subseteq> {node})"

definition settled :: "ComposabilityRequest \<Rightarrow> ComposableResource list \<Rightarrow> bool" where
  "settled q items \<longleftrightarrow>
     srd_AllocationPolicy (crq_Resource q) \<in> {''samenode'', ''differentnode''} \<and> 0 \<le> srd_Size (crq_Resource q)
     \<and> srd_OtherSpec (crq_Resource q) = None
     \<and> list_all (\<lambda>r. fits_spec (crq_Resource q) r \<and> cr_TargetNode r \<noteq> []) items
     \<and> policy_holds (srd_AllocationPolicy (crq_Resource q)) (map cr_TargetNode items)
     \<and> distinct (map cr_Name items)
     \<and> mset (map (\<lambda>e. (fst e, srs_NodeName (snd e))) (crq_Resources q)) = mset (map (\<lambda>r. (cr_Name r, cr_TargetNode r)) items)"

text \<open>The variables of the first loop after the resources \<open>rs\<close> of a settled request.\<close>

definition tally_after :: "ScalarResourceDetails \<Rightarrow> ComposableResource list \<Rightarrow> tally" where
  "tally_after spec rs =
     (let used = map cr_TargetNode (take (nat (srd_Size spec)) rs) in
      \<lparr>resourcesToAllocate = max 0 (srd_Size spec - int (length rs)), resourcesToDelete = max 0 (int (length rs) - srd_Size spec),
       allocatedNodesForDifferentPolicy = (if srd_AllocationPolicy spec = ''differentnode'' then used else []),
       targetNodeForSamePolicy = (if srd_AllocationPolicy spec = ''samenode'' \<and> used \<noteq> [] then hd used else [])\<rparr>)"

lemma keep_step_settled:
  assumes "srd_OtherSpec spec = None" "0 \<le> srd_Size spec" "fits_spec spec r"
    and "srd_AllocationPolicy spec \<in> {''samenode'', ''differentnode''}"
    and "policy_holds (srd_AllocationPolicy spec) (map cr_TargetNode (rs @ [r]))" "\<forall>r' \<in> set rs. cr_TargetNode r' \<noteq> []"
  shows "keep_step spec r (tally_after spec rs) E s = (Ret (Next (tally_after spec (rs @ [r]))), s)"
proof (cases "int (length rs) < srd_Size spec")
  case True
  then have take: "take (nat (srd_Size spec)) (rs @ [r]) = rs @ [r]" "take (nat (srd_Size spec)) rs = rs"
    by (simp_all add: nat_le_iff)
  have num: "max 0 (srd_Size spec - int (length rs)) = srd_Size spec - int (length rs)"
    "max 0 (srd_Size spec - int (length (rs @ [r]))) = srd_Size spec - int (length rs) - 1"
    "max 0 (int (length rs) - srd_Size spec) = 0" "max 0 (int (length (rs @ [r])) - srd_Size spec) = 0"
    using True by simp_all
  show ?thesis
    using assms True unfolding keep_step_def tally_after_def take num
    by (cases rs) (auto simp: capacity_ok_def policy_check_def policy_holds_def run_ret Let_def)
next
  case False
  then have "take (nat (srd_Size spec)) (rs @ [r]) = take (nat (srd_Size spec)) rs" using assms(2) by (simp add: nat_le_iff)
  then show ?thesis
    using assms False by (simp add: keep_step_def tally_after_def run_ret Let_def)
qed

lemma policy_holds_mset: "mset ms = mset ns \<Longrightarrow> policy_holds p ms = policy_holds p ns"
  using mset_eq_imp_distinct_iff [of ms ns] mset_eq_setD [of ms ns] by (simp add: policy_holds_def)

lemma policy_holds_append1: "policy_holds p (xs @ ys) \<Longrightarrow> policy_holds p xs"
  by (auto simp: policy_holds_def split: if_splits)

lemma keep_loop_settled:
  assumes "srd_OtherSpec spec = None" "0 \<le> srd_Size spec"
    and "srd_AllocationPolicy spec \<in> {''samenode'', ''differentnode''}"
  shows "policy_holds (srd_AllocationPolicy spec) (map cr_TargetNode (rs @ items)) \<Longrightarrow> \<forall>r \<in> set items. fits_spec spec r
    \<Longrightarrow> \<forall>r \<in> set (rs @ items). cr_TargetNode r \<noteq> []
    \<Longrightarrow> forM items (tally_after spec rs) (keep_step spec) E s = (Ret (Inr (tally_after spec (rs @ items))), s)"
proof (induction items arbitrary: rs)
  case Nil
  then show ?case by (simp add: run_ret)
next
  case (Cons r items)
  have "policy_holds (srd_AllocationPolicy spec) (map cr_TargetNode (rs @ [r]))"
    by (rule policy_holds_append1 [where ys = "map cr_TargetNode items"]) (use Cons.prems in simp)
  then have "keep_step spec r (tally_after spec rs) E s = (Ret (Next (tally_after spec (rs @ [r]))), s)"
    using Cons.prems by (intro keep_step_settled assms) auto
  then show ?case
    using Cons.IH [of "rs @ [r]"] Cons.prems by (simp add: bindM_def)
qed

lemma keep_resources_settled:
  assumes "settled q items"
  shows "keep_resources (crq_Resource q) items E s = (Ret (Inr (tally_after (crq_Resource q) items)), s)"
proof -
  have "first_tally (crq_Resource q) = tally_after (crq_Resource q) []"
    using assms by (simp add: first_tally_def tally_after_def settled_def)
  then show ?thesis
    using assms keep_loop_settled [of "crq_Resource q" "[]" items E s]
    by (auto simp: keep_resources_def settled_def list_all_iff)
qed

text \<open>Fresh names: what the code relies on of \<^verbatim>\<open>uuid.New\<close>, for the names of the type and of the request.\<close>

fun new_names :: "'w env \<Rightarrow> string \<Rightarrow> 'w \<Rightarrow> nat \<Rightarrow> string list" where
  "new_names E tname w 0 = []"
| "new_names E tname w (Suc n) =
     (case uuid_New E w of (u, w') \<Rightarrow> strings_ToLower (tname @ ''-'' @ u) # new_names E tname w' n)"

definition uuids_unique :: "string \<Rightarrow> string list \<Rightarrow> 'w env \<Rightarrow> bool" where
  "uuids_unique tname old E \<longleftrightarrow> (\<forall>w n. distinct (new_names E tname w n) \<and> set (new_names E tname w n) \<inter> set old = {})"

lemma add_entries_add [simp]: "add_entries es (add_entries es' q) = add_entries (es' @ es) q"
  by (simp add: add_entries_def comp_def)

lemma add_entries_simps [simp]:
  "crq_Meta (add_entries es q) = crq_Meta q" "crq_Resource (add_entries es q) = crq_Resource q"
  "crq_Resources (add_entries es q) = crq_Resources q @ es" "crqs_State (crq_Status (add_entries es q)) = crq_State q"
  by (simp_all add: add_entries_def)

lemma add_entries_Nil [simp]: "add_entries [] q = q"
  by (simp add: add_entries_def)

lemma update_new_entry:
  "n \<notin> set (map fst (crq_Resources q))
    \<Longrightarrow> q\<lparr>crq_Status := crqs_Resources_update (AList.update n e) (crq_Status q)\<rparr> = add_entries [(n, e)] q"
proof -
  have "n \<notin> set (map fst rs) \<Longrightarrow> AList.update n e rs = rs @ [(n, e)]" for rs
    by (induction rs) auto
  then show "n \<notin> set (map fst (crq_Resources q)) \<Longrightarrow> ?thesis"
    by (simp add: add_entries_def)
qed

lemma record_nodes_fresh:
  assumes "distinct (new_names E tname (world s) (length ns))"
    and "set (new_names E tname (world s) (length ns)) \<inter> set (map fst (crq_Resources (theRequest s))) = {}"
  shows "\<exists>w. record_nodes tname ns E s = (Ret (), s\<lparr>world := w,
     theRequest := add_entries (zip (new_names E tname (world s) (length ns)) (map new_entry ns)) (theRequest s)\<rparr>)"
  using assms
proof (induction ns arbitrary: s)
  case Nil
  show ?case by (auto simp: run_ret intro: exI [of _ "world s"])
next
  case (Cons n ns)
  obtain u w where u: "uuid_New E (world s) = (u, w)" by (cases "uuid_New E (world s)")
  let ?n = "strings_ToLower (tname @ ''-'' @ u)"
  let ?s = "s\<lparr>world := w, theRequest := add_entries [(?n, new_entry n)] (theRequest s)\<rparr>"
  have "record_nodes tname (n # ns) E s = record_nodes tname ns E ?s"
    using Cons.prems u
    by (simp add: GenerateComposableResourceName_def query_def bindM_def run_ret thenM_def upd_request_status_def
        upd_request_def modifyM_def update_new_entry)
  moreover have "\<exists>w'. record_nodes tname ns E ?s = (Ret (), ?s\<lparr>world := w',
     theRequest := add_entries (zip (new_names E tname (world ?s) (length ns)) (map new_entry ns)) (theRequest ?s)\<rparr>)"
    by (rule Cons.IH) (use Cons.prems u in auto)
  ultimately show ?case by (auto simp: u)
qed

lemma record_nodes_run:
  assumes "set (map fst (crq_Resources q)) \<subseteq> set old"
    and "\<And>names. length names = length ns \<Longrightarrow> distinct names \<Longrightarrow> set names \<inter> set old = {}
      \<Longrightarrow> Q () (tr, add_entries (zip names (map new_entry ns)) q)"
  shows "wpv (uuids_unique tname old :: 'w env \<Rightarrow> bool) qview (record_nodes tname ns) Q X (tr, q)"
  unfolding wpv_def
proof (intro allI impI)
  fix E :: "'w env" and s :: "'w sys"
  assume E: "uuids_unique tname old E" and v: "qview s = (tr, q)"
  have len: "length (new_names E tname w n) = n" for w n
    by (induction n arbitrary: w) (simp_all split: prod.split)
  let ?names = "new_names E tname (world s) (length ns)"
  have fresh: "distinct ?names" "set ?names \<inter> set old = {}" using E by (auto simp: uuids_unique_def)
  obtain w where "record_nodes tname ns E s
      = (Ret (), s\<lparr>world := w, theRequest := add_entries (zip ?names (map new_entry ns)) (theRequest s)\<rparr>)"
    using record_nodes_fresh [of E tname s ns] fresh assms(1) v by (auto simp: qview_def)
  moreover have "Q () (tr, add_entries (zip ?names (map new_entry ns)) q)"
    by (rule assms(2)) (use fresh len in auto)
  ultimately show "case record_nodes tname ns E s of (Ret x, s') \<Rightarrow> Q x (qview s') | (Panic _, s') \<Rightarrow> X (qview s')"
    using v by (simp add: qview_def)
qed

abbreviation "entry_at e \<equiv> (fst e, srs_NodeName (snd e))"
abbreviation "resource_at r \<equiv> (cr_Name r, cr_TargetNode r)"

lemma settled_drop:
  assumes "settled q items" "mset (chosen @ rest) = mset items"
  shows "mset (map entry_at (crq_Resources (drop_entries (map cr_Name chosen) q))) = mset (map resource_at rest)"
proof -
  let ?P = "\<lambda>p. fst p \<notin> set (map cr_Name chosen)"
  have "distinct (map cr_Name (chosen @ rest))"
    using assms unfolding settled_def by (metis mset_eq_imp_distinct_iff mset_map)
  then have "filter (\<lambda>r. cr_Name r \<notin> set (map cr_Name chosen)) (chosen @ rest) = rest"
    by (auto simp: filter_id_conv filter_empty_conv)
  then have "mset (map resource_at rest) = filter_mset ?P (mset (map resource_at (chosen @ rest)))"
    by (metis (no_types, lifting) filter_map mset_filter o_apply fst_conv filter_cong)
  also have "mset (map resource_at (chosen @ rest)) = mset (map resource_at items)"
    using assms(2) by (metis mset_map)
  also have "\<dots> = mset (map entry_at (crq_Resources q))"
    using assms(1) by (simp add: settled_def)
  finally show ?thesis by (simp add: filter_mset_image_mset comp_def flip: mset_filter)
qed

text \<open>The entries that remain and those that are added make up the size asked for, on nodes the policy
  allows.\<close>

definition scaled :: "ScalarResourceDetails \<Rightarrow> resources \<Rightarrow> bool" where
  "scaled spec rs \<longleftrightarrow> int (length rs) = srd_Size spec
     \<and> policy_holds (srd_AllocationPolicy spec) (map (\<lambda>e. srs_NodeName (snd e)) rs)"

lemma mset_map_length: "mset (map f xs) = mset (map g ys) \<Longrightarrow> length xs = length ys"
  by (drule arg_cong [where f = size]) simp

lemma settled_entries:
  "settled q items \<Longrightarrow> mset (map entry_at (crq_Resources q)) = mset (map resource_at items)"
  by (simp add: settled_def)

lemma mset_nodes:
  assumes "mset (map entry_at rs) = mset (map resource_at items)"
  shows "mset (map (\<lambda>e. srs_NodeName (snd e)) rs) = mset (map cr_TargetNode items)"
  using arg_cong [OF assms, of "image_mset snd"] by (simp add: image_mset.compositionality comp_def)

lemma nodes_of_new: "length names = length ns \<Longrightarrow> map (\<lambda>e. srs_NodeName (snd e)) (zip names (map new_entry ns)) = ns"
  by (simp add: zip_map2 comp_def case_prod_beta' new_entry_def map_snd_zip)

lemma scaled_down:
  assumes "settled q items" "mset (chosen @ rest) = mset items" "int (length items) - int (length chosen) = srd_Size (crq_Resource q)"
  shows "scaled (crq_Resource q) (crq_Resources (drop_entries (map cr_Name chosen) q))"
proof -
  let ?rs = "crq_Resources (drop_entries (map cr_Name chosen) q)"
  let ?p = "srd_AllocationPolicy (crq_Resource q)"
  have m: "mset (map entry_at ?rs) = mset (map resource_at rest)" using assms(1,2) by (rule settled_drop)
  have "length ?rs = length rest" using m by (rule mset_map_length)
  moreover have "length items = length chosen + length rest" using arg_cong [OF assms(2), of size] by simp
  moreover have "policy_holds ?p (map (\<lambda>e. srs_NodeName (snd e)) ?rs) = policy_holds ?p (map cr_TargetNode rest)"
    by (rule policy_holds_mset [OF mset_nodes [OF m]])
  moreover have "policy_holds ?p (map cr_TargetNode (rest @ chosen))"
  proof -
    have "mset (map cr_TargetNode (rest @ chosen)) = mset (map cr_TargetNode items)"
      using assms(2) by (metis mset_map mset_append add.commute)
    then show ?thesis using assms(1) policy_holds_mset unfolding settled_def by blast
  qed
  then have "policy_holds ?p (map cr_TargetNode rest)" by (metis map_append policy_holds_append1)
  ultimately show ?thesis using assms(3) by (simp add: scaled_def)
qed

lemma settled_policy:
  assumes "settled q items"
  shows "policy_holds (srd_AllocationPolicy (crq_Resource q)) (map cr_TargetNode items)"
    and "srd_AllocationPolicy (crq_Resource q) \<in> {''samenode'', ''differentnode''}"
    and "srd_TargetNode (crq_Resource q) \<noteq> [] \<Longrightarrow> set (map cr_TargetNode items) \<subseteq> {srd_TargetNode (crq_Resource q)}"
    and "crq_Resources q = [] \<longleftrightarrow> items = []"
  using assms mset_map_length [OF settled_entries [OF assms]]
  by (auto simp: settled_def list_all_iff fits_spec_def)

lemma policy_holds_new:
  assumes "settled q items" "placement q (tally_after (crq_Resource q) items) requests nodes ns"
    "int (length items) \<le> srd_Size (crq_Resource q)"
  shows "policy_holds (srd_AllocationPolicy (crq_Resource q)) (map cr_TargetNode items @ ns)"
proof (cases "srd_AllocationPolicy (crq_Resource q) = ''differentnode''")
  case True
  then have "allocatedNodesForDifferentPolicy (tally_after (crq_Resource q) items) = map cr_TargetNode items"
    using assms(3) by (simp add: tally_after_def)
  then show ?thesis
    using assms(2) settled_policy(1) [OF assms(1)] True by (auto simp: placement_def policy_holds_def)
next
  case False
  then have same: "srd_AllocationPolicy (crq_Resource q) = ''samenode''" using settled_policy(2) [OF assms(1)] by simp
  obtain node where node: "set (map cr_TargetNode items) \<subseteq> {node}"
    using settled_policy(1) [OF assms(1)] False by (auto simp: policy_holds_def)
  have target: "targetNodeForSamePolicy (tally_after (crq_Resource q) items) = cr_TargetNode (hd items)" if "items \<noteq> []"
    using that assms(3) same by (simp add: tally_after_def hd_map Let_def)
  consider "srd_TargetNode (crq_Resource q) \<noteq> []" | "srd_TargetNode (crq_Resource q) = []" "items \<noteq> []"
    | "srd_TargetNode (crq_Resource q) = []" "items = []" by blast
  then show ?thesis
  proof cases
    case 1
    then have "set (map cr_TargetNode items @ ns) \<subseteq> {srd_TargetNode (crq_Resource q)}"
      using assms(2) settled_policy(3) [OF assms(1)] False by (simp add: placement_def Let_def)
    then show ?thesis using False by (auto simp: policy_holds_def)
  next
    case 2
    then have "set ns \<subseteq> {cr_TargetNode (hd items)}"
      using assms(2) settled_policy(4) [OF assms(1)] False target by (simp add: placement_def Let_def)
    moreover have "cr_TargetNode (hd items) = node" using node 2 by (cases items) auto
    ultimately have "set (map cr_TargetNode items @ ns) \<subseteq> {node}" using node by auto
    then show ?thesis using False by (auto simp: policy_holds_def)
  next
    case 3
    then show ?thesis
      using assms(2) settled_policy(4) [OF assms(1)] False by (auto simp: placement_def Let_def policy_holds_def)
  qed
qed

lemma scaled_up:
  assumes "settled q items" "placement q (tally_after (crq_Resource q) items) requests nodes ns"
    "int (length items) \<le> srd_Size (crq_Resource q)" "length names = length ns"
  shows "scaled (crq_Resource q) (crq_Resources q @ zip names (map new_entry ns))"
proof -
  have m: "mset (map entry_at (crq_Resources q)) = mset (map resource_at items)"
    by (rule settled_entries [OF assms(1)])
  then have size: "length (crq_Resources q) = length items" by (rule mset_map_length)
  have "mset (map (\<lambda>e. srs_NodeName (snd e)) (crq_Resources q) @ ns) = mset (map cr_TargetNode items @ ns)"
    using mset_nodes [OF m] by simp
  then have "policy_holds (srd_AllocationPolicy (crq_Resource q)) (map (\<lambda>e. srs_NodeName (snd e)) (crq_Resources q) @ ns)"
    using policy_holds_new [OF assms(1-3)] policy_holds_mset by blast
  moreover have "int (length ns) = srd_Size (crq_Resource q) - int (length items)"
    using assms(2,3) by (simp add: placement_def Let_def tally_after_def)
  ultimately show ?thesis
    using assms(4) size by (simp add: scaled_def nodes_of_new)
qed

lemma qview_query_res:
  "(\<And>E w. H E \<Longrightarrow> Q (fst (f E w)) v) \<Longrightarrow> wpv H qview (query f) Q X v"
  by (auto simp: wpv_def query_def qview_def split: prod.split) (metis fst_conv)

lemma give_up_settled:
  assumes "0 \<le> n" "n \<le> int (length items)"
    and "\<And>chosen rest. mset (chosen @ rest) = mset items \<Longrightarrow> int (length chosen) = n
      \<Longrightarrow> Q () (tr, drop_entries (map cr_Name chosen) q)"
  shows "wpv H qview (give_up_resources items n) Q X (tr, q)"
proof (cases "n = 0")
  case True
  then show ?thesis
    using assms(3) [of "[]" items] by (simp add: give_up_resources_def wpv_ret)
next
  case False
  show ?thesis
    unfolding wpv_def
  proof (intro allI impI)
    fix E s
    assume "qview s = (tr, q)"
    moreover obtain chosen rest where "mset (chosen @ rest) = mset items" "int (length chosen) = n"
      "give_up_resources items n E s = (Ret (), s\<lparr>theRequest := drop_entries (map cr_Name chosen) (theRequest s)\<rparr>)"
      using give_up_chosen [of n items E s] False assms(1,2) by auto
    ultimately show "case give_up_resources items n E s of (Ret x, s') \<Rightarrow> Q x (qview s') | (Panic _, s') \<Rightarrow> X (qview s')"
      using assms(3) by (simp add: qview_def)
  qed
qed

text \<open>A status that moves the request to Updating lists resources as \<open>P\<close> says.\<close>

fun updating_event :: "(resources \<Rightarrow> bool) \<Rightarrow> event \<Rightarrow> bool" where
  "updating_event P (EvUpdateRequestStatus q) = (crq_State q = ''Updating'' \<longrightarrow> P (crq_Resources q))"
| "updating_event P _ = True"

definition writes_updating :: "(resources \<Rightarrow> bool) \<Rightarrow> event list \<Rightarrow> event list \<times> ComposabilityRequest \<Rightarrow> bool" where
  "writes_updating P tr v \<longleftrightarrow> (\<exists>evs. fst v = tr @ evs \<and> list_all (updating_event P) evs)"

definition lists_settled :: "ComposabilityRequest \<Rightarrow> 'w env \<Rightarrow> bool" where
  "lists_settled q E \<longleftrightarrow> uuids_unique (srd_Type (crq_Resource q)) (map fst (crq_Resources q)) E
     \<and> (\<forall>w listed. fst (api_ListResources E (Some (crq_Name q)) w) = Inr listed \<longrightarrow> settled q (filter live listed))"

lemma requeueOnErr_updating:
  "crq_State q \<noteq> ''Updating'' \<Longrightarrow> wpv H qview (Request_requeueOnErr err) (\<lambda>_. writes_updating P tr) X (tr, q)"
  by (rule requeueOnErr_Request_run) (simp add: writes_updating_def)

lemma tally_after_bounds:
  "0 \<le> resourcesToAllocate (tally_after spec items)" "0 \<le> resourcesToDelete (tally_after spec items)"
  "0 \<le> srd_Size spec \<Longrightarrow> resourcesToDelete (tally_after spec items) \<le> int (length items)"
  by (simp_all add: tally_after_def Let_def)

lemma place_scaled:
  assumes "settled q items" "crq_State q \<noteq> ''Updating''" "mset (chosen @ rest) = mset items"
    and "int (length chosen) = resourcesToDelete (tally_after (crq_Resource q) items)"
    and "placement (drop_entries (map cr_Name chosen) q) (tally_after (crq_Resource q) items) requests nodes ns"
    and "length names = length ns"
  shows "scaled (crq_Resource q) (crq_Resources (add_entries (zip names (map new_entry ns)) (drop_entries (map cr_Name chosen) q)))"
proof (cases "int (length items) \<le> srd_Size (crq_Resource q)")
  case True
  then have "chosen = []" using assms(4) by (simp add: tally_after_def Let_def)
  then show ?thesis using assms True scaled_up [OF assms(1) _ True, of requests nodes ns names] by simp
next
  case False
  then have "ns = []" using assms(5) by (simp add: placement_def tally_after_def Let_def)
  moreover have "int (length items) - int (length chosen) = srd_Size (crq_Resource q)"
    using False assms(4) by (simp add: tally_after_def Let_def)
  ultimately show ?thesis using scaled_down [OF assms(1,3)] by simp
qed

text \<open>The handler up to the placement, for any condition on the environment and any listing.\<close>

lemma allocating_run:
  assumes "crq_State q = ''NodeAllocating''"
    and "\<And>listed requests nodes. \<exists>E w. H E \<and> fst (api_ListResources E (Some (crq_Name q)) w) = Inr listed \<Longrightarrow>
      wpv H qview (place_resources (filter live listed) requests nodes) (\<lambda>_. writes_updating P tr) (\<lambda>_. False) (tr, q)"
  shows "wpv H qview Request_handleNodeAllocatingState (\<lambda>_. writes_updating P tr) (\<lambda>_. False) (tr, q)"
  unfolding Request_handleNodeAllocatingState_def return_update_request_def
  by (intro wpv_bindM wpv_if qview_get wpv_tryM qview_query_res qview_reads conjI allI impI wpv_thenM
      qview_upd_status qview_status_update wpv_ret requeueOnErr_updating assms(2))
     (use assms(1) in \<open>auto simp: writes_updating_def\<close>)

lemma place_settled:
  assumes "settled q items" "crq_State q = ''NodeAllocating''"
  shows "wpv (lists_settled q) qview (place_resources items requests nodes)
    (\<lambda>_. writes_updating (scaled (crq_Resource q)) tr) (\<lambda>_. False) (tr, q)"
proof -
  have keep: "wpv H qview (keep_resources (crq_Resource q) items) Q X (tr, q)"
    if "Q (Inr (tally_after (crq_Resource q) items)) (tr, q)" for H Q X
    using that by (auto simp: wpv_def keep_resources_settled [OF assms(1)])
  have rec: "wpv (lists_settled q) qview (record_nodes tname ns) Q X (tr, drop_entries cs q)"
    if "tname = srd_Type (crq_Resource q)" "\<And>names. length names = length ns \<Longrightarrow> Q () (tr, add_entries (zip names (map new_entry ns)) (drop_entries cs q))"
    for tname ns Q X cs
    unfolding that(1)
    by (rule wpv_weaken [OF record_nodes_run [where old = "map fst (crq_Resources q)"]])
       (use that in \<open>auto simp: lists_settled_def\<close>)
  have facts: "srd_AllocationPolicy (crq_Resource q) \<in> {''samenode'', ''differentnode''}" "0 \<le> srd_Size (crq_Resource q)"
    using assms(1) by (simp_all add: settled_def)
  show ?thesis
    unfolding place_resources_def return_update_request_def
    by (intro wpv_tryM wpv_thenM wpv_bindM keep conjI allI impI give_up_settled qview_get allocate_nodes_sound requeueOnErr_updating
        rec qview_upd qview_status_update wpv_ret)
       (use facts assms(2) place_scaled [OF assms(1)] tally_after_bounds [of "crq_Resource q" items]
          in \<open>simp_all add: writes_updating_def tally_after_bounds\<close>)
qed

lemma allocating_scaled:
  assumes "crq_State q = ''NodeAllocating''"
  shows "wpv (lists_settled q) qview Request_handleNodeAllocatingState
    (\<lambda>_. writes_updating (scaled (crq_Resource q)) tr) (\<lambda>_. False) (tr, q)"
  by (rule allocating_run [OF assms]) (auto intro: place_settled assms simp: lists_settled_def)

lemma handler_writes:
  assumes "\<And>tr. wpv H qview m (\<lambda>_. writes_updating P tr) (\<lambda>_. False) (tr, theRequest s)" "H E"
    and "trace (snd (m E s)) = trace s @ evs" "ev \<in> set evs"
  shows "updating_event P ev"
proof -
  obtain x s' where run: "m E s = (x, s')" by (cases "m E s")
  note safe = wpvD [OF assms(1,2), of s "trace s"]
  have "writes_updating P (trace s) (qview s')"
    using safe run by (cases x) (auto simp: qview_def)
  then show ?thesis
    using assms(3,4) run by (auto simp: writes_updating_def qview_def list_all_iff)
qed

text \<open>
  C7.  Scaling.  Take a request in state NodeAllocating whose live resources match its specification and its
  policy and are the ones its status lists, so that only its size has changed.  Where generated names are
  unique, the status that moves it to Updating lists exactly as many resources as its size asks
  for, and their nodes satisfy the policy: all the same for samenode, pairwise different for differentnode.
\<close>

theorem Request_handleNodeAllocatingState_scales:
  assumes "lists_settled (theRequest s) E" "crq_State (theRequest s) = ''NodeAllocating''"
    and "trace (snd (Request_handleNodeAllocatingState E s)) = trace s @ evs"
    and "EvUpdateRequestStatus q \<in> set evs" "crq_State q = ''Updating''"
  shows "int (length (crq_Resources q)) = srd_Size (crq_Resource (theRequest s))
     \<and> policy_holds (srd_AllocationPolicy (crq_Resource (theRequest s))) (map (\<lambda>e. srs_NodeName (snd e)) (crq_Resources q))"
proof -
  have "updating_event (scaled (crq_Resource (theRequest s))) (EvUpdateRequestStatus q)"
    using allocating_scaled [OF assms(2)] assms(1,3,4) by (rule handler_writes)
  with assms(5) show ?thesis by (simp add: scaled_def)
qed

text \<open>A cluster of two nodes, in which the outside world is the counter that names are made from.\<close>

definition gpu_node :: "string \<Rightarrow> Node" where
  "gpu_node n = demo_node\<lparr>node_Name := n\<rparr>"

definition counter_env :: "ComposableResource list \<Rightarrow> nat env" where
  "counter_env rs = void_env\<lparr>
     api_ListResources := (\<lambda>_ w. (Inr rs, w)), api_ListRequests := (\<lambda>w. (Inr [], w)),
     api_ListNodes := (\<lambda>w. (Inr [gpu_node ''n1'', gpu_node ''n2''], w)),
     api_UpdateRequestStatus := (\<lambda>q w. (Inr q, w)),
     uuid_New := (\<lambda>w. (replicate w CHR ''a'', Suc w))\<rparr>"

definition spread_request :: ComposabilityRequest where
  "spread_request = empty_request\<lparr>
     crq_Meta := empty_meta\<lparr>om_Name := ''req''\<rparr>,
     crq_Resource := empty_details\<lparr>srd_Type := ''gpu'', srd_Model := ''A100'', srd_Size := 2, srd_AllocationPolicy := ''differentnode''\<rparr>,
     crq_Status := (crq_Status empty_request)\<lparr>crqs_State := ''NodeAllocating'', crqs_Resources := [(''gpu-b'', new_entry ''n1'')]\<rparr>\<rparr>"

definition held_resource :: "string \<Rightarrow> string \<Rightarrow> ComposableResource" where
  "held_resource name node = empty_resource\<lparr>cr_Meta := empty_meta\<lparr>om_Name := name\<rparr>,
     cr_Spec := \<lparr>crs_Type = ''gpu'', crs_Model = ''A100'', crs_TargetNode = node, crs_ForceDetach = False\<rparr>,
     cr_Status := (cr_Status empty_resource)\<lparr>crst_State := ''Online''\<rparr>\<rparr>"

definition spread_result :: ComposabilityRequest where
  "spread_result = spread_request\<lparr>crq_Status := \<lparr>crqs_State = ''Updating'', crqs_Error = [],
     crqs_Resources = [(''gpu-b'', new_entry ''n1''), (''gpu-'', new_entry ''n2'')], crqs_ScalarResource = crq_Resource spread_request\<rparr>\<rparr>"

lemma counter_names:
  "new_names (counter_env rs) ''gpu'' w n = map (\<lambda>i. ''gpu-'' @ replicate i CHR ''a'') [w..<w + n]"
proof (induction n arbitrary: w)
  case (Suc n)
  have "strings_ToLower (''gpu-'' @ replicate w CHR ''a'') = ''gpu-'' @ replicate w CHR ''a''" for w
    by (simp add: strings_ToLower_def lower_char_def map_replicate_const)
  with Suc show ?case by (simp add: counter_env_def upt_rec [of w] del: upt_Suc)
qed simp

lemma counter_unique: "uuids_unique ''gpu'' [''gpu-b''] (counter_env rs)"
proof -
  have "''b'' \<noteq> replicate i CHR ''a''" for i by (cases i) simp_all
  then show ?thesis by (auto simp: uuids_unique_def counter_names distinct_map inj_on_def)
qed

text \<open>The definitions that a concrete run of the handler unfolds.\<close>

lemmas allocating_defs = Request_handleNodeAllocatingState_def place_resources_def keep_resources_def keep_step_def capacity_ok_def
  give_up_resources_def allocate_nodes_def allocate_target_def allocate_same_def allocate_different_def different_step_def GetAllNodes_def
  CheckNodeExisted_def getNode_def
  GenerateComposableResourceName_def upd_request_status_def upd_request_def return_update_request_def Status_Update_Request_def
  Request_requeueOnErr_def remove_entry_def give_up_step_def

lemmas demo_defs = counter_env_def spread_request_def spread_result_def held_resource_def start_def empty_meta_def
  empty_request_def empty_details_def empty_resource_def gpu_node_def demo_node_def live_def fits_spec_def first_tally_def
  policy_check_def strings_ToLower_def lower_char_def void_env_def missing_def

lemma spread_run:
  "trace (snd (Request_handleNodeAllocatingState (counter_env [held_resource ''gpu-b'' ''n1'']) ((start 0)\<lparr>theRequest := spread_request\<rparr>)))
    = [EvUpdateRequestStatus spread_result]"
  by (simp add: allocating_defs demo_defs prog_eval Let_def cong: prog_cong)

theorem Request_handleNodeAllocatingState_scales_witness:
  "int (length (crq_Resources spread_result)) = 2
     \<and> policy_holds ''differentnode'' (map (\<lambda>e. srs_NodeName (snd e)) (crq_Resources spread_result))"
proof -
  let ?s = "(start 0)\<lparr>theRequest := spread_request\<rparr>" and ?E = "counter_env [held_resource ''gpu-b'' ''n1'']"
  have "settled spread_request (filter live [held_resource ''gpu-b'' ''n1''])"
    by (simp add: settled_def demo_defs policy_holds_def new_entry_def)
  then have "lists_settled (theRequest ?s) ?E"
    using counter_unique by (auto simp: lists_settled_def spread_request_def empty_request_def counter_env_def)
  moreover have "crq_State (theRequest ?s) = ''NodeAllocating''" by (simp add: spread_request_def)
  moreover have "trace (snd (Request_handleNodeAllocatingState ?E ?s)) = trace ?s @ [EvUpdateRequestStatus spread_result]"
    by (simp add: spread_run) (simp add: start_def)
  ultimately show ?thesis
    using Request_handleNodeAllocatingState_scales [of ?s ?E "[EvUpdateRequestStatus spread_result]" spread_result]
    by (simp add: spread_request_def spread_result_def empty_details_def)
qed

text \<open>Of two Online resources, the one marked for deletion is given up.\<close>

definition marked_resource :: "string \<Rightarrow> string \<Rightarrow> ComposableResource" where
  "marked_resource name node = (held_resource name node)\<lparr>
     cr_Meta := (cr_Meta (held_resource name node))\<lparr>om_Annotations := [''cohdi.io/delete-device'' \<mapsto> ''true'']\<rparr>\<rparr>"

theorem give_up_resources_order_witness:
  "map fst (crq_Resources (theRequest (snd (give_up_resources [held_resource ''gpu-b'' ''n1'', marked_resource ''gpu-'' ''n2''] 1
      (counter_env []) ((start (0 :: nat))\<lparr>theRequest := spread_result\<rparr>))))) = [''gpu-b'']"
proof -
  let ?a = "held_resource ''gpu-b'' ''n1''" and ?b = "marked_resource ''gpu-'' ''n2''"
  let ?s = "(start (0 :: nat))\<lparr>theRequest := spread_result\<rparr>"
  have order: "\<not> given_up_before ?a ?b"
    by (simp add: given_up_before_def give_up_class_def give_up_classes_def held_resource_def marked_resource_def empty_meta_def
        empty_resource_def)
  have p: "(0 :: int) < 1" "1 \<le> int (length [?a, ?b])" by simp_all
  obtain chosen rest es where c: "mset (chosen @ rest) = mset [?a, ?b]" "int (length chosen) = 1"
      "list_all (\<lambda>r. list_all (given_up_before r) rest) chosen"
      "es = filter (\<lambda>e. fst e \<notin> (\<lambda>r. om_Name (cr_Meta r)) ` set chosen) (crqs_Resources (crq_Status (theRequest ?s)))"
      "give_up_resources [?a, ?b] 1 (counter_env []) ?s = (Ret (), ?s\<lparr>theRequest := (theRequest ?s)\<lparr>crq_Status :=
          (crq_Status (theRequest ?s))\<lparr>crqs_Resources := es\<rparr>\<rparr>\<rparr>)"
    using give_up_resources_order [OF p, of ?s "counter_env []"] by blast
  obtain x where x: "chosen = [x]" using c(2) by (cases chosen) auto
  then have "length rest = 1" using arg_cong [OF c(1), of size] by simp
  then obtain y where y: "rest = [y]" by (cases rest) auto
  have "x = ?a \<and> y = ?b \<or> x = ?b \<and> y = ?a" using c(1) x y by (auto simp: add_eq_conv_ex)
  then have "x = ?b" using c(3) order x y by auto
  then have "chosen = [?b]" using x by simp
  then have "map fst es = [''gpu-b'']"
    unfolding c(4) by (simp add: spread_result_def held_resource_def marked_resource_def)
  then show ?thesis unfolding c(5) by simp
qed



section \<open>Boundary cases\<close>

text \<open>
  Nothing left to allocate.  With the policy differentnode and no resource to allocate, as after a
  decrease of the size, the allocation fails for lack of nodes whenever the first node of the
  cluster has no resource of the request: the loop adds that node before it compares the number of
  nodes with the number asked for, and never meets the number zero again.
\<close>

theorem allocate_different_zero:
  assumes "srd_OtherSpec spec = None" "node_Name node \<notin> set allocated"
  shows "allocate_different spec 0 allocated (node # nodes) E s = (Ret (Inl insufficient_nodes), s)"
proof -
  have "\<exists>ns'. ns' \<noteq> [] \<and> forM nodes ns (different_step spec 0 allocated) E s = (Ret (Inr ns'), s)" if "ns \<noteq> []" for ns
    using that
  proof (induction nodes arbitrary: ns)
    case (Cons n nodes)
    then show ?case
      using assms(1) by (simp add: different_step_def capacity_ok_def Let_def)
  qed (simp add: run_ret)
  from this [of "[node_Name node]"] obtain ns' where
    "ns' \<noteq> []" "forM nodes [node_Name node] (different_step spec 0 allocated) E s = (Ret (Inr ns'), s)" by auto
  moreover have "different_step spec 0 allocated node [] E s = (Ret (Next [node_Name node]), s)"
    using assms by (simp add: different_step_def capacity_ok_def Let_def run_ret)
  ultimately show ?thesis
    by (simp add: allocate_different_def tryM_def bindM_def run_ret)
qed

theorem allocate_different_zero_witness:
  "allocate_different empty_details 0 [''n2''] [gpu_node ''n1'', gpu_node ''n2''] (counter_env []) (start 0)
     = (Ret (Inl insufficient_nodes), start 0)"
  by (rule allocate_different_zero) (simp_all add: empty_details_def gpu_node_def)

section \<open>Entries without a resource\<close>

text \<open>The two facts about the world the case needs: nothing is listed, and names are fresh.\<close>

definition lists_nothing :: "ComposabilityRequest \<Rightarrow> 'w env \<Rightarrow> bool" where
  "lists_nothing q E \<longleftrightarrow> uuids_unique (srd_Type (crq_Resource q)) (map fst (crq_Resources q)) E
     \<and> (\<forall>w. fst (api_ListResources E (Some (crq_Name q)) w) = Inr [])"

definition padded :: "resources \<Rightarrow> int \<Rightarrow> resources \<Rightarrow> bool" where
  "padded old n rs \<longleftrightarrow> (\<exists>new. rs = old @ new \<and> int (length new) = n \<and> list_all (\<lambda>e. srs_NodeName (snd e) = []) new)"

lemma allocating_padded:
  assumes "srd_AllocationPolicy (crq_Resource q) = ''samenode''" "srd_TargetNode (crq_Resource q) = []"
    and "crq_Resources q \<noteq> []" "0 \<le> srd_Size (crq_Resource q)" "crq_State q = ''NodeAllocating''"
  shows "wpv (lists_nothing q) qview Request_handleNodeAllocatingState
    (\<lambda>_. writes_updating (padded (crq_Resources q) (srd_Size (crq_Resource q))) tr) (\<lambda>_. False) (tr, q)"
proof -
  have rec: "wpv (lists_nothing q) qview (record_nodes tname ns) Q X (tr, q)"
    if "tname = srd_Type (crq_Resource q)" "\<And>names. length names = length ns \<Longrightarrow> Q () (tr, add_entries (zip names (map new_entry ns)) q)"
    for tname ns Q X
    unfolding that(1)
    by (rule wpv_weaken [OF record_nodes_run [where old = "map fst (crq_Resources q)"]])
       (use that in \<open>auto simp: lists_nothing_def\<close>)
  have pad: "padded (crq_Resources q) (srd_Size (crq_Resource q))
      (crq_Resources q @ zip names (map new_entry (replicate (nat (srd_Size (crq_Resource q))) [])))"
    if "length names = nat (srd_Size (crq_Resource q))" for names :: "string list"
    using that assms(4) by (auto simp: padded_def list_all_iff new_entry_def dest: set_zip_rightD)
  have keep: "keep_resources (crq_Resource q) [] = ret (Inr (first_tally (crq_Resource q)))"
    "resourcesToDelete (first_tally (crq_Resource q)) = 0" "give_up_resources [] 0 = ret ()"
    by (simp_all add: keep_resources_def give_up_resources_def first_tally_def)
  have nodes: "allocate_nodes q (first_tally (crq_Resource q)) requests nodes
      = ret (Inr (replicate (nat (srd_Size (crq_Resource q))) []))" for requests nodes
    using assms by (simp add: allocate_nodes_def first_tally_def)
  have "wpv (lists_nothing q) qview (place_resources [] requests nodes)
      (\<lambda>_. writes_updating (padded (crq_Resources q) (srd_Size (crq_Resource q))) tr) (\<lambda>_. False) (tr, q)" for requests nodes
    unfolding place_resources_def return_update_request_def
    apply (intro wpv_bindM qview_get)
    apply (simp add: keep del: run_getM)
    apply (intro wpv_bindM qview_get)
    apply (simp add: nodes del: run_modifyM)
    apply (intro wpv_thenM wpv_bindM rec qview_upd qview_status_update wpv_ret)
    using assms pad by (simp_all add: writes_updating_def)
  then show ?thesis
    by (intro allocating_run assms) (auto simp: lists_nothing_def)
qed

text \<open>
  Entries left behind.  When a request with the policy samenode and no target node is allocated again
  before any of its resources exist, its status keeps the old entries and the status that moves
  it to Updating has as many new entries as the size, all of them with an empty node name.
\<close>

theorem Request_handleNodeAllocatingState_stale:
  assumes "srd_AllocationPolicy (crq_Resource (theRequest s)) = ''samenode''" "srd_TargetNode (crq_Resource (theRequest s)) = []"
    and "crq_Resources (theRequest s) \<noteq> []" "0 \<le> srd_Size (crq_Resource (theRequest s))"
    and "crq_State (theRequest s) = ''NodeAllocating''"
    and "lists_nothing (theRequest s) E"
    and "trace (snd (Request_handleNodeAllocatingState E s)) = trace s @ evs"
    and "EvUpdateRequestStatus q \<in> set evs" "crq_State q = ''Updating''"
  shows "\<exists>new. crq_Resources q = crq_Resources (theRequest s) @ new \<and> int (length new) = srd_Size (crq_Resource (theRequest s))
     \<and> list_all (\<lambda>e. srs_NodeName (snd e) = []) new"
proof -
  have "updating_event (padded (crq_Resources (theRequest s)) (srd_Size (crq_Resource (theRequest s)))) (EvUpdateRequestStatus q)"
    using allocating_padded [OF assms(1-5)] assms(6-8) by (rule handler_writes)
  with assms(9) show ?thesis by (simp add: padded_def)
qed

definition packed_request :: ComposabilityRequest where
  "packed_request = spread_request\<lparr>crq_Resource := (crq_Resource spread_request)\<lparr>srd_AllocationPolicy := ''samenode''\<rparr>\<rparr>"

definition packed_result :: ComposabilityRequest where
  "packed_result = packed_request\<lparr>crq_Status := \<lparr>crqs_State = ''Updating'', crqs_Error = [],
     crqs_Resources = [(''gpu-b'', new_entry ''n1''), (''gpu-'', new_entry []), (''gpu-a'', new_entry [])],
     crqs_ScalarResource = crq_Resource packed_request\<rparr>\<rparr>"

theorem Request_handleNodeAllocatingState_stale_witness:
  "\<exists>new. crq_Resources packed_result = crq_Resources packed_request @ new \<and> int (length new) = srd_Size (crq_Resource packed_request)
     \<and> list_all (\<lambda>e. srs_NodeName (snd e) = []) new"
proof -
  let ?s = "(start (0 :: nat))\<lparr>theRequest := packed_request\<rparr>"
  have run: "trace (snd (Request_handleNodeAllocatingState (counter_env []) ?s)) = trace ?s @ [EvUpdateRequestStatus packed_result]"
    by (simp add: allocating_defs demo_defs packed_request_def packed_result_def prog_eval Let_def numeral_2_eq_2 cong: prog_cong)
  have "lists_nothing (theRequest ?s) (counter_env [])"
    using counter_unique by (simp add: lists_nothing_def packed_request_def spread_request_def empty_request_def empty_details_def counter_env_def)
  from Request_handleNodeAllocatingState_stale [of ?s, OF _ _ _ _ _ this run, of packed_result] show ?thesis
    by (simp add: packed_request_def packed_result_def spread_request_def empty_details_def)
qed

text \<open>
  The resources counted for deletion are the matching ones beyond the size, but those deleted are
  the first of all listed ones, also those that did not match and have been removed already: with
  an old resource of another model and two matching ones, a request for one resource keeps both.
\<close>

definition aged :: "time \<Rightarrow> ComposableResource \<Rightarrow> ComposableResource" where
  "aged t r = r\<lparr>cr_Meta := (cr_Meta r)\<lparr>om_CreationTimestamp := t\<rparr>\<rparr>"

definition shrink_request :: ComposabilityRequest where
  "shrink_request = packed_request\<lparr>
     crq_Resource := (crq_Resource packed_request)\<lparr>srd_Size := 1\<rparr>,
     crq_Status := (crq_Status packed_request)\<lparr>crqs_Resources := [(''x'', new_entry ''n1''), (''y'', new_entry ''n1''), (''z'', new_entry ''n1'')]\<rparr>\<rparr>"

definition other_model :: ComposableResource where
  "other_model = (held_resource ''x'' ''n1'')\<lparr>cr_Spec := (cr_Spec (held_resource ''x'' ''n1''))\<lparr>crs_Model := ''V100''\<rparr>\<rparr>"

lemma shrink_overshoots:
  "trace (snd (Request_handleNodeAllocatingState
       (counter_env [aged 1 other_model, aged 2 (held_resource ''y'' ''n1''), aged 3 (held_resource ''z'' ''n1'')])
       ((start 0)\<lparr>theRequest := shrink_request\<rparr>)))
    = [EvUpdateRequestStatus (shrink_request\<lparr>crq_Status := \<lparr>crqs_State = ''Updating'', crqs_Error = [],
         crqs_Resources = [(''y'', new_entry ''n1''), (''z'', new_entry ''n1'')], crqs_ScalarResource = crq_Resource shrink_request\<rparr>\<rparr>)]"
proof -
  have t: "time_Parse [] = None" by code_simp
  show ?thesis
    by (simp add: allocating_defs demo_defs packed_request_def shrink_request_def other_model_def aged_def prog_eval Let_def
        priority_buckets_def priority_bucket_def deletion_key_def deletion_priority_def t str_at_def upt_rec cong: prog_cong)
qed

end
