(* ===== verification/RequestController.thy ===== *)
theory RequestController
  imports Allocation
begin

text \<open>
  The reconciler of ComposabilityRequests, the rest of
  \<^verbatim>\<open>src/internal/controller/composabilityrequest_controller.go\<close>: the dispatch over the states of
  a request, its garbage collection, the creation and deletion of its ComposableResources, and the
  copying of their status into the request.  The object the Go code points to is \<open>theRequest\<close>.
  The lemmas give the lifecycle of a request as an abstract specification the reconciler refines,
  what the Updating and Cleaning handlers create and delete, and when the finalizer is taken away.
\<close>

section \<open>The handlers\<close>

definition managedByLabel :: string where
  "managedByLabel = ''app.kubernetes.io/managed-by''"

definition tryGet :: "('w, error + 'a) go \<Rightarrow> ('w, error + 'a option) go" where
  "tryGet get =
     bindM get (\<lambda>r. case r of
       Inl err \<Rightarrow> if IsNotFound err then ret (Inr None) else ret (Inl err)
     | Inr x \<Rightarrow> ret (Inr (Some x)))"

definition Request_performGarbageCollection :: "('w, error + bool) go" where
  "Request_performGarbageCollection =
     bindM (getM theRequest) (\<lambda>request.
     if srd_TargetNode (crq_Resource request) = [] then ret (Inr False)
     else
       bindM (CheckNodeExisted (srd_TargetNode (crq_Resource request))) (\<lambda>r. case r of
         None \<Rightarrow> ret (Inr False)
       | Some err \<Rightarrow>
           if IsNotFound err then
             if om_DeletionTimestamp (crq_Meta request) = None then
               bindM (Delete_Request request) (\<lambda>r. case r of
                 None \<Rightarrow> ret (Inr True)
               | Some err \<Rightarrow> if \<not> IsNotFound err then ret (Inl err) else ret (Inr True))
             else ret (Inr False)
           else ret (Inl err)))"

text \<open>The loop over \<^verbatim>\<open>Status.Resources\<close> that copies the resource's status into its entry.\<close>

definition copy_status :: "ComposableResource \<Rightarrow> ScalarResourceStatus \<Rightarrow> ScalarResourceStatus" where
  "copy_status r e = e\<lparr>srs_State := cr_State r, srs_Error := cr_Error r, srs_DeviceID := cr_DeviceID r,
     srs_CDIDeviceID := cr_CDIDeviceID r\<rparr>"

definition Request_handleComposableResourceChange :: "ComposableResource \<Rightarrow> ('w, reconciled) go" where
  "Request_handleComposableResourceChange resource =
     (if label resource readyDeviceLabel \<noteq> [] then doNotRequeue
      else
        bindM (query (\<lambda>E. api_GetRequest E (label resource managedByLabel))) (\<lambda>r. case r of
          Inl err \<Rightarrow> thenM (modifyM (\<lambda>s. s\<lparr>theRequest := empty_request\<rparr>)) (Request_requeueOnErr err)
        | Inr request \<Rightarrow>
            thenM (modifyM (\<lambda>s. s\<lparr>theRequest := request\<rparr>))
            (thenM (upd_request_status (crqs_Resources_update (AList.map_entry (cr_Name resource) (copy_status resource))))
            return_update_request)))"

definition upd_request_finalizers :: "(string list \<Rightarrow> string list) \<Rightarrow> ('w, unit) go" where
  "upd_request_finalizers f = upd_request (\<lambda>q. q\<lparr>crq_Meta := (crq_Meta q)\<lparr>om_Finalizers := f (om_Finalizers (crq_Meta q))\<rparr>\<rparr>)"

definition Request_handleNoneState :: "('w, reconciled) go" where
  "Request_handleNoneState =
     bindM (getM theRequest) (\<lambda>request.
     checkM (if composabilityRequestFinalizer \<notin> set (om_Finalizers (crq_Meta request)) then
               thenM (upd_request_finalizers (\<lambda>fs. fs @ [composabilityRequestFinalizer])) Update_Request
             else ret None)
       (\<lambda>err. Request_requeueOnErr err)
     (thenM (upd_request (\<lambda>q. q\<lparr>crq_Status := (crq_Status q)\<lparr>crqs_State := ''NodeAllocating'', crqs_Error := [],
               crqs_ScalarResource := crq_Resource q\<rparr>\<rparr>))
      return_update_request))"

text \<open>The two loops of the Updating handler.  The first gives the names that exist.\<close>

definition delete_redundant :: "resources \<Rightarrow> ComposableResource list \<Rightarrow> ('w, error + string list) go" where
  "delete_redundant rs items =
     forM items [] (\<lambda>resource existed.
       if map_of rs (cr_Name resource) = None then
         checkM (Delete_Resource resource) (\<lambda>err. ret (Return err)) (ret (Next existed))
       else ret (Next (existed @ [cr_Name resource])))"

definition missing_resource :: "ComposabilityRequest \<Rightarrow> string \<Rightarrow> ScalarResourceStatus \<Rightarrow> ComposableResource" where
  "missing_resource request name entry =
     empty_resource\<lparr>cr_Meta := empty_meta\<lparr>om_Name := name, om_Labels := [managedByLabel \<mapsto> crq_Name request]\<rparr>,
       cr_Spec := \<lparr>crs_Type = srd_Type (crq_Resource request), crs_Model = srd_Model (crq_Resource request),
         crs_TargetNode = srs_NodeName entry, crs_ForceDetach = srd_ForceDetach (crq_Resource request)\<rparr>\<rparr>"

definition create_missing :: "ComposabilityRequest \<Rightarrow> string list \<Rightarrow> ('w, error + unit) go" where
  "create_missing request existed =
     forM (crq_Resources request) () (\<lambda>(name, entry) _.
       if name \<notin> set existed then
         checkM (Create_Resource (missing_resource request name entry)) (\<lambda>err. ret (Return err)) (ret (Next ()))
       else ret (Next ()))"

definition can_run :: "resources \<Rightarrow> bool" where
  "can_run rs \<longleftrightarrow> list_all (\<lambda>e. srs_State (snd e) = ''Online'') rs"

definition set_state :: "string \<Rightarrow> ('w, reconciled) go" where
  "set_state state = thenM (upd_request_status (crqs_State_update (\<lambda>_. state))) return_update_request"

definition start_again :: "('w, reconciled) go" where
  "start_again =
     thenM (upd_request (\<lambda>q. q\<lparr>crq_Status := (crq_Status q)\<lparr>crqs_State := ''NodeAllocating'',
              crqs_ScalarResource := crq_Resource q\<rparr>\<rparr>))
     return_update_request"

definition run_when_online :: "('w, reconciled) go" where
  "run_when_online =
     bindM (getM theRequest) (\<lambda>request.
     if can_run (crq_Resources request) then
       thenM (upd_request (\<lambda>q. q\<lparr>crq_Status := (crq_Status q)\<lparr>crqs_State := ''Running'', crqs_Error := [],
                crqs_ScalarResource := crq_Resource q\<rparr>\<rparr>))
       return_update_request
     else requeueAfter (30 * second) None)"

definition Request_handleUpdatingState :: "('w, reconciled) go" where
  "Request_handleUpdatingState =
     bindM (getM theRequest) (\<lambda>request.
     if om_DeletionTimestamp (crq_Meta request) \<noteq> None then set_state ''Cleaning''
     else if crqs_ScalarResource (crq_Status request) \<noteq> crq_Resource request then start_again
     else
       tryM (query (\<lambda>E. api_ListResources E (Some (crq_Name request)))) (\<lambda>err. Request_requeueOnErr err) (\<lambda>items.
       tryM (delete_redundant (crq_Resources request) items) (\<lambda>err. Request_requeueOnErr err) (\<lambda>existed.
       tryM (create_missing request existed) (\<lambda>err. Request_requeueOnErr err) (\<lambda>_.
       run_when_online))))"

text \<open>Clearing the error, which the Running and the Cleaning handler end with.\<close>

definition clear_error :: "('w, reconciled) go" where
  "clear_error =
     thenM (upd_request_status (crqs_Error_update (\<lambda>_. [])))
     (checkM Status_Update_Request (\<lambda>err. Request_requeueOnErr err)
     (requeueAfter (30 * second) None))"

definition Request_handleRunningState :: "('w, reconciled) go" where
  "Request_handleRunningState =
     bindM (getM theRequest) (\<lambda>request.
     if om_DeletionTimestamp (crq_Meta request) \<noteq> None then set_state ''Cleaning''
     else if crqs_ScalarResource (crq_Status request) \<noteq> crq_Resource request then start_again
     else clear_error)"

definition delete_all :: "ComposableResource list \<Rightarrow> ('w, error + unit) go" where
  "delete_all items =
     forM items () (\<lambda>resource _. checkM (Delete_Resource resource) (\<lambda>err. ret (Return err)) (ret (Next ())))"

definition Request_handleCleaningState :: "('w, reconciled) go" where
  "Request_handleCleaningState =
     bindM (getM theRequest) (\<lambda>request.
     tryM (query (\<lambda>E. api_ListResources E (Some (crq_Name request)))) (\<lambda>err. Request_requeueOnErr err) (\<lambda>items.
     if items = [] then set_state ''Deleting''
     else tryM (delete_all items) (\<lambda>err. Request_requeueOnErr err) (\<lambda>_. clear_error)))"

definition Request_handleDeletingState :: "('w, reconciled) go" where
  "Request_handleDeletingState =
     thenM (upd_request_finalizers (removeAll composabilityRequestFinalizer))
     (checkM Update_Request (\<lambda>err. Request_requeueOnErr err)
     doNotRequeue)"

section \<open>Reconcile\<close>

definition request_dispatch :: "string \<Rightarrow> ('w, reconciled) go" where
  "request_dispatch state =
     (if state = [] then Request_handleNoneState
      else if state = ''NodeAllocating'' then Request_handleNodeAllocatingState
      else if state = ''Updating'' then Request_handleUpdatingState
      else if state = ''Running'' then Request_handleRunningState
      else if state = ''Cleaning'' then Request_handleCleaningState
      else if state = ''Deleting'' then Request_handleDeletingState
      else ret (\<lparr>RequeueAfter = 0\<rparr>, Some (ErrorString (''the composabilityRequest state '' @ squote state @ '' is invalid''))))"

definition Request_handleComposabilityRequestChange :: "('w, reconciled) go" where
  "Request_handleComposabilityRequestChange =
     tryM Request_performGarbageCollection (\<lambda>err. Request_requeueOnErr err) (\<lambda>gcDone.
     if gcDone then doNotRequeue
     else
       bindM (getM theRequest) (\<lambda>request.
       bindM (request_dispatch (crq_State request)) (\<lambda>(result, err). case err of
         Some err \<Rightarrow> Request_requeueOnErr err
       | None \<Rightarrow> ret (result, None))))"

definition Request_Reconcile :: "string \<Rightarrow> ('w, reconciled) go" where
  "Request_Reconcile name =
     thenM (modifyM (\<lambda>s. s\<lparr>theRequest := empty_request\<rparr>))
     (tryM (tryGet (query (\<lambda>E. api_GetRequest E name))) (\<lambda>err. Request_requeueOnErr err) (\<lambda>found. case found of
        Some request \<Rightarrow>
          thenM (modifyM (\<lambda>s. s\<lparr>theRequest := request\<rparr>)) Request_handleComposabilityRequestChange
      | None \<Rightarrow>
          tryM (tryGet (query (\<lambda>E. api_GetResource E name))) (\<lambda>err. Request_requeueOnErr err) (\<lambda>found. case found of
            Some resource \<Rightarrow> Request_handleComposableResourceChange resource
          | None \<Rightarrow> doNotRequeue)))"

text \<open>The watch on ComposableResources: only updates whose status differs pass, creations and
  deletions do not.\<close>

datatype watch_event = CreateEvent | DeleteEvent | GenericEvent | UpdateEvent "ComposableResource option" "ComposableResource option"

fun resourceStatusUpdatePredicate :: "watch_event \<Rightarrow> bool" where
  "resourceStatusUpdatePredicate (UpdateEvent (Some oldResource) (Some newResource)) = (cr_Status oldResource \<noteq> cr_Status newResource)"
| "resourceStatusUpdatePredicate _ = False"

section \<open>The lifecycle of a request\<close>

text \<open>The abstract specification: the steps the status of a request may take in a run on it.\<close>

inductive request_lifecycle :: "ComposabilityRequestStatus \<Rightarrow> ComposabilityRequestStatus \<Rightarrow> bool" where
  note_request_error: "request_lifecycle st (st\<lparr>crqs_Error := e\<rparr>)"
| begin_allocation: "crqs_State st = [] \<Longrightarrow> crqs_State st' = ''NodeAllocating'' \<Longrightarrow> crqs_Error st' = [] \<Longrightarrow> request_lifecycle st st'"
| allocation_failed: "crqs_State st = ''NodeAllocating''
    \<Longrightarrow> request_lifecycle st (st\<lparr>crqs_Resources := filter p (crqs_Resources st), crqs_Error := e\<rparr>)"
| allocated: "crqs_State st = ''NodeAllocating''
    \<Longrightarrow> request_lifecycle st (st\<lparr>crqs_Resources := rs, crqs_State := ''Updating'', crqs_Error := [], crqs_ScalarResource := spec\<rparr>)"
| spec_changed: "crqs_State st \<in> {''Updating'', ''Running''} \<Longrightarrow> crqs_ScalarResource st \<noteq> spec
    \<Longrightarrow> request_lifecycle st (st\<lparr>crqs_State := ''NodeAllocating'', crqs_ScalarResource := spec\<rparr>)"
| all_online: "crqs_State st = ''Updating'' \<Longrightarrow> can_run (crqs_Resources st)
    \<Longrightarrow> request_lifecycle st (st\<lparr>crqs_State := ''Running'', crqs_Error := []\<rparr>)"
| clean_up: "crqs_State st \<in> {''NodeAllocating'', ''Updating'', ''Running''} \<Longrightarrow> request_lifecycle st (st\<lparr>crqs_State := ''Cleaning''\<rparr>)"
| cleaned: "crqs_State st = ''Cleaning'' \<Longrightarrow> request_lifecycle st (st\<lparr>crqs_State := ''Deleting''\<rparr>)"

inductive_cases request_lifecycleE: "request_lifecycle st st'"

fun request_statuses :: "event list \<Rightarrow> ComposabilityRequestStatus list" where
  "request_statuses [] = []"
| "request_statuses (EvUpdateRequestStatus q # es) = crq_Status q # request_statuses es"
| "request_statuses (_ # es) = request_statuses es"

lemma request_statuses_append [simp]: "request_statuses (xs @ ys) = request_statuses xs @ request_statuses ys"
  by (induction xs rule: request_statuses.induct) simp_all

text \<open>Named hypothesis on the API server, as for resources: a successful status update answers with the
  status sent.\<close>

definition request_status_echo :: "'w env \<Rightarrow> bool" where
  "request_status_echo E \<longleftrightarrow> (\<forall>q w q' w'. api_UpdateRequestStatus E q w = (Inr q', w') \<longrightarrow> crq_Status q' = crq_Status q)"

lemma qview_status_echo:
  "(\<And>res q'. crq_Status q' = crq_Status q \<Longrightarrow> Q res (tr @ [EvUpdateRequestStatus q], q'))
    \<Longrightarrow> wpv request_status_echo qview Status_Update_Request Q X (tr, q)"
  by (auto simp: wpv_def Status_Update_Request_def qview_def request_status_echo_def prog_defs split: prod.splits sum.splits)

text \<open>As for resources: the writes so far are a path; in sync, its end is the status in memory.\<close>

definition request_legal :: "ComposabilityRequestStatus list \<Rightarrow> ComposabilityRequestStatus \<Rightarrow> event list \<times> ComposabilityRequest \<Rightarrow> bool" where
  "request_legal a b v \<longleftrightarrow> (\<exists>st. written request_lifecycle a b st (request_statuses (fst v)))"

definition request_insync :: "ComposabilityRequestStatus list \<Rightarrow> ComposabilityRequestStatus \<Rightarrow> event list \<times> ComposabilityRequest \<Rightarrow> bool" where
  "request_insync a b v \<longleftrightarrow> written request_lifecycle a b (crq_Status (snd v)) (request_statuses (fst v))"

definition request_ends :: "ComposabilityRequestStatus list \<Rightarrow> ComposabilityRequestStatus \<Rightarrow> reconciled
    \<Rightarrow> event list \<times> ComposabilityRequest \<Rightarrow> bool" where
  "request_ends a b x v \<longleftrightarrow> request_legal a b v \<and> (snd x \<noteq> None \<longrightarrow> request_insync a b v)"

lemma request_insync_legal: "request_insync a b v \<Longrightarrow> request_legal a b v"
  by (auto simp: request_insync_def request_legal_def)

lemma request_insync_ends: "request_insync a b v \<Longrightarrow> request_ends a b x v"
  by (simp add: request_ends_def request_insync_legal)

text \<open>An update of the status that is a step from the last status written.\<close>

lemma request_write:
  assumes "written request_lifecycle a b st (request_statuses tr)" "request_lifecycle st (crq_Status q)"
    and "\<And>res tr' q'. request_insync a b (tr', q') \<Longrightarrow> crq_Status q' = crq_Status q \<Longrightarrow> wpv request_status_echo qview (k res) Q X (tr', q')"
  shows "wpv request_status_echo qview (bindM Status_Update_Request k) Q X (tr, q)"
  by (intro wpv_bindM qview_status_echo assms(3))
     (use written_write [OF assms(1,2)] in \<open>simp_all add: request_insync_def\<close>)

lemma request_return_update:
  assumes "written request_lifecycle a b st (request_statuses tr)" "request_lifecycle st (crq_Status q)"
  shows "wpv request_status_echo qview return_update_request (request_ends a b) X (tr, q)"
  unfolding return_update_request_def by (intro request_write [OF assms] wpv_ret request_insync_ends)

lemma request_set_state:
  assumes "request_insync a b (tr, q)" "request_lifecycle (crq_Status q) ((crq_Status q)\<lparr>crqs_State := state\<rparr>)"
  shows "wpv request_status_echo qview (set_state state) (request_ends a b) X (tr, q)"
  unfolding set_state_def
  by (intro wpv_thenM qview_upd_status request_return_update) (use assms in \<open>simp_all add: request_insync_def\<close>)

lemma request_error_from:
  assumes "written request_lifecycle a b st (request_statuses tr)"
    and "request_lifecycle st ((crq_Status q)\<lparr>crqs_Error := err_Error err\<rparr>)"
  shows "wpv request_status_echo qview (Request_requeueOnErr err) (request_ends a b) X (tr, q)"
  unfolding Request_requeueOnErr_def
  by (intro wpv_thenM qview_upd_status request_write [OF assms(1)] wpv_ret request_insync_ends) (use assms(2) in simp_all)

lemma request_error:
  "request_insync a b (tr, q) \<Longrightarrow> wpv request_status_echo qview (Request_requeueOnErr err) (request_ends a b) X (tr, q)"
  by (rule request_error_from) (auto simp: request_insync_def intro: note_request_error)

lemma request_start_again:
  assumes "request_insync a b (tr, q)" "crq_State q \<in> {''Updating'', ''Running''}" "crqs_ScalarResource (crq_Status q) \<noteq> crq_Resource q"
  shows "wpv request_status_echo qview start_again (request_ends a b) X (tr, q)"
  unfolding start_again_def
  by (intro wpv_thenM qview_upd request_return_update) (use assms in \<open>auto simp: request_insync_def intro: spec_changed\<close>)

lemma request_clear_error:
  assumes "request_insync a b (tr, q)"
  shows "wpv request_status_echo qview clear_error (request_ends a b) X (tr, q)"
  unfolding clear_error_def checkM_def requeueAfter_def
  by (intro wpv_thenM qview_upd_status request_write wpv_option wpv_ret request_error request_insync_ends)
     (use assms in \<open>auto simp: request_insync_def intro: note_request_error\<close>)

subsection \<open>The handlers follow it\<close>

lemma none_follows:
  assumes "request_insync a b (tr, q)" "crq_State q = []"
  shows "wpv request_status_echo qview Request_handleNoneState (request_ends a b) (request_legal a b) (tr, q)"
proof -
  have w: "written request_lifecycle a b (crq_Status q) (request_statuses tr)" using assms(1) by (simp add: request_insync_def)
  have go: "wpv request_status_echo qview return_update_request (request_ends a b) X (tr', q')"
    if "request_statuses tr' = request_statuses tr" "crq_State q' = ''NodeAllocating''" "crqs_Error (crq_Status q') = []" for tr' q' X
    by (rule request_return_update [where st = "crq_Status q"]) (use w that assms(2) in \<open>auto intro: begin_allocation\<close>)
  show ?thesis
    unfolding Request_handleNoneState_def upd_request_finalizers_def
    by (intro wpv_bindM qview_get wpv_checkM wpv_if wpv_thenM qview_upd qview_update wpv_ret conjI allI impI go request_error)
       (use assms in \<open>auto simp: request_insync_def\<close>)
qed

lemma drop_entries_status:
  "crq_Status (drop_entries ns q) = (crq_Status q)\<lparr>crqs_Resources := filter (\<lambda>e. fst e \<notin> set ns) (crq_Resources q)\<rparr>"
  by (cases "crq_Status q") (simp add: drop_entries_def)

lemma place_follows:
  assumes "request_insync a b (tr, q)" "crq_State q = ''NodeAllocating''"
  shows "wpv request_status_echo qview (place_resources items requests nodes) (request_ends a b) (request_legal a b) (tr, q)"
proof -
  have w: "written request_lifecycle a b (crq_Status q) (request_statuses tr)" using assms(1) by (simp add: request_insync_def)
  have err: "wpv request_status_echo qview (Request_requeueOnErr e) (request_ends a b) X (tr, drop_entries ns q)" for e ns X
    by (rule request_error_from [OF w]) (use assms(2) in \<open>simp add: drop_entries_status allocation_failed\<close>)
  have fin: "wpv request_status_echo qview return_update_request (request_ends a b) X (tr, q')"
    if "crq_Status q' = (crq_Status q)\<lparr>crqs_Resources := rs, crqs_State := ''Updating'', crqs_Error := [], crqs_ScalarResource := spec\<rparr>"
    for q' rs spec X
    by (rule request_return_update [OF w]) (use assms(2) that in \<open>simp add: allocated\<close>)
  show ?thesis
    unfolding place_resources_def
    by (intro wpv_bindM wpv_thenM wpv_tryM qview_get qview_upd keep_resources_run give_up_run allocate_nodes_run record_nodes_any
        conjI allI impI err fin) (auto simp: drop_entries_status err)
qed

lemma allocating_follows:
  assumes "request_insync a b (tr, q)" "crq_State q = ''NodeAllocating''"
  shows "wpv request_status_echo qview Request_handleNodeAllocatingState (request_ends a b) (request_legal a b) (tr, q)"
proof -
  have "wpv request_status_echo qview (set_state ''Cleaning'') (request_ends a b) X (tr, q)" for X
    by (rule request_set_state [OF assms(1)]) (use assms(2) in \<open>simp add: clean_up\<close>)
  then show ?thesis
    unfolding Request_handleNodeAllocatingState_def set_state_def
    by (intro wpv_bindM [where m = "getM _"] wpv_tryM qview_get wpv_if qview_query qview_reads conjI allI impI request_error place_follows)
       (use assms in auto)
qed

text \<open>Calls on resources do not touch the request.\<close>

fun resource_call :: "event \<Rightarrow> bool" where
  "resource_call (EvCreateResource r) = True"
| "resource_call (EvDeleteResource r) = True"
| "resource_call _ = False"

lemma resource_calls_silent: "list_all resource_call evs \<Longrightarrow> request_statuses evs = []"
  by (induction evs rule: request_statuses.induct) simp_all

lemma qview_emits:
  fixes m :: "('w, 'a) go"
  assumes "emits A m" "keeps theRequest m"
    and "\<And>x evs. list_all A evs \<Longrightarrow> Q x (tr @ evs, q)" "\<And>evs. list_all A evs \<Longrightarrow> X (tr @ evs, q)"
  shows "wpv H qview m Q X (tr, q)"
  unfolding wpv_def
proof (intro allI impI)
  fix E and s :: "'w sys"
  assume v: "qview s = (tr, q)"
  obtain evs where "trace (snd (m E s)) = trace s @ evs" "list_all A evs"
    using assms(1) by (rule emits_trace)
  moreover have "theRequest (snd (m E s)) = theRequest s"
    using keepsD [OF assms(2)] by (metis prod.collapse)
  ultimately show "case m E s of (Ret x, s') \<Rightarrow> Q x (qview s') | (Panic _, s') \<Rightarrow> X (qview s')"
    using assms(3,4) v by (auto simp: qview_def split: prod.splits outcome.splits)
qed

lemma resource_loops:
  "emits resource_call (delete_redundant rs items)" "keeps theRequest (delete_redundant rs items)"
  "emits resource_call (create_missing q es)" "keeps theRequest (create_missing q es)"
  "emits resource_call (delete_all items)" "keeps theRequest (delete_all items)"
  unfolding delete_redundant_def create_missing_def delete_all_def
  by (intro emits_intro keeps_intro; simp)+

lemma resource_loop_run:
  fixes m :: "('w, 'a) go"
  assumes "emits resource_call m" "keeps theRequest m" "request_insync a b (tr, q)"
    and "\<And>x tr'. request_insync a b (tr', q) \<Longrightarrow> Q x (tr', q)"
  shows "wpv H qview m Q (request_legal a b) (tr, q)"
proof -
  have "request_insync a b (tr @ evs, q)" if "list_all resource_call evs" for evs
    using assms(3) resource_calls_silent [OF that] by (simp add: request_insync_def)
  then show ?thesis
    by (intro qview_emits [OF assms(1,2)] assms(4) request_insync_legal)
qed

lemma run_when_online_follows:
  assumes "request_insync a b (tr, q)" "crq_State q = ''Updating''" "crqs_ScalarResource (crq_Status q) = crq_Resource q"
  shows "wpv request_status_echo qview run_when_online (request_ends a b) (request_legal a b) (tr, q)"
proof -
  have eq: "(crq_Status q)\<lparr>crqs_State := ''Running'', crqs_Error := [], crqs_ScalarResource := crq_Resource q\<rparr>
      = (crq_Status q)\<lparr>crqs_State := ''Running'', crqs_Error := []\<rparr>"
    using assms(3) by (cases "crq_Status q") simp
  have w: "written request_lifecycle a b (crq_Status q) (request_statuses tr)" using assms(1) by (simp add: request_insync_def)
  show ?thesis
    unfolding run_when_online_def requeueAfter_def
    by (intro wpv_bindM qview_get wpv_if wpv_thenM qview_upd request_return_update [OF w] wpv_ret request_insync_ends assms(1))
       (use all_online [of "crq_Status q"] assms(2) in \<open>simp add: eq\<close>)
qed

lemma updating_follows:
  assumes "request_insync a b (tr, q)" "crq_State q = ''Updating''"
  shows "wpv request_status_echo qview Request_handleUpdatingState (request_ends a b) (request_legal a b) (tr, q)"
proof -
  let ?W = "\<lambda>m. wpv request_status_echo qview m (request_ends a b) (request_legal a b)"
  have loops: "?W (tryM (delete_redundant (crq_Resources q) items) (\<lambda>err. Request_requeueOnErr err) (\<lambda>existed.
       tryM (create_missing q existed) (\<lambda>err. Request_requeueOnErr err) (\<lambda>_. run_when_online))) (tr, q)"
    if "crqs_ScalarResource (crq_Status q) = crq_Resource q" for items
  proof -
    have create: "?W (tryM (create_missing q existed) (\<lambda>err. Request_requeueOnErr err) (\<lambda>_. run_when_online)) (tr', q)"
      if "request_insync a b (tr', q)" for tr' existed
      by (rule wpv_tryM, rule resource_loop_run [OF resource_loops(3,4) that])
         (simp add: request_error run_when_online_follows assms(2) \<open>crqs_ScalarResource (crq_Status q) = crq_Resource q\<close>)
    show ?thesis
      by (rule wpv_tryM, rule resource_loop_run [OF resource_loops(1,2) assms(1)]) (intro conjI allI impI request_error create)
  qed
  show ?thesis
    unfolding Request_handleUpdatingState_def
    by (intro wpv_bindM qview_get wpv_if request_set_state request_start_again wpv_tryM [where m = "query _"] qview_query conjI allI impI
        loops request_error)
       (use assms in \<open>auto simp: clean_up\<close>)
qed

lemma running_follows:
  assumes "request_insync a b (tr, q)" "crq_State q = ''Running''"
  shows "wpv request_status_echo qview Request_handleRunningState (request_ends a b) (request_legal a b) (tr, q)"
  unfolding Request_handleRunningState_def
  by (intro wpv_bindM qview_get wpv_if request_set_state request_start_again request_clear_error)
     (use assms in \<open>auto simp: clean_up\<close>)

lemma cleaning_follows:
  assumes "request_insync a b (tr, q)" "crq_State q = ''Cleaning''"
  shows "wpv request_status_echo qview Request_handleCleaningState (request_ends a b) (request_legal a b) (tr, q)"
  unfolding Request_handleCleaningState_def
  by (intro wpv_bindM qview_get wpv_if request_set_state wpv_tryM qview_query conjI allI impI
      resource_loop_run [where a = a and b = b] resource_loops request_error request_clear_error)
     (use assms in \<open>auto simp: cleaned\<close>)

lemma deleting_follows:
  assumes "request_insync a b (tr, q)"
  shows "wpv request_status_echo qview Request_handleDeletingState (request_ends a b) (request_legal a b) (tr, q)"
  unfolding Request_handleDeletingState_def upd_request_finalizers_def doNotRequeue_def
  by (intro wpv_thenM wpv_checkM qview_upd qview_update conjI allI impI request_error wpv_ret)
     (use assms in \<open>auto simp: request_insync_def request_ends_def request_legal_def\<close>)

lemma dispatch_follows:
  assumes "request_insync a b (tr, q)"
  shows "wpv request_status_echo qview (request_dispatch (crq_State q)) (request_ends a b) (request_legal a b) (tr, q)"
  unfolding request_dispatch_def
  by (intro wpv_if none_follows allocating_follows updating_follows running_follows cleaning_follows deleting_follows wpv_ret
      request_insync_ends assms)

lemma request_gc_run:
  assumes "request_insync a b (tr, q)" "\<And>x tr'. request_insync a b (tr', q) \<Longrightarrow> Q x (tr', q)"
  shows "wpv H qview Request_performGarbageCollection Q X (tr, q)"
proof -
  have del: "wpv H qview (Delete_Request q') Q' X' (tr, q)" if "\<And>x. Q' x (tr @ [EvDeleteRequest q'], q)" for q' Q' X'
    using that by (simp add: wpv_def Delete_Request_def effect_def qview_def split: prod.split)
  have "request_insync a b (tr @ [EvDeleteRequest q'], q)" for q' using assms(1) by (simp add: request_insync_def)
  then show ?thesis
    unfolding Request_performGarbageCollection_def
    by (intro wpv_bindM qview_get wpv_if wpv_ret qview_reads wpv_option del assms)
qed

lemma change_follows:
  assumes "request_insync a b (tr, q)"
  shows "wpv request_status_echo qview Request_handleComposabilityRequestChange (\<lambda>_. request_legal a b) (request_legal a b) (tr, q)"
proof -
  have err: "wpv request_status_echo qview (Request_requeueOnErr e) (\<lambda>_. request_legal a b) X v" if "request_insync a b v" for e v X
    using that by (cases v; hypsubst) (rule wpv_conseq [OF request_error], auto simp: request_ends_def)
  have last: "wpv request_status_echo qview (case x of (result, err) \<Rightarrow> case err of Some e \<Rightarrow> Request_requeueOnErr e | None \<Rightarrow> ret (result, None))
      (\<lambda>_. request_legal a b) (request_legal a b) v" if "request_ends a b x v" for x v
    by (intro wpv_prod wpv_option wpv_ret err) (use that in \<open>simp_all add: request_ends_def\<close>)
  have state: "wpv request_status_echo qview (bindM (request_dispatch (crq_State q)) (\<lambda>(result, err). case err of
       Some err \<Rightarrow> Request_requeueOnErr err | None \<Rightarrow> ret (result, None))) (\<lambda>_. request_legal a b) (request_legal a b) (tr', q)"
    if "request_insync a b (tr', q)" for tr'
    by (intro wpv_bindM, rule wpv_conseq [OF dispatch_follows [OF that]]) (simp_all add: last)
  show ?thesis
    unfolding Request_handleComposabilityRequestChange_def doNotRequeue_def
    by (intro wpv_tryM request_gc_run [OF assms] conjI allI impI wpv_if wpv_ret wpv_bindM [where m = "getM _"] qview_get state err
        request_insync_legal) auto
qed

lemma Reconcile_on_request:
  assumes "api_GetRequest E name (world s) = (Inr q, w)"
  shows "Request_Reconcile name E s = Request_handleComposabilityRequestChange E (s\<lparr>world := w, theRequest := q\<rparr>)"
  using assms by (simp add: Request_Reconcile_def tryGet_def tryM_def bindM_def query_def thenM_def modifyM_def run_ret)

text \<open>
  C4.  The request reconciler refines the lifecycle of requests.  Where the API server answers a status update with
  the status sent, the statuses a run of \<^verbatim>\<open>Reconcile\<close> on a request writes are a path of the abstract lifecycle
  that starts at the status read.  In particular a request is set to Running only from
  Updating and only if every resource its status lists is Online, it goes back to NodeAllocating
  only when its specification has changed, and only a request in Cleaning is set to Deleting.
\<close>

theorem Request_Reconcile_lifecycle:
  assumes "request_status_echo E" "api_GetRequest E name (world s) = (Inr q, w)"
  shows "\<exists>new. request_statuses (trace (snd (Request_Reconcile name E s))) = request_statuses (trace s) @ new
     \<and> steps_path request_lifecycle (crq_Status q) new"
proof -
  let ?s = "s\<lparr>world := w, theRequest := q\<rparr>"
  have "request_insync (request_statuses (trace s)) (crq_Status q) (trace s, q)"
    by (simp add: request_insync_def written_start)
  note safe = wpvD [OF change_follows [OF this] assms(1), of ?s]
  obtain x s' where "Request_handleComposabilityRequestChange E ?s = (x, s')"
    by (cases "Request_handleComposabilityRequestChange E ?s")
  moreover from this have "request_legal (request_statuses (trace s)) (crq_Status q) (qview s')"
    using safe by (cases x) (auto simp: qview_def)
  ultimately show ?thesis
    unfolding Reconcile_on_request [OF assms(2)] by (auto simp: request_legal_def written_def qview_def)
qed

definition request_env :: "ComposabilityRequest \<Rightarrow> nat env" where
  "request_env q = (counter_env [])\<lparr>api_GetRequest := (\<lambda>_ w. (Inr q, w)), api_UpdateRequest := (\<lambda>q w. (Inr q, w))\<rparr>"

theorem Request_Reconcile_lifecycle_witness:
  "\<exists>new. request_statuses (trace (snd (Request_Reconcile ''req'' (request_env spread_request) (start 0)))) = new
     \<and> steps_path request_lifecycle (crq_Status spread_request) new"
proof -
  have "request_status_echo (request_env spread_request)"
    by (simp add: request_status_echo_def request_env_def counter_env_def)
  from Request_Reconcile_lifecycle [OF this, of "''req''" "start 0" spread_request 0] show ?thesis
    by (simp add: request_env_def start_def)
qed

section \<open>What is created and deleted\<close>

text \<open>Named hypothesis on the API server for the two loops: creations and deletions succeed.\<close>

definition resource_calls_succeed :: "'w env \<Rightarrow> bool" where
  "resource_calls_succeed E \<longleftrightarrow> (\<forall>r w. fst (api_CreateResource E r w) = None \<and> fst (api_DeleteResource E r w) = None)"

definition redundant :: "resources \<Rightarrow> ComposableResource list \<Rightarrow> ComposableResource list" where
  "redundant rs items = filter (\<lambda>r. cr_Name r \<notin> fst ` set rs) items"

definition lacking :: "ComposabilityRequest \<Rightarrow> ComposableResource list \<Rightarrow> ComposableResource list" where
  "lacking q items = map (\<lambda>e. missing_resource q (fst e) (snd e)) (filter (\<lambda>e. fst e \<notin> cr_Name ` set items) (crq_Resources q))"

lemma names_after:
  "cr_Name ` (set items - set (redundant (crq_Resources q) items) \<union> set (lacking q items)) = fst ` set (crq_Resources q)"
proof -
  have "cr_Name ` set (lacking q items) = fst ` set (crq_Resources q) - cr_Name ` set items"
    by (force simp: lacking_def missing_resource_def empty_resource_def)
  moreover have "cr_Name ` (set items - set (redundant (crq_Resources q) items)) = cr_Name ` set items \<inter> fst ` set (crq_Resources q)"
    by (auto simp: redundant_def)
  ultimately show ?thesis by (simp only: image_Un) blast
qed

lemma delete_redundant_loop:
  assumes "resource_calls_succeed E"
  shows "\<exists>w. forM items existed (\<lambda>resource existed.
       if map_of rs (cr_Name resource) = None then
         checkM (Delete_Resource resource) (\<lambda>err. ret (Return err)) (ret (Next existed))
       else ret (Next (existed @ [cr_Name resource]))) E s
    = (Ret (Inr (existed @ map cr_Name (filter (\<lambda>r. cr_Name r \<in> fst ` set rs) items))),
       s\<lparr>world := w, trace := trace s @ map EvDeleteResource (redundant rs items)\<rparr>)"
proof (induction items arbitrary: existed s)
  case Nil
  show ?case by (auto simp: run_ret redundant_def intro: exI [of _ "world s"])
next
  case (Cons r items)
  obtain w where "api_DeleteResource E r (world s) = (None, w)"
    using assms by (metis resource_calls_succeed_def prod.collapse)
  then show ?case
    using Cons.IH [of existed "s\<lparr>world := w, trace := trace s @ [EvDeleteResource r]\<rparr>"] Cons.IH [of "existed @ [cr_Name r]" s]
    by (auto simp: bindM_def checkM_def Delete_Resource_def effect_def run_ret redundant_def map_of_eq_None_iff)
qed

lemma create_missing_loop:
  assumes "resource_calls_succeed E"
  shows "\<exists>w. forM es () (\<lambda>(name, entry) _.
       if name \<notin> set existed then
         checkM (Create_Resource (missing_resource q name entry)) (\<lambda>err. ret (Return err)) (ret (Next ()))
       else ret (Next ())) E s
    = (Ret (Inr ()), s\<lparr>world := w, trace := trace s
         @ map (\<lambda>e. EvCreateResource (missing_resource q (fst e) (snd e))) (filter (\<lambda>e. fst e \<notin> set existed) es)\<rparr>)"
proof (induction es arbitrary: s)
  case Nil
  show ?case by (auto simp: run_ret intro: exI [of _ "world s"])
next
  case (Cons e es)
  obtain w where "api_CreateResource E (missing_resource q (fst e) (snd e)) (world s) = (None, w)"
    using assms by (metis resource_calls_succeed_def prod.collapse)
  then show ?case
    using Cons.IH [of "s\<lparr>world := w, trace := trace s @ [EvCreateResource (missing_resource q (fst e) (snd e))]\<rparr>"] Cons.IH [of s]
    by (cases e) (auto simp: bindM_def checkM_def Create_Resource_def effect_def run_ret)
qed

text \<open>
  C5.  Updating brings the resources in line with the status.  For a request that is not being deleted and whose specification has
  not changed, when the calls succeed, the handler deletes exactly the resources listed for it that its
  status does not name and creates exactly the resources its status names that are not listed, with the type,
  model and detach mode of the specification, on the node of the entry and labelled with the request's name;
  it then sets the request to Running if all entries are Online and does nothing more otherwise.
  What exists afterwards are the names of the status.
\<close>

theorem Request_handleUpdatingState_syncs:
  assumes "om_DeletionTimestamp (crq_Meta (theRequest s)) = None"
    and "crqs_ScalarResource (crq_Status (theRequest s)) = crq_Resource (theRequest s)"
    and "api_ListResources E (Some (crq_Name (theRequest s))) (world s) = (Inr items, w)" "resource_calls_succeed E"
  shows "trace (snd (Request_handleUpdatingState E s)) = trace s
       @ map EvDeleteResource (redundant (crq_Resources (theRequest s)) items)
       @ map EvCreateResource (lacking (theRequest s) items)
       @ (if can_run (crq_Resources (theRequest s))
          then [EvUpdateRequestStatus ((theRequest s)\<lparr>crq_Status := (crq_Status (theRequest s))\<lparr>crqs_State := ''Running'', crqs_Error := []\<rparr>\<rparr>)]
          else [])
     \<and> cr_Name ` (set items - set (redundant (crq_Resources (theRequest s)) items) \<union> set (lacking (theRequest s) items))
       = fst ` set (crq_Resources (theRequest s))"
proof -
  let ?q = "theRequest s"
  define ex where "ex = map cr_Name (filter (\<lambda>r. cr_Name r \<in> fst ` set (crq_Resources ?q)) items)"
  obtain w1 where del: "delete_redundant (crq_Resources ?q) items E (s\<lparr>world := w\<rparr>)
      = (Ret (Inr ex), s\<lparr>world := w1, trace := trace s @ map EvDeleteResource (redundant (crq_Resources ?q) items)\<rparr>)"
    using delete_redundant_loop [OF assms(4), where rs = "crq_Resources ?q" and existed = "[]" and s = "s\<lparr>world := w\<rparr>"]
    by (auto simp: delete_redundant_def ex_def)
  let ?s1 = "s\<lparr>world := w1, trace := trace s @ map EvDeleteResource (redundant (crq_Resources ?q) items)\<rparr>"
  have same: "filter (\<lambda>e. fst e \<notin> set ex) (crq_Resources ?q) = filter (\<lambda>e. fst e \<notin> cr_Name ` set items) (crq_Resources ?q)"
    by (rule filter_cong) (auto simp: ex_def image_iff Bex_def)
  obtain w2 where cre: "create_missing ?q ex E ?s1 = (Ret (Inr ()), s\<lparr>world := w2,
      trace := trace s @ map EvDeleteResource (redundant (crq_Resources ?q) items) @ map EvCreateResource (lacking ?q items)\<rparr>)"
    using create_missing_loop [OF assms(4), where q = ?q and es = "crq_Resources ?q" and existed = ex and s = ?s1]
    by (auto simp: create_missing_def same lacking_def comp_def)
  have st: "(crq_Status ?q)\<lparr>crqs_State := ''Running'', crqs_Error := [], crqs_ScalarResource := crq_Resource ?q\<rparr>
      = (crq_Status ?q)\<lparr>crqs_State := ''Running'', crqs_Error := []\<rparr>"
    using assms(2) by (cases "crq_Status ?q") simp
  have "trace (snd (Request_handleUpdatingState E s)) = trace s
       @ map EvDeleteResource (redundant (crq_Resources ?q) items) @ map EvCreateResource (lacking ?q items)
       @ (if can_run (crq_Resources ?q)
          then [EvUpdateRequestStatus (?q\<lparr>crq_Status := (crq_Status ?q)\<lparr>crqs_State := ''Running'', crqs_Error := []\<rparr>\<rparr>)] else [])"
    using assms(1-3) del cre
    by (simp add: Request_handleUpdatingState_def run_when_online_def requeueAfter_def return_update_request_def
        Status_Update_Request_def upd_request_def prog_eval st split: prod.split sum.split cong: prog_cong)
  then show ?thesis using names_after by simp
qed

definition obliging_env :: "ComposableResource list \<Rightarrow> nat env" where
  "obliging_env rs = (counter_env rs)\<lparr>api_CreateResource := (\<lambda>_ w. (None, w)), api_DeleteResource := (\<lambda>_ w. (None, w))\<rparr>"

lemma obliging_env: "resource_calls_succeed (obliging_env rs)" "api_ListResources (obliging_env rs) n w = (Inr rs, w)"
  by (simp_all add: resource_calls_succeed_def obliging_env_def counter_env_def)

theorem Request_handleUpdatingState_syncs_witness:
  "trace (snd (Request_handleUpdatingState (obliging_env [held_resource ''gpu-c'' ''n2'']) ((start 0)\<lparr>theRequest := spread_result\<rparr>)))
     = [EvDeleteResource (held_resource ''gpu-c'' ''n2''),
        EvCreateResource (missing_resource spread_result ''gpu-b'' (new_entry ''n1'')),
        EvCreateResource (missing_resource spread_result ''gpu-'' (new_entry ''n2''))]"
proof -
  let ?s = "(start 0)\<lparr>theRequest := spread_result\<rparr>"
  show ?thesis
    using Request_handleUpdatingState_syncs [of ?s "obliging_env [held_resource ''gpu-c'' ''n2'']" "[held_resource ''gpu-c'' ''n2'']" 0]
    by (simp add: obliging_env spread_result_def spread_request_def empty_request_def empty_meta_def redundant_def lacking_def can_run_def
        held_resource_def new_entry_def start_def)
qed

section \<open>Copying the status of a resource\<close>

text \<open>
  C21.  A change of a resource reaches its request and nothing else.  When a ComposableResource that was not made for detaching
  changes, exactly one status update follows, of the request that manages it: the entry with the resource's name, if there is one, gets
  the state, error, device id and CDI device id of the resource's status and keeps its node; every other entry, the set of
  entries and everything else of the request are unchanged.
\<close>

theorem Request_handleComposableResourceChange_entry:
  assumes "label resource readyDeviceLabel = []" "api_GetRequest E (label resource managedByLabel) (world s) = (Inr q, w)"
  shows "\<exists>rs. trace (snd (Request_handleComposableResourceChange resource E s))
       = trace s @ [EvUpdateRequestStatus (q\<lparr>crq_Status := (crq_Status q)\<lparr>crqs_Resources := rs\<rparr>\<rparr>)]
     \<and> map fst rs = map fst (crqs_Resources (crq_Status q))
     \<and> map_of rs = (\<lambda>n. case map_of (crqs_Resources (crq_Status q)) n of
         None \<Rightarrow> None
       | Some e \<Rightarrow> if n = om_Name (cr_Meta resource)
           then Some \<lparr>srs_State = crst_State (cr_Status resource), srs_DeviceID = crst_DeviceID (cr_Status resource),
                srs_CDIDeviceID = crst_CDIDeviceID (cr_Status resource), srs_NodeName = srs_NodeName e,
                srs_Error = crst_Error (cr_Status resource)\<rparr>
           else Some e)"
proof -
  let ?rs = "AList.map_entry (cr_Name resource) (copy_status resource) (crq_Resources q)"
  have "crqs_Resources_update (AList.map_entry (cr_Name resource) (copy_status resource)) (crq_Status q)
      = (crq_Status q)\<lparr>crqs_Resources := ?rs\<rparr>"
    by (cases "crq_Status q") simp
  then have "trace (snd (Request_handleComposableResourceChange resource E s))
      = trace s @ [EvUpdateRequestStatus (q\<lparr>crq_Status := (crq_Status q)\<lparr>crqs_Resources := ?rs\<rparr>\<rparr>)]"
    using assms
    by (simp add: Request_handleComposableResourceChange_def upd_request_status_def upd_request_def return_update_request_def
        Status_Update_Request_def prog_eval split: prod.split sum.split cong: prog_cong)
  moreover have "map fst (AList.map_entry n f xs) = map fst xs" for n and f :: "ScalarResourceStatus \<Rightarrow> ScalarResourceStatus" and xs
    by (induction xs) auto
  ultimately show ?thesis
    by (intro exI [of _ ?rs]) (auto simp: fun_eq_iff map_of_map_entry copy_status_def split: option.split)
qed

definition attached_resource :: ComposableResource where
  "attached_resource = (held_resource ''gpu-b'' ''n1'')\<lparr>cr_Status :=
     \<lparr>crst_State = ''Online'', crst_Error = [], crst_DeviceID = ''GPU-a'', crst_CDIDeviceID = ''res-1''\<rparr>\<rparr>"

theorem Request_handleComposableResourceChange_entry_witness:
  "\<exists>rs. trace (snd (Request_handleComposableResourceChange attached_resource (request_env spread_result) (start 0)))
       = [EvUpdateRequestStatus (spread_result\<lparr>crq_Status := (crq_Status spread_result)\<lparr>crqs_Resources := rs\<rparr>\<rparr>)]
     \<and> map_option srs_DeviceID (map_of rs ''gpu-b'') = Some ''GPU-a''
     \<and> map_option srs_NodeName (map_of rs ''gpu-b'') = Some ''n1''
     \<and> map_option srs_DeviceID (map_of rs ''gpu-'') = Some []"
  using Request_handleComposableResourceChange_entry [of attached_resource "request_env spread_result" "start 0" spread_result 0]
  by (auto simp: label_def str_at_def attached_resource_def held_resource_def empty_meta_def request_env_def start_def spread_result_def
      new_entry_def)

section \<open>Cleaning up\<close>

text \<open>The loop deletes a first part of the list, all of it unless a deletion fails.\<close>

lemma delete_all_run:
  obtains k r w where "delete_all items E s = (Ret r, s\<lparr>world := w, trace := trace s @ map EvDeleteResource (take k items)\<rparr>)"
    "k \<le> length items" "r = Inr () \<longrightarrow> k = length items" "resource_calls_succeed E \<longrightarrow> r = Inr ()"
proof -
  have "\<exists>k r w. delete_all items E s = (Ret r, s\<lparr>world := w, trace := trace s @ map EvDeleteResource (take k items)\<rparr>)
      \<and> k \<le> length items \<and> (r = Inr () \<longrightarrow> k = length items) \<and> (resource_calls_succeed E \<longrightarrow> r = Inr ())"
  proof (induction items arbitrary: s)
    case Nil
    show ?case
      by (rule exI [of _ 0], rule exI [of _ "Inr ()"], rule exI [of _ "world s"]) (simp add: delete_all_def run_ret)
  next
    case (Cons r items)
    obtain x w where d: "api_DeleteResource E r (world s) = (x, w)" by fastforce
    show ?case
    proof (cases x)
      case None
      let ?s1 = "s\<lparr>world := w, trace := trace s @ [EvDeleteResource r]\<rparr>"
      obtain k y w' where IH: "delete_all items E ?s1 = (Ret y, ?s1\<lparr>world := w', trace := trace ?s1 @ map EvDeleteResource (take k items)\<rparr>)"
        "k \<le> length items" "y = Inr () \<longrightarrow> k = length items" "resource_calls_succeed E \<longrightarrow> y = Inr ()"
        using Cons.IH by blast
      have "delete_all (r # items) E s = delete_all items E ?s1"
        using d None by (simp add: delete_all_def bindM_def checkM_def Delete_Resource_def effect_def run_ret)
      with IH show ?thesis by (intro exI [of _ "Suc k"] exI [of _ y] exI [of _ w']) simp
    next
      case (Some e)
      then have "\<not> resource_calls_succeed E" using d unfolding resource_calls_succeed_def by (metis fst_conv option.distinct(1))
      with d Some show ?thesis
        by (intro exI [of _ 1] exI [of _ "Inl e"] exI [of _ w])
           (simp add: delete_all_def bindM_def checkM_def Delete_Resource_def effect_def run_ret)
    qed
  qed
  then show thesis using that by blast
qed

text \<open>Writing the error, or clearing it, leaves the state of the request.\<close>

definition same_state :: "ComposabilityRequest \<Rightarrow> ComposabilityRequest list \<Rightarrow> bool" where
  "same_state q qs \<longleftrightarrow> qs \<noteq> [] \<and> list_all (\<lambda>q'. crq_State q' = crq_State q \<and> crq_Resources q' = crq_Resources q) qs"

lemma note_error_trace:
  "trace (snd (Request_requeueOnErr e E s)) = trace s
     @ [EvUpdateRequestStatus ((theRequest s)\<lparr>crq_Status := (crq_Status (theRequest s))\<lparr>crqs_Error := err_Error e\<rparr>\<rparr>)]"
  by (simp add: Request_requeueOnErr_def upd_request_status_def upd_request_def Status_Update_Request_def prog_eval
      split: prod.split sum.split cong: prog_cong)

lemma clear_error_trace:
  obtains qs where "trace (snd (clear_error E s)) = trace s @ map EvUpdateRequestStatus qs" "same_state (theRequest s) qs"
proof -
  let ?q = "\<lambda>e. (theRequest s)\<lparr>crq_Status := (crq_Status (theRequest s))\<lparr>crqs_Error := e\<rparr>\<rparr>"
  obtain x w where u: "api_UpdateRequestStatus E (?q []) (world s) = (x, w)" by fastforce
  note defs = clear_error_def upd_request_status_def upd_request_def Status_Update_Request_def Request_requeueOnErr_def requeueAfter_def
  show thesis
  proof (cases x)
    case (Inl e)
    then show thesis using u
      by (intro that [of "[?q [], ?q (err_Error e)]"])
         (simp_all add: defs prog_eval same_state_def split: prod.split sum.split cong: prog_cong)
  next
    case (Inr q')
    then show thesis using u
      by (intro that [of "[?q []]"]) (simp_all add: defs prog_eval same_state_def cong: prog_cong)
  qed
qed

lemma cleaning_listed:
  assumes "api_ListResources E (Some (crq_Name (theRequest s))) (world s) = (Inr items, w)" "items \<noteq> []"
  obtains k qs where "trace (snd (Request_handleCleaningState E s)) = trace s @ map EvDeleteResource (take k items) @ map EvUpdateRequestStatus qs"
    "k \<le> length items" "resource_calls_succeed E \<longrightarrow> k = length items" "same_state (theRequest s) qs"
proof -
  let ?q = "theRequest s"
  obtain k y w' where del: "delete_all items E (s\<lparr>world := w\<rparr>)
      = (Ret y, (s\<lparr>world := w\<rparr>)\<lparr>world := w', trace := trace (s\<lparr>world := w\<rparr>) @ map EvDeleteResource (take k items)\<rparr>)"
    "k \<le> length items" "y = Inr () \<longrightarrow> k = length items" "resource_calls_succeed E \<longrightarrow> y = Inr ()"
    by (rule delete_all_run)
  let ?s1 = "s\<lparr>world := w', trace := trace s @ map EvDeleteResource (take k items)\<rparr>"
  have run: "Request_handleCleaningState E s =
      (case y of Inl e \<Rightarrow> Request_requeueOnErr e E ?s1 | Inr _ \<Rightarrow> clear_error E ?s1)"
    using assms del(1) by (cases y) (simp_all add: Request_handleCleaningState_def prog_eval cong: prog_cong)
  obtain qs where "trace (snd (Request_handleCleaningState E s)) = trace ?s1 @ map EvUpdateRequestStatus qs" "same_state ?q qs"
  proof (cases y)
    case (Inl e)
    then show ?thesis
      using note_error_trace [of e E ?s1]
      by (intro that [of "[?q\<lparr>crq_Status := (crq_Status ?q)\<lparr>crqs_Error := err_Error e\<rparr>\<rparr>]"]) (simp_all add: run same_state_def)
  next
    case (Inr u)
    obtain qs where "trace (snd (clear_error E ?s1)) = trace ?s1 @ map EvUpdateRequestStatus qs" "same_state (theRequest ?s1) qs"
      by (rule clear_error_trace)
    with Inr show ?thesis by (intro that [of qs]) (simp_all add: run)
  qed
  with del(2-4) show ?thesis by (intro that [of k qs]) simp_all
qed

text \<open>
  C18.  A request is let go only after its resources.  Whatever the API server answers, the Cleaning handler writes the state
  Deleting only when the listing of the resources labelled with the request's name succeeds and is empty, and then this is the
  only thing it does.  When the listing fails it only writes the error and keeps the state; when it lists resources, it
  deletes a first part of the list (every one, unless a deletion fails) and otherwise writes statuses that keep the state
  and the entries of the request.
\<close>

theorem Request_handleCleaningState_waits:
  "\<exists>evs. trace (snd (Request_handleCleaningState E s)) = trace s @ evs \<and>
     (case fst (api_ListResources E (Some (crq_Name (theRequest s))) (world s)) of
        Inl e \<Rightarrow> evs = [EvUpdateRequestStatus ((theRequest s)\<lparr>crq_Status := (crq_Status (theRequest s))\<lparr>crqs_Error := err_Error e\<rparr>\<rparr>)]
      | Inr [] \<Rightarrow> evs = [EvUpdateRequestStatus ((theRequest s)\<lparr>crq_Status := (crq_Status (theRequest s))\<lparr>crqs_State := ''Deleting''\<rparr>\<rparr>)]
      | Inr items \<Rightarrow> (\<exists>k qs. evs = map EvDeleteResource (take k items) @ map EvUpdateRequestStatus qs
            \<and> k \<le> length items \<and> (resource_calls_succeed E \<longrightarrow> k = length items) \<and> same_state (theRequest s) qs))"
proof -
  let ?q = "theRequest s"
  obtain x w where l: "api_ListResources E (Some (crq_Name ?q)) (world s) = (x, w)" by fastforce
  consider (err) e where "x = Inl e" | (none) "x = Inr []" | (some) r rs where "x = Inr (r # rs)"
    by (cases x; cases "projr x") auto
  then show ?thesis
  proof cases
    case err
    then show ?thesis
      using l note_error_trace [of e E "s\<lparr>world := w\<rparr>"]
      by (simp add: Request_handleCleaningState_def prog_eval cong: prog_cong)
  next
    case none
    then show ?thesis
      using l by (simp add: Request_handleCleaningState_def set_state_def upd_request_status_def upd_request_def
          return_update_request_def Status_Update_Request_def prog_eval split: prod.split sum.split cong: prog_cong)
  next
    case some
    have "api_ListResources E (Some (crq_Name ?q)) (world s) = (Inr (r # rs), w)" using l some by simp
    then obtain k qs where "trace (snd (Request_handleCleaningState E s))
        = trace s @ map EvDeleteResource (take k (r # rs)) @ map EvUpdateRequestStatus qs"
      "k \<le> length (r # rs)" "resource_calls_succeed E \<longrightarrow> k = length (r # rs)" "same_state ?q qs"
      by (rule cleaning_listed) simp
    then show ?thesis unfolding l fst_conv some by (auto intro!: exI [of _ k])
  qed
qed

theorem Request_handleCleaningState_waits_witness:
  "\<exists>qs. trace (snd (Request_handleCleaningState (obliging_env [held_resource ''a'' ''n1'']) ((start 0)\<lparr>theRequest := spread_result\<rparr>)))
       = EvDeleteResource (held_resource ''a'' ''n1'') # map EvUpdateRequestStatus qs
     \<and> list_all (\<lambda>q. crq_State q = ''Updating'') qs"
  using Request_handleCleaningState_waits [of "obliging_env [held_resource ''a'' ''n1'']" "(start 0)\<lparr>theRequest := spread_result\<rparr>"]
  by (auto simp: obliging_env start_def spread_result_def same_state_def list_all_iff)

section \<open>The finalizer\<close>

text \<open>Which updates of the object itself a run on a request may make.\<close>

fun request_update_ok :: "ComposabilityRequest \<Rightarrow> event \<Rightarrow> bool" where
  "request_update_ok q (EvUpdateRequest q') =
     (crq_State q = ''Deleting'' \<or> crq_State q = [] \<and> composabilityRequestFinalizer \<in> set (om_Finalizers (crq_Meta q')))"
| "request_update_ok q _ = True"

lemma emits_request_blocks [emits_intro]:
  assumes "\<And>q. A (EvUpdateRequestStatus q)"
  shows "emits A (upd_request_status f)" "emits A return_update_request" "emits A (Request_requeueOnErr err)" "emits A (set_state st)"
    "emits A start_again" "emits A clear_error" "emits A run_when_online"
  unfolding upd_request_status_def return_update_request_def Request_requeueOnErr_def set_state_def start_again_def clear_error_def
    run_when_online_def requeueAfter_def
  by (intro emits_intro assms)+

lemma emits_allocation [emits_intro]:
  "emits A (remove_entry name)" "emits A (keep_resources spec items)" "emits A (delete_by_priority bs n)" "emits A (record_nodes t ns)"
  "emits A (allocate_nodes q t' qs nodes)"
proof -
  show rem: "emits A (remove_entry name)" for name unfolding remove_entry_def upd_request_status_def by (intro emits_intro)
  show "emits A (keep_resources spec items)"
    unfolding keep_resources_def keep_step_def capacity_ok_def by (intro emits_intro rem)
  have step: "emits A (forM b k give_up_step)" for b k unfolding give_up_step_def by (intro emits_intro rem)
  show "emits A (delete_by_priority bs n)" for n
    by (induction bs arbitrary: n) (auto intro!: emits_intro step split: sum.split)
  show "emits A (record_nodes t ns)"
    by (induction ns) (auto intro!: emits_intro simp: upd_request_status_def)
  show "emits A (allocate_nodes q t' qs nodes)"
    unfolding allocate_nodes_def allocate_target_def allocate_same_def allocate_different_def different_step_def capacity_ok_def Let_def
    by (intro emits_intro)
qed

lemma emits_request_handlers:
  assumes "\<And>q. A (EvUpdateRequestStatus q)" "\<And>r. A (EvCreateResource r)" "\<And>r. A (EvDeleteResource r)"
  shows "emits A Request_handleNodeAllocatingState" "emits A Request_handleUpdatingState" "emits A Request_handleRunningState"
    "emits A Request_handleCleaningState" "(\<And>q. A (EvUpdateRequest q)) \<Longrightarrow> emits A Request_handleDeletingState"
  unfolding Request_handleNodeAllocatingState_def place_resources_def give_up_resources_def Request_handleUpdatingState_def
    Request_handleRunningState_def Request_handleCleaningState_def Request_handleDeletingState_def doNotRequeue_def
    upd_request_finalizers_def delete_redundant_def create_missing_def delete_all_def
  by (intro emits_intro assms; assumption)+

lemma quiet_update_ok:
  "crq_State q \<noteq> [] \<Longrightarrow> emits (request_update_ok q) (request_dispatch (crq_State q))"
  unfolding request_dispatch_def by (auto intro!: emits_request_handlers emits_rules)

definition updates_ok :: "ComposabilityRequest \<Rightarrow> event list \<Rightarrow> event list \<times> ComposabilityRequest \<Rightarrow> bool" where
  "updates_ok q tr v \<longleftrightarrow> (\<exists>evs. fst v = tr @ evs \<and> list_all (request_update_ok q) evs)"

lemma qview_emits_any:
  fixes m :: "('w, 'a) go"
  assumes "emits (request_update_ok q) m" "updates_ok q tr v"
  shows "wpv H qview m (\<lambda>_. updates_ok q tr) (updates_ok q tr) v"
  unfolding wpv_def
proof (intro allI impI)
  fix E and s :: "'w sys"
  assume v: "qview s = v"
  obtain evs where "trace (snd (m E s)) = trace s @ evs" "list_all (request_update_ok q) evs"
    using assms(1) by (rule emits_trace)
  then show "case m E s of (Ret x, s') \<Rightarrow> updates_ok q tr (qview s') | (Panic _, s') \<Rightarrow> updates_ok q tr (qview s')"
    using assms(2) v by (auto simp: qview_def updates_ok_def split: prod.splits outcome.splits)
qed

lemma none_updates_ok:
  assumes "crq_State q = []" "updates_ok q tr (tr', q)"
  shows "wpv H qview Request_handleNoneState (\<lambda>_. updates_ok q tr) (updates_ok q tr) (tr', q)"
proof -
  have err: "emits (request_update_ok q) (Request_requeueOnErr e)" for e by (intro emits_intro) simp
  have rest: "emits (request_update_ok q) (thenM (upd_request f) return_update_request)" for f by (intro emits_intro) simp
  show ?thesis
    unfolding Request_handleNoneState_def upd_request_finalizers_def
    by (intro wpv_bindM qview_get wpv_checkM wpv_if wpv_thenM [where k = Update_Request] qview_upd qview_update wpv_ret conjI allI impI
        qview_emits_any err rest) (use assms in \<open>auto simp: updates_ok_def\<close>)
qed

lemma change_updates_ok:
  "wpv H qview Request_handleComposabilityRequestChange (\<lambda>_. updates_ok q tr) (updates_ok q tr) (tr, q)"
proof -
  have err: "emits (request_update_ok q) (Request_requeueOnErr e)" for e by (intro emits_intro) simp
  have last: "emits (request_update_ok q) (case err of Some e \<Rightarrow> Request_requeueOnErr e | None \<Rightarrow> ret (result, None))"
    for result :: Result and err
    by (intro emits_intro) simp
  have disp: "wpv H qview (request_dispatch (crq_State q)) (\<lambda>_. updates_ok q tr) (updates_ok q tr) (tr', q)"
    if "updates_ok q tr (tr', q)" for tr'
  proof (cases "crq_State q = []")
    case True
    then show ?thesis using none_updates_ok [OF True that] by (simp add: request_dispatch_def)
  next
    case False
    then show ?thesis by (intro qview_emits_any quiet_update_ok that)
  qed
  have state: "wpv H qview (bindM (request_dispatch (crq_State q)) (\<lambda>(result, err). case err of
       Some err \<Rightarrow> Request_requeueOnErr err | None \<Rightarrow> ret (result, None))) (\<lambda>_. updates_ok q tr) (updates_ok q tr) (tr', q)"
    if "updates_ok q tr (tr', q)" for tr'
    by (intro wpv_bindM, rule wpv_conseq [OF disp [OF that]]) (auto intro: qview_emits_any [OF last])
  have del: "wpv H qview (Delete_Request q') Q' X' (tr, q)" if "\<And>x. Q' x (tr @ [EvDeleteRequest q'], q)" for q' Q' X'
    using that by (simp add: wpv_def Delete_Request_def effect_def qview_def split: prod.split)
  show ?thesis
    unfolding Request_handleComposabilityRequestChange_def Request_performGarbageCollection_def doNotRequeue_def
    by (intro wpv_tryM wpv_bindM [where m = "getM _"] wpv_bindM [where m = "CheckNodeExisted _"] wpv_bindM [where m = "Delete_Request _"]
        qview_get wpv_if wpv_ret qview_reads wpv_option del conjI allI impI state qview_emits_any err)
       (auto simp: updates_ok_def)
qed

text \<open>
  C17.  The finalizer of a request.  A run of \<^verbatim>\<open>Reconcile\<close> on a request updates the object itself only in two cases: a
  new request is updated to carry the finalizer, and a request in state Deleting is updated
  to drop it.  In every other state the finalizer stays, so the object cannot go while its resources may exist.
\<close>

theorem Request_Reconcile_finalizer:
  assumes "api_GetRequest E name (world s) = (Inr q, w)"
  shows "\<exists>evs. trace (snd (Request_Reconcile name E s)) = trace s @ evs
     \<and> (\<forall>q'. EvUpdateRequest q' \<in> set evs \<longrightarrow> crq_State q = ''Deleting''
          \<or> crq_State q = [] \<and> composabilityRequestFinalizer \<in> set (om_Finalizers (crq_Meta q')))"
proof -
  let ?s = "s\<lparr>world := w, theRequest := q\<rparr>"
  obtain x s' where run: "Request_handleComposabilityRequestChange E ?s = (x, s')"
    by (cases "Request_handleComposabilityRequestChange E ?s")
  note safe = wpvD [OF change_updates_ok [of "\<lambda>_. True"] TrueI, of ?s "trace s" q]
  have "updates_ok q (trace s) (qview s')"
    using safe run by (cases x) (auto simp: qview_def)
  then obtain evs where "trace s' = trace s @ evs" "list_all (request_update_ok q) evs"
    by (auto simp: updates_ok_def qview_def)
  then show ?thesis
    unfolding Reconcile_on_request [OF assms] run by (intro exI [of _ evs]) (force simp: list_all_iff)
qed

theorem Request_Reconcile_finalizer_witness:
  "\<exists>evs. trace (snd (Request_Reconcile ''req'' (request_env (spread_request\<lparr>crq_Status := (crq_Status spread_request)\<lparr>crqs_State := []\<rparr>\<rparr>)) (start 0))) = evs
     \<and> (\<forall>q'. EvUpdateRequest q' \<in> set evs \<longrightarrow> composabilityRequestFinalizer \<in> set (om_Finalizers (crq_Meta q')))"
  using Request_Reconcile_finalizer [of "request_env (spread_request\<lparr>crq_Status := (crq_Status spread_request)\<lparr>crqs_State := []\<rparr>\<rparr>)" "''req''" "start 0"
      "spread_request\<lparr>crq_Status := (crq_Status spread_request)\<lparr>crqs_State := []\<rparr>\<rparr>" 0]
  by (simp add: request_env_def start_def)

end
