(* ===== verification/Deletion.thy ===== *)
theory Deletion
  imports RequestController
begin

text \<open>
  Liveness of deletion.  A request that is being deleted goes away: on an API server that stores
  what it is sent, and once the resources of the request are gone, at most three runs of
  \<^verbatim>\<open>Reconcile\<close> take it from any state in which it has the finalizer to its removal.
\<close>

section \<open>An API server that stores the request\<close>

text \<open>
  The named hypothesis: \<open>stored\<close> reads the request of that name in the world, and the calls the reconciler makes
  behave as documented: a get answers the stored object, a status update stores the status only, an update
  stores the rest, an object being deleted goes when its last finalizer is removed, the
  resources with the request's label are \<open>items\<close> (none, for a deletion), and nodes can be read.
\<close>

definition stores_request :: "'w env \<Rightarrow> string \<Rightarrow> ComposableResource list \<Rightarrow> ('w \<Rightarrow> ComposabilityRequest option) \<Rightarrow> bool" where
  "stores_request E name items stored \<longleftrightarrow> (\<forall>w q q0. stored w = Some q0 \<longrightarrow>
     (\<exists>w'. api_GetRequest E name w = (Inr q0, w') \<and> stored w' = Some q0)
     \<and> (\<exists>w'. api_ListResources E (Some name) w = (Inr items, w') \<and> stored w' = Some q0)
     \<and> (\<forall>n. \<exists>node w'. api_GetNode E n w = (Inr node, w') \<and> stored w' = Some q0)
     \<and> (crq_Name q = name \<longrightarrow>
          (\<exists>w'. api_UpdateRequestStatus E q w = (Inr (q0\<lparr>crq_Status := crq_Status q\<rparr>), w')
             \<and> stored w' = Some (q0\<lparr>crq_Status := crq_Status q\<rparr>))
        \<and> (\<exists>w'. api_UpdateRequest E q w = (Inr (q\<lparr>crq_Status := crq_Status q0\<rparr>), w')
             \<and> stored w' = (if om_DeletionTimestamp (crq_Meta q) \<noteq> None \<and> om_Finalizers (crq_Meta q) = [] then None
                  else Some (q\<lparr>crq_Status := crq_Status q0\<rparr>)))))"

lemma stores_requestD:
  assumes "stores_request E name items stored" "stored w = Some q0"
  obtains w1 w2 where "api_GetRequest E name w = (Inr q0, w1)" "stored w1 = Some q0"
    "api_ListResources E (Some name) w = (Inr items, w2)" "stored w2 = Some q0"
  using assms unfolding stores_request_def by meson

lemma stores_nodeD:
  assumes "stores_request E name items stored" "stored w = Some q0"
  obtains node w' where "api_GetNode E n w = (Inr node, w')" "stored w' = Some q0"
  using assms unfolding stores_request_def by meson

lemma stores_updateD:
  assumes "stores_request E name items stored" "stored w = Some q0" "crq_Name q = name"
  obtains w1 w2 where "api_UpdateRequestStatus E q w = (Inr (q0\<lparr>crq_Status := crq_Status q\<rparr>), w1)"
    "stored w1 = Some (q0\<lparr>crq_Status := crq_Status q\<rparr>)"
    "api_UpdateRequest E q w = (Inr (q\<lparr>crq_Status := crq_Status q0\<rparr>), w2)"
    "stored w2 = (if om_DeletionTimestamp (crq_Meta q) \<noteq> None \<and> om_Finalizers (crq_Meta q) = [] then None
       else Some (q\<lparr>crq_Status := crq_Status q0\<rparr>))"
proof -
  note laws = assms(1) [unfolded stores_request_def, rule_format, OF assms(2), of q]
  from laws assms(3) show ?thesis using that by blast
qed

section \<open>One run\<close>

lemma gc_passes:
  assumes "stores_request E name items stored" "stored (world s) = Some q" "theRequest s = q"
  obtains w where "Request_performGarbageCollection E s = (Ret (Inr False), s\<lparr>world := w\<rparr>)" "stored w = Some q"
proof (cases "srd_TargetNode (crq_Resource q) = []")
  case True
  then show ?thesis using that [of "world s"] assms by (simp add: Request_performGarbageCollection_def prog_eval)
next
  case False
  obtain node w where "api_GetNode E (srd_TargetNode (crq_Resource q)) (world s) = (Inr node, w)" "stored w = Some q"
    using stores_nodeD [OF assms(1,2)] by blast
  with False show ?thesis using that [of w] assms
    by (simp add: Request_performGarbageCollection_def CheckNodeExisted_def getNode_def prog_eval)
qed

text \<open>A run on the stored request comes to its handler, in a state where the request is still stored.\<close>

lemma run_to_handler:
  assumes "stores_request E name items stored" "stored (world s) = Some q"
  obtains w where "stored w = Some q"
    "Request_Reconcile name E s = bindM (request_dispatch (crq_State q)) (\<lambda>(result, err). case err of
         Some err \<Rightarrow> Request_requeueOnErr err | None \<Rightarrow> ret (result, None)) E (s\<lparr>theRequest := q, world := w\<rparr>)"
proof -
  obtain w1 where w1: "api_GetRequest E name (world s) = (Inr q, w1)" "stored w1 = Some q"
    using stores_requestD [OF assms] by metis
  let ?s = "s\<lparr>world := w1, theRequest := q\<rparr>"
  obtain w where w: "Request_performGarbageCollection E ?s = (Ret (Inr False), ?s\<lparr>world := w\<rparr>)" "stored w = Some q"
    using gc_passes [OF assms(1), of ?s q] w1 by auto
  show ?thesis
    by (rule that [OF w(2)])
       (simp add: Reconcile_on_request [OF w1(1)] Request_handleComposabilityRequestChange_def prog_eval w(1))
qed

definition with_state :: "string \<Rightarrow> ComposabilityRequest \<Rightarrow> ComposabilityRequest" where
  "with_state st q = q\<lparr>crq_Status := (crq_Status q)\<lparr>crqs_State := st\<rparr>\<rparr>"

lemma set_state_stores:
  assumes "stores_request E name items stored" "stored (world s) = Some q" "theRequest s = q" "crq_Name q = name"
  obtains s' where "set_state st E s = (Ret (\<lparr>RequeueAfter = 0\<rparr>, None), s')" "stored (world s') = Some (with_state st q)"
proof -
  obtain w where "api_UpdateRequestStatus E (with_state st q) (world s) = (Inr (with_state st q), w)" "stored w = Some (with_state st q)"
    using stores_updateD [OF assms(1,2), of "with_state st q"] assms(4) by (auto simp: with_state_def)
  then show ?thesis
    using assms(3) by (intro that) (auto simp: set_state_def upd_request_status_def upd_request_def return_update_request_def
        Status_Update_Request_def with_state_def prog_eval)
qed

text \<open>The steps of a request that is being deleted.\<close>

lemma deleting_steps:
  assumes "stores_request E name [] stored" "stored (world s) = Some q" "crq_Name q = name" "om_DeletionTimestamp (crq_Meta q) \<noteq> None"
  shows "crq_State q \<in> {''NodeAllocating'', ''Updating'', ''Running''}
      \<Longrightarrow> stored (world (snd (Request_Reconcile name E s))) = Some (with_state ''Cleaning'' q)"
    and "crq_State q = ''Cleaning'' \<Longrightarrow> stored (world (snd (Request_Reconcile name E s))) = Some (with_state ''Deleting'' q)"
    and "crq_State q = ''Deleting'' \<Longrightarrow> set (om_Finalizers (crq_Meta q)) \<subseteq> {composabilityRequestFinalizer}
      \<Longrightarrow> stored (world (snd (Request_Reconcile name E s))) = None"
proof -
  obtain w where w: "stored w = Some q"
    "Request_Reconcile name E s = bindM (request_dispatch (crq_State q)) (\<lambda>(result, err). case err of
         Some err \<Rightarrow> Request_requeueOnErr err | None \<Rightarrow> ret (result, None)) E (s\<lparr>theRequest := q, world := w\<rparr>)"
    using run_to_handler [OF assms(1,2)] by blast
  let ?s = "s\<lparr>theRequest := q, world := w\<rparr>"
  obtain s' where clean: "set_state ''Cleaning'' E ?s = (Ret (\<lparr>RequeueAfter = 0\<rparr>, None), s')" "stored (world s') = Some (with_state ''Cleaning'' q)"
    using set_state_stores [OF assms(1), of ?s q] w(1) assms(3) by auto
  show "stored (world (snd (Request_Reconcile name E s))) = Some (with_state ''Cleaning'' q)"
    if "crq_State q \<in> {''NodeAllocating'', ''Updating'', ''Running''}"
    using that assms(4) clean w(2)
    by (auto simp: request_dispatch_def Request_handleNodeAllocatingState_def Request_handleUpdatingState_def
        Request_handleRunningState_def prog_eval set_state_def)
  obtain w2 where w2: "api_ListResources E (Some name) w = (Inr [], w2)" "stored w2 = Some q"
    using stores_requestD [OF assms(1) w(1)] by metis
  obtain s2 where "set_state ''Deleting'' E (?s\<lparr>world := w2\<rparr>) = (Ret (\<lparr>RequeueAfter = 0\<rparr>, None), s2)" "stored (world s2) = Some (with_state ''Deleting'' q)"
    using set_state_stores [OF assms(1), of "?s\<lparr>world := w2\<rparr>" q] w2 assms(3) by auto
  then show "stored (world (snd (Request_Reconcile name E s))) = Some (with_state ''Deleting'' q)" if "crq_State q = ''Cleaning''"
    using that w(2) w2 assms(3) by (simp add: request_dispatch_def Request_handleCleaningState_def prog_eval)
  show "stored (world (snd (Request_Reconcile name E s))) = None"
    if "crq_State q = ''Deleting''" "set (om_Finalizers (crq_Meta q)) \<subseteq> {composabilityRequestFinalizer}"
  proof -
    let ?q = "q\<lparr>crq_Meta := (crq_Meta q)\<lparr>om_Finalizers := removeAll composabilityRequestFinalizer (om_Finalizers (crq_Meta q))\<rparr>\<rparr>"
    have "removeAll composabilityRequestFinalizer (om_Finalizers (crq_Meta q)) = []" using that(2) by (auto simp: removeAll_filter_not_eq filter_empty_conv)
    then obtain w3 where "api_UpdateRequest E ?q w = (Inr (?q\<lparr>crq_Status := crq_Status q\<rparr>), w3)" "stored w3 = None"
      using stores_updateD [OF assms(1) w(1), of ?q] assms(3,4) by auto
    then show ?thesis
      using that(1) w(2) by (simp add: request_dispatch_def Request_handleDeletingState_def upd_request_finalizers_def upd_request_def
          Update_Request_def doNotRequeue_def prog_eval)
  qed
qed

section \<open>The deletion completes\<close>

primrec reconcile_runs :: "nat \<Rightarrow> string \<Rightarrow> 'w env \<Rightarrow> 'w sys \<Rightarrow> 'w sys" where
  "reconcile_runs 0 name E s = s"
| "reconcile_runs (Suc n) name E s = reconcile_runs n name E (snd (Request_Reconcile name E s))"

lemma with_state_fields [simp]:
  "crq_State (with_state st q) = st" "crq_Meta (with_state st q) = crq_Meta q"
  by (simp_all add: with_state_def)

text \<open>
  C10.  A request that is being deleted goes away.  On an API server that stores what it is sent and lists no resource
  of the request any more, a request with a deletion timestamp, in any state after the first and with no finalizer but the
  operator's, is removed within three runs of \<^verbatim>\<open>Reconcile\<close>.
\<close>

theorem request_deletion_completes:
  assumes "stores_request E name [] stored" "stored (world s) = Some q" "crq_Name q = name"
    and "om_DeletionTimestamp (crq_Meta q) \<noteq> None" "set (om_Finalizers (crq_Meta q)) \<subseteq> {composabilityRequestFinalizer}"
    and "crq_State q \<in> {''NodeAllocating'', ''Updating'', ''Running'', ''Cleaning'', ''Deleting''}"
  shows "\<exists>n \<le> 3. stored (world (reconcile_runs n name E s)) = None"
proof -
  have deleting: "stored (world (reconcile_runs 1 name E s)) = None"
    if "stored (world s) = Some q'" "crq_State q' = ''Deleting''" "crq_Meta q' = crq_Meta q" for s q'
    using deleting_steps(3) [OF assms(1) that(1)] that(2,3) assms(3-5) by simp
  have cleaning: "stored (world (reconcile_runs 2 name E s)) = None"
    if "stored (world s) = Some q'" "crq_State q' = ''Cleaning''" "crq_Meta q' = crq_Meta q" for s q'
    using deleting_steps(2) [OF assms(1) that(1)] deleting [of "snd (Request_Reconcile name E s)" "with_state ''Deleting'' q'"]
      that(2,3) assms(3,4) by (simp add: numeral_2_eq_2)
  have "\<exists>n \<in> {1, 2, 3}. stored (world (reconcile_runs n name E s)) = None"
    using assms(6) unfolding insert_iff
  proof (elim disjE)
    assume "crq_State q = ''Cleaning''"
    from cleaning [OF assms(2) this refl] show ?thesis by blast
  next
    assume "crq_State q = ''Deleting''"
    from deleting [OF assms(2) this refl] show ?thesis by blast
  qed (use deleting_steps(1) [OF assms(1-4)] cleaning [of "snd (Request_Reconcile name E s)" "with_state ''Cleaning'' q"]
       in \<open>simp_all add: numeral_3_eq_3 numeral_2_eq_2\<close>)
  then obtain n where "n \<in> {1, 2, 3}" and gone: "stored (world (reconcile_runs n name E s)) = None" by blast
  then have "n \<le> 3" by auto
  with gone show ?thesis by blast
qed

text \<open>A server that is its one request.\<close>

definition store_env :: "ComposabilityRequest option env" where
  "store_env = void_env\<lparr>
     api_GetRequest := (\<lambda>_ w. case w of Some q \<Rightarrow> (Inr q, w) | None \<Rightarrow> missing w),
     api_ListResources := (\<lambda>_ w. (Inr [], w)), api_GetNode := (\<lambda>n w. (Inr (gpu_node n), w)),
     api_UpdateRequestStatus := (\<lambda>q w. case w of
         Some q0 \<Rightarrow> (Inr (q0\<lparr>crq_Status := crq_Status q\<rparr>), Some (q0\<lparr>crq_Status := crq_Status q\<rparr>)) | None \<Rightarrow> missing w),
     api_UpdateRequest := (\<lambda>q w. case w of
         Some q0 \<Rightarrow> (Inr (q\<lparr>crq_Status := crq_Status q0\<rparr>),
           if om_DeletionTimestamp (crq_Meta q) \<noteq> None \<and> om_Finalizers (crq_Meta q) = [] then None
           else Some (q\<lparr>crq_Status := crq_Status q0\<rparr>))
       | None \<Rightarrow> missing w)\<rparr>"

definition leaving_request :: ComposabilityRequest where
  "leaving_request = with_state ''Running'' (spread_request\<lparr>crq_Meta := (crq_Meta spread_request)\<lparr>
     om_Finalizers := [composabilityRequestFinalizer], om_DeletionTimestamp := Some 0\<rparr>\<rparr>)"

theorem request_deletion_completes_witness:
  "\<exists>n \<le> 3. world (reconcile_runs n ''req'' store_env (start (Some leaving_request))) = None"
proof -
  have "stores_request store_env ''req'' [] id" by (simp add: stores_request_def store_env_def)
  from request_deletion_completes [OF this, of "start (Some leaving_request)" leaving_request] show ?thesis
    by (simp add: start_def leaving_request_def spread_request_def empty_meta_def)
qed

end
