(* ===== verification/Attachment.thy ===== *)
theory Attachment
  imports ResourceDeletion Deletion
begin

text \<open>
  Liveness of attachment.  A new resource comes online: on an API server that stores what it is sent, with a service that
  hands out a device that then becomes visible, two runs of \<^verbatim>\<open>Reconcile\<close> take it through Attaching to Online.  And a request whose
  resources are online comes to run: the runs that the watch on the resources causes copy their status, and a run on the request follows.
\<close>

section \<open>The hypotheses on the services\<close>

text \<open>The status with the device, and with an error text: a refresh of the node that fails leaves its error there.\<close>

definition with_device :: "string \<Rightarrow> string \<Rightarrow> ComposableResource \<Rightarrow> string \<Rightarrow> ComposableResource" where
  "with_device d c r e = with_status (\<lambda>st. st\<lparr>crst_Error := e, crst_DeviceID := d, crst_CDIDeviceID := c\<rparr>) r"

definition answers :: "'w env \<Rightarrow> ('w \<Rightarrow> ComposableResource option) \<Rightarrow> (string \<Rightarrow> ComposableResource) \<Rightarrow> ('w, 'a) go \<Rightarrow> bool" where
  "answers E stored R m \<longleftrightarrow> (\<forall>e. \<exists>x. gives E stored (R e) m x)"

text \<open>The provider hands out the device \<open>d\<close>; the steps that make the node notice it come back, with or without an error; the
  GPU is visible then.\<close>

definition attach_complies :: "'w env \<Rightarrow> ('w \<Rightarrow> ComposableResource option) \<Rightarrow> 'w CdiProvider \<Rightarrow> ComposableResource \<Rightarrow> string \<Rightarrow> string \<Rightarrow> bool" where
  "attach_complies E stored P r d c \<longleftrightarrow> (let t = os_Getenv E ''DEVICE_RESOURCE_TYPE''; n = cr_TargetNode r; R = with_device d c r in
     gives E stored r (AddResource P) (d, c, None)
     \<and> (if t = ''DEVICE_PLUGIN'' then
          answers E stored R (CheckNoGPULoads n None)
          \<and> answers E stored R (RestartDaemonset ''nvidia-gpu-operator'' ''nvidia-device-plugin-daemonset'')
          \<and> answers E stored R (RestartDaemonset ''nvidia-gpu-operator'' ''nvidia-dcgm'')
        else if t = ''DRA'' then
          answers E stored R (RunNvidiaSmi n)
          \<and> answers E stored R (RestartDaemonset ''nvidia-dra-driver-gpu'' ''nvidia-dra-driver-gpu-kubelet-plugin'')
        else True)
     \<and> (\<forall>e. gives E stored (R e) (CheckGPUVisible t (R e)) (Inr True)))"

section \<open>One run\<close>

text \<open>A part of the handler that goes on, and leaves the resource as it is but for the error text.\<close>

definition settles :: "'w env \<Rightarrow> ('w \<Rightarrow> ComposableResource option) \<Rightarrow> (string \<Rightarrow> ComposableResource) \<Rightarrow> ('w, 'a option) go \<Rightarrow> bool" where
  "settles E stored R m \<longleftrightarrow> (\<forall>s e. theResource s = R e \<and> stored (world s) = Some (R e) \<longrightarrow>
     (\<exists>s' e'. m E s = (Ret None, s') \<and> theResource s' = R e' \<and> stored (world s') = Some (R e')))"

lemma settlesD:
  assumes "settles E stored R m" "theResource s = R e" "stored (world s) = Some (R e)"
  obtains s' e' where "m E s = (Ret None, s')" "theResource s' = R e'" "stored (world s') = Some (R e')"
  using assms unfolding settles_def by meson

lemma settles_ret: "settles E stored R (ret None)"
  by (auto simp: settles_def ret_def)

lemma settles_checkM:
  fixes E :: "'w env"
  assumes "settles E stored R m" "settles E stored R k"
  shows "settles E stored R (checkM m h k)"
  unfolding settles_def
proof (intro allI impI, elim conjE)
  fix s :: "'w sys" and e
  assume s: "theResource s = R e" "stored (world s) = Some (R e)"
  obtain s1 e1 where 1: "m E s = (Ret None, s1)" "theResource s1 = R e1" "stored (world s1) = Some (R e1)"
    by (rule settlesD [OF assms(1) s])
  obtain s2 e2 where 2: "k E s1 = (Ret None, s2)" "theResource s2 = R e2" "stored (world s2) = Some (R e2)"
    by (rule settlesD [OF assms(2) 1(2,3)])
  have "checkM m h k E s = (Ret None, s2)" by (simp add: run_checkM(2) [where m = m, OF 1(1)] 2(1))
  with 2(2,3) show "\<exists>s' e'. checkM m h k E s = (Ret None, s') \<and> theResource s' = R e' \<and> stored (world s') = Some (R e')" by blast
qed

lemma answersD:
  assumes "answers E stored R m" "theResource s = R e" "stored (world s) = Some (R e)"
  obtains x s' where "m E s = (Ret x, s')" "theResource s' = R e" "stored (world s') = Some (R e)"
proof -
  obtain x where "gives E stored (R e) m x" using assms(1) unfolding answers_def by blast
  from givesD [OF this assms(2,3)] show ?thesis using that by blast
qed

lemma settles_ignore:
  fixes E :: "'w env"
  assumes "answers E stored R m" "settles E stored R k"
  shows "settles E stored R (bindM m (\<lambda>_. k))"
  unfolding settles_def
proof (intro allI impI, elim conjE)
  fix s :: "'w sys" and e
  assume s: "theResource s = R e" "stored (world s) = Some (R e)"
  obtain x s1 where 1: "m E s = (Ret x, s1)" "theResource s1 = R e" "stored (world s1) = Some (R e)"
    by (rule answersD [OF assms(1) s])
  obtain s2 e2 where 2: "k E s1 = (Ret None, s2)" "theResource s2 = R e2" "stored (world s2) = Some (R e2)"
    by (rule settlesD [OF assms(2) 1(2,3)])
  have "bindM m (\<lambda>_. k) E s = (Ret None, s2)" by (simp add: run_bindM(1) [where m = m, OF 1(1)] 2(1))
  with 2(2,3) show "\<exists>s' e'. bindM m (\<lambda>_. k) E s = (Ret None, s') \<and> theResource s' = R e' \<and> stored (world s') = Some (R e')" by blast
qed

text \<open>A step whose error is only reported goes on, whatever it gives.\<close>

lemma settles_report:
  fixes E :: "'w env"
  assumes "stores_resource E name stored" "cr_Name r = name" "answers E stored (with_device d c r) m"
  shows "settles E stored (with_device d c r) (report m)"
  unfolding settles_def
proof (intro allI impI, elim conjE)
  fix s :: "'w sys" and e
  let ?R = "with_device d c r"
  assume s: "theResource s = ?R e" "stored (world s) = Some (?R e)"
  obtain x s1 where 1: "m E s = (Ret x, s1)" "theResource s1 = ?R e" "stored (world s1) = Some (?R e)"
    by (rule answersD [OF assms(3) s])
  show "\<exists>s' e'. report m E s = (Ret None, s') \<and> theResource s' = ?R e' \<and> stored (world s') = Some (?R e')"
  proof (cases x)
    case None
    then have "report m E s = (Ret None, s1)" unfolding report_def run_bindM(1) [where m = m, OF 1(1)] by (simp add: run_ret)
    with 1 show ?thesis by blast
  next
    case (Some err)
    let ?f = "crst_Error_update (\<lambda>_. err_Error err)"
    have f: "with_status ?f (?R e) = ?R (err_Error err)" by (simp add: with_device_def with_status_def)
    have "cr_Name (?R e) = name" using assms(2) by (simp add: with_device_def with_status_def)
    then obtain s2 where 2: "thenM (upd_status ?f) (checkM Status_Update_Resource (\<lambda>err. bindM (Resource_requeueOnErr err) (\<lambda>x. ret (Some x))) (ret None)) E s1
        = ret None E s2" "stored (world s2) = Some (?R (err_Error err))" "theResource s2 = ?R (err_Error err)"
      using write_stores [OF assms(1) 1(3,2), of ?f "\<lambda>e. case e of Some e \<Rightarrow> bindM (Resource_requeueOnErr e) (\<lambda>x. ret (Some x)) | None \<Rightarrow> ret None"]
      unfolding checkM_def f by auto
    have "report m E s = (Ret None, s2)"
      unfolding report_def run_bindM(1) [where m = m, OF 1(1)] Some option.case 2(1) by (rule run_ret)
    with 2(2,3) show ?thesis by blast
  qed
qed

lemma refresh_settles:
  assumes "stores_resource E name stored" "cr_Name r = name" "attach_complies E stored P r d c"
  shows "settles E stored (with_device d c r) (refresh_node (os_Getenv E ''DEVICE_RESOURCE_TYPE''))"
proof -
  define t where "t = os_Getenv E ''DEVICE_RESOURCE_TYPE''"
  let ?S = "settles E stored (with_device d c r)" and ?n = "cr_TargetNode r"
  note report = settles_report [OF assms(1,2), where d = d and c = c]
  have plugin: "?S (bindM (CheckNoGPULoads ?n None) (\<lambda>_.
       checkM (report (RestartDaemonset ''nvidia-gpu-operator'' ''nvidia-device-plugin-daemonset'')) (\<lambda>x. ret (Some x))
       (report (RestartDaemonset ''nvidia-gpu-operator'' ''nvidia-dcgm''))))" if "t = ''DEVICE_PLUGIN''"
    using assms(3) that by (intro settles_ignore settles_checkM report) (simp_all add: attach_complies_def t_def Let_def)
  have dra: "?S (checkM (report (RunNvidiaSmi ?n)) (\<lambda>x. ret (Some x))
       (report (RestartDaemonset ''nvidia-dra-driver-gpu'' ''nvidia-dra-driver-gpu-kubelet-plugin'')))" if "t = ''DRA''"
    using assms(3) that by (intro settles_checkM report) (simp_all add: attach_complies_def t_def Let_def)
  let ?body = "if t = ''DEVICE_PLUGIN'' then bindM (CheckNoGPULoads ?n None) (\<lambda>_.
       checkM (report (RestartDaemonset ''nvidia-gpu-operator'' ''nvidia-device-plugin-daemonset'')) (\<lambda>x. ret (Some x))
       (report (RestartDaemonset ''nvidia-gpu-operator'' ''nvidia-dcgm'')))
     else if t = ''DRA'' then checkM (report (RunNvidiaSmi ?n)) (\<lambda>x. ret (Some x))
       (report (RestartDaemonset ''nvidia-dra-driver-gpu'' ''nvidia-dra-driver-gpu-kubelet-plugin''))
     else ret None"
  have "?S ?body" by (simp add: plugin dra settles_ret)
  moreover have "refresh_node t E s = ?body E s" if "theResource s = with_device d c r e" for s e
    unfolding refresh_node_def run_getM that by (simp add: with_device_def with_status_def)
  ultimately show ?thesis unfolding settles_def t_def [symmetric] by fastforce
qed

lemma attach_stores:
  assumes "stores_resource E name stored" "stored (world s) = Some r" "theResource s = r" "cr_Name r = name"
    and "cr_DeviceID r = []" "gives E stored r (AddResource P) (d, c, None)"
  obtains s' where "attach_device P E s = (Ret None, s')" "stored (world s') = Some (with_device d c r [])" "theResource s' = with_device d c r []"
proof -
  obtain s1 where 1: "AddResource P E s = (Ret (d, c, None), s1)" "theResource s1 = r" "stored (world s1) = Some r"
    by (rule givesD [OF assms(6,3,2)])
  let ?f = "\<lambda>st. st\<lparr>crst_Error := [], crst_DeviceID := d, crst_CDIDeviceID := c\<rparr>"
  obtain s2 where 2: "thenM (upd_status ?f) (checkM Status_Update_Resource (\<lambda>err. bindM (Resource_requeueOnErr err) (\<lambda>x. ret (Some x))) (ret None)) E s1
      = ret None E s2" "stored (world s2) = Some (with_device d c r [])" "theResource s2 = with_device d c r []"
    using write_stores [OF assms(1) 1(3,2) assms(4), of ?f "\<lambda>e. case e of Some e \<Rightarrow> bindM (Resource_requeueOnErr e) (\<lambda>x. ret (Some x)) | None \<Rightarrow> ret None"]
    unfolding checkM_def with_device_def by auto
  have "attach_device P E s = (Ret None, s2)"
    unfolding attach_device_def run_getM assms(3) if_P [OF assms(5)] run_bindM(1) [where m = "AddResource P", OF 1(1)] case_prod_conv option.case 2(1)
    by (rule run_ret)
  from this 2(2,3) show ?thesis by (rule that)
qed

definition online :: "string \<Rightarrow> string \<Rightarrow> ComposableResource \<Rightarrow> ComposableResource" where
  "online d c r = with_status (\<lambda>st. st\<lparr>crst_State := ''Online'', crst_Error := [], crst_DeviceID := d, crst_CDIDeviceID := c\<rparr>) r"

lemma attaching_stores:
  assumes "stores_resource E name stored" "stored (world s) = Some r" "theResource s = r" "cr_Name r = name"
    and "om_DeletionTimestamp (cr_Meta r) = None" "cr_DeviceID r = []" "attach_complies E stored P r d c"
  obtains s' where "Resource_handleAttachingState P E s = (Ret (\<lparr>RequeueAfter = 0\<rparr>, None), s')" "stored (world s') = Some (online d c r)"
proof -
  define t where "t = os_Getenv E ''DEVICE_RESOURCE_TYPE''"
  let ?R = "with_device d c r"
  have add: "gives E stored r (AddResource P) (d, c, None)" and vis: "\<And>e. gives E stored (?R e) (CheckGPUVisible t (?R e)) (Inr True)"
    using assms(7) by (auto simp: attach_complies_def t_def Let_def)
  obtain s1 where 1: "attach_device P E s = (Ret None, s1)" "stored (world s1) = Some (?R [])" "theResource s1 = ?R []"
    by (rule attach_stores [OF assms(1-4,6) add])
  obtain s2 e where 2: "refresh_node t E s1 = (Ret None, s2)" "theResource s2 = ?R e" "stored (world s2) = Some (?R e)"
    by (rule settlesD [OF refresh_settles [OF assms(1,4,7), folded t_def] 1(3,2)])
  obtain s3 where 3: "CheckGPUVisible t (?R e) E s2 = (Ret (Inr True), s3)" "theResource s3 = ?R e" "stored (world s3) = Some (?R e)"
    by (rule givesD [OF vis 2(2,3)])
  let ?f = "\<lambda>st. st\<lparr>crst_State := ''Online'', crst_Error := []\<rparr>"
  have name: "cr_Name (?R e) = name" using assms(4) by (simp add: with_device_def with_status_def)
  obtain s4 where 4: "thenM (upd_status ?f) return_update E s3 = ret (\<lparr>RequeueAfter = 0\<rparr>, None) E s4" "stored (world s4) = Some (with_status ?f (?R e))"
    unfolding return_update_def by (rule write_stores [OF assms(1) 3(3,2) name])
  have "recognise t E s2 = (Ret (\<lparr>RequeueAfter = 0\<rparr>, None), s4)"
    unfolding recognise_def run_getM 2(2) run_tryM(2) [where m = "CheckGPUVisible t (?R e)", OF 3(1)] if_True 4(1) by (rule run_ret)
  then have "checkM (attach_device P) (\<lambda>x. ret x) (checkM (refresh_node t) (\<lambda>x. ret x) (recognise t)) E s = (Ret (\<lparr>RequeueAfter = 0\<rparr>, None), s4)"
    unfolding run_checkM(2) [where m = "attach_device P", OF 1(1)] run_checkM(2) [where m = "refresh_node t", OF 2(1)] .
  then have "Resource_handleAttachingState P E s = (Ret (\<lparr>RequeueAfter = 0\<rparr>, None), s4)"
    unfolding Resource_handleAttachingState_def Getenv_def run_getM assms(3,5) run_bindM(1) [where m = "pureE _", OF eval_calls(3)] t_def [symmetric]
    by (simp add: run_bindM(1) [where m = "pureE _", OF eval_calls(3)] t_def)
  moreover have "with_status ?f (?R e) = online d c r" by (simp add: online_def with_device_def with_status_def)
  ultimately show ?thesis using 4(2) that by metis
qed

text \<open>The first run: the finalizer is added and the resource is Attaching.\<close>

definition finalized :: "ComposableResource \<Rightarrow> ComposableResource" where
  "finalized r = (if composabilityRequestFinalizer \<in> set (om_Finalizers (cr_Meta r)) then r
     else r\<lparr>cr_Meta := (cr_Meta r)\<lparr>om_Finalizers := om_Finalizers (cr_Meta r) @ [composabilityRequestFinalizer]\<rparr>\<rparr>)"

definition taken_up :: "ComposableResource \<Rightarrow> ComposableResource" where
  "taken_up r = with_status (\<lambda>st. st\<lparr>crst_State := ''Attaching'', crst_Error := []\<rparr>) (finalized r)"

lemma finalized_fields [simp]:
  "cr_Status (finalized r) = cr_Status r" "cr_Spec (finalized r) = cr_Spec r" "cr_Name (finalized r) = cr_Name r"
  "om_DeletionTimestamp (cr_Meta (finalized r)) = om_DeletionTimestamp (cr_Meta r)" "label (finalized r) k = label r k"
  by (simp_all add: finalized_def label_def)

lemma finalized_has: "composabilityRequestFinalizer \<in> set (om_Finalizers (cr_Meta (finalized r)))"
  by (simp add: finalized_def)

lemma taken_up_fields [simp]:
  "cr_Name (taken_up r) = cr_Name r" "cr_DeviceID (taken_up r) = cr_DeviceID r" "cr_State (taken_up r) = ''Attaching''"
  "om_DeletionTimestamp (cr_Meta (taken_up r)) = om_DeletionTimestamp (cr_Meta r)" "cr_Spec (taken_up r) = cr_Spec r"
  "cr_Meta (taken_up r) = cr_Meta (finalized r)"
  by (simp_all add: taken_up_def with_status_def)

text \<open>What the handler reads from the labels of a resource made for detaching.\<close>

definition labelled :: "ComposableResource \<Rightarrow> ComposableResource" where
  "labelled r = (if label r readyDeviceLabel \<noteq> [] then
     with_status (\<lambda>st. st\<lparr>crst_DeviceID := label r readyDeviceLabel,
       crst_CDIDeviceID := (if label r readyCDIDeviceLabel \<noteq> [] then label r readyCDIDeviceLabel else cr_CDIDeviceID r)\<rparr>) r
     else r)"

lemma labelled_eq:
  "(\<lambda>r. if label r readyDeviceLabel \<noteq> [] then
      r\<lparr>cr_Status := (cr_Status r)\<lparr>crst_DeviceID := label r readyDeviceLabel,
          crst_CDIDeviceID := (if label r readyCDIDeviceLabel \<noteq> [] then label r readyCDIDeviceLabel else cr_CDIDeviceID r)\<rparr>\<rparr>
    else r) = labelled"
  by (simp add: fun_eq_iff labelled_def with_status_def)

lemma labelled_finalized: "finalized (labelled r) = labelled (finalized r)"
  by (simp add: labelled_def with_status_def finalized_def label_def)

lemma none_stores:
  assumes "stores_resource E name stored" "stored (world s) = Some r" "theResource s = r" "cr_Name r = name"
    and "om_DeletionTimestamp (cr_Meta r) = None"
  obtains s' where "Resource_handleNoneState E s = (Ret (\<lparr>RequeueAfter = 0\<rparr>, None), s')" "stored (world s') = Some (taken_up (labelled r))"
proof -
  let ?fin = "if composabilityRequestFinalizer \<notin> set (om_Finalizers (cr_Meta r)) then
      thenM (upd_finalizers (\<lambda>fs. fs @ [composabilityRequestFinalizer])) Update_Resource else ret None"
  obtain s1 where 1: "?fin E s = (Ret None, s1)" "stored (world s1) = Some (finalized r)" "theResource s1 = finalized r"
  proof (cases "composabilityRequestFinalizer \<in> set (om_Finalizers (cr_Meta r))")
    case True
    then show ?thesis using that [of s] assms by (simp add: finalized_def run_ret)
  next
    case False
    note result = that
    have same: "(finalized r)\<lparr>cr_Status := cr_Status r\<rparr> = finalized r" by (simp add: finalized_def)
    obtain w where "api_UpdateResource E (finalized r) (world s) = (Inr ((finalized r)\<lparr>cr_Status := cr_Status r\<rparr>), w)"
      "stored w = (if om_DeletionTimestamp (cr_Meta (finalized r)) \<noteq> None \<and> om_Finalizers (cr_Meta (finalized r)) = [] then None
         else Some ((finalized r)\<lparr>cr_Status := cr_Status r\<rparr>))"
      by (rule resource_updateD [OF assms(1,2), of "finalized r"]) (simp_all add: assms(4))
    then have w: "api_UpdateResource E (finalized r) (world s) = (Inr (finalized r), w)" "stored w = Some (finalized r)"
      by (simp_all add: same assms(5))
    then show ?thesis using False assms(3)
      by (intro result [of "s\<lparr>theResource := finalized r, world := w, trace := trace s @ [EvUpdateResource (finalized r)]\<rparr>"])
         (simp_all add: upd_finalizers_def upd_resource_def Update_Resource_def finalized_def prog_eval)
  qed
  let ?f = "\<lambda>st. st\<lparr>crst_State := ''Attaching'', crst_Error := []\<rparr>" and ?r = "labelled (finalized r)"
  have g: "thenM (upd_resource labelled) k E s1 = k E (s1\<lparr>theResource := ?r\<rparr>)" for k :: "('a, reconciled) go"
    using 1(3) by (simp add: upd_resource_def)
  let ?u = "with_status ?f ?r"
  have u: "(finalized r)\<lparr>cr_Status := cr_Status ?u\<rparr> = ?u" by (simp add: with_status_def labelled_def)
  obtain w where w: "api_UpdateResourceStatus E ?u (world s1) = (Inr ((finalized r)\<lparr>cr_Status := cr_Status ?u\<rparr>), w)"
    "stored w = Some ((finalized r)\<lparr>cr_Status := cr_Status ?u\<rparr>)"
    by (rule resource_updateD [OF assms(1) 1(2), of ?u]) (simp add: assms(4) with_status_def labelled_def)
  let ?s2 = "s1\<lparr>world := w, trace := trace s1 @ [EvUpdateResourceStatus ?u], theResource := ?u\<rparr>"
  have 2: "thenM (upd_status ?f) return_update E (s1\<lparr>theResource := ?r\<rparr>) = (Ret (\<lparr>RequeueAfter = 0\<rparr>, None), ?s2)"
    using w(1) [unfolded u]
    by (simp add: upd_status_def upd_resource_def return_update_def Status_Update_Resource_def with_status_def prog_eval)
  have "Resource_handleNoneState E s = (Ret (\<lparr>RequeueAfter = 0\<rparr>, None), ?s2)"
    unfolding Resource_handleNoneState_def labelled_eq run_getM assms(3) run_checkM(2) [where m = ?fin, OF 1(1)] g 2 ..
  moreover have "?u = taken_up (labelled r)" by (simp add: taken_up_def labelled_finalized)
  moreover have "stored (world ?s2) = Some ?u" using w(2) [unfolded u] by simp
  ultimately show ?thesis using that by metis
qed

section \<open>A new resource comes online\<close>

lemma attachment_steps:
  assumes "stores_resource E name stored" "adapter_gives E P" "stored (world s) = Some r" "cr_Name r = name"
    and "om_DeletionTimestamp (cr_Meta r) = None"
  shows "cr_State r = [] \<Longrightarrow> stored (world (snd (Resource_Reconcile name E s))) = Some (taken_up (labelled r))"
    and "cr_State r = ''Attaching'' \<Longrightarrow> cr_DeviceID r = [] \<Longrightarrow> attach_complies E stored P r d c
      \<Longrightarrow> stored (world (snd (Resource_Reconcile name E s))) = Some (online d c r)"
proof -
  obtain s' where s': "stored (world s') = Some r" "theResource s' = r"
    and run: "Resource_Reconcile name E s = bindM (dispatch P (cr_State r)) (\<lambda>(result, err). case err of
       Some err \<Rightarrow> Resource_requeueOnErr err | None \<Rightarrow> ret (result, None)) E s'"
    by (rule resource_run_to_handler [OF assms(1-3)])
  show "stored (world (snd (Resource_Reconcile name E s))) = Some (taken_up (labelled r))" if "cr_State r = []"
  proof -
    note pre = that
    obtain s2 where "Resource_handleNoneState E s' = (Ret (\<lparr>RequeueAfter = 0\<rparr>, None), s2)" "stored (world s2) = Some (taken_up (labelled r))"
      by (rule none_stores [OF assms(1) s' assms(4,5)])
    with pre show ?thesis unfolding run by (simp add: dispatch_def run_bindM(1) run_ret)
  qed
  show "stored (world (snd (Resource_Reconcile name E s))) = Some (online d c r)"
    if "cr_State r = ''Attaching''" "cr_DeviceID r = []" "attach_complies E stored P r d c"
  proof -
    note pre = that
    obtain s2 where "Resource_handleAttachingState P E s' = (Ret (\<lparr>RequeueAfter = 0\<rparr>, None), s2)" "stored (world s2) = Some (online d c r)"
      by (rule attaching_stores [OF assms(1) s' assms(4,5) pre(2,3)])
    with pre(1) show ?thesis unfolding run by (simp add: dispatch_def run_bindM(1) run_ret)
  qed
qed

text \<open>
  C12.  A new resource comes online.  On an API server that stores what it is sent, with a provider the adapter gives that hands out a device, and
  a node on which the device becomes visible (whether or not the steps that make the node notice it succeed), two runs of \<^verbatim>\<open>Reconcile\<close>
  take a resource that has no state yet, is not being deleted and was not made for detaching to Online, with
  that device in its status, no error and the finalizer set.
\<close>

theorem resource_comes_online:
  assumes "stores_resource E name stored" "adapter_gives E P" "stored (world s) = Some r" "cr_Name r = name"
    and "om_DeletionTimestamp (cr_Meta r) = None" "cr_State r = []" "label r readyDeviceLabel = []" "cr_DeviceID r = []"
    and "attach_complies E stored P (taken_up r) d c"
  shows "\<exists>r'. stored (world (resource_runs 2 name E s)) = Some r' \<and> cr_State r' = ''Online'' \<and> cr_Error r' = []
     \<and> cr_DeviceID r' = d \<and> cr_CDIDeviceID r' = c \<and> cr_Spec r' = cr_Spec r \<and> composabilityRequestFinalizer \<in> set (om_Finalizers (cr_Meta r'))"
proof -
  let ?s = "snd (Resource_Reconcile name E s)"
  have s1: "stored (world ?s) = Some (taken_up r)"
    using attachment_steps(1) [OF assms(1-5,6)] assms(7) by (simp add: labelled_def)
  have t: "cr_Name (taken_up r) = name" "om_DeletionTimestamp (cr_Meta (taken_up r)) = None" "cr_DeviceID (taken_up r) = []"
    using assms(4,5,8) by simp_all
  have "stored (world (resource_runs 2 name E s)) = Some (online d c (taken_up r))"
    using attachment_steps(2) [OF assms(1,2) s1 t(1,2) taken_up_fields(3) t(3) assms(9)] by (simp add: numeral_2_eq_2)
  with finalized_has [of r] show ?thesis by (simp add: online_def with_status_def)
qed

subsection \<open>A cluster manager that has a device\<close>

definition new_resource :: ComposableResource where
  "new_resource = empty_resource\<lparr>cr_Meta := empty_meta\<lparr>om_Name := ''gpu-1''\<rparr>,
     cr_Spec := \<lparr>crs_Type = ''gpu'', crs_Model = ''A100'', crs_TargetNode = ''n1'', crs_ForceDetach = False\<rparr>\<rparr>"

definition fabric_env :: "ComposableResource option env" where
  "fabric_env = released_env\<lparr>
     api_GetMachine := (\<lambda>_ _ w. (Inr \<lparr>ao_Name = ''b'', ao_Annotations = (\<lambda>_. Some ''c/d'')\<rparr>, w)),
     api_GetBareMetalHost := (\<lambda>_ _ w. (Inr \<lparr>ao_Name = ''d'', ao_Annotations = (\<lambda>_. Some ''m1'')\<rparr>, w)),
     api_ListResources := (\<lambda>_ w. (Inr (case w of Some r \<Rightarrow> [r] | None \<Rightarrow> []), w)),
     api_ListResourceSlices := (\<lambda>w. (Inr [\<lparr>rs_Driver = ''gpu.nvidia.com'', rs_PoolName = ''n1'',
         rs_Devices = [\<lparr>dev_Name = ''gpu-0'', dev_Attributes = [(''uuid'', Some ''GPU-a'')]\<rparr>]\<rparr>], w)),
     api_GetSecret := (\<lambda>_ _ w. (Inr (\<lambda>_. Some ''x''), w)),
     http_Do := (\<lambda>_ w. (Inr \<lparr>resp_StatusCode = 200, resp_Body = Inr []\<rparr>, w)),
     json_IdToken := (\<lambda>_. Inr \<lparr>idt_AccessToken = ''h.p.s'', idt_RefreshToken = [], idt_TokenType = ''Bearer''\<rparr>),
     base64_RawURLDecode := (\<lambda>p. Inr p), json_AccessToken := (\<lambda>_. Inr 1000),
     json_CM_MachineData := (\<lambda>_. Inr (demo_cm_machine addComplete)),
     os_Getenv := (\<lambda>v. if v = ''DEVICE_RESOURCE_TYPE'' then ''DRA'' else if v = ''CDI_PROVIDER_TYPE'' then ''FTI_CDI''
         else if v = ''FTI_CDI_API_TYPE'' then ''CM'' else if v = ''FTI_CDI_ENDPOINT'' then ''cdi/''
         else if v = ''FTI_CDI_TENANT_ID'' then ''t'' else ''c'')\<rparr>"

lemmas fabric_defs = fabric_env_def released_env_def void_env_def

lemma fabric_token: "\<exists>tok tr ct. GetToken ''cdi/'' fabric_env s = (Ret (Inr tok), s\<lparr>trace := tr, cachedToken := ct\<rparr>)"
proof (cases "still_valid (cachedToken s) 0")
  case True
  have "s\<lparr>trace := trace s, cachedToken := cachedToken s\<rparr> = s" by (cases s) simp
  with True show ?thesis
    by (intro exI [of _ "the (cachedToken s)"] exI [of _ "trace s"] exI [of _ "cachedToken s"])
       (simp add: GetToken_def time_Now_def fabric_defs prog_eval)
next
  case False
  then show ?thesis
    by (simp add: GetToken_def Token_def decode_token_def send_def time_Now_def fabric_defs Let_def prog_eval) (metis sys.update_convs)
qed

lemma fabric_info:
  "\<exists>tr ct. cm_getMachineInfo demo_fti m fabric_env s = (Ret (Inr (demo_cm_machine addComplete)), s\<lparr>trace := tr, cachedToken := ct\<rparr>)"
proof -
  obtain tok tr ct where tok: "GetToken ''cdi/'' fabric_env s = (Ret (Inr tok), s\<lparr>trace := tr, cachedToken := ct\<rparr>)"
    using fabric_token by metis
  have ep: "fti_compositionServiceEndpoint demo_fti = ''cdi/''" by (simp add: demo_fti_def)
  show ?thesis
    unfolding cm_getMachineInfo_def ep run_tryM(2) [where m = "GetToken ''cdi/''", OF tok]
    by (intro exI [of _ "tr @ [EvHttp (cm_request ''GET'' (cm_machine_url demo_fti m) NoBody tok)]"] exI [of _ ct])
       (simp add: send_def fabric_defs prog_eval)
qed

lemma fabric_add:
  assumes "theResource s = r" "world s = Some r" "cr_DeviceID r = []" "cr_Spec r = cr_Spec new_resource"
  shows "\<exists>tr ct. cm_AddResource demo_fti fabric_env s = (Ret (''GPU-a'', ''res-1'', None), s\<lparr>trace := tr, cachedToken := ct\<rparr>)"
proof -
  obtain tr ct where info: "cm_getMachineInfo demo_fti ''m1'' fabric_env s = (Ret (Inr (demo_cm_machine addComplete)), s\<lparr>trace := tr, cachedToken := ct\<rparr>)"
    using fabric_info by metis
  have node: "cm_getNodeMachineID ''n1'' fabric_env s = (Ret (Inr ''m1''), s)"
    by (simp add: cm_getNodeMachineID_def metal3_machine_def demo_node_def str_at_def fabric_defs prog_eval)
  have spec: "cr_TargetNode r = ''n1''" "crs_Type (cr_Spec r) = ''gpu''" "crs_Model (cr_Spec r) = ''A100''"
    using assms(4) by (simp_all add: new_resource_def)
  have "checkAddingResources (demo_cm_machine addComplete) [r] r = ([], 0, ''GPU-a'', ''res-1'', None)"
    using assms(3) spec by (simp add: checkAddingResources_def demo_cm_machine_def demo_cm_spec_def isSpecMatch_def model_condition_def
        findAvailableDevice_def existing_devices_def addComplete_def)
  then have "cm_add demo_fti r fabric_env s = (Ret (''GPU-a'', ''res-1'', None), s\<lparr>trace := tr, cachedToken := ct\<rparr>)"
    unfolding cm_add_def spec(1) run_tryM(2) [where m = "cm_getNodeMachineID ''n1''", OF node] run_tryM(2) [where m = "cm_getMachineInfo demo_fti ''m1''", OF info]
    using assms(2) by (simp add: cm_take_or_scale_def fabric_defs prog_eval)
  then show ?thesis using assms(1) by (auto simp: cm_AddResource_def)
qed

lemma fabric_complies:
  assumes "cr_DeviceID r = []" "cr_Spec r = cr_Spec new_resource"
  shows "attach_complies fabric_env id (cm_provider demo_fti) r ''GPU-a'' ''res-1''"
proof -
  have env: "os_Getenv fabric_env ''DEVICE_RESOURCE_TYPE'' = ''DRA''" by (simp add: fabric_env_def)
  have "gives fabric_env id r (AddResource (cm_provider demo_fti)) (''GPU-a'', ''res-1'', None)"
    unfolding gives_def cm_provider_def
  proof (intro allI impI, elim conjE)
    fix s :: "ComposableResource option sys"
    assume s: "theResource s = r" "id (world s) = Some r"
    obtain tr ct where "cm_AddResource demo_fti fabric_env s = (Ret (''GPU-a'', ''res-1'', None), s\<lparr>trace := tr, cachedToken := ct\<rparr>)"
      using fabric_add [OF s(1) _ assms] s(2) by auto
    with s show "\<exists>s'. AddResource \<lparr>AddResource = cm_AddResource demo_fti, RemoveResource = cm_RemoveResource demo_fti,
        CheckResource = cm_CheckResource demo_fti, GetResources = cm_GetResources demo_fti\<rparr> fabric_env s = (Ret (''GPU-a'', ''res-1'', None), s')
        \<and> theResource s' = r \<and> id (world s') = Some r" by simp
  qed
  then show ?thesis
    unfolding attach_complies_def Let_def env
    by (auto simp: answers_def gives_def RunNvidiaSmi_def isContainerDriverEnabled_def getGPUInfoFromNvidiaPod_def getNvidiaDriverDaemonsetPod_def
        RestartDaemonset_def CheckGPUVisible_def slice_attributes_def with_device_def with_status_def fabric_defs Let_def prog_eval)
qed

theorem resource_comes_online_witness:
  "\<exists>r'. world (resource_runs 2 ''gpu-1'' fabric_env (start (Some new_resource))) = Some r' \<and> cr_State r' = ''Online'' \<and> cr_DeviceID r' = ''GPU-a''"
proof -
  have "stores_resource fabric_env ''gpu-1'' id" by (simp add: stores_resource_def fabric_defs)
  moreover have "adapter_gives fabric_env (cm_provider demo_fti)"
    by (simp add: adapter_gives_def NewComposableResourceAdapter_def cm_NewFTIClient_def Getenv_def strings_HasSuffix_def strings_HasPrefix_def fabric_defs demo_fti_def Let_def prog_eval)
  moreover have "attach_complies fabric_env id (cm_provider demo_fti) (taken_up new_resource) ''GPU-a'' ''res-1''"
    by (rule fabric_complies) (simp_all add: new_resource_def empty_resource_def)
  ultimately show ?thesis
    using resource_comes_online [of fabric_env "''gpu-1''" id "cm_provider demo_fti" "start (Some new_resource)" new_resource "''GPU-a''" "''res-1''"]
    by (auto simp: start_def new_resource_def empty_resource_def empty_meta_def label_def str_at_def)
qed

section \<open>A request whose resources are online comes to run\<close>

text \<open>The resources of the request, which the watch reports: they are read as they are, and no request has the name of one.\<close>

definition serves_resources :: "'w env \<Rightarrow> ComposableResource list \<Rightarrow> ('w \<Rightarrow> ComposabilityRequest option) \<Rightarrow> bool" where
  "serves_resources E items stored \<longleftrightarrow> (\<forall>w q r. stored w = Some q \<and> r \<in> set items \<longrightarrow>
     (\<exists>msg w1 w2. api_GetRequest E (cr_Name r) w = (Inl (StatusError ''NotFound'' msg), w1) \<and> stored w1 = Some q
        \<and> api_GetResource E (cr_Name r) w1 = (Inr r, w2) \<and> stored w2 = Some q))"

lemma serves_resourcesD:
  assumes "serves_resources E items stored" "stored w = Some q" "r \<in> set items"
  obtains msg w1 w2 where "api_GetRequest E (cr_Name r) w = (Inl (StatusError ''NotFound'' msg), w1)"
    "api_GetResource E (cr_Name r) w1 = (Inr r, w2)" "stored w2 = Some q"
  using assms unfolding serves_resources_def by meson

definition copied :: "ComposableResource \<Rightarrow> ComposabilityRequest \<Rightarrow> ComposabilityRequest" where
  "copied r q = q\<lparr>crq_Status := crqs_Resources_update (AList.map_entry (cr_Name r) (copy_status r)) (crq_Status q)\<rparr>"

lemma copied_fields [simp]:
  "crq_Meta (copied r q) = crq_Meta q" "crq_Resource (copied r q) = crq_Resource q" "crq_State (copied r q) = crq_State q"
  "crqs_ScalarResource (crq_Status (copied r q)) = crqs_ScalarResource (crq_Status q)"
  "crq_Resources (copied r q) = AList.map_entry (cr_Name r) (copy_status r) (crq_Resources q)"
  by (simp_all add: copied_def)

text \<open>The run that a change of a resource causes copies its status.\<close>

lemma copy_run:
  assumes "stores_request E name items stored" "serves_resources E items stored" "stored (world s) = Some q" "crq_Name q = name"
    and "r \<in> set items" "label r managedByLabel = name" "label r readyDeviceLabel = []"
  shows "stored (world (snd (Request_Reconcile (cr_Name r) E s))) = Some (copied r q)"
proof -
  obtain msg w1 w2 where w: "api_GetRequest E (cr_Name r) (world s) = (Inl (StatusError ''NotFound'' msg), w1)"
    "api_GetResource E (cr_Name r) w1 = (Inr r, w2)" "stored w2 = Some q" by (rule serves_resourcesD [OF assms(2,3,5)])
  obtain w3 where w3: "api_GetRequest E name w2 = (Inr q, w3)" "stored w3 = Some q"
    using stores_requestD [OF assms(1) w(3)] by metis
  have name: "crq_Name (copied r q) = name" using assms(4) by simp
  obtain w4 where "api_UpdateRequestStatus E (copied r q) w3 = (Inr (q\<lparr>crq_Status := crq_Status (copied r q)\<rparr>), w4)"
    "stored w4 = Some (q\<lparr>crq_Status := crq_Status (copied r q)\<rparr>)" by (rule stores_updateD [OF assms(1) w3(2) name])
  then have w4: "api_UpdateRequestStatus E (copied r q) w3 = (Inr (copied r q), w4)" "stored w4 = Some (copied r q)" by (simp_all add: copied_def)
  show ?thesis
    using assms(6,7) w w3 w4
    by (simp add: Request_Reconcile_def tryGet_def Request_handleComposableResourceChange_def upd_request_status_def upd_request_def
        return_update_request_def Status_Update_Request_def copied_def prog_eval cong: prog_cong)
qed

abbreviation request_runs :: "string list \<Rightarrow> 'w env \<Rightarrow> 'w sys \<Rightarrow> 'w sys" where
  "request_runs names E s \<equiv> fold (\<lambda>n s. snd (Request_Reconcile n E s)) names s"

lemma copy_runs:
  assumes "stores_request E name items stored" "serves_resources E items stored"
    and "\<forall>r\<in>set items. label r managedByLabel = name \<and> label r readyDeviceLabel = []"
  shows "stored (world s) = Some q \<Longrightarrow> crq_Name q = name \<Longrightarrow> set rs \<subseteq> set items
    \<Longrightarrow> stored (world (request_runs (map cr_Name rs) E s)) = Some (fold copied rs q)"
proof (induction rs arbitrary: s q)
  case (Cons r rs)
  have "stored (world (snd (Request_Reconcile (cr_Name r) E s))) = Some (copied r q)"
    using Cons.prems assms(3) by (intro copy_run [OF assms(1,2)]) auto
  with Cons.IH [OF this] Cons.prems show ?case by simp
qed simp

text \<open>What the copies leave: the same keys, and in each entry that was copied the status of its resource.\<close>

lemma fold_copied_fields:
  "crq_Meta (fold copied rs q) = crq_Meta q" "crq_Resource (fold copied rs q) = crq_Resource q" "crq_State (fold copied rs q) = crq_State q"
  "crqs_ScalarResource (crq_Status (fold copied rs q)) = crqs_ScalarResource (crq_Status q)"
  "fst ` set (crq_Resources (fold copied rs q)) = fst ` set (crq_Resources q)"
  by (induction rs arbitrary: q) (simp_all add: dom_map_entry)

lemma fold_copied_distinct:
  "distinct (map fst (crq_Resources q)) \<Longrightarrow> distinct (map fst (crq_Resources (fold copied rs q)))"
  by (induction rs arbitrary: q) (simp_all add: distinct_map_entry)

lemma copy_status_twice: "copy_status r (copy_status r e) = copy_status r e"
  by (simp add: copy_status_def)

lemma fold_copied_entry:
  assumes "inj_on cr_Name (insert r (set rs))" "map_of (crq_Resources q) (cr_Name r) = Some e"
  shows "map_of (crq_Resources (fold copied rs q)) (cr_Name r) = Some (if r \<in> set rs then copy_status r e else e)"
  using assms
proof (induction rs arbitrary: q e)
  case (Cons x rs)
  have inj: "inj_on cr_Name (insert r (set rs))" by (rule inj_on_subset [OF Cons.prems(1)]) auto
  show ?case
  proof (cases "x = r")
    case True
    then have "map_of (crq_Resources (copied x q)) (cr_Name r) = Some (copy_status r e)" using Cons.prems(2) by (simp add: map_of_map_entry)
    from Cons.IH [OF inj this] True show ?thesis by (simp add: copy_status_twice)
  next
    case False
    then have "cr_Name x \<noteq> cr_Name r" using Cons.prems(1) by (auto simp: inj_on_def)
    then have "map_of (crq_Resources (copied x q)) (cr_Name r) = Some e" using Cons.prems(2) by (simp add: map_of_map_entry)
    from Cons.IH [OF inj this] False show ?thesis by simp
  qed
qed simp

text \<open>The run on the request itself: nothing is missing and nothing is redundant.\<close>

lemma nothing_redundant:
  assumes "\<forall>r\<in>set items. map_of rs (cr_Name r) \<noteq> None"
  shows "delete_redundant rs items E s = (Ret (Inr (map cr_Name items)), s)"
proof -
  have "forM items [] (\<lambda>resource existed.
       if map_of rs (cr_Name resource) = None then
         checkM (Delete_Resource resource) (\<lambda>err. ret (Return err)) (ret (Next existed))
       else ret (Next (existed @ [cr_Name resource]))) E s = (Ret (Inr (fold (\<lambda>r existed. existed @ [cr_Name r]) items [])), s)"
    by (rule forM_pure) (use assms in \<open>auto simp: run_ret\<close>)
  moreover have "fold (\<lambda>r existed. existed @ [cr_Name r]) items acc = acc @ map cr_Name items" for acc
    by (induction items arbitrary: acc) simp_all
  ultimately show ?thesis by (simp add: delete_redundant_def)
qed

lemma nothing_missing:
  assumes "fst ` set (crq_Resources q) \<subseteq> set existed"
  shows "create_missing q existed E s = (Ret (Inr ()), s)"
proof -
  have "forM (crq_Resources q) () (\<lambda>(name, entry) _.
       if name \<notin> set existed then
         checkM (Create_Resource (missing_resource q name entry)) (\<lambda>err. ret (Return err)) (ret (Next ()))
       else ret (Next ())) E s = (Ret (Inr (fold (\<lambda>_ _. ()) (crq_Resources q) ())), s)"
    by (rule forM_pure) (use assms in \<open>force simp: run_ret\<close>)
  then show ?thesis by (simp add: create_missing_def)
qed

definition running :: "ComposabilityRequest \<Rightarrow> ComposabilityRequest" where
  "running q = q\<lparr>crq_Status := (crq_Status q)\<lparr>crqs_State := ''Running'', crqs_Error := [], crqs_ScalarResource := crq_Resource q\<rparr>\<rparr>"

lemma running_stores:
  assumes "stores_request E name items stored" "stored (world s) = Some q" "theRequest s = q" "crq_Name q = name" "can_run (crq_Resources q)"
  obtains s' where "run_when_online E s = (Ret (\<lparr>RequeueAfter = 0\<rparr>, None), s')" "stored (world s') = Some (running q)"
proof -
  have name: "crq_Name (running q) = name" using assms(4) by (simp add: running_def)
  obtain w where "api_UpdateRequestStatus E (running q) (world s) = (Inr (q\<lparr>crq_Status := crq_Status (running q)\<rparr>), w)"
    "stored w = Some (q\<lparr>crq_Status := crq_Status (running q)\<rparr>)" by (rule stores_updateD [OF assms(1,2) name])
  then show ?thesis
    using assms(3,5) by (intro that) (auto simp: run_when_online_def upd_request_def return_update_request_def Status_Update_Request_def running_def prog_eval)
qed

lemma updating_run:
  assumes "stores_request E name items stored" "stored (world s) = Some q" "crq_Name q = name"
    and "om_DeletionTimestamp (crq_Meta q) = None" "crq_State q = ''Updating''" "crqs_ScalarResource (crq_Status q) = crq_Resource q"
    and "cr_Name ` set items = fst ` set (crq_Resources q)" "can_run (crq_Resources q)"
  shows "stored (world (snd (Request_Reconcile name E s))) = Some (running q)"
proof -
  obtain w where w: "stored w = Some q"
    "Request_Reconcile name E s = bindM (request_dispatch (crq_State q)) (\<lambda>(result, err). case err of
         Some err \<Rightarrow> Request_requeueOnErr err | None \<Rightarrow> ret (result, None)) E (s\<lparr>theRequest := q, world := w\<rparr>)"
    using run_to_handler [OF assms(1,2)] by blast
  obtain w2 where w2: "api_ListResources E (Some name) w = (Inr items, w2)" "stored w2 = Some q"
    using stores_requestD [OF assms(1) w(1)] by metis
  let ?s = "s\<lparr>theRequest := q, world := w2\<rparr>"
  have in_mem: "stored (world ?s) = Some q" "theRequest ?s = q" using w2(2) by simp_all
  obtain s3 where s3: "run_when_online E ?s = (Ret (\<lparr>RequeueAfter = 0\<rparr>, None), s3)" "stored (world s3) = Some (running q)"
    by (rule running_stores [OF assms(1) in_mem assms(3,8)])
  have "map_of (crq_Resources q) (cr_Name r) \<noteq> None" if "r \<in> set items" for r
  proof -
    have "cr_Name r \<in> fst ` set (crq_Resources q)" unfolding assms(7) [symmetric] using that by (rule imageI)
    then show ?thesis by (simp add: map_of_eq_None_iff)
  qed
  then have "delete_redundant (crq_Resources q) items E ?s = (Ret (Inr (map cr_Name items)), ?s)" by (intro nothing_redundant) blast
  moreover have "create_missing q (map cr_Name items) E ?s = (Ret (Inr ()), ?s)" by (rule nothing_missing) (use assms(7) in simp)
  moreover have "query (\<lambda>E. api_ListResources E (Some name)) E (s\<lparr>theRequest := q, world := w\<rparr>) = (Ret (Inr items), ?s)"
    using w2(1) by (simp add: query_def)
  ultimately have "Request_handleUpdatingState E (s\<lparr>theRequest := q, world := w\<rparr>) = (Ret (\<lparr>RequeueAfter = 0\<rparr>, None), s3)"
    unfolding Request_handleUpdatingState_def using s3(1) assms(3,4,6) by (simp add: run_tryM(2))
  then show ?thesis
    unfolding w(2) assms(5) using s3(2) by (simp add: request_dispatch_def run_bindM(1) run_ret)
qed

text \<open>
  C13.  A request whose resources are online comes to run.  On an API server that stores the request and lists its resources, let a request be
  in state Updating, not being deleted and with the specification it was allocated for, and let its entries be exactly its resources, all of
  them Online.  Then the runs of \<^verbatim>\<open>Reconcile\<close> that the changes of the resources cause, in any order and any number of times as long as each resource has
  been reported, followed by a run on the request, store it as Running without an error, and each entry has the status and the device of its resource.
\<close>

theorem request_comes_to_run:
  assumes "stores_request E name items stored" "serves_resources E items stored" "stored (world s) = Some q" "crq_Name q = name"
    and "om_DeletionTimestamp (crq_Meta q) = None" "crq_State q = ''Updating''" "crqs_ScalarResource (crq_Status q) = crq_Resource q"
    and "distinct (map fst (crq_Resources q))" "inj_on cr_Name (set items)" "cr_Name ` set items = fst ` set (crq_Resources q)"
    and "\<forall>r\<in>set items. cr_State r = ''Online'' \<and> label r managedByLabel = name \<and> label r readyDeviceLabel = []"
    and "set reported = set items"
  shows "\<exists>q'. stored (world (request_runs (map cr_Name reported @ [name]) E s)) = Some q' \<and> crq_State q' = ''Running''
     \<and> crqs_Error (crq_Status q') = [] \<and> fst ` set (crq_Resources q') = fst ` set (crq_Resources q)
     \<and> (\<forall>r\<in>set items. \<exists>e. map_of (crq_Resources q) (cr_Name r) = Some e \<and> map_of (crq_Resources q') (cr_Name r) = Some (copy_status r e))"
proof -
  let ?q = "fold copied reported q"
  have stored: "stored (world (request_runs (map cr_Name reported) E s)) = Some ?q"
    using assms(3,4,11,12) by (intro copy_runs [OF assms(1,2)]) auto
  have entry: "\<exists>e. map_of (crq_Resources q) (cr_Name r) = Some e \<and> map_of (crq_Resources ?q) (cr_Name r) = Some (copy_status r e)"
    if "r \<in> set items" for r
  proof -
    have "cr_Name r \<in> fst ` set (crq_Resources q)" using that assms(10) by blast
    then obtain e where e: "map_of (crq_Resources q) (cr_Name r) = Some e" by (metis not_None_eq map_of_eq_None_iff)
    moreover have "inj_on cr_Name (insert r (set reported))" using assms(9,12) that by (simp add: insert_absorb)
    ultimately show ?thesis using fold_copied_entry [of r reported q e] that assms(12) by simp
  qed
  have "srs_State e = ''Online''" if "(k, e) \<in> set (crq_Resources ?q)" for k e
  proof -
    have "k \<in> fst ` set (crq_Resources q)" using that fold_copied_fields(5) [of reported q] by force
    then obtain r where r: "r \<in> set items" "cr_Name r = k" unfolding assms(10) [symmetric] by blast
    have "map_of (crq_Resources ?q) k = Some e" using that fold_copied_distinct [OF assms(8), of reported] by simp
    with entry [OF r(1)] r assms(11) show ?thesis by (auto simp: copy_status_def)
  qed
  then have "can_run (crq_Resources ?q)" by (auto simp: can_run_def list_all_iff)
  then have "stored (world (request_runs (map cr_Name reported @ [name]) E s)) = Some (running ?q)"
    using updating_run [OF assms(1) stored] assms(4-7,10) by (simp add: fold_copied_fields)
  then show ?thesis using entry by (intro exI [of _ "running ?q"]) (simp add: running_def fold_copied_fields)
qed

subsection \<open>A server with a request and its two resources\<close>

definition ready_item :: "string \<Rightarrow> string \<Rightarrow> ComposableResource" where
  "ready_item name device = empty_resource\<lparr>cr_Meta := empty_meta\<lparr>om_Name := name, om_Labels := [managedByLabel \<mapsto> ''req'']\<rparr>,
     cr_Status := \<lparr>crst_State = ''Online'', crst_Error = [], crst_DeviceID = device, crst_CDIDeviceID = []\<rparr>\<rparr>"

definition ready_items :: "ComposableResource list" where
  "ready_items = [ready_item ''gpu-1'' ''GPU-a'', ready_item ''gpu-2'' ''GPU-b'']"

definition watched_env :: "ComposabilityRequest option env" where
  "watched_env = store_env\<lparr>
     api_GetRequest := (\<lambda>n w. case w of Some q \<Rightarrow> if n = ''req'' then (Inr q, w) else (Inl (StatusError ''NotFound'' []), w) | None \<Rightarrow> missing w),
     api_ListResources := (\<lambda>_ w. (Inr ready_items, w)),
     api_GetResource := (\<lambda>n w. case find (\<lambda>r. cr_Name r = n) ready_items of Some r \<Rightarrow> (Inr r, w) | None \<Rightarrow> missing w)\<rparr>"

definition pending_entry :: ScalarResourceStatus where
  "pending_entry = \<lparr>srs_State = [], srs_DeviceID = [], srs_CDIDeviceID = [], srs_NodeName = ''n1'', srs_Error = []\<rparr>"

definition pending_request :: ComposabilityRequest where
  "pending_request = empty_request\<lparr>crq_Meta := empty_meta\<lparr>om_Name := ''req''\<rparr>,
     crq_Status := \<lparr>crqs_State = ''Updating'', crqs_Error = [], crqs_Resources = [(''gpu-1'', pending_entry), (''gpu-2'', pending_entry)],
       crqs_ScalarResource = empty_details\<rparr>\<rparr>"

theorem request_comes_to_run_witness:
  "\<exists>q'. world (request_runs [''gpu-2'', ''gpu-1'', ''gpu-2'', ''req''] watched_env (start (Some pending_request))) = Some q' \<and> crq_State q' = ''Running''
    \<and> map_option srs_DeviceID (map_of (crq_Resources q') ''gpu-1'') = Some ''GPU-a''"
proof -
  let ?a = "ready_item ''gpu-1'' ''GPU-a''" and ?b = "ready_item ''gpu-2'' ''GPU-b''"
  have items: "set [?b, ?a, ?b] = set ready_items" by (auto simp: ready_items_def)
  have names: "cr_Name (ready_item n d) = n" "cr_State (ready_item n d) = ''Online''" "label (ready_item n d) managedByLabel = ''req''"
    "label (ready_item n d) readyDeviceLabel = []" "cr_DeviceID (ready_item n d) = d" for n d
    by (simp_all add: ready_item_def label_def str_at_def managedByLabel_def)
  have "stores_request watched_env ''req'' ready_items id" by (simp add: stores_request_def watched_env_def store_env_def)
  moreover have "serves_resources watched_env ready_items id" by (auto simp: serves_resources_def watched_env_def ready_items_def names)
  moreover have "inj_on cr_Name (set ready_items)" by (auto simp: ready_items_def names)
  ultimately show ?thesis
    using request_comes_to_run [of watched_env "''req''" ready_items id "start (Some pending_request)" pending_request "[?b, ?a, ?b]"] items
    by (auto simp: start_def pending_request_def empty_request_def empty_meta_def ready_items_def names copy_status_def)
qed

end
