(* ===== verification/RequestMaps.thy ===== *)
theory RequestMaps
  imports RequestController
begin

text \<open>
  Well-formedness of the encoding of a request.  \<^verbatim>\<open>Status.Resources\<close> is a Go map, the model's an
  association list; it stands for a map when no key occurs twice.  Every run keeps that: if the API
  server answers with maps, whatever the reconciler writes is a map again.  The proof is a third
  instance of the locale \<open>footprint\<close>, so only the assignments need an argument.
\<close>

definition is_map :: "ComposabilityRequest \<Rightarrow> bool" where
  "is_map q \<longleftrightarrow> distinct (map fst (crq_Resources q))"

text \<open>Named hypothesis on the API server: the objects it answers with are maps, as every decoded JSON object is
  (asked of an update only where the object sent is one).\<close>

definition answers_maps :: "'w env \<Rightarrow> bool" where
  "answers_maps E \<longleftrightarrow> (\<forall>q w q' w'.
     (\<forall>name. api_GetRequest E name w = (Inr q', w') \<longrightarrow> is_map q')
     \<and> (is_map q \<longrightarrow> api_UpdateRequest E q w = (Inr q', w') \<longrightarrow> is_map q')
     \<and> (is_map q \<longrightarrow> api_UpdateRequestStatus E q w = (Inr q', w') \<longrightarrow> is_map q'))"

fun writes_map :: "event \<Rightarrow> bool" where
  "writes_map (EvUpdateRequest q) = is_map q"
| "writes_map (EvUpdateRequestStatus q) = is_map q"
| "writes_map _ = True"

definition map_kept :: "'w sys \<Rightarrow> 'w sys \<Rightarrow> bool" where
  "map_kept s t \<longleftrightarrow> (is_map (theRequest s) \<longrightarrow> is_map (theRequest t) \<and> appends writes_map s t)"

interpretation mp: footprint answers_maps map_kept
proof
  show "map_kept s s" for s :: "'w sys"
    by (simp add: map_kept_def em.refl)
  show "map_kept s u" if "map_kept s t" "map_kept t u" for s t u :: "'w sys"
    using that em.trans unfolding map_kept_def by blast
qed

section \<open>The calls\<close>

abbreviation keeps_map :: "('w, 'a) go \<Rightarrow> bool" where
  "keeps_map m \<equiv> within answers_maps map_kept m"

lemma keeps_map_reads: "keeps_map (query f)" "keeps_map (pureE g)" "keeps_map time_Now" "keeps_map (Getenv v)"
  by (auto simp: within_def query_def pureE_def time_Now_def Getenv_def map_kept_def appends_def split: prod.split)

lemma keeps_map_effect: "writes_map ev \<Longrightarrow> keeps_map (effect ev f)"
  by (auto simp: within_def effect_def map_kept_def appends_def split: prod.split)

lemma keeps_map_upd: "(\<And>q. is_map q \<Longrightarrow> is_map (f q)) \<Longrightarrow> keeps_map (upd_request f)"
  by (simp add: within_def upd_request_def modifyM_def map_kept_def appends_def)

lemma keeps_map_assign: "is_map q \<Longrightarrow> keeps_map (modifyM (\<lambda>s. s\<lparr>theRequest := q\<rparr>))"
  by (simp add: within_def modifyM_def map_kept_def appends_def)

lemma answers_mapsD:
  "answers_maps E \<Longrightarrow> is_map q \<Longrightarrow> api_UpdateRequest E q w = (Inr q', w') \<Longrightarrow> is_map q'"
  "answers_maps E \<Longrightarrow> is_map q \<Longrightarrow> api_UpdateRequestStatus E q w = (Inr q', w') \<Longrightarrow> is_map q'"
  unfolding answers_maps_def by blast+

lemma keeps_map_updates: "keeps_map Update_Request" "keeps_map Status_Update_Request"
  by (auto simp: within_def Update_Request_def Status_Update_Request_def map_kept_def appends_def prog_eval
      dest: answers_mapsD split: prod.split sum.split)

lemma keeps_map_calls:
  "keeps_map (Delete_Request q)" "keeps_map (Delete_Resource r)" "keeps_map (Create_Resource r)"
  unfolding Delete_Request_def Delete_Resource_def Create_Resource_def by (intro keeps_map_effect; simp)+

lemmas map_rules = mp.rules keeps_map_reads keeps_map_upd keeps_map_updates keeps_map_calls

lemma keeps_map_nodes: "keeps_map (CheckNodeExisted n)" "keeps_map GetAllNodes" "keeps_map (CheckNodeCapacitySufficient n spec)"
  "keeps_map (GenerateComposableResourceName t)"
  unfolding CheckNodeExisted_def getNode_def GetAllNodes_def CheckNodeCapacitySufficient_def GenerateComposableResourceName_def
  by (intro map_rules)+

section \<open>The handlers\<close>

lemma keeps_map_status:
  assumes "\<And>st. distinct (map fst (crqs_Resources st)) \<Longrightarrow> distinct (map fst (crqs_Resources (f st)))"
  shows "keeps_map (upd_request_status f)"
  unfolding upd_request_status_def by (intro keeps_map_upd) (simp add: is_map_def assms)

lemma keeps_map_ends: "keeps_map return_update_request" "keeps_map (Request_requeueOnErr e)" "keeps_map (requeueAfter d e')"
  "keeps_map doNotRequeue" "keeps_map (set_state st)" "keeps_map start_again" "keeps_map run_when_online" "keeps_map clear_error"
  unfolding return_update_request_def Request_requeueOnErr_def requeueAfter_def doNotRequeue_def set_state_def start_again_def
    run_when_online_def clear_error_def
  by (intro map_rules keeps_map_status; simp add: is_map_def)+

lemma keeps_map_loops: "keeps_map (delete_redundant rs items)" "keeps_map (create_missing q xs)" "keeps_map (delete_all items)"
  unfolding delete_redundant_def create_missing_def delete_all_def by (intro map_rules)+

lemma keeps_map_remove: "keeps_map (remove_entry n)"
  unfolding remove_entry_def by (intro keeps_map_status) (simp add: distinct_delete)

lemma keeps_map_capacity: "keeps_map (capacity_ok spec n)"
  unfolding capacity_ok_def by (intro map_rules keeps_map_nodes)

lemma keeps_map_keep: "keeps_map (keep_resources spec items)"
  unfolding keep_resources_def keep_step_def by (intro map_rules keeps_map_capacity keeps_map_remove)

lemma keeps_map_give_up: "keeps_map (give_up_resources items n)"
proof -
  have "keeps_map (delete_by_priority bs n)" for bs n
    by (induction bs arbitrary: n) (auto intro!: map_rules keeps_map_remove simp: give_up_step_def split: sum.split)
  then show ?thesis unfolding give_up_resources_def by (intro map_rules)
qed

lemma keeps_map_record: "keeps_map (record_nodes t ns)"
  by (induction ns) (auto intro!: map_rules keeps_map_nodes keeps_map_status simp: distinct_update)

lemma keeps_map_allocate: "keeps_map (allocate_nodes q t qs nodes)"
  unfolding allocate_nodes_def allocate_target_def allocate_same_def allocate_different_def different_step_def Let_def
  by (intro map_rules keeps_map_nodes keeps_map_capacity)

lemma keeps_map_handlers: "keeps_map Request_handleNoneState" "keeps_map Request_handleNodeAllocatingState"
  "keeps_map Request_handleUpdatingState" "keeps_map Request_handleRunningState" "keeps_map Request_handleCleaningState"
  "keeps_map Request_handleDeletingState" "keeps_map Request_performGarbageCollection"
  unfolding Request_handleNoneState_def Request_handleNodeAllocatingState_def place_resources_def Request_handleUpdatingState_def
    Request_handleRunningState_def Request_handleCleaningState_def Request_handleDeletingState_def
    Request_performGarbageCollection_def upd_request_finalizers_def
  by (intro map_rules keeps_map_ends keeps_map_loops keeps_map_keep keeps_map_give_up keeps_map_record keeps_map_allocate
      keeps_map_nodes keeps_map_status; simp add: is_map_def)+

lemma keeps_map_change: "keeps_map Request_handleComposabilityRequestChange"
  unfolding Request_handleComposabilityRequestChange_def request_dispatch_def
  by (intro map_rules keeps_map_ends keeps_map_handlers)

lemma answers_get:
  assumes "\<exists>E (s :: 'w sys). answers_maps E \<and> fst (query (\<lambda>E. api_GetRequest E n) E s) = Ret (Inr q)"
  shows "is_map q"
proof -
  obtain E and s :: "'w sys" where E: "answers_maps E" "fst (query (\<lambda>E. api_GetRequest E n) E s) = Ret (Inr q)" using assms by blast
  then obtain w where "api_GetRequest E n (world s) = (Inr q, w)"
    by (cases "api_GetRequest E n (world s)") (simp add: query_def)
  with E(1) show ?thesis unfolding answers_maps_def by blast
qed

lemma is_map_empty: "is_map empty_request"
  by (simp add: is_map_def empty_request_def)

lemma keeps_map_copy: "keeps_map (Request_handleComposableResourceChange r)"
proof -
  have "keeps_map (bindM (query (\<lambda>E. api_GetRequest E n)) (\<lambda>r. case r of
          Inl err \<Rightarrow> thenM (modifyM (\<lambda>s. s\<lparr>theRequest := empty_request\<rparr>)) (Request_requeueOnErr err)
        | Inr request \<Rightarrow> thenM (modifyM (\<lambda>s. s\<lparr>theRequest := request\<rparr>))
            (thenM (upd_request_status (crqs_Resources_update (AList.map_entry k f))) return_update_request)))" for n k f
  proof (rule mp.w_bindM_res)
    fix x
    assume "\<exists>E s. answers_maps E \<and> fst (query (\<lambda>E. api_GetRequest E n) E s) = Ret x"
    then have "is_map q" if "x = Inr q" for q
      using that answers_get by blast
    with is_map_empty show "keeps_map (case x of
          Inl err \<Rightarrow> thenM (modifyM (\<lambda>s. s\<lparr>theRequest := empty_request\<rparr>)) (Request_requeueOnErr err)
        | Inr request \<Rightarrow> thenM (modifyM (\<lambda>s. s\<lparr>theRequest := request\<rparr>))
            (thenM (upd_request_status (crqs_Resources_update (AList.map_entry k f))) return_update_request))"
      by (intro map_rules keeps_map_assign keeps_map_ends keeps_map_status) (simp_all add: distinct_map_entry)
  qed (rule keeps_map_reads)
  then show ?thesis unfolding Request_handleComposableResourceChange_def by (intro mp.w_if keeps_map_ends)
qed

lemma keeps_map_found:
  "keeps_map (bindM (tryGet (query (\<lambda>E. api_GetRequest E name))) (\<lambda>r. case r of
       Inl e \<Rightarrow> Request_requeueOnErr e
     | Inr found \<Rightarrow> (case found of
          Some request \<Rightarrow> thenM (modifyM (\<lambda>s. s\<lparr>theRequest := request\<rparr>)) Request_handleComposabilityRequestChange
        | None \<Rightarrow> k)))"
  if "keeps_map k"
proof -
  have get: "keeps_map (case x of Inl err \<Rightarrow> if IsNotFound err then k else Request_requeueOnErr err
      | Inr q \<Rightarrow> thenM (modifyM (\<lambda>s. s\<lparr>theRequest := q\<rparr>)) Request_handleComposabilityRequestChange)"
    if "\<exists>E s. answers_maps E \<and> fst (query (\<lambda>E. api_GetRequest E name) E s) = Ret x" for x
    using that \<open>keeps_map k\<close> answers_get [of name]
    by (intro map_rules keeps_map_assign keeps_map_ends keeps_map_change) auto
  have split: "bindM (case x of Inl err \<Rightarrow> if IsNotFound err then ret (Inr None) else ret (Inl err) | Inr x \<Rightarrow> ret (Inr (Some x)))
      (\<lambda>r. case r of Inl e \<Rightarrow> Request_requeueOnErr e
        | Inr found \<Rightarrow> (case found of
            Some request \<Rightarrow> thenM (modifyM (\<lambda>s. s\<lparr>theRequest := request\<rparr>)) Request_handleComposabilityRequestChange
          | None \<Rightarrow> k))
    = (case x of Inl err \<Rightarrow> if IsNotFound err then k else Request_requeueOnErr err
      | Inr q \<Rightarrow> thenM (modifyM (\<lambda>s. s\<lparr>theRequest := q\<rparr>)) Request_handleComposabilityRequestChange)" for x
    by (cases x) (simp_all del: run_modifyM)
  show ?thesis
    unfolding tryGet_def bindM_assoc split by (rule mp.w_bindM_res [OF keeps_map_reads(1) get])
qed

text \<open>
  The encoding is sound: the map of resources stays a map.  Whatever a run of \<^verbatim>\<open>Reconcile\<close> writes about a request, on any path, lists no resource
  twice, when the objects the API server answers with do not.
\<close>

lemma Request_Reconcile_writes_maps:
  assumes "answers_maps E"
  shows "\<exists>evs. trace (snd (Request_Reconcile name E s)) = trace s @ evs \<and> list_all writes_map evs"
proof -
  let ?s = "s\<lparr>theRequest := empty_request\<rparr>"
  define rest :: "('a, reconciled) go" where "rest =
    (tryM (tryGet (query (\<lambda>E. api_GetRequest E name))) (\<lambda>err. Request_requeueOnErr err) (\<lambda>found. case found of
        Some request \<Rightarrow>
          thenM (modifyM (\<lambda>s. s\<lparr>theRequest := request\<rparr>)) Request_handleComposabilityRequestChange
      | None \<Rightarrow>
          tryM (tryGet (query (\<lambda>E. api_GetResource E name))) (\<lambda>err. Request_requeueOnErr err) (\<lambda>found. case found of
            Some resource \<Rightarrow> Request_handleComposableResourceChange resource
          | None \<Rightarrow> doNotRequeue)))"
  have "keeps_map rest"
    unfolding rest_def tryM_def [of "tryGet (query (\<lambda>E. api_GetRequest E name))"]
    by (rule keeps_map_found) (unfold tryGet_def, intro map_rules keeps_map_copy keeps_map_ends)
  then have "map_kept ?s (snd (rest E ?s))" using assms by (simp add: within_def)
  moreover have "Request_Reconcile name E s = rest E ?s" by (simp add: Request_Reconcile_def rest_def)
  ultimately show ?thesis using is_map_empty by (simp add: map_kept_def appends_def)
qed

text \<open>The hypothesis can be met: the requests of the allocation example are maps.\<close>

lemma request_env_maps: "answers_maps (request_env spread_result)"
proof -
  have "is_map spread_result" by (simp add: is_map_def spread_result_def)
  then show ?thesis by (simp add: answers_maps_def request_env_def counter_env_def)
qed

end
