(* ===== verification/UpstreamSyncer.thy ===== *)
theory UpstreamSyncer
  imports ResourceController
begin

text \<open>
  The upstream syncer, \<^verbatim>\<open>src/internal/controller/upstreamsyncer_controller.go\<close>: once a minute it compares
  the devices the CDI service reports with the ComposableResources, remembers in \<open>missingDevices\<close> since
  when a device has no resource, and after a grace period creates a resource for it, with labels that make the
  resource controller detach the device.

  The abstract specification is \<open>sync_step\<close>, what a round may do with one device; the code refines
  its iteration, and the properties of a round are read off it.
\<close>

section \<open>The syncer\<close>

definition missingDeviceGracePeriod :: int where
  "missingDeviceGracePeriod = 10 * minute"

definition detach_resource :: "string \<Rightarrow> DeviceInfo \<Rightarrow> ComposableResource" where
  "detach_resource name deviceInfo =
     empty_resource\<lparr>cr_Meta := empty_meta\<lparr>om_GenerateName := name,
         om_Labels := [readyDeviceLabel \<mapsto> di_DeviceID deviceInfo, readyCDIDeviceLabel \<mapsto> di_CDIDeviceID deviceInfo]\<rparr>,
       cr_Spec := \<lparr>crs_Type = di_DeviceType deviceInfo, crs_Model = di_Model deviceInfo,
         crs_TargetNode = di_NodeName deviceInfo, crs_ForceDetach = False\<rparr>\<rparr>"

definition createDetachCR :: "DeviceInfo \<Rightarrow> ('w, error option) go" where
  "createDetachCR deviceInfo =
     bindM (GenerateComposableResourceName ''gpu'') (\<lambda>name. Create_Resource (detach_resource name deviceInfo))"

type_synonym tracking = "string \<Rightarrow> time option"

definition upd_missing :: "(tracking \<Rightarrow> tracking) \<Rightarrow> ('w, unit) go" where
  "upd_missing f = modifyM (\<lambda>s. s\<lparr>missingDevices := f (missingDevices s)\<rparr>)"

definition existing_ids :: "ComposableResource list \<Rightarrow> string list" where
  "existing_ids items = filter (\<lambda>i. i \<noteq> []) (map cr_DeviceID items)"

text \<open>The body of the loop over the reported devices.  \<^verbatim>\<open>time.Since\<close> is the difference to the time
  now; it saturates far above the grace period.\<close>

definition sync_device :: "string list \<Rightarrow> DeviceInfo \<Rightarrow> ('w, unit) go" where
  "sync_device existing deviceInfo =
     bindM (getM missingDevices) (\<lambda>missing.
     if di_DeviceID deviceInfo \<in> set existing then
       if missing (di_DeviceID deviceInfo) \<noteq> None then upd_missing (\<lambda>m. m(di_DeviceID deviceInfo := None)) else ret ()
     else case missing (di_DeviceID deviceInfo) of
       None \<Rightarrow> bindM time_Now (\<lambda>now. upd_missing (\<lambda>m. m(di_DeviceID deviceInfo \<mapsto> now)))
     | Some firstSeenTime \<Rightarrow>
         bindM time_Now (\<lambda>now.
         if now - firstSeenTime > missingDeviceGracePeriod then
           bindM (createDetachCR deviceInfo) (\<lambda>r. case r of
             Some err \<Rightarrow> ret ()
           | None \<Rightarrow> upd_missing (\<lambda>m. m(di_DeviceID deviceInfo := None)))
         else ret ()))"

definition syncUpstreamData :: "'w CdiProvider \<Rightarrow> ('w, error option) go" where
  "syncUpstreamData P =
     tryM (GetResources P)
       (\<lambda>err. ret (Some (WrapError (''failed to fetch data from upstream server: '' @ err_Error err) err)))
     (\<lambda>deviceInfoList.
     tryM (query (\<lambda>E. api_ListResources E None))
       (\<lambda>err. ret (Some (WrapError (''failed to list ComposableResources: '' @ err_Error err) err)))
     (\<lambda>items.
     bindM (forM deviceInfoList () (\<lambda>d _. bindM (sync_device (existing_ids items) d) (\<lambda>_. ret (Next ()))))
     (\<lambda>(_ :: unit + unit).
     thenM (upd_missing (\<lambda>m. m |` set (map di_DeviceID deviceInfoList))) (ret None))))"

text \<open>The goroutine that \<^verbatim>\<open>SetupWithManager\<close> adds to the manager, for a number of ticks until the context is done:
  an error of a round is logged and the next tick waited for.\<close>

fun sync_ticks :: "nat \<Rightarrow> 'w CdiProvider \<Rightarrow> ('w, unit) go" where
  "sync_ticks 0 P = ret ()"
| "sync_ticks (Suc n) P = bindM (syncUpstreamData P) (\<lambda>_. sync_ticks n P)"

definition upstream_syncer :: "nat \<Rightarrow> ('w, error option) go" where
  "upstream_syncer n =
     thenM (upd_missing (\<lambda>_. Map.empty))
     (tryM NewComposableResourceAdapter (\<lambda>err. ret (Some err)) (\<lambda>P. thenM (sync_ticks n P) (ret None)))"

section \<open>What a round may do with one device\<close>

text \<open>Worlds that the calls of a round lead to from \<open>w\<close>: readings of the clock, new identifiers and creations of resources for
  detaching, any number of each in any order.  The worlds a given round passes through are among them; a round that reads the
  clock less often does not reach all of them.  Then the readings of the clock in such worlds.\<close>

inductive later :: "'w env \<Rightarrow> 'w \<Rightarrow> 'w \<Rightarrow> bool" for E w where
  now: "later E w w"
| clock: "later E w v \<Longrightarrow> later E w (snd (clock_Now E v))"
| uuid: "later E w v \<Longrightarrow> later E w (snd (uuid_New E v))"
| create: "later E w v \<Longrightarrow> later E w (snd (api_CreateResource E (detach_resource name d) v))"

definition clock_reads :: "'w env \<Rightarrow> 'w \<Rightarrow> time \<Rightarrow> bool" where
  "clock_reads E w t \<longleftrightarrow> (\<exists>v. later E w v \<and> fst (clock_Now E v) = t)"

inductive sync_step :: "'w env \<Rightarrow> 'w \<Rightarrow> string list \<Rightarrow> DeviceInfo \<Rightarrow> event list \<times> tracking \<Rightarrow> event list \<times> tracking \<Rightarrow> bool"
  for E w existing d where
  known: "di_DeviceID d \<in> set existing \<Longrightarrow> sync_step E w existing d (tr, m) (tr, m(di_DeviceID d := None))"
| track: "di_DeviceID d \<notin> set existing \<Longrightarrow> m (di_DeviceID d) = None \<Longrightarrow> clock_reads E w now
    \<Longrightarrow> sync_step E w existing d (tr, m) (tr, m(di_DeviceID d \<mapsto> now))"
| hold: "di_DeviceID d \<notin> set existing \<Longrightarrow> m (di_DeviceID d) = Some t \<Longrightarrow> clock_reads E w now
    \<Longrightarrow> now - t \<le> missingDeviceGracePeriod \<Longrightarrow> sync_step E w existing d (tr, m) (tr, m)"
| detach: "di_DeviceID d \<notin> set existing \<Longrightarrow> m (di_DeviceID d) = Some t \<Longrightarrow> clock_reads E w now
    \<Longrightarrow> now - t > missingDeviceGracePeriod
    \<Longrightarrow> sync_step E w existing d (tr, m) (tr @ [EvCreateResource (detach_resource name d)], m(di_DeviceID d := None))"
| detach_failed: "di_DeviceID d \<notin> set existing \<Longrightarrow> m (di_DeviceID d) = Some t \<Longrightarrow> clock_reads E w now
    \<Longrightarrow> now - t > missingDeviceGracePeriod
    \<Longrightarrow> sync_step E w existing d (tr, m) (tr @ [EvCreateResource (detach_resource name d)], m)"

inductive_cases sync_stepE: "sync_step E w existing d (tr, m) v"

text \<open>A round is one step per reported device, in their order.\<close>

fun sync_round :: "'w env \<Rightarrow> 'w \<Rightarrow> string list \<Rightarrow> DeviceInfo list \<Rightarrow> event list \<times> tracking \<Rightarrow> event list \<times> tracking \<Rightarrow> bool" where
  "sync_round E w existing [] v v' \<longleftrightarrow> v' = v"
| "sync_round E w existing (d # ds) v v' \<longleftrightarrow> (\<exists>u. sync_step E w existing d v u \<and> sync_round E w existing ds u v')"

definition mview :: "'w sys \<Rightarrow> event list \<times> tracking" where
  "mview s = (trace s, missingDevices s)"

lemma sync_device_step:
  assumes "later E w (world s)"
  shows "\<exists>s'. sync_device existing d E s = (Ret (), s') \<and> sync_step E w existing d (mview s) (mview s') \<and> later E w (world s')"
proof -
  have clock: "clock_reads E w t \<and> later E w w'" if "clock_Now E (world s) = (t, w')" for t w'
    using that assms later.clock [OF assms] unfolding clock_reads_def by (metis fst_conv snd_conv)
  have others: "uuid_New E v = (u, v') \<Longrightarrow> later E w v'" "api_CreateResource E (detach_resource name d') v = (x, v'') \<Longrightarrow> later E w v''"
    if "later E w v" for v v' v'' u name d' x
    using later.uuid [OF that] later.create [OF that, of name d'] by auto
  note run = sync_device_def createDetachCR_def GenerateComposableResourceName_def upd_missing_def time_Now_def
    Create_Resource_def prog_eval mview_def
  show ?thesis
  proof (cases "di_DeviceID d \<in> set existing")
    case True
    then show ?thesis using known [OF True, of E w "trace s" "missingDevices s"] assms
      by (cases "missingDevices s (di_DeviceID d)") (simp_all add: run fun_upd_idem)
  next
    case False
    then show ?thesis
      by (auto simp: run not_less dest!: clock intro: others sync_step.track sync_step.hold sync_step.detach sync_step.detach_failed
          split: option.split prod.split)
  qed
qed

lemma sync_round_runs:
  assumes "later E w (world s)"
  shows "\<exists>s'. forM ds () (\<lambda>d _. bindM (sync_device existing d) (\<lambda>_. ret (Next ()))) E s = (Ret (Inr () :: unit + unit), s')
     \<and> sync_round E w existing ds (mview s) (mview s')"
  using assms
proof (induction ds arbitrary: s)
  case Nil
  then show ?case by (simp add: ret_def)
next
  case (Cons d ds)
  obtain s1 where s1: "sync_device existing d E s = (Ret (), s1)" "sync_step E w existing d (mview s) (mview s1)" "later E w (world s1)"
    using sync_device_step [OF Cons.prems] by blast
  then obtain s' where "forM ds () (\<lambda>d _. bindM (sync_device existing d) (\<lambda>_. ret (Next ()))) E s1 = (Ret (Inr () :: unit + unit), s')"
      "sync_round E w existing ds (mview s1) (mview s')"
    using Cons.IH by blast
  with s1 show ?case unfolding sync_round.simps
    by (intro exI [of _ s'] conjI exI [of _ "mview s1"]) (simp_all add: prog_eval cong: prog_cong)
qed

lemma syncUpstreamData_run:
  assumes "GetResources P E s = (Ret (Inr devices), s1)" "api_ListResources E None (world s1) = (Inr items, w)"
  obtains s' m where "syncUpstreamData P E s = (Ret None, s')"
    "sync_round E w (existing_ids items) devices (trace s1, missingDevices s1) (trace s', m)"
    "missingDevices s' = m |` set (map di_DeviceID devices)"
proof -
  obtain s2 where s2: "forM devices () (\<lambda>d _. bindM (sync_device (existing_ids items) d) (\<lambda>_. ret (Next ()))) E (s1\<lparr>world := w\<rparr>)
      = (Ret (Inr () :: unit + unit), s2)" "sync_round E w (existing_ids items) devices (mview s1) (mview s2)"
    using sync_round_runs [of E w "s1\<lparr>world := w\<rparr>" devices "existing_ids items"] by (auto simp: mview_def intro: later.now)
  show ?thesis
    by (rule that [of "s2\<lparr>missingDevices := missingDevices s2 |` set (map di_DeviceID devices)\<rparr>" "missingDevices s2"])
       (use assms s2 in \<open>simp_all add: syncUpstreamData_def upd_missing_def prog_eval mview_def\<close>)
qed

section \<open>Facts about a round\<close>

lemma step_other: "sync_step E w existing d (tr, m) (tr', m') \<Longrightarrow> i \<noteq> di_DeviceID d \<Longrightarrow> m' i = m i"
  by (elim sync_stepE) auto

lemma round_other: "sync_round E w existing ds (tr, m) (tr', m') \<Longrightarrow> i \<notin> di_DeviceID ` set ds \<Longrightarrow> m' i = m i"
  by (induction ds arbitrary: tr m) (auto dest: step_other)

text \<open>A device with a resource is not tracked at the end.\<close>

lemma step_existing:
  "sync_step E w existing d (tr, m) (tr', m') \<Longrightarrow> i \<in> set existing \<Longrightarrow> m i = None \<or> i = di_DeviceID d \<Longrightarrow> m' i = None"
  by (elim sync_stepE) auto

lemma round_existing:
  "sync_round E w existing ds (tr, m) (tr', m') \<Longrightarrow> i \<in> set existing \<Longrightarrow> m i = None \<or> i \<in> di_DeviceID ` set ds \<Longrightarrow> m' i = None"
proof (induction ds arbitrary: tr m)
  case (Cons d ds)
  then obtain tr1 m1 where "sync_step E w existing d (tr, m) (tr1, m1)" "sync_round E w existing ds (tr1, m1) (tr', m')" by auto
  then show ?case using Cons step_existing [of E w existing d tr m tr1 m1 i] by auto
qed simp

lemma existing_ids_iff:
  "i \<notin> set (existing_ids items) \<longleftrightarrow> (\<forall>r \<in> set items. cr_DeviceID r \<noteq> [] \<longrightarrow> cr_DeviceID r \<noteq> i)"
  "set (existing_ids items) = cr_DeviceID ` {r \<in> set items. cr_DeviceID r \<noteq> []}"
  by (auto simp: existing_ids_def)

text \<open>The creations a round starting from \<open>m\<close> may make: only for a device without a resource that is tracked for longer than the
  grace period.\<close>

definition overdue :: "'w env \<Rightarrow> 'w \<Rightarrow> string list \<Rightarrow> DeviceInfo list \<Rightarrow> tracking \<Rightarrow> event \<Rightarrow> bool" where
  "overdue E w existing ds m ev \<longleftrightarrow> (\<exists>name d t now. ev = EvCreateResource (detach_resource name d) \<and> d \<in> set ds
     \<and> di_DeviceID d \<notin> set existing \<and> m (di_DeviceID d) = Some t \<and> clock_reads E w now \<and> now - t > missingDeviceGracePeriod)"

lemma distinct_image: "distinct (map f (x # xs)) \<Longrightarrow> y \<in> set xs \<Longrightarrow> f y \<noteq> f x"
  by (metis distinct.simps(2) image_eqI list.simps(9) list.set_map)

lemma step_overdue:
  "sync_step E w existing d (tr, m) (tr', m') \<Longrightarrow> \<exists>evs. tr' = tr @ evs \<and> list_all (overdue E w existing [d] m) evs"
  by (elim sync_stepE) (auto simp: overdue_def)

lemma round_overdue:
  "sync_round E w existing ds (tr, m) (tr', m') \<Longrightarrow> distinct (map di_DeviceID ds)
    \<Longrightarrow> \<exists>evs. tr' = tr @ evs \<and> list_all (overdue E w existing ds m) evs"
proof (induction ds arbitrary: tr m)
  case (Cons d ds)
  then obtain tr1 m1 where step: "sync_step E w existing d (tr, m) (tr1, m1)" and "sync_round E w existing ds (tr1, m1) (tr', m')" by auto
  with Cons obtain evs1 evs2 where evs: "tr1 = tr @ evs1" "list_all (overdue E w existing [d] m) evs1"
      "tr' = tr1 @ evs2" "list_all (overdue E w existing ds m1) evs2"
    using step_overdue [OF step] by fastforce
  have "m1 (di_DeviceID e) = m (di_DeviceID e)" if "e \<in> set ds" for e
    by (rule step_other [OF step distinct_image [OF Cons.prems(2) that]])
  then have "overdue E w existing (d # ds) m ev" if "overdue E w existing [d] m ev \<or> overdue E w existing ds m1 ev" for ev
    using that unfolding overdue_def by (metis list.set_intros singletonD list.set(1,2) insertE)
  with evs show ?case by (auto simp: list_all_iff)
qed simp

text \<open>What becomes of a listed device without a resource.\<close>

definition handled :: "'w env \<Rightarrow> 'w \<Rightarrow> DeviceInfo \<Rightarrow> time option \<Rightarrow> event list \<Rightarrow> time option \<Rightarrow> bool" where
  "handled E w d before evs after \<longleftrightarrow> (case before of
       None \<Rightarrow> (\<exists>now. clock_reads E w now \<and> after = Some now)
     | Some t \<Rightarrow> after = Some t \<and> (\<exists>now. clock_reads E w now \<and> now - t \<le> missingDeviceGracePeriod)
         \<or> after \<in> {Some t, None} \<and> (\<exists>name. EvCreateResource (detach_resource name d) \<in> set evs))"

lemma step_handled:
  "sync_step E w existing d (tr, m) (tr', m') \<Longrightarrow> di_DeviceID d \<notin> set existing
    \<Longrightarrow> \<exists>evs. tr' = tr @ evs \<and> handled E w d (m (di_DeviceID d)) evs (m' (di_DeviceID d))"
  by (elim sync_stepE) (auto simp: handled_def)

lemma round_extends: "sync_round E w existing ds (tr, m) (tr', m') \<Longrightarrow> \<exists>evs. tr' = tr @ evs"
proof (induction ds arbitrary: tr m)
  case (Cons d ds)
  then obtain tr1 m1 where "sync_step E w existing d (tr, m) (tr1, m1)" "\<exists>evs. tr' = tr1 @ evs" by fastforce
  then show ?case using step_overdue by fastforce
qed simp

lemma handled_more: "handled E w d b evs a \<Longrightarrow> set evs \<subseteq> set evs' \<Longrightarrow> handled E w d b evs' a"
  unfolding handled_def by (auto split: option.splits)

lemma round_handled:
  "sync_round E w existing ds (tr, m) (tr', m') \<Longrightarrow> distinct (map di_DeviceID ds) \<Longrightarrow> d \<in> set ds \<Longrightarrow> di_DeviceID d \<notin> set existing
    \<Longrightarrow> \<exists>evs. tr' = tr @ evs \<and> handled E w d (m (di_DeviceID d)) evs (m' (di_DeviceID d))"
proof (induction ds arbitrary: tr m)
  case (Cons e ds)
  then obtain tr1 m1 where step: "sync_step E w existing e (tr, m) (tr1, m1)" and rest: "sync_round E w existing ds (tr1, m1) (tr', m')" by auto
  obtain evs1 evs2 where evs: "tr1 = tr @ evs1" "tr' = tr1 @ evs2"
    using step_overdue [OF step] round_extends [OF rest] by blast
  show ?case
  proof (cases "d = e")
    case True
    then have "m' (di_DeviceID d) = m1 (di_DeviceID d)" using round_other [OF rest] Cons.prems(2) by auto
    moreover obtain evs where "tr1 = tr @ evs" "handled E w d (m (di_DeviceID d)) evs (m1 (di_DeviceID d))"
      using step_handled [of E w existing d tr m tr1 m1] step True Cons.prems(4) by blast
    ultimately show ?thesis using evs by (auto intro: handled_more)
  next
    case False
    then have "d \<in> set ds" using Cons.prems by simp
    note this distinct_image [OF Cons.prems(2) this]
    with Cons.IH [OF rest] Cons.prems step_other [OF step] evs show ?thesis by (auto intro: handled_more)
  qed
qed simp

section \<open>Properties of a round\<close>

text \<open>
  C14.  No device is detached too early.  In a round that got the list of devices (with distinct
  identifiers) and the list of resources, the only calls after the list are creations of resources that
  detach a reported device for which no resource exists and which has been tracked, since before the round, for longer than the grace
  period by a reading of the clock in a world that the calls of a round lead to.  The round itself always ends without an error.
\<close>

theorem syncUpstreamData_grace:
  assumes "GetResources P E s = (Ret (Inr devices), s1)" "api_ListResources E None (world s1) = (Inr items, w)"
    and "distinct (map di_DeviceID devices)"
  shows "\<exists>s' evs. syncUpstreamData P E s = (Ret None, s') \<and> trace s' = trace s1 @ evs
     \<and> (\<forall>ev \<in> set evs. \<exists>name d t now. ev = EvCreateResource (detach_resource name d) \<and> d \<in> set devices
          \<and> (\<forall>r \<in> set items. cr_DeviceID r \<noteq> [] \<longrightarrow> cr_DeviceID r \<noteq> di_DeviceID d)
          \<and> missingDevices s1 (di_DeviceID d) = Some t \<and> (\<exists>v. later E w v \<and> fst (clock_Now E v) = now) \<and> now - t > 10 * minute)"
proof -
  obtain s' m where run: "syncUpstreamData P E s = (Ret None, s')"
    "sync_round E w (existing_ids items) devices (trace s1, missingDevices s1) (trace s', m)"
    by (rule syncUpstreamData_run [OF assms(1,2)])
  obtain evs where "trace s' = trace s1 @ evs" "list_all (overdue E w (existing_ids items) devices (missingDevices s1)) evs"
    using round_overdue [OF run(2) assms(3)] by blast
  with run(1) show ?thesis
    unfolding list_all_iff overdue_def clock_reads_def missingDeviceGracePeriod_def existing_ids_iff(1)
    by (intro exI [of _ s'] exI [of _ evs] conjI)
qed

text \<open>
  C25.  The tracking map holds no garbage.  After a round that got both lists, a tracked device is one the
  service reported and no resource holds; every other entry has been forgotten, so the map stays as small as the
  list of devices.
\<close>

theorem syncUpstreamData_tracks_missing:
  assumes "GetResources P E s = (Ret (Inr devices), s1)" "api_ListResources E None (world s1) = (Inr items, w)"
  shows "\<exists>s'. syncUpstreamData P E s = (Ret None, s')
     \<and> dom (missingDevices s') \<subseteq> di_DeviceID ` set devices - cr_DeviceID ` {r \<in> set items. cr_DeviceID r \<noteq> []}"
proof -
  obtain s' m where run: "syncUpstreamData P E s = (Ret None, s')"
    "sync_round E w (existing_ids items) devices (trace s1, missingDevices s1) (trace s', m)"
    "missingDevices s' = m |` set (map di_DeviceID devices)"
    by (rule syncUpstreamData_run [OF assms])
  have "m i = None" if "i \<in> set (existing_ids items)" "i \<in> di_DeviceID ` set devices" for i
    by (rule round_existing [OF run(2) that(1)]) (simp add: that(2))
  then have "dom (missingDevices s') \<subseteq> di_DeviceID ` set devices - set (existing_ids items)"
    unfolding run(3) by (auto simp: restrict_map_def split: if_splits)
  with run(1) show ?thesis unfolding existing_ids_iff(2) by blast
qed

text \<open>
  C24.  Every device left behind is detached in the end.  A round that reports a device no resource holds
  starts to track it if it was not tracked; if it was tracked since \<open>t\<close> and every reading of the clock in
  a world that the calls of a round lead to is more than the grace period after \<open>t\<close>, the round creates a resource that detaches it.
\<close>

theorem syncUpstreamData_detaches:
  assumes "GetResources P E s = (Ret (Inr devices), s1)" "api_ListResources E None (world s1) = (Inr items, w)"
    and "distinct (map di_DeviceID devices)" "d \<in> set devices" "di_DeviceID d \<notin> cr_DeviceID ` set items"
  shows "\<exists>s' evs. syncUpstreamData P E s = (Ret None, s') \<and> trace s' = trace s1 @ evs
     \<and> (missingDevices s1 (di_DeviceID d) = None \<longrightarrow> missingDevices s' (di_DeviceID d) \<noteq> None)
     \<and> (\<forall>t. missingDevices s1 (di_DeviceID d) = Some t \<and> (\<forall>v. later E w v \<longrightarrow> fst (clock_Now E v) > t + 10 * minute)
          \<longrightarrow> (\<exists>name. EvCreateResource (detach_resource name d) \<in> set evs))"
proof -
  obtain s' m where run: "syncUpstreamData P E s = (Ret None, s')"
    "sync_round E w (existing_ids items) devices (trace s1, missingDevices s1) (trace s', m)"
    "missingDevices s' = m |` set (map di_DeviceID devices)"
    by (rule syncUpstreamData_run [OF assms(1,2)])
  have new: "di_DeviceID d \<notin> set (existing_ids items)" using assms(5) by (auto simp: existing_ids_def)
  obtain evs where evs: "trace s' = trace s1 @ evs" "handled E w d (missingDevices s1 (di_DeviceID d)) evs (m (di_DeviceID d))"
    using round_handled [OF run(2) assms(3,4) new] by blast
  have "missingDevices s' (di_DeviceID d) = m (di_DeviceID d)" using run(3) assms(4) by simp
  moreover have "\<not> clock_reads E w now" if "\<forall>v. later E w v \<longrightarrow> fst (clock_Now E v) > t + 10 * minute" "now - t \<le> missingDeviceGracePeriod" for t now
    using that unfolding clock_reads_def missingDeviceGracePeriod_def by force
  ultimately show ?thesis
    using evs run(1) unfolding handled_def
    by (intro exI [of _ s'] exI [of _ evs]) (auto split: option.splits)
qed

section \<open>The goroutine\<close>

text \<open>What the syncer may do to the outside: ask the service, and create resources that are labelled for detaching.\<close>

definition syncer_event :: "event \<Rightarrow> bool" where
  "syncer_event ev \<longleftrightarrow> (case ev of
       EvHttp h \<Rightarrow> reads_only h
     | EvCreateResource r \<Rightarrow> (\<exists>name d. r = detach_resource name d)
     | _ \<Rightarrow> False)"

lemma emits_sync_device: "emits syncer_event (sync_device existing d)"
  unfolding sync_device_def createDetachCR_def upd_missing_def
  by (intro emits_intro) (auto simp: syncer_event_def)

context cdi_provider
begin

lemma emits_syncUpstreamData: "emits syncer_event (syncUpstreamData P)"
proof -
  have get: "emits syncer_event (GetResources P)"
    by (rule emits_mono [OF get_sends]) (auto simp: syncer_event_def elim: http_only.elims)
  show ?thesis
    unfolding syncUpstreamData_def upd_missing_def
    by (intro emits_intro get emits_sync_device) simp
qed

lemma emits_sync_ticks: "emits syncer_event (sync_ticks n P)"
  by (induction n) (auto intro!: emits_intro emits_syncUpstreamData)

end

lemma trace_emits:
  assumes "emits A m"
  shows "wpv H trace m (\<lambda>_ v. \<exists>evs. v = tr @ evs \<and> list_all A evs) (\<lambda>v. \<exists>evs. v = tr @ evs \<and> list_all A evs) tr"
  unfolding wpv_def using emits_trace [OF assms] by (auto split: prod.split outcome.split) (metis snd_conv)+

text \<open>
  C26.  The syncer never touches the fabric itself.  However many ticks it runs, and whatever the adapter chooses as the
  provider, its only calls with an effect are requests to the CDI service that read, and creations of resources
  labelled with a device to detach; it attaches, detaches, updates and deletes nothing.
\<close>

theorem upstream_syncer_footprint:
  "\<exists>evs. trace (snd (upstream_syncer n E s)) = trace s @ evs \<and> list_all syncer_event evs"
proof -
  let ?Q = "\<lambda>v. \<exists>evs. v = trace s @ evs \<and> list_all syncer_event evs"
  have ticks: "wpv H trace (thenM (sync_ticks n P) (ret None)) (\<lambda>_. ?Q) ?Q (trace s)"
    if "cdi_provider P" for H :: "'a env \<Rightarrow> bool" and P
    by (rule trace_emits) (intro emits_intro cdi_provider.emits_sync_ticks that)
  have all: "wpv (\<lambda>_. True) trace (upstream_syncer n :: ('a, error option) go) (\<lambda>_. ?Q) ?Q (trace s)"
    unfolding upstream_syncer_def upd_missing_def
    by (intro wpv_thenM [where m = "modifyM _"] wpv_modifyM [where g = id] wpv_tryM adapter_run conjI allI impI wpv_ret)
       (auto intro: ticks)
  show ?thesis
    using wpvD [OF all TrueI refl, of E] by (cases "upstream_syncer n E s"; cases "fst (upstream_syncer n E s)") auto
qed

section \<open>A concrete round\<close>

text \<open>A provider that reports one device, and a clock that shows the world.\<close>

definition lost_device :: DeviceInfo where
  "lost_device = \<lparr>di_NodeName = ''n1'', di_MachineUUID = ''m1'', di_DeviceType = ''gpu'', di_Model = ''A100'',
     di_DeviceID = ''GPU-a'', di_CDIDeviceID = ''res-1''\<rparr>"

definition reporting :: "DeviceInfo list \<Rightarrow> 'w CdiProvider" where
  "reporting ds = \<lparr>AddResource = ret ([], [], None), RemoveResource = ret None, CheckResource = ret None, GetResources = ret (Inr ds)\<rparr>"

definition clock_env :: "int env" where
  "clock_env = void_env\<lparr>api_ListResources := \<lambda>_ w. (Inr [], w), api_CreateResource := \<lambda>_ w. (None, w),
     clock_Now := \<lambda>w. (11 * minute + abs w, w)\<rparr>"

lemma lost_round:
  "GetResources (reporting [lost_device]) clock_env s = (Ret (Inr [lost_device]), s)"
  "api_ListResources clock_env None (world s) = (Inr [], world s)"
  by (simp_all add: reporting_def clock_env_def ret_def)

theorem syncUpstreamData_grace_witness:
  "\<exists>s' evs. syncUpstreamData (reporting [lost_device]) clock_env ((start 0)\<lparr>missingDevices := [''GPU-a'' \<mapsto> 0]\<rparr>) = (Ret None, s')
     \<and> trace s' = evs \<and> (\<forall>ev \<in> set evs. \<exists>name. ev = EvCreateResource (detach_resource name lost_device))"
  using syncUpstreamData_grace [OF lost_round, of "(start 0)\<lparr>missingDevices := [''GPU-a'' \<mapsto> 0]\<rparr>"]
  by (force simp: start_def)

theorem syncUpstreamData_tracks_missing_witness:
  "\<exists>s'. syncUpstreamData (reporting [lost_device]) clock_env ((start 0)\<lparr>missingDevices := [''gone'' \<mapsto> 0]\<rparr>) = (Ret None, s')
     \<and> dom (missingDevices s') \<subseteq> {''GPU-a''}"
  using syncUpstreamData_tracks_missing [OF lost_round] by (simp add: lost_device_def)

theorem syncUpstreamData_detaches_witness:
  "\<exists>s' evs name. syncUpstreamData (reporting [lost_device]) clock_env ((start 0)\<lparr>missingDevices := [''GPU-a'' \<mapsto> 0]\<rparr>) = (Ret None, s')
     \<and> trace s' = evs \<and> EvCreateResource (detach_resource name lost_device) \<in> set evs"
proof -
  let ?s = "(start 0)\<lparr>missingDevices := [''GPU-a'' \<mapsto> 0]\<rparr> :: int sys"
  have late: "\<forall>v. later clock_env 0 v \<longrightarrow> fst (clock_Now clock_env v) > 0 + 10 * minute" by (auto simp: clock_env_def minute_def second_def add_pos_nonneg)
  have tracked: "missingDevices ?s (di_DeviceID lost_device) = Some 0" by (simp add: lost_device_def)
  obtain s' evs where "syncUpstreamData (reporting [lost_device]) clock_env ?s = (Ret None, s')" "trace s' = trace ?s @ evs"
      "\<exists>name. EvCreateResource (detach_resource name lost_device) \<in> set evs"
    using syncUpstreamData_detaches [OF lost_round, of lost_device ?s] late tracked by (auto simp: start_def)
  then show ?thesis by (auto simp: start_def)
qed

end
