(* ===== verification/Webhook.thy ===== *)
theory Webhook
  imports World
begin

text \<open>
  The validating webhook of ComposabilityRequests,
  \<^verbatim>\<open>src/internal/webhook/v1alpha1/composabilityrequest_webhook.go\<close>.  The admission of an object is
  a program whose result is the error the webhook answers, \<open>None\<close> for an admitted object; the
  warnings it returns are always empty.

  The lemmas give the loops as a decision on the listed requests, and the cluster as a step relation:
  whatever is created, updated and deleted through the webhook, no two requests of the policy
  differentnode ask for the same device, nor two of the policy samenode for it on the same target node.
\<close>

section \<open>The validator\<close>

text \<open>A \<^verbatim>\<open>runtime.Object\<close>: a ComposabilityRequest, or a value of another type, of which the code
  prints the name with \<^verbatim>\<open>%T\<close>.\<close>

datatype runtime_object = RequestObject ComposabilityRequest | OtherObject string

definition same_device :: "ComposabilityRequest \<Rightarrow> ComposabilityRequest \<Rightarrow> bool" where
  "same_device r req \<longleftrightarrow> srd_Type (crq_Resource req) = srd_Type (crq_Resource r)
     \<and> srd_Model (crq_Resource req) = srd_Model (crq_Resource r)"

text \<open>The node of another request: its target node, or the node of the first of its resources.\<close>

definition node_of_request :: "ComposabilityRequest \<Rightarrow> string" where
  "node_of_request req =
     (if srd_TargetNode (crq_Resource req) = [] then
        (case crq_Resources req of [] \<Rightarrow> [] | (_, v) # _ \<Rightarrow> srs_NodeName v)
      else srd_TargetNode (crq_Resource req))"

definition already_exists :: "ComposabilityRequest \<Rightarrow> ComposabilityRequest \<Rightarrow> error" where
  "already_exists r req =
     ErrorString (''composabilityRequest resource '' @ crq_Name req @ '' with type '' @ srd_Type (crq_Resource r)
       @ '' and model '' @ srd_Model (crq_Resource r) @ '' already exists'')"

definition check_differentnode :: "ComposabilityRequest \<Rightarrow> ComposabilityRequest list \<Rightarrow> ('w, error + unit) go" where
  "check_differentnode r items =
     forM items () (\<lambda>req _.
       if crq_Name req = crq_Name r then ret (Next ())
       else if srd_AllocationPolicy (crq_Resource req) = ''differentnode'' \<and> same_device r req
       then ret (Return (already_exists r req))
       else ret (Next ()))"

definition check_samenode :: "ComposabilityRequest \<Rightarrow> ComposabilityRequest list \<Rightarrow> ('w, error + unit) go" where
  "check_samenode r items =
     forM items () (\<lambda>req _.
       if crq_Name req = crq_Name r then ret (Next ())
       else if node_of_request req = srd_TargetNode (crq_Resource r) \<and> same_device r req
       then ret (Return (already_exists r req))
       else ret (Next ()))"

definition validateRequest :: "ComposabilityRequest \<Rightarrow> ('w, error option) go" where
  "validateRequest r =
     tryM (query (\<lambda>E. api_ListRequests E)) (\<lambda>err. ret (Some err)) (\<lambda>items.
     if srd_AllocationPolicy (crq_Resource r) = ''differentnode'' \<and> srd_TargetNode (crq_Resource r) \<noteq> [] then
       ret (Some (ErrorString (''TargetNode cannot be specified when AllocationPolicy is set to '' @ squote ''differentnode'')))
     else
       tryM (if srd_AllocationPolicy (crq_Resource r) = ''differentnode'' then check_differentnode r items
             else if srd_AllocationPolicy (crq_Resource r) = ''samenode'' then check_samenode r items
             else ret (Inr ()))
         (\<lambda>err. ret (Some err)) (\<lambda>_. ret None))"

definition not_a_request :: "string \<Rightarrow> error" where
  "not_a_request tname = ErrorString (''expected a ComposabilityRequest object but got '' @ tname)"

fun ValidateCreate :: "runtime_object \<Rightarrow> ('w, error option) go" where
  "ValidateCreate (RequestObject r) = validateRequest r"
| "ValidateCreate (OtherObject tname) = ret (Some (not_a_request tname))"

fun ValidateUpdate :: "runtime_object \<Rightarrow> runtime_object \<Rightarrow> ('w, error option) go" where
  "ValidateUpdate oldObj (RequestObject r) = validateRequest r"
| "ValidateUpdate oldObj (OtherObject tname) = ret (Some (not_a_request tname))"

definition ValidateDelete :: "runtime_object \<Rightarrow> ('w, error option) go" where
  "ValidateDelete obj = ret None"

section \<open>What is admitted\<close>

text \<open>The loops of the validator as one question asked of every other listed request, in terms of the objects alone.  A request is
  on its target node, or else on the node of its first resource, or else on none.\<close>

definition on_node :: "ComposabilityRequest \<Rightarrow> string \<Rightarrow> bool" where
  "on_node q n \<longleftrightarrow> n = srd_TargetNode (crq_Resource q) \<and> n \<noteq> []
     \<or> srd_TargetNode (crq_Resource q) = [] \<and> (if crq_Resources q = [] then n = [] else n = srs_NodeName (snd (hd (crq_Resources q))))"

fun rejects :: "ComposabilityRequest \<Rightarrow> ComposabilityRequest \<Rightarrow> bool" where
  "rejects r req \<longleftrightarrow> crq_Name req \<noteq> crq_Name r
     \<and> srd_Type (crq_Resource r) = srd_Type (crq_Resource req) \<and> srd_Model (crq_Resource r) = srd_Model (crq_Resource req) \<and>
     (if srd_AllocationPolicy (crq_Resource r) = ''differentnode''
      then srd_AllocationPolicy (crq_Resource req) = ''differentnode''
      else srd_AllocationPolicy (crq_Resource r) = ''samenode'' \<and> on_node req (srd_TargetNode (crq_Resource r)))"

lemma node_of_request_on: "node_of_request q = n \<longleftrightarrow> on_node q n"
  by (cases "crq_Resources q") (auto simp: node_of_request_def on_node_def)

lemma rejects_iff:
  "rejects r req \<longleftrightarrow> crq_Name req \<noteq> crq_Name r \<and> same_device r req \<and>
     (if srd_AllocationPolicy (crq_Resource r) = ''differentnode''
      then srd_AllocationPolicy (crq_Resource req) = ''differentnode''
      else srd_AllocationPolicy (crq_Resource r) = ''samenode'' \<and> node_of_request req = srd_TargetNode (crq_Resource r))"
  by (auto simp: node_of_request_on same_device_def)

definition admissible :: "ComposabilityRequest list \<Rightarrow> ComposabilityRequest \<Rightarrow> bool" where
  "admissible items r \<longleftrightarrow>
     (srd_AllocationPolicy (crq_Resource r) = ''differentnode'' \<longrightarrow> srd_TargetNode (crq_Resource r) = [])
     \<and> \<not> list_ex (rejects r) items"

lemma forM_skip_search:
  "\<exists>e. forM xs () (\<lambda>x _. if skip x then ret (Next ()) else if p x then ret (Return (g x)) else ret (Next ())) E s
    = (Ret (if list_ex (\<lambda>x. \<not> skip x \<and> p x) xs then Inl e else Inr ()), s)"
  by (induction xs) (auto simp: prog_eval)

lemma check_runs:
  "\<exists>e. check_differentnode r items E s = (Ret (if list_ex (\<lambda>req. crq_Name req \<noteq> crq_Name r
       \<and> srd_AllocationPolicy (crq_Resource req) = ''differentnode'' \<and> same_device r req) items then Inl e else Inr ()), s)"
  "\<exists>e. check_samenode r items E s = (Ret (if list_ex (\<lambda>req. crq_Name req \<noteq> crq_Name r
       \<and> node_of_request req = srd_TargetNode (crq_Resource r) \<and> same_device r req) items then Inl e else Inr ()), s)"
  unfolding check_differentnode_def check_samenode_def by (rule forM_skip_search)+

lemma validateRequest_run:
  assumes "api_ListRequests E (world s) = (Inr items, w)"
  shows "\<exists>a. validateRequest r E s = (Ret a, s\<lparr>world := w\<rparr>) \<and> (a = None \<longleftrightarrow> admissible items r)"
proof -
  let ?s = "s\<lparr>world := w\<rparr>"
  obtain e e' where "check_differentnode r items E ?s = (Ret (if list_ex (\<lambda>req. crq_Name req \<noteq> crq_Name r
       \<and> srd_AllocationPolicy (crq_Resource req) = ''differentnode'' \<and> same_device r req) items then Inl e else Inr ()), ?s)"
    "check_samenode r items E ?s = (Ret (if list_ex (\<lambda>req. crq_Name req \<noteq> crq_Name r
       \<and> node_of_request req = srd_TargetNode (crq_Resource r) \<and> same_device r req) items then Inl e' else Inr ()), ?s)"
    using check_runs [where E = E and s = ?s] by meson
  then show ?thesis
    using assms by (auto simp: validateRequest_def prog_eval admissible_def list_ex_iff rejects_iff simp del: rejects.simps)
qed

text \<open>
  C15.  The decision of the webhook, for creation and for update: an object is admitted exactly when it does not combine the policy
  differentnode with a target node, and no other listed request rejects it, that is, asks for the
  same type and model and, for differentnode, has that policy too, for samenode, is on the
  target node asked for (by its own target node, or else by the node of its first resource).  The answer is always an answer (no panic) and nothing but the list call is made.
\<close>

theorem webhook_decides:
  assumes "api_ListRequests E (world s) = (Inr items, w)"
  shows "\<exists>a. ValidateCreate (RequestObject r) E s = (Ret a, s\<lparr>world := w\<rparr>)
     \<and> ValidateUpdate old (RequestObject r) E s = (Ret a, s\<lparr>world := w\<rparr>)
     \<and> (a = None \<longleftrightarrow> admissible items r)"
  using validateRequest_run [OF assms] by simp

section \<open>The cluster behind the webhook\<close>

text \<open>
  The requests of the cluster as the webhook's list call shows them, and what may happen to them: creations and
  updates pass the webhook, deletions and writes of the status do not change the specifications.
\<close>

definition put :: "ComposabilityRequest \<Rightarrow> ComposabilityRequest list \<Rightarrow> ComposabilityRequest list" where
  "put r = map (\<lambda>q. if crq_Name q = crq_Name r then r else q)"

inductive admission :: "'w env \<Rightarrow> ComposabilityRequest list \<Rightarrow> ComposabilityRequest list \<Rightarrow> bool" for E where
  create: "api_ListRequests E (world s) = (Inr qs, w) \<Longrightarrow> crq_Name r \<notin> crq_Name ` set qs
    \<Longrightarrow> ValidateCreate (RequestObject r) E s = (Ret None, s') \<Longrightarrow> admission E qs (qs @ [r])"
| update: "api_ListRequests E (world s) = (Inr qs, w) \<Longrightarrow> q \<in> set qs \<Longrightarrow> crq_Name r = crq_Name q
    \<Longrightarrow> ValidateUpdate (RequestObject q) (RequestObject r) E s = (Ret None, s') \<Longrightarrow> admission E qs (put r qs)"
| write_status: "q \<in> set qs \<Longrightarrow> admission E qs (put (q\<lparr>crq_Status := st\<rparr>) qs)"
| remove: "admission E qs (filter (\<lambda>q. crq_Name q \<noteq> name) qs)"

text \<open>Two requests that ask for the same device in the same place.\<close>

definition conflict :: "ComposabilityRequest \<Rightarrow> ComposabilityRequest \<Rightarrow> bool" where
  "conflict p q \<longleftrightarrow> srd_Type (crq_Resource p) = srd_Type (crq_Resource q) \<and> srd_Model (crq_Resource p) = srd_Model (crq_Resource q)
     \<and> srd_AllocationPolicy (crq_Resource p) = srd_AllocationPolicy (crq_Resource q) \<and>
     (srd_AllocationPolicy (crq_Resource p) = ''differentnode''
      \<or> srd_AllocationPolicy (crq_Resource p) = ''samenode'' \<and> srd_TargetNode (crq_Resource p) \<noteq> []
        \<and> srd_TargetNode (crq_Resource p) = srd_TargetNode (crq_Resource q))"

definition separate :: "ComposabilityRequest list \<Rightarrow> bool" where
  "separate qs \<longleftrightarrow> distinct (map crq_Name qs)
     \<and> (\<forall>q \<in> set qs. srd_AllocationPolicy (crq_Resource q) = ''differentnode'' \<longrightarrow> srd_TargetNode (crq_Resource q) = [])
     \<and> (\<forall>p \<in> set qs. \<forall>q \<in> set qs. crq_Name p \<noteq> crq_Name q \<longrightarrow> \<not> conflict p q)"

lemma conflict_sym: "conflict p q \<Longrightarrow> conflict q p"
  unfolding conflict_def by auto

lemma conflict_rejects: "conflict r q \<Longrightarrow> crq_Name q \<noteq> crq_Name r \<Longrightarrow> rejects r q"
  by (auto simp: conflict_def on_node_def)

lemma admissible_no_conflict:
  "admissible qs r \<Longrightarrow> q \<in> set qs \<Longrightarrow> crq_Name q \<noteq> crq_Name r \<Longrightarrow> \<not> conflict r q"
  using conflict_rejects unfolding admissible_def list_ex_iff by blast

lemma names_put [simp]: "map crq_Name (put r qs) = map crq_Name qs"
  by (simp add: put_def)

lemma set_put: "p \<in> set (put r qs) \<Longrightarrow> p = r \<or> p \<in> set qs \<and> crq_Name p \<noteq> crq_Name r"
  by (auto simp: put_def)

lemma admitted: 
  assumes "api_ListRequests E (world s) = (Inr qs, w)" "validateRequest r E s = (Ret None, s')"
  shows "admissible qs r"
  using validateRequest_run [OF assms(1), of r] assms(2) by auto

lemma separate_create: "separate qs \<Longrightarrow> crq_Name r \<notin> crq_Name ` set qs \<Longrightarrow> admissible qs r \<Longrightarrow> separate (qs @ [r])"
  using admissible_no_conflict [of qs r] unfolding separate_def
  by (auto simp: admissible_def dest: conflict_sym)

text \<open>A new version of one request that is legal on its own and conflicts with no other request.\<close>

lemma separate_put:
  assumes "separate qs"
    and "srd_AllocationPolicy (crq_Resource r) = ''differentnode'' \<longrightarrow> srd_TargetNode (crq_Resource r) = []"
    and "\<And>q. q \<in> set qs \<Longrightarrow> crq_Name q \<noteq> crq_Name r \<Longrightarrow> \<not> conflict r q"
  shows "separate (put r qs)"
  using assms unfolding separate_def by (auto dest!: set_put dest: conflict_sym)

lemma admission_separate:
  assumes "admission E qs qs'" "separate qs"
  shows "separate qs'"
  using assms
proof (cases rule: admission.cases)
  case (create s w r s')
  then show ?thesis using assms(2) admitted [OF create(2)] by (simp add: separate_create)
next
  case (update s w q r s')
  then have "admissible qs r" using admitted [OF update(2)] by simp
  then show ?thesis
    unfolding update(1) by (intro separate_put assms(2) admissible_no_conflict) (simp_all add: admissible_def)
next
  case (write_status q st)
  have "conflict (q\<lparr>crq_Status := st\<rparr>) p = conflict q p" for p by (simp add: conflict_def)
  then show ?thesis
    unfolding write_status(1) using assms(2) write_status(2) by (intro separate_put assms(2)) (auto simp: separate_def)
next
  case (remove name)
  then show ?thesis using assms(2) by (auto simp: separate_def distinct_map_filter)
qed

text \<open>
  C16.  What the webhook guarantees of the cluster.  When every creation and update passes it while its
  list call shows the requests there are, then in every reachable cluster the names are distinct, no request of policy differentnode names a
  target node, no two requests of policy differentnode have the same type and model, and no two of policy
  samenode have the same type, model and target node.
\<close>

theorem webhook_invariant:
  assumes "(admission E)\<^sup>*\<^sup>* [] qs"
  shows "separate qs"
  using assms by (induction rule: rtranclp_induct) (simp add: separate_def, rule admission_separate)

text \<open>Concretely: the cluster is the world, and the list call shows it.\<close>

definition listing_env :: "ComposabilityRequest list env" where
  "listing_env = void_env\<lparr>api_ListRequests := \<lambda>w. (Inr w, w)\<rparr>"

definition gpu_request :: "string \<Rightarrow> string \<Rightarrow> string \<Rightarrow> ComposabilityRequest" where
  "gpu_request name policy node = empty_request\<lparr>crq_Meta := empty_meta\<lparr>om_Name := name\<rparr>,
     crq_Resource := \<lparr>srd_Type = ''gpu'', srd_Model = ''A100'', srd_Size = 1, srd_ForceDetach = False,
       srd_AllocationPolicy = policy, srd_TargetNode = node, srd_OtherSpec = None\<rparr>\<rparr>"

lemmas webhook_demo = listing_env_def start_def gpu_request_def admissible_def on_node_def
  empty_request_def empty_meta_def

lemma listing_validates:
  "api_ListRequests listing_env (world (start qs)) = (Inr qs, qs)"
  "admissible qs r \<Longrightarrow> validateRequest r listing_env (start qs) = (Ret None, start qs)"
proof -
  show list: "api_ListRequests listing_env (world (start qs)) = (Inr qs, qs)"
    by (simp add: listing_env_def start_def)
  show "validateRequest r listing_env (start qs) = (Ret None, start qs)" if "admissible qs r"
    using validateRequest_run [OF list, of r] that by (auto simp: start_def)
qed

lemma listing_create:
  "admissible qs r \<Longrightarrow> crq_Name r \<notin> crq_Name ` set qs \<Longrightarrow> admission listing_env qs (qs @ [r])"
  by (rule admission.create [OF listing_validates(1)]) (simp_all add: listing_validates)

theorem webhook_decides_witness:
  "\<exists>a. ValidateCreate (RequestObject (gpu_request ''b'' ''differentnode'' [])) listing_env (start [gpu_request ''a'' ''differentnode'' []])
       = (Ret (Some a), start [gpu_request ''a'' ''differentnode'' []])"
  using webhook_decides [OF listing_validates(1), of "gpu_request ''b'' ''differentnode'' []" "[gpu_request ''a'' ''differentnode'' []]"]
  by (auto simp: webhook_demo)

theorem webhook_invariant_witness:
  "separate [gpu_request ''a'' ''differentnode'' [], gpu_request ''b'' ''samenode'' ''n1'']"
proof -
  have "admission listing_env [] [gpu_request ''a'' ''differentnode'' []]"
    using listing_create [of "[]" "gpu_request ''a'' ''differentnode'' []"] by (simp add: webhook_demo)
  moreover have "admission listing_env [gpu_request ''a'' ''differentnode'' []]
      [gpu_request ''a'' ''differentnode'' [], gpu_request ''b'' ''samenode'' ''n1'']"
    using listing_create [of "[gpu_request ''a'' ''differentnode'' []]" "gpu_request ''b'' ''samenode'' ''n1''"] by (simp add: webhook_demo)
  ultimately have "(admission listing_env)\<^sup>*\<^sup>* [] [gpu_request ''a'' ''differentnode'' [], gpu_request ''b'' ''samenode'' ''n1'']"
    by (meson converse_rtranclp_into_rtranclp r_into_rtranclp)
  then show ?thesis by (rule webhook_invariant)
qed

text \<open>
  The check is not symmetric.  The source says that a request for the whole cluster and one for a
  target node cannot be mixed.  A samenode request for the node a differentnode request already uses
  is rejected, but the two are admitted in the other order.
\<close>

lemma mixing_depends_on_order:
  assumes "srd_AllocationPolicy (crq_Resource spread) = ''differentnode''" "srd_TargetNode (crq_Resource spread) = []"
    and "srd_AllocationPolicy (crq_Resource pinned) = ''samenode''" "on_node spread (srd_TargetNode (crq_Resource pinned))"
    and "srd_Type (crq_Resource pinned) = srd_Type (crq_Resource spread)" "srd_Model (crq_Resource pinned) = srd_Model (crq_Resource spread)"
    and "crq_Name spread \<noteq> crq_Name pinned"
  shows "\<not> admissible [spread] pinned" "admissible [pinned] spread"
  using assms by (simp_all add: admissible_def)

end
