(* ===== verification/Manager.thy ===== *)
theory Manager
  imports RequestController UpstreamSyncer
begin

text \<open>
  The entry point: \<^verbatim>\<open>src/cmd/main.go\<close>, the scheme of \<^verbatim>\<open>src/api/v1alpha1\<close> and the
  \<^verbatim>\<open>SetupWithManager\<close> functions.  What the manager of controller-runtime is told is recorded in
  the state; whether a call succeeds is a parameter.  The parsing of the command line is that of Go's package flag,
  where flags registered by libraries (those of zap and \<^verbatim>\<open>kubeconfig\<close>) are a parameter.

  The lemmas say that the manager is started only when everything has been set up, that \<^verbatim>\<open>main\<close> stops at the
  first failure, and that the settings on the command line, or else the defaults, reach the manager's options.
\<close>

section \<open>The command line\<close>

record flags =
  metricsAddr :: string
  probeAddr :: string
  enableLeaderElection :: bool
  secureMetrics :: bool
  enableHTTP2 :: bool

definition default_flags :: flags where
  "default_flags = \<lparr>metricsAddr = ''0'', probeAddr = '':8081'', enableLeaderElection = False, secureMetrics = True,
     enableHTTP2 = False\<rparr>"

datatype flag_error = ErrHelp | BadSyntax string | NotDefined string | InvalidBool string string | InvalidValue string string
  | NeedsArgument string

text \<open>\<^verbatim>\<open>strconv.ParseBool\<close>\<close>

definition ParseBool :: "string \<Rightarrow> bool option" where
  "ParseBool s =
     (if s \<in> {''1'', ''t'', ''T'', ''true'', ''TRUE'', ''True''} then Some True
      else if s \<in> {''0'', ''f'', ''F'', ''false'', ''FALSE'', ''False''} then Some False
      else None)"

text \<open>The flags \<^verbatim>\<open>main\<close> registers, and those of libraries: \<open>lib\<close> gives the names it knows, whether they
  are boolean, and the values it accepts.\<close>

record flag_lib =
  lib_IsBoolFlag :: "string \<Rightarrow> bool option"
  lib_Accepts :: "string \<Rightarrow> string \<Rightarrow> bool"

definition bool_flags :: "(string \<times> ((bool \<Rightarrow> bool) \<Rightarrow> flags \<Rightarrow> flags)) list" where
  "bool_flags = [(''leader-elect'', enableLeaderElection_update), (''metrics-secure'', secureMetrics_update),
     (''enable-http2'', enableHTTP2_update)]"

definition string_flags :: "(string \<times> ((string \<Rightarrow> string) \<Rightarrow> flags \<Rightarrow> flags)) list" where
  "string_flags = [(''metrics-bind-address'', metricsAddr_update), (''health-probe-bind-address'', probeAddr_update)]"

definition IsBoolFlag :: "flag_lib \<Rightarrow> string \<Rightarrow> bool option" where
  "IsBoolFlag lib name =
     (if name \<in> fst ` set bool_flags then Some True
      else if name \<in> fst ` set string_flags then Some False
      else lib_IsBoolFlag lib name)"

text \<open>\<^verbatim>\<open>fv.Set(value)\<close>: \<open>None\<close> for a value that is refused.\<close>

definition Set_flag :: "flag_lib \<Rightarrow> string \<Rightarrow> string \<Rightarrow> flags \<Rightarrow> flags option" where
  "Set_flag lib name value fl =
     (case map_of bool_flags name of
        Some upd \<Rightarrow> map_option (\<lambda>b. upd (\<lambda>_. b) fl) (ParseBool value)
      | None \<Rightarrow> (case map_of string_flags name of
          Some upd \<Rightarrow> Some (upd (\<lambda>_. value) fl)
        | None \<Rightarrow> if lib_Accepts lib name value then Some fl else None))"

text \<open>\<^verbatim>\<open>FlagSet.Parse\<close> with \<^verbatim>\<open>parseOne\<close>: parsing ends at the first argument that is not a flag.  The name of a flag
  starts after one or two dashes and ends at the first equals sign.\<close>

definition flag_body :: "string \<Rightarrow> string" where
  "flag_body s = (if s ! 1 = CHR ''-'' then drop 2 s else drop 1 s)"

definition flag_name :: "string \<Rightarrow> string" where
  "flag_name body = takeWhile (\<lambda>c. c \<noteq> CHR ''='') body"

definition flag_value :: "string \<Rightarrow> string option" where
  "flag_value body = (case dropWhile (\<lambda>c. c \<noteq> CHR ''='') body of [] \<Rightarrow> None | _ # v \<Rightarrow> Some v)"

fun parse_flags :: "flag_lib \<Rightarrow> string list \<Rightarrow> flags \<Rightarrow> flag_error + flags" where
  "parse_flags lib [] fl = Inr fl"
| "parse_flags lib (s # args) fl =
     (if length s < 2 \<or> hd s \<noteq> CHR ''-'' then Inr fl
      else if s = ''--'' then Inr fl
      else
        let body = flag_body s; name = flag_name body in
        if body = [] \<or> hd body = CHR ''-'' \<or> hd body = CHR ''='' then Inl (BadSyntax s)
        else case IsBoolFlag lib name of
          None \<Rightarrow> Inl (if name = ''help'' \<or> name = ''h'' then ErrHelp else NotDefined name)
        | Some True \<Rightarrow>
            (let value = (case flag_value body of Some v \<Rightarrow> v | None \<Rightarrow> ''true'') in
             case Set_flag lib name value fl of
               None \<Rightarrow> Inl (InvalidBool name value)
             | Some fl' \<Rightarrow> parse_flags lib args fl')
        | Some False \<Rightarrow>
            (case flag_value body of
               Some value \<Rightarrow>
                 (case Set_flag lib name value fl of
                    None \<Rightarrow> Inl (InvalidValue name value)
                  | Some fl' \<Rightarrow> parse_flags lib args fl')
             | None \<Rightarrow>
                 (case args of
                    [] \<Rightarrow> Inl (NeedsArgument name)
                  | value # rest \<Rightarrow>
                      (case Set_flag lib name value fl of
                         None \<Rightarrow> Inl (InvalidValue name value)
                       | Some fl' \<Rightarrow> parse_flags lib rest fl'))))"

section \<open>What the manager is told\<close>

datatype api_kind = KComposabilityRequest | KComposabilityRequestList | KComposableResource | KComposableResourceList

text \<open>\<^verbatim>\<open>SchemeBuilder.Register\<close> in the two \<^verbatim>\<open>init\<close> functions of the package, and the group.\<close>

definition GroupVersion :: "string \<times> string" where
  "GroupVersion = (''cro.hpsys.ibm.ie.com'', ''v1alpha1'')"

definition registered_kinds :: "api_kind list" where
  "registered_kinds = [KComposabilityRequest, KComposabilityRequestList] @ [KComposableResource, KComposableResourceList]"

datatype api_scheme = ClientGoScheme | CroScheme "string \<times> string" "api_kind list" | GpuScheme

definition added_schemes :: "api_scheme list" where
  "added_schemes = [ClientGoScheme, CroScheme GroupVersion registered_kinds, GpuScheme]"

record tls_config =
  NextProtos :: "string list"

definition disableHTTP2 :: "tls_config \<Rightarrow> tls_config" where
  "disableHTTP2 c = c\<lparr>NextProtos := [''http/1.1'']\<rparr>"

record metrics_options =
  met_BindAddress :: string
  met_SecureServing :: bool
  met_TLSOpts :: "(tls_config \<Rightarrow> tls_config) list"
  met_FilterProvider :: bool

record manager_options =
  mo_Scheme :: "api_scheme list"
  mo_Metrics :: metrics_options
  mo_WebhookTLSOpts :: "(tls_config \<Rightarrow> tls_config) list"
  mo_HealthProbeBindAddress :: string
  mo_LeaderElection :: bool
  mo_LeaderElectionID :: string

text \<open>A controller is built from the kind it is for and the watches with their predicates, each of which enqueues the
  name of the object itself (\<^verbatim>\<open>handler.EnqueueRequestForObject\<close>); the runnable is the syncer's goroutine, \<open>upstream_syncer\<close>, which starts with
  an empty table of missing devices.\<close>

datatype registration =
    Controller api_kind "(api_kind \<times> (watch_event \<Rightarrow> bool)) list"
  | SyncerRunnable
  | ValidatingWebhook api_kind
  | HealthzCheck string
  | ReadyzCheck string

record rest_config =
  cfg_Timeout :: int

record 'w mgr_env =
  scheme_Add :: "api_scheme \<Rightarrow> error option"
  os_Args :: "string list"
  flag_library :: flag_lib
  mgr_Getenv :: "string \<Rightarrow> string"
  ctrl_GetConfig :: "'w \<Rightarrow> (error + rest_config) \<times> 'w"
  ctrl_NewManager :: "rest_config \<Rightarrow> manager_options \<Rightarrow> 'w \<Rightarrow> error option \<times> 'w"
  k8s_NewForConfig :: "rest_config \<Rightarrow> 'w \<Rightarrow> error option \<times> 'w"
  mgr_Add :: "registration \<Rightarrow> 'w \<Rightarrow> error option \<times> 'w"
  mgr_Start :: "'w \<Rightarrow> error option \<times> 'w"

record 'w mgr_state =
  mgr_world :: 'w
  schemes :: "api_scheme list"
  mgr_options :: "(rest_config \<times> manager_options) option"
  added :: "registration list"
  started :: bool

type_synonym ('w, 'a) boot = "('w mgr_env, 'w mgr_state, 'a) prog"

definition call :: "('w mgr_env \<Rightarrow> 'w \<Rightarrow> 'a \<times> 'w) \<Rightarrow> ('w, 'a) boot" where
  "call f = (\<lambda>E s. case f E (mgr_world s) of (x, w) \<Rightarrow> (Ret x, s\<lparr>mgr_world := w\<rparr>))"

text \<open>A registration that is refused leaves no trace in the manager.\<close>

definition add_to :: "registration \<Rightarrow> ('w, error option) boot" where
  "add_to r =
     bindM (call (\<lambda>E. mgr_Add E r)) (\<lambda>e. case e of
       Some err \<Rightarrow> ret (Some err)
     | None \<Rightarrow> thenM (modifyM (\<lambda>s. s\<lparr>added := added s @ [r]\<rparr>)) (ret None))"

definition Request_SetupWithManager :: "('w, error option) boot" where
  "Request_SetupWithManager =
     add_to (Controller KComposabilityRequest [(KComposableResource, resourceStatusUpdatePredicate)])"

definition Resource_SetupWithManager :: "('w, error option) boot" where
  "Resource_SetupWithManager = add_to (Controller KComposableResource [])"

definition Syncer_SetupWithManager :: "('w, error option) boot" where
  "Syncer_SetupWithManager = add_to SyncerRunnable"

definition SetupWebhookWithManager :: "('w, error option) boot" where
  "SetupWebhookWithManager = add_to (ValidatingWebhook KComposabilityRequest)"

section \<open>main\<close>

text \<open>\<^verbatim>\<open>utilruntime.Must\<close> panics on an error.\<close>

definition Must :: "error option \<Rightarrow> ('w, unit) boot" where
  "Must e = (case e of None \<Rightarrow> ret () | Some err \<Rightarrow> panic (err_Error err))"

definition AddToScheme :: "api_scheme \<Rightarrow> ('w, error option) boot" where
  "AddToScheme g = (\<lambda>E s. case scheme_Add E g of
       Some err \<Rightarrow> (Ret (Some err), s)
     | None \<Rightarrow> (Ret None, s\<lparr>schemes := schemes s @ [g]\<rparr>))"

definition main_init :: "('w, unit) boot" where
  "main_init =
     thenM (bindM (AddToScheme ClientGoScheme) Must)
     (thenM (bindM (AddToScheme (CroScheme GroupVersion registered_kinds)) Must)
     (bindM (AddToScheme GpuScheme) Must))"

definition tls_opts :: "flags \<Rightarrow> (tls_config \<Rightarrow> tls_config) list" where
  "tls_opts fl = (if \<not> enableHTTP2 fl then [disableHTTP2] else [])"

definition metrics_server_options :: "flags \<Rightarrow> metrics_options" where
  "metrics_server_options fl =
     (let o1 = \<lparr>met_BindAddress = metricsAddr fl, met_SecureServing = secureMetrics fl, met_TLSOpts = tls_opts fl,
                met_FilterProvider = False\<rparr>
      in if secureMetrics fl then o1\<lparr>met_FilterProvider := True\<rparr> else o1)"

definition manager_options_of :: "flags \<Rightarrow> api_scheme list \<Rightarrow> manager_options" where
  "manager_options_of fl scheme =
     \<lparr>mo_Scheme = scheme, mo_Metrics = metrics_server_options fl, mo_WebhookTLSOpts = tls_opts fl,
      mo_HealthProbeBindAddress = probeAddr fl, mo_LeaderElection = enableLeaderElection fl,
      mo_LeaderElectionID = ''c5744f42.hpsys.ibm.ie.com''\<rparr>"

text \<open>The registrations, in their order; the exit code of \<^verbatim>\<open>os.Exit\<close> is the result, 0 when \<^verbatim>\<open>main\<close> returns.\<close>

definition set_up :: "('w, nat) boot \<Rightarrow> ('w, nat) boot" where
  "set_up k =
     checkM Request_SetupWithManager (\<lambda>_. ret 1)
     (checkM Resource_SetupWithManager (\<lambda>_. ret 1)
     (checkM Syncer_SetupWithManager (\<lambda>_. ret 1)
     (bindM (\<lambda>E s. (Ret (mgr_Getenv E ''ENABLE_WEBHOOKS''), s)) (\<lambda>v.
     checkM (if v \<noteq> ''false'' then SetupWebhookWithManager else ret None) (\<lambda>_. ret 1)
     (checkM (add_to (HealthzCheck ''healthz'')) (\<lambda>_. ret 1)
     (checkM (add_to (ReadyzCheck ''readyz'')) (\<lambda>_. ret 1)
     k))))))"

definition start_manager :: "('w, nat) boot" where
  "start_manager =
     thenM (modifyM (\<lambda>s. s\<lparr>started := True\<rparr>))
     (checkM (call (\<lambda>E. mgr_Start E)) (\<lambda>_. ret 1) (ret 0))"

definition run_main :: "flags \<Rightarrow> ('w, nat) boot" where
  "run_main fl =
     tryM (call (\<lambda>E. ctrl_GetConfig E)) (\<lambda>_. ret 1) (\<lambda>cfg0.
     let cfg = cfg0\<lparr>cfg_Timeout := 30 * second\<rparr> in
     bindM (getM schemes) (\<lambda>scheme.
     checkM (call (\<lambda>E. ctrl_NewManager E cfg (manager_options_of fl scheme))) (\<lambda>_. ret 1)
     (thenM (modifyM (\<lambda>s. s\<lparr>mgr_options := Some (cfg, manager_options_of fl scheme)\<rparr>))
     (checkM (call (\<lambda>E. k8s_NewForConfig E cfg)) (\<lambda>_. ret 1)
     (set_up start_manager)))))"

definition main :: "('w, nat) boot" where
  "main =
     thenM main_init
     (bindM (\<lambda>E s. (Ret (parse_flags (flag_library E) (os_Args E) default_flags), s)) (\<lambda>r. case r of
        Inl ErrHelp \<Rightarrow> ret 0
      | Inl _ \<Rightarrow> ret 2
      | Inr fl \<Rightarrow> run_main fl))"

section \<open>Settings on the command line\<close>

text \<open>The spellings of a setting that the operator's flags admit: one or two dashes, a value after an
  equals sign or as the next argument, and for a boolean flag no value or one of Go's spellings of a
  truth value.\<close>

datatype setting =
    StringSetting (set_name: string) (two_dashes: bool) (next_argument: bool) (string_value: string)
  | BoolSetting (set_name: string) (two_dashes: bool) (bool_text: "string option")

definition dashes :: "setting \<Rightarrow> string" where
  "dashes x = (if two_dashes x then ''--'' else ''-'')"

fun render :: "setting \<Rightarrow> string list" where
  "render (StringSetting n d nxt v) = (if nxt then [dashes (StringSetting n d nxt v) @ n, v]
     else [dashes (StringSetting n d nxt v) @ n @ ''='' @ v])"
| "render (BoolSetting n d None) = [dashes (BoolSetting n d None) @ n]"
| "render (BoolSetting n d (Some v)) = [dashes (BoolSetting n d (Some v)) @ n @ ''='' @ v]"

definition true_texts :: "string list" where
  "true_texts = [''1'', ''t'', ''T'', ''true'', ''TRUE'', ''True'']"

definition false_texts :: "string list" where
  "false_texts = [''0'', ''f'', ''F'', ''false'', ''FALSE'', ''False'']"

fun proper :: "setting \<Rightarrow> bool" where
  "proper (StringSetting n d nxt v) = (n = ''metrics-bind-address'' \<or> n = ''health-probe-bind-address'')"
| "proper (BoolSetting n d val) = ((n = ''leader-elect'' \<or> n = ''metrics-secure'' \<or> n = ''enable-http2'')
     \<and> (case val of None \<Rightarrow> True | Some v \<Rightarrow> v \<in> set true_texts \<or> v \<in> set false_texts))"

fun bool_value :: "setting \<Rightarrow> bool" where
  "bool_value (BoolSetting n d (Some v)) = (v \<in> set true_texts)"
| "bool_value _ = True"

text \<open>The last setting of a flag counts, and the default where there is none.\<close>

definition last_setting :: "(setting \<Rightarrow> 'a) \<Rightarrow> string \<Rightarrow> 'a \<Rightarrow> setting list \<Rightarrow> 'a" where
  "last_setting f name dflt settings =
     (case filter (\<lambda>x. set_name x = name) settings of [] \<Rightarrow> dflt | xs \<Rightarrow> f (last xs))"

lemma last_setting_Nil [simp]: "last_setting f name d [] = d"
  by (simp add: last_setting_def)

lemma last_setting_snoc [simp]:
  "last_setting f name d (xs @ [x]) = (if set_name x = name then f x else last_setting f name d xs)"
  by (cases "filter (\<lambda>x. set_name x = name) xs") (auto simp: last_setting_def split: list.split)

lemmas flag_defs = flag_body_def flag_name_def flag_value_def IsBoolFlag_def Set_flag_def bool_flags_def string_flags_def

definition apply_setting :: "setting \<Rightarrow> flags \<Rightarrow> flags" where
  "apply_setting x fl =
     (if set_name x = ''metrics-bind-address'' then fl\<lparr>metricsAddr := string_value x\<rparr>
      else if set_name x = ''health-probe-bind-address'' then fl\<lparr>probeAddr := string_value x\<rparr>
      else if set_name x = ''leader-elect'' then fl\<lparr>enableLeaderElection := bool_value x\<rparr>
      else if set_name x = ''metrics-secure'' then fl\<lparr>secureMetrics := bool_value x\<rparr>
      else fl\<lparr>enableHTTP2 := bool_value x\<rparr>)"

lemma ParseBool_texts:
  "v \<in> set true_texts \<Longrightarrow> ParseBool v = Some True"
  "v \<in> set false_texts \<Longrightarrow> ParseBool v = Some False \<and> v \<notin> set true_texts"
  by (auto simp: ParseBool_def true_texts_def false_texts_def)

lemma parse_one_string:
  assumes "proper (StringSetting n d nxt v)"
  shows "parse_flags lib (render (StringSetting n d nxt v) @ args) fl
     = parse_flags lib args (apply_setting (StringSetting n d nxt v) fl)"
proof -
  have "n = ''metrics-bind-address'' \<or> n = ''health-probe-bind-address''" using assms by simp
  then show ?thesis
    by (elim disjE; cases d; cases nxt; simp add: dashes_def apply_setting_def flag_defs Let_def)
qed

lemma parse_one_bool:
  assumes "proper (BoolSetting n d val)"
  shows "parse_flags lib (render (BoolSetting n d val) @ args) fl
     = parse_flags lib args (apply_setting (BoolSetting n d val) fl)"
proof -
  have n: "n = ''leader-elect'' \<or> n = ''metrics-secure'' \<or> n = ''enable-http2''" using assms by simp
  show ?thesis
  proof (cases val)
    case None
    show ?thesis
      using n by (elim disjE; cases d; simp add: None dashes_def apply_setting_def flag_defs ParseBool_def Let_def)
  next
    case (Some v)
    then have v: "ParseBool v = Some (v \<in> set true_texts)" using assms ParseBool_texts by auto
    show ?thesis
      using n by (elim disjE; cases d; simp add: Some v dashes_def apply_setting_def flag_defs Let_def)
  qed
qed

lemma parse_settings:
  "list_all proper xs \<Longrightarrow> parse_flags lib (concat (map render xs)) fl = Inr (fold apply_setting xs fl)"
proof (induction xs arbitrary: fl)
  case (Cons x xs)
  then show ?case by (cases x) (simp_all add: parse_one_string parse_one_bool del: render.simps parse_flags.simps)
qed simp

text \<open>What the settings make of the flags.\<close>

lemma fold_apply_setting:
  "list_all proper xs \<Longrightarrow> fold apply_setting xs fl =
     \<lparr>metricsAddr = last_setting string_value ''metrics-bind-address'' (metricsAddr fl) xs,
      probeAddr = last_setting string_value ''health-probe-bind-address'' (probeAddr fl) xs,
      enableLeaderElection = last_setting bool_value ''leader-elect'' (enableLeaderElection fl) xs,
      secureMetrics = last_setting bool_value ''metrics-secure'' (secureMetrics fl) xs,
      enableHTTP2 = last_setting bool_value ''enable-http2'' (enableHTTP2 fl) xs\<rparr>"
proof (induction xs rule: rev_induct)
  case (snoc x xs)
  then show ?case by (cases x) (auto simp: apply_setting_def)
qed simp

section \<open>The manager is started only when all is set up\<close>

definition registrations :: "string \<Rightarrow> registration list" where
  "registrations v = [Controller KComposabilityRequest [(KComposableResource, resourceStatusUpdatePredicate)],
     Controller KComposableResource [], SyncerRunnable]
     @ (if v \<noteq> ''false'' then [ValidatingWebhook KComposabilityRequest] else [])
     @ [HealthzCheck ''healthz'', ReadyzCheck ''readyz'']"

text \<open>The view: everything but the outside world.\<close>

definition bview :: "'w mgr_state \<Rightarrow> api_scheme list \<times> (rest_config \<times> manager_options) option \<times> registration list \<times> bool" where
  "bview s = (schemes s, mgr_options s, added s, started s)"

lemma bview_call: "(\<And>x. Q x v) \<Longrightarrow> wpv H bview (call f) Q X v"
  by (auto simp: wpv_def call_def bview_def split: prod.split)

lemma bview_add_to: "(\<And>e. Q (Some e) (sc, op, ad, st)) \<Longrightarrow> Q None (sc, op, ad @ [r], st) \<Longrightarrow> wpv H bview (add_to r) Q X (sc, op, ad, st)"
  unfolding add_to_def by (intro wpv_bindM bview_call wpv_option wpv_thenM wpv_ret) (auto simp: wpv_def modifyM_def ret_def bview_def)

lemma bview_asks: "(\<And>x. x = f E \<Longrightarrow> Q x v) \<Longrightarrow> wpv (\<lambda>E'. E' = E) bview (\<lambda>E s. (Ret (f E), s)) Q X v"
  by (simp add: wpv_def)

lemma bview_modify:
  "Q () (sc, Some o', ad, st) \<Longrightarrow> wpv H bview (modifyM (\<lambda>s. s\<lparr>mgr_options := Some o'\<rparr>)) Q X (sc, op, ad, st)"
  "Q () (sc, op, ad, True) \<Longrightarrow> wpv H bview (modifyM (\<lambda>s. s\<lparr>started := True\<rparr>)) Q X (sc, op, ad, st)"
  by (simp_all add: wpv_def modifyM_def bview_def)

lemma bview_schemes: "Q sc (sc, op, ad, st) \<Longrightarrow> wpv H bview (getM schemes) Q X (sc, op, ad, st)"
  by (simp add: wpv_def getM_def bview_def)

lemma bview_scheme:
  "X (sc, op, ad, st) \<Longrightarrow> Q () (sc @ [g], op, ad, st) \<Longrightarrow> wpv H bview (bindM (AddToScheme g) Must) Q X (sc, op, ad, st)"
  by (auto simp: wpv_def AddToScheme_def Must_def bview_def prog_eval split: option.split)

lemmas boot_steps = wpv_thenM wpv_bindM wpv_checkM wpv_tryM bview_call bview_add_to bview_asks bview_modify bview_schemes bview_scheme wpv_ret
  conjI allI impI

text \<open>What is true of a manager that has been started.\<close>

definition configured :: "'w mgr_env \<Rightarrow> flags \<Rightarrow> api_scheme list \<times> (rest_config \<times> manager_options) option \<times> registration list \<times> bool \<Rightarrow> bool" where
  "configured E fl v \<longleftrightarrow> (case v of (sc, op, ad, st) \<Rightarrow> st \<longrightarrow> sc = added_schemes
     \<and> (\<exists>cfg. op = Some (cfg, manager_options_of fl added_schemes) \<and> cfg_Timeout cfg = 30 * second)
     \<and> ad = registrations (mgr_Getenv E ''ENABLE_WEBHOOKS''))"

lemma run_main_configured:
  "wpv (\<lambda>E'. E' = E) bview (run_main fl) (\<lambda>n v. configured E fl v \<and> (n = 0 \<longrightarrow> snd (snd (snd v))) \<and> n \<le> 1) (\<lambda>_. False)
     (added_schemes, None, [], False)"
  unfolding run_main_def set_up_def start_manager_def Let_def Request_SetupWithManager_def Resource_SetupWithManager_def
    Syncer_SetupWithManager_def SetupWebhookWithManager_def
  by (intro boot_steps wpv_if) (auto simp: configured_def registrations_def)

definition boot_state :: "'w \<Rightarrow> 'w mgr_state" where
  "boot_state w = \<lparr>mgr_world = w, schemes = [], mgr_options = None, added = [], started = False\<rparr>"

definition outcome_ok :: "'w mgr_env \<Rightarrow> nat \<Rightarrow> api_scheme list \<times> (rest_config \<times> manager_options) option \<times> registration list \<times> bool \<Rightarrow> bool" where
  "outcome_ok E n v \<longleftrightarrow> (case parse_flags (flag_library E) (os_Args E) default_flags of
       Inl e \<Rightarrow> \<not> snd (snd (snd v)) \<and> n = (if e = ErrHelp then 0 else 2)
     | Inr fl \<Rightarrow> configured E fl v \<and> (n = 0 \<longrightarrow> snd (snd (snd v))) \<and> n \<le> 1)"

lemma main_view:
  "wpv (\<lambda>E'. E' = E) bview main (outcome_ok E) (\<lambda>v. \<not> snd (snd (snd v))) ([], None, [], False)"
proof -
  have rest: "wpv (\<lambda>E'. E' = E) bview (case parse_flags (flag_library E) (os_Args E) default_flags of
        Inl ErrHelp \<Rightarrow> ret 0 | Inl _ \<Rightarrow> ret 2 | Inr fl \<Rightarrow> run_main fl) (outcome_ok E) (\<lambda>v. \<not> snd (snd (snd v))) (added_schemes, None, [], False)"
  proof (cases "parse_flags (flag_library E) (os_Args E) default_flags")
    case (Inl e)
    then show ?thesis by (cases e) (auto simp: outcome_ok_def intro!: wpv_ret)
  next
    case (Inr fl)
    then show ?thesis by (auto intro!: wpv_conseq [OF run_main_configured] simp: outcome_ok_def)
  qed
  show ?thesis
    unfolding main_def main_init_def
    by (intro boot_steps) (use rest in \<open>simp_all add: added_schemes_def\<close>)
qed

lemma main_outcome:
  assumes "main E (boot_state w) = (x, s')"
  shows "(case x of Ret n \<Rightarrow> outcome_ok E n (bview s') | Panic _ \<Rightarrow> \<not> started s')"
proof -
  have "bview (boot_state w) = ([], None, [], False)" by (simp add: bview_def boot_state_def)
  from wpvD [OF main_view refl this] assms show ?thesis by (cases x) (auto simp: bview_def)
qed

text \<open>The protocols a server offers after its TLS options have been applied to a configuration.\<close>

definition offered :: "(tls_config \<Rightarrow> tls_config) list \<Rightarrow> tls_config \<Rightarrow> string list" where
  "offered opts c = NextProtos (fold (\<lambda>f. f) opts c)"

lemma configured_options:
  assumes "configured E fl (bview s')" "started s'"
  obtains cfg opts where "mgr_options s' = Some (cfg, opts)" "cfg_Timeout cfg = 30 * second" "schemes s' = added_schemes"
    "added s' = registrations (mgr_Getenv E ''ENABLE_WEBHOOKS'')" "mo_Scheme opts = added_schemes"
    "mo_Metrics opts = \<lparr>met_BindAddress = metricsAddr fl, met_SecureServing = secureMetrics fl,
       met_TLSOpts = tls_opts fl, met_FilterProvider = secureMetrics fl\<rparr>"
    "mo_WebhookTLSOpts opts = tls_opts fl" "mo_HealthProbeBindAddress opts = probeAddr fl"
    "mo_LeaderElection opts = enableLeaderElection fl" "mo_LeaderElectionID opts = ''c5744f42.hpsys.ibm.ie.com''"
proof -
  let ?opts = "manager_options_of fl added_schemes"
  obtain cfg where "mgr_options s' = Some (cfg, ?opts)" "cfg_Timeout cfg = 30 * second" "schemes s' = added_schemes"
      "added s' = registrations (mgr_Getenv E ''ENABLE_WEBHOOKS'')"
    using assms by (auto simp: configured_def bview_def)
  then show thesis
    by (rule that) (simp_all add: manager_options_of_def metrics_server_options_def Let_def)
qed

lemma offered_tls: "offered (tls_opts fl) c = (if enableHTTP2 fl then NextProtos c else [''http/1.1''])"
  by (simp add: offered_def tls_opts_def disableHTTP2_def)

text \<open>
  C19.  The manager runs only when everything is set up.  If a run of \<^verbatim>\<open>main\<close> comes to start the manager, then the command line was
  valid, giving the flags \<open>fl\<close>, and the manager has been created with the client-go, the operator's (its four kinds) and the GPU
  operator's scheme, a timeout of thirty seconds, the metrics and probe addresses, the metrics security (with its filter) and the leader election of \<open>fl\<close>
  under the operator's election id, and with TLS options of the metrics and the webhook server that leave the protocols offered alone if \<open>fl\<close> asks for HTTP/2
  and reduce them to HTTP/1.1 otherwise; the two controllers (the request controller with its watch on resources), the syncer, the
  webhook unless it is disabled, and both probes are registered, in that order and nothing else.
\<close>

theorem main_starts_configured:
  assumes "main E (boot_state w) = (x, s')" "started s'"
  shows "\<exists>fl cfg opts. parse_flags (flag_library E) (os_Args E) default_flags = Inr fl
     \<and> mgr_options s' = Some (cfg, opts) \<and> cfg_Timeout cfg = 30 * second
     \<and> mo_Scheme opts = [ClientGoScheme, CroScheme (''cro.hpsys.ibm.ie.com'', ''v1alpha1'')
          [KComposabilityRequest, KComposabilityRequestList, KComposableResource, KComposableResourceList], GpuScheme]
     \<and> met_BindAddress (mo_Metrics opts) = metricsAddr fl
     \<and> met_SecureServing (mo_Metrics opts) = secureMetrics fl
     \<and> met_FilterProvider (mo_Metrics opts) = secureMetrics fl
     \<and> mo_HealthProbeBindAddress opts = probeAddr fl
     \<and> mo_LeaderElection opts = enableLeaderElection fl
     \<and> mo_LeaderElectionID opts = ''c5744f42.hpsys.ibm.ie.com''
     \<and> (\<forall>c. offered (met_TLSOpts (mo_Metrics opts)) c = (if enableHTTP2 fl then NextProtos c else [''http/1.1''])
          \<and> offered (mo_WebhookTLSOpts opts) c = (if enableHTTP2 fl then NextProtos c else [''http/1.1'']))
     \<and> added s' = [Controller KComposabilityRequest [(KComposableResource, resourceStatusUpdatePredicate)],
          Controller KComposableResource [], SyncerRunnable]
          @ (if mgr_Getenv E ''ENABLE_WEBHOOKS'' = ''false'' then [] else [ValidatingWebhook KComposabilityRequest])
          @ [HealthzCheck ''healthz'', ReadyzCheck ''readyz'']"
proof -
  obtain fl where fl: "parse_flags (flag_library E) (os_Args E) default_flags = Inr fl" and "configured E fl (bview s')"
    using main_outcome [OF assms(1)] assms(2)
    by (auto simp: outcome_ok_def bview_def split: outcome.splits sum.splits)
  from this(2) assms(2) obtain cfg opts where o: "mgr_options s' = Some (cfg, opts)" "cfg_Timeout cfg = 30 * second" "schemes s' = added_schemes"
    "added s' = registrations (mgr_Getenv E ''ENABLE_WEBHOOKS'')" "mo_Scheme opts = added_schemes"
    "mo_Metrics opts = \<lparr>met_BindAddress = metricsAddr fl, met_SecureServing = secureMetrics fl,
       met_TLSOpts = tls_opts fl, met_FilterProvider = secureMetrics fl\<rparr>"
    "mo_WebhookTLSOpts opts = tls_opts fl" "mo_HealthProbeBindAddress opts = probeAddr fl"
    "mo_LeaderElection opts = enableLeaderElection fl" "mo_LeaderElectionID opts = ''c5744f42.hpsys.ibm.ie.com''"
    by (rule configured_options)
  show ?thesis
    by (rule exI [of _ fl], rule exI [of _ cfg], rule exI [of _ opts])
       (simp add: fl o offered_tls registrations_def added_schemes_def GroupVersion_def registered_kinds_def)
qed

text \<open>
  C39.  Settings on the command line take effect.  For a command line of settings of the operator's five flags, in any number and order
  and with any of the spellings Go's package flag admits, \<^verbatim>\<open>main\<close> does not refuse the command line, and when it starts the manager, each option has
  the value of the last setting of its flag, or the default where there is none: no metrics endpoint (address 0), probes on port 8081, no leader election,
  secure metrics, and no HTTP/2.
\<close>

theorem main_flags_take_effect:
  assumes "list_all proper settings" "os_Args E = concat (map render settings)" "main E (boot_state w) = (x, s')"
  shows "x \<noteq> Ret 2 \<and> (started s' \<longrightarrow> (\<exists>cfg opts. mgr_options s' = Some (cfg, opts)
     \<and> met_BindAddress (mo_Metrics opts) = last_setting string_value ''metrics-bind-address'' ''0'' settings
     \<and> mo_HealthProbeBindAddress opts = last_setting string_value ''health-probe-bind-address'' '':8081'' settings
     \<and> mo_LeaderElection opts = last_setting bool_value ''leader-elect'' False settings
     \<and> met_SecureServing (mo_Metrics opts) = last_setting bool_value ''metrics-secure'' True settings
     \<and> (\<forall>c. offered (mo_WebhookTLSOpts opts) c
          = (if last_setting bool_value ''enable-http2'' False settings then NextProtos c else [''http/1.1'']))))"
proof -
  let ?fl = "fold apply_setting settings default_flags"
  have parse: "parse_flags (flag_library E) (os_Args E) default_flags = Inr ?fl"
    using parse_settings [OF assms(1)] assms(2) by simp
  have fl: "?fl = \<lparr>metricsAddr = last_setting string_value ''metrics-bind-address'' ''0'' settings,
      probeAddr = last_setting string_value ''health-probe-bind-address'' '':8081'' settings,
      enableLeaderElection = last_setting bool_value ''leader-elect'' False settings,
      secureMetrics = last_setting bool_value ''metrics-secure'' True settings,
      enableHTTP2 = last_setting bool_value ''enable-http2'' False settings\<rparr>"
    by (simp add: fold_apply_setting [OF assms(1)] default_flags_def)
  have "x \<noteq> Ret 2" using main_outcome [OF assms(3)] parse by (auto simp: outcome_ok_def)
  moreover have "\<exists>cfg opts. mgr_options s' = Some (cfg, opts)
     \<and> met_BindAddress (mo_Metrics opts) = metricsAddr ?fl \<and> mo_HealthProbeBindAddress opts = probeAddr ?fl
     \<and> mo_LeaderElection opts = enableLeaderElection ?fl \<and> met_SecureServing (mo_Metrics opts) = secureMetrics ?fl
     \<and> (\<forall>c. offered (mo_WebhookTLSOpts opts) c = (if enableHTTP2 ?fl then NextProtos c else [''http/1.1'']))"
    if st: "started s'"
  proof -
    have "configured E ?fl (bview s')"
      using main_outcome [OF assms(3)] parse st by (auto simp: outcome_ok_def bview_def split: outcome.splits)
    from this st obtain cfg opts where "mgr_options s' = Some (cfg, opts)"
      "mo_Metrics opts = \<lparr>met_BindAddress = metricsAddr ?fl, met_SecureServing = secureMetrics ?fl,
         met_TLSOpts = tls_opts ?fl, met_FilterProvider = secureMetrics ?fl\<rparr>"
      "mo_WebhookTLSOpts opts = tls_opts ?fl" "mo_HealthProbeBindAddress opts = probeAddr ?fl"
      "mo_LeaderElection opts = enableLeaderElection ?fl"
      by (rule configured_options)
    then show ?thesis by (intro exI [of _ cfg] exI [of _ opts]) (simp add: offered_tls)
  qed
  ultimately show ?thesis by (simp add: fl)
qed

text \<open>
  The exit code.  \<^verbatim>\<open>main\<close> exits with 2 exactly for a command line it cannot parse, with 0 when help is asked for or
  the manager has run and ended without an error, and with 1 in every other case; a manager is never started after a bad command line.
\<close>

theorem main_exit_code:
  assumes "main E (boot_state w) = (Ret n, s')"
  shows "(case parse_flags (flag_library E) (os_Args E) default_flags of
      Inl e \<Rightarrow> \<not> started s' \<and> n = (if e = ErrHelp then 0 else 2)
    | Inr fl \<Rightarrow> n \<in> {0, 1} \<and> (n = 0 \<longrightarrow> started s'))"
  using main_outcome [OF assms]
  by (auto simp: outcome_ok_def bview_def split: sum.splits)

section \<open>A concrete start\<close>

definition calm_env :: "string list \<Rightarrow> unit mgr_env" where
  "calm_env args = \<lparr>scheme_Add = \<lambda>_. None, os_Args = args, flag_library = \<lparr>lib_IsBoolFlag = \<lambda>_. None, lib_Accepts = \<lambda>_ _. False\<rparr>,
     mgr_Getenv = \<lambda>_. ''false'', ctrl_GetConfig = \<lambda>w. (Inr \<lparr>cfg_Timeout = 0\<rparr>, w), ctrl_NewManager = \<lambda>_ _ w. (None, w),
     k8s_NewForConfig = \<lambda>_ w. (None, w), mgr_Add = \<lambda>_ w. (None, w), mgr_Start = \<lambda>w. (None, w)\<rparr>"

lemmas main_defs = main_def main_init_def AddToScheme_def Must_def run_main_def set_up_def start_manager_def call_def add_to_def
  Request_SetupWithManager_def Resource_SetupWithManager_def Syncer_SetupWithManager_def SetupWebhookWithManager_def

definition demo_settings :: "setting list" where
  "demo_settings = [BoolSetting ''leader-elect'' True (Some ''false''), StringSetting ''health-probe-bind-address'' False True '':9'',
     BoolSetting ''leader-elect'' True None]"

lemma calm_start: "\<exists>s'. main (calm_env (concat (map render demo_settings))) (boot_state ()) = (Ret 0, s') \<and> started s'"
proof -
  have "parse_flags lib (concat (map render demo_settings)) default_flags = Inr (default_flags\<lparr>enableLeaderElection := True, probeAddr := '':9''\<rparr>)" for lib
    by (subst parse_settings) (simp_all add: demo_settings_def false_texts_def apply_setting_def default_flags_def)
  then show ?thesis
    by (simp add: main_defs calm_env_def boot_state_def prog_eval Let_def)
qed

theorem main_starts_configured_witness:
  "\<exists>s' cfg opts. main (calm_env (concat (map render demo_settings))) (boot_state ()) = (Ret 0, s')
     \<and> mgr_options s' = Some (cfg, opts) \<and> mo_LeaderElection opts \<and> mo_HealthProbeBindAddress opts = '':9''
     \<and> met_BindAddress (mo_Metrics opts) = ''0'' \<and> length (added s') = 5"
proof -
  have parse: "parse_flags lib (concat (map render demo_settings)) default_flags = Inr (default_flags\<lparr>enableLeaderElection := True, probeAddr := '':9''\<rparr>)" for lib
    by (subst parse_settings) (simp_all add: demo_settings_def false_texts_def apply_setting_def default_flags_def)
  obtain s' where run: "main (calm_env (concat (map render demo_settings))) (boot_state ()) = (Ret 0, s')" "started s'"
    using calm_start by blast
  have "os_Args (calm_env args) = args" "mgr_Getenv (calm_env args) v = ''false''" for args v by (simp_all add: calm_env_def)
  with main_starts_configured [OF run] run(1) show ?thesis
    by (auto simp: parse) (simp_all add: default_flags_def)
qed

theorem main_flags_take_effect_witness:
  "\<exists>s' cfg opts. main (calm_env (concat (map render demo_settings))) (boot_state ()) = (Ret 0, s')
     \<and> mgr_options s' = Some (cfg, opts) \<and> mo_LeaderElection opts \<and> mo_HealthProbeBindAddress opts = '':9''"
proof -
  obtain s' where run: "main (calm_env (concat (map render demo_settings))) (boot_state ()) = (Ret 0, s')" "started s'"
    using calm_start by blast
  have "list_all proper demo_settings" by (simp add: demo_settings_def false_texts_def)
  from main_flags_take_effect [OF this _ run(1)] run show ?thesis
    by (auto simp: calm_env_def demo_settings_def last_setting_def)
qed

theorem main_exit_code_witness:
  "\<exists>n s'. main (calm_env [''-x'']) (boot_state ()) = (Ret n, s') \<and> n = 2"
proof -
  obtain n s' where run: "main (calm_env [''-x'']) (boot_state ()) = (Ret n, s')"
    by (simp add: main_defs calm_env_def boot_state_def flag_defs prog_eval Let_def)
  from main_exit_code [OF run] have "n = 2" by (simp add: calm_env_def flag_defs Let_def)
  with run show ?thesis by blast
qed

end
