(* ===== verification/DeepCopy.thy ===== *)
theory DeepCopy
  imports Types
begin

text \<open>
  The copies the generated code makes: \<^verbatim>\<open>src/api/v1alpha1/zz_generated.deepcopy.go\<close>.  Elsewhere the
  library works on values; here a struct is what Go has, with addresses for its pointers, maps and slices, in a
  memory of typed cells.  A method \<^verbatim>\<open>DeepCopyInto\<close> is given the struct \<^verbatim>\<open>*in\<close> and gives the struct it writes to
  \<^verbatim>\<open>*out\<close>, with what it allocates as its effect on the memory.  The copies of \<^verbatim>\<open>metav1.ObjectMeta\<close> and
  \<^verbatim>\<open>metav1.ListMeta\<close> are parameters, as are these structs and the cells they own.

  The contract of a copy is the locale \<open>deep_copy\<close>: the copy has the same content, it shares no
  cell with what was there, and what was there is as before.  It is closed under pointers, slices and structs, so that
  every generated method satisfies it.
\<close>

section \<open>Memory\<close>

type_synonym addr = nat

record 'c memory =
  cells :: "addr \<Rightarrow> 'c option"
  next_addr :: addr

text \<open>How the values of a Go type are held in cells, and its zero value.\<close>

record ('e, 'v, 'c) ctype =
  ct_put :: "'v \<Rightarrow> 'c"
  ct_get :: "'c \<Rightarrow> 'v option"
  ct_zero :: "'e \<Rightarrow> 'v"

definition held :: "('e, 'v, 'c) ctype \<Rightarrow> 'c memory \<Rightarrow> addr \<Rightarrow> 'v option" where
  "held T m a = Option.bind (cells m a) (ct_get T)"

definition alloc :: "'c \<Rightarrow> ('e, 'c memory, addr) prog" where
  "alloc c = (\<lambda>E m. (Ret (next_addr m), m\<lparr>cells := (cells m)(next_addr m \<mapsto> c), next_addr := Suc (next_addr m)\<rparr>))"

definition new :: "('e, 'v, 'c) ctype \<Rightarrow> ('e, 'c memory, addr) prog" where
  "new T = (\<lambda>E. alloc (ct_put T (ct_zero T E)) E)"

definition deref :: "addr option \<Rightarrow> ('e, 'c memory, addr) prog" where
  "deref p = (case p of None \<Rightarrow> panic ''invalid memory address or nil pointer dereference'' | Some a \<Rightarrow> ret a)"

definition load :: "('e, 'v, 'c) ctype \<Rightarrow> addr \<Rightarrow> ('e, 'c memory, 'v) prog" where
  "load T a = (\<lambda>E m. case held T m a of None \<Rightarrow> (Panic ''invalid memory address or nil pointer dereference'', m) | Some v \<Rightarrow> (Ret v, m))"

definition store :: "('e, 'v, 'c) ctype \<Rightarrow> addr \<Rightarrow> 'v \<Rightarrow> ('e, 'c memory, unit) prog" where
  "store T a v = modifyM (\<lambda>m. m\<lparr>cells := (cells m)(a \<mapsto> ct_put T v)\<rparr>)"

subsection \<open>Pointers\<close>

text \<open>\<^verbatim>\<open>in.DeepCopyInto(out)\<close> through two pointers, and the shape of every \<^verbatim>\<open>DeepCopy\<close>.\<close>

definition DeepCopyInto_at :: "('e, 'v, 'c) ctype \<Rightarrow> ('v \<Rightarrow> ('e, 'c memory, 'v) prog) \<Rightarrow> addr option \<Rightarrow> addr option \<Rightarrow> ('e, 'c memory, unit) prog" where
  "DeepCopyInto_at T into p q =
     bindM (deref p) (\<lambda>a. bindM (deref q) (\<lambda>b. bindM (load T a) (\<lambda>v. bindM (into v) (store T b))))"

definition DeepCopy_of :: "('e, 'v, 'c) ctype \<Rightarrow> ('v \<Rightarrow> ('e, 'c memory, 'v) prog) \<Rightarrow> addr option \<Rightarrow> ('e, 'c memory, addr option) prog" where
  "DeepCopy_of T into p =
     (if p = None then ret None
      else bindM (new T) (\<lambda>out. thenM (DeepCopyInto_at T into p (Some out)) (ret (Some out))))"

subsection \<open>Slices\<close>

text \<open>A slice that is not nil: its array, where it starts in it, and its length.\<close>

record go_slice =
  sl_Array :: addr
  sl_Offset :: nat
  sl_Len :: nat

definition load_elem :: "('e, 'v list, 'c) ctype \<Rightarrow> addr \<Rightarrow> nat \<Rightarrow> ('e, 'c memory, 'v) prog" where
  "load_elem TA a i = bindM (load TA a) (\<lambda>xs. index xs i)"

definition store_elem :: "('e, 'v list, 'c) ctype \<Rightarrow> addr \<Rightarrow> nat \<Rightarrow> 'v \<Rightarrow> ('e, 'c memory, unit) prog" where
  "store_elem TA a i v = bindM (load TA a) (\<lambda>xs. bindM (index xs i) (\<lambda>_. store TA a (xs[i := v])))"

text \<open>The loop of a list's \<^verbatim>\<open>DeepCopyInto\<close>: \<^verbatim>\<open>(*in)[i].DeepCopyInto(&(*out)[i])\<close> for every index.\<close>

definition copy_items :: "('e, 'v, 'c) ctype \<Rightarrow> ('e, 'v list, 'c) ctype \<Rightarrow> ('v \<Rightarrow> ('e, 'c memory, 'v) prog) \<Rightarrow> go_slice option
    \<Rightarrow> ('e, 'c memory, go_slice option) prog" where
  "copy_items T TA into sl =
     (case sl of
        None \<Rightarrow> ret None
      | Some s \<Rightarrow>
          bindM (\<lambda>E. alloc (ct_put TA (replicate (sl_Len s) (ct_zero T E))) E) (\<lambda>b.
          bindM (forM [0..<sl_Len s] () (\<lambda>i _.
             bindM (load_elem TA (sl_Array s) (sl_Offset s + i)) (\<lambda>v.
             bindM (into v) (\<lambda>v'.
             thenM (store_elem TA b i v') (ret (Next ())))))) (\<lambda>_ :: unit + unit.
          ret (Some \<lparr>sl_Array = b, sl_Offset = 0, sl_Len = sl_Len s\<rparr>))))"

section \<open>The structs and their cells\<close>

record TypeMeta =
  tm_Kind :: string
  tm_APIVersion :: string

record go_ScalarResourceDetails =
  gd_Type :: string
  gd_Model :: string
  gd_Size :: int
  gd_ForceDetach :: bool
  gd_AllocationPolicy :: string
  gd_TargetNode :: string
  gd_OtherSpec :: "addr option"

record go_ComposabilityRequestSpec =
  gsp_Resource :: go_ScalarResourceDetails

record go_ComposabilityRequestStatus =
  gst_State :: string
  gst_Error :: string
  gst_Resources :: "addr option"
  gst_ScalarResource :: go_ScalarResourceDetails

record 'om go_ComposabilityRequest =
  grq_TypeMeta :: TypeMeta
  grq_ObjectMeta :: 'om
  grq_Spec :: go_ComposabilityRequestSpec
  grq_Status :: go_ComposabilityRequestStatus

record 'om go_ComposableResource =
  grs_TypeMeta :: TypeMeta
  grs_ObjectMeta :: 'om
  grs_Spec :: ComposableResourceSpec
  grs_Status :: ComposableResourceStatus

text \<open>The two lists have the same fields.\<close>

record 'lm go_ObjectList =
  gl_TypeMeta :: TypeMeta
  gl_ListMeta :: 'lm
  gl_Items :: "go_slice option"

datatype ('om, 'lm, 'x) cell =
    CNodeSpec NodeSpec
  | CScalarResourceDetails go_ScalarResourceDetails
  | CScalarResourceStatus ScalarResourceStatus
  | CResources resources
  | CComposabilityRequestSpec go_ComposabilityRequestSpec
  | CComposabilityRequestStatus go_ComposabilityRequestStatus
  | CComposabilityRequest "'om go_ComposabilityRequest"
  | CComposabilityRequests "'om go_ComposabilityRequest list"
  | CComposabilityRequestList "'lm go_ObjectList"
  | CComposableResourceSpec ComposableResourceSpec
  | CComposableResourceStatus ComposableResourceStatus
  | CComposableResource "'om go_ComposableResource"
  | CComposableResources "'om go_ComposableResource list"
  | CComposableResourceList "'lm go_ObjectList"
  | CMeta 'x

text \<open>What the code uses of \<^verbatim>\<open>metav1\<close>: the zero values and the two methods.\<close>

record ('om, 'lm, 'x) metav1 =
  zero_ObjectMeta :: 'om
  zero_ListMeta :: 'lm
  ObjectMeta_copy :: "'om \<Rightarrow> ('om, 'lm, 'x) cell memory \<Rightarrow> 'om \<times> ('om, 'lm, 'x) cell memory"
  ListMeta_copy :: "'lm \<Rightarrow> ('om, 'lm, 'x) cell memory \<Rightarrow> 'lm \<times> ('om, 'lm, 'x) cell memory"

type_synonym ('om, 'lm, 'x, 'a) copying = "(('om, 'lm, 'x) metav1, ('om, 'lm, 'x) cell memory, 'a) prog"
type_synonym ('om, 'lm, 'x, 'v) mtype = "(('om, 'lm, 'x) metav1, 'v, ('om, 'lm, 'x) cell) ctype"

definition ObjectMeta_DeepCopyInto :: "'om \<Rightarrow> ('om, 'lm, 'x, 'om) copying" where
  "ObjectMeta_DeepCopyInto v = (\<lambda>M m. case ObjectMeta_copy M v m of (v', m') \<Rightarrow> (Ret v', m'))"

definition ListMeta_DeepCopyInto :: "'lm \<Rightarrow> ('om, 'lm, 'x, 'lm) copying" where
  "ListMeta_DeepCopyInto v = (\<lambda>M m. case ListMeta_copy M v m of (v', m') \<Rightarrow> (Ret v', m'))"

subsection \<open>Zero values and cells\<close>

definition zero_details :: go_ScalarResourceDetails where
  "zero_details = \<lparr>gd_Type = [], gd_Model = [], gd_Size = 0, gd_ForceDetach = False, gd_AllocationPolicy = [], gd_TargetNode = [],
     gd_OtherSpec = None\<rparr>"

definition zero_status :: go_ComposabilityRequestStatus where
  "zero_status = \<lparr>gst_State = [], gst_Error = [], gst_Resources = None, gst_ScalarResource = zero_details\<rparr>"

definition zero_list :: "'lm \<Rightarrow> 'lm go_ObjectList" where
  "zero_list lm = \<lparr>gl_TypeMeta = \<lparr>tm_Kind = [], tm_APIVersion = []\<rparr>, gl_ListMeta = lm, gl_Items = None\<rparr>"

definition T_NodeSpec :: "('om, 'lm, 'x, NodeSpec) mtype" where
  "T_NodeSpec = \<lparr>ct_put = CNodeSpec, ct_get = (\<lambda>c. case c of CNodeSpec v \<Rightarrow> Some v | _ \<Rightarrow> None),
     ct_zero = (\<lambda>M. \<lparr>ns_MilliCPU = 0, ns_Memory = 0, ns_EphemeralStorage = 0, ns_AllowedPodNumber = 0\<rparr>)\<rparr>"

definition T_ScalarResourceDetails :: "('om, 'lm, 'x, go_ScalarResourceDetails) mtype" where
  "T_ScalarResourceDetails = \<lparr>ct_put = CScalarResourceDetails, ct_get = (\<lambda>c. case c of CScalarResourceDetails v \<Rightarrow> Some v | _ \<Rightarrow> None),
     ct_zero = (\<lambda>M. zero_details)\<rparr>"

definition T_ScalarResourceStatus :: "('om, 'lm, 'x, ScalarResourceStatus) mtype" where
  "T_ScalarResourceStatus = \<lparr>ct_put = CScalarResourceStatus, ct_get = (\<lambda>c. case c of CScalarResourceStatus v \<Rightarrow> Some v | _ \<Rightarrow> None),
     ct_zero = (\<lambda>M. \<lparr>srs_State = [], srs_DeviceID = [], srs_CDIDeviceID = [], srs_NodeName = [], srs_Error = []\<rparr>)\<rparr>"

definition T_Resources :: "('om, 'lm, 'x, resources) mtype" where
  "T_Resources = \<lparr>ct_put = CResources, ct_get = (\<lambda>c. case c of CResources v \<Rightarrow> Some v | _ \<Rightarrow> None),
     ct_zero = (\<lambda>M. [])\<rparr>"

definition T_ComposabilityRequestSpec :: "('om, 'lm, 'x, go_ComposabilityRequestSpec) mtype" where
  "T_ComposabilityRequestSpec = \<lparr>ct_put = CComposabilityRequestSpec, ct_get = (\<lambda>c. case c of CComposabilityRequestSpec v \<Rightarrow> Some v | _ \<Rightarrow> None),
     ct_zero = (\<lambda>M. \<lparr>gsp_Resource = zero_details\<rparr>)\<rparr>"

definition T_ComposabilityRequestStatus :: "('om, 'lm, 'x, go_ComposabilityRequestStatus) mtype" where
  "T_ComposabilityRequestStatus = \<lparr>ct_put = CComposabilityRequestStatus, ct_get = (\<lambda>c. case c of CComposabilityRequestStatus v \<Rightarrow> Some v | _ \<Rightarrow> None),
     ct_zero = (\<lambda>M. zero_status)\<rparr>"

definition T_ComposabilityRequest :: "('om, 'lm, 'x, 'om go_ComposabilityRequest) mtype" where
  "T_ComposabilityRequest = \<lparr>ct_put = CComposabilityRequest, ct_get = (\<lambda>c. case c of CComposabilityRequest v \<Rightarrow> Some v | _ \<Rightarrow> None),
     ct_zero = (\<lambda>M. \<lparr>grq_TypeMeta = \<lparr>tm_Kind = [], tm_APIVersion = []\<rparr>, grq_ObjectMeta = zero_ObjectMeta M,
       grq_Spec = \<lparr>gsp_Resource = zero_details\<rparr>, grq_Status = zero_status\<rparr>)\<rparr>"

definition T_ComposabilityRequests :: "('om, 'lm, 'x, 'om go_ComposabilityRequest list) mtype" where
  "T_ComposabilityRequests = \<lparr>ct_put = CComposabilityRequests, ct_get = (\<lambda>c. case c of CComposabilityRequests v \<Rightarrow> Some v | _ \<Rightarrow> None),
     ct_zero = (\<lambda>M. [])\<rparr>"

definition T_ComposabilityRequestList :: "('om, 'lm, 'x, 'lm go_ObjectList) mtype" where
  "T_ComposabilityRequestList = \<lparr>ct_put = CComposabilityRequestList, ct_get = (\<lambda>c. case c of CComposabilityRequestList v \<Rightarrow> Some v | _ \<Rightarrow> None),
     ct_zero = (\<lambda>M. zero_list (zero_ListMeta M))\<rparr>"

definition T_ComposableResourceSpec :: "('om, 'lm, 'x, ComposableResourceSpec) mtype" where
  "T_ComposableResourceSpec = \<lparr>ct_put = CComposableResourceSpec, ct_get = (\<lambda>c. case c of CComposableResourceSpec v \<Rightarrow> Some v | _ \<Rightarrow> None),
     ct_zero = (\<lambda>M. cr_Spec empty_resource)\<rparr>"

definition T_ComposableResourceStatus :: "('om, 'lm, 'x, ComposableResourceStatus) mtype" where
  "T_ComposableResourceStatus = \<lparr>ct_put = CComposableResourceStatus, ct_get = (\<lambda>c. case c of CComposableResourceStatus v \<Rightarrow> Some v | _ \<Rightarrow> None),
     ct_zero = (\<lambda>M. cr_Status empty_resource)\<rparr>"

definition T_ComposableResource :: "('om, 'lm, 'x, 'om go_ComposableResource) mtype" where
  "T_ComposableResource = \<lparr>ct_put = CComposableResource, ct_get = (\<lambda>c. case c of CComposableResource v \<Rightarrow> Some v | _ \<Rightarrow> None),
     ct_zero = (\<lambda>M. \<lparr>grs_TypeMeta = \<lparr>tm_Kind = [], tm_APIVersion = []\<rparr>, grs_ObjectMeta = zero_ObjectMeta M,
       grs_Spec = cr_Spec empty_resource, grs_Status = cr_Status empty_resource\<rparr>)\<rparr>"

definition T_ComposableResources :: "('om, 'lm, 'x, 'om go_ComposableResource list) mtype" where
  "T_ComposableResources = \<lparr>ct_put = CComposableResources, ct_get = (\<lambda>c. case c of CComposableResources v \<Rightarrow> Some v | _ \<Rightarrow> None),
     ct_zero = (\<lambda>M. [])\<rparr>"

definition T_ComposableResourceList :: "('om, 'lm, 'x, 'lm go_ObjectList) mtype" where
  "T_ComposableResourceList = \<lparr>ct_put = CComposableResourceList, ct_get = (\<lambda>c. case c of CComposableResourceList v \<Rightarrow> Some v | _ \<Rightarrow> None),
     ct_zero = (\<lambda>M. zero_list (zero_ListMeta M))\<rparr>"

section \<open>The generated methods\<close>

subsection \<open>DeepCopyInto\<close>

definition NodeSpec_DeepCopyInto :: "NodeSpec \<Rightarrow> ('om, 'lm, 'x, NodeSpec) copying" where
  "NodeSpec_DeepCopyInto v = ret v"

definition ScalarResourceStatus_DeepCopyInto :: "ScalarResourceStatus \<Rightarrow> ('om, 'lm, 'x, ScalarResourceStatus) copying" where
  "ScalarResourceStatus_DeepCopyInto v = ret v"

definition ComposableResourceSpec_DeepCopyInto :: "ComposableResourceSpec \<Rightarrow> ('om, 'lm, 'x, ComposableResourceSpec) copying" where
  "ComposableResourceSpec_DeepCopyInto v = ret v"

definition ComposableResourceStatus_DeepCopyInto :: "ComposableResourceStatus \<Rightarrow> ('om, 'lm, 'x, ComposableResourceStatus) copying" where
  "ComposableResourceStatus_DeepCopyInto v = ret v"

text \<open>\<^verbatim>\<open>*out = new(NodeSpec); **out = **in\<close>\<close>

definition copy_OtherSpec :: "addr option \<Rightarrow> ('om, 'lm, 'x, addr option) copying" where
  "copy_OtherSpec p =
     (if p \<noteq> None then
        bindM (new T_NodeSpec) (\<lambda>out.
        bindM (deref p) (\<lambda>a. bindM (load T_NodeSpec a) (\<lambda>v.
        thenM (store T_NodeSpec out v) (ret (Some out)))))
      else ret p)"

definition ScalarResourceDetails_DeepCopyInto :: "go_ScalarResourceDetails \<Rightarrow> ('om, 'lm, 'x, go_ScalarResourceDetails) copying" where
  "ScalarResourceDetails_DeepCopyInto v =
     bindM (copy_OtherSpec (gd_OtherSpec v)) (\<lambda>p. ret (v\<lparr>gd_OtherSpec := p\<rparr>))"

text \<open>\<^verbatim>\<open>*out = make(map[string]ScalarResourceStatus, len(*in)); for key, val := range *in { (*out)[key] = val }\<close>; a map is
  ranged over in the order of its list.\<close>

definition copy_Resources :: "addr option \<Rightarrow> ('om, 'lm, 'x, addr option) copying" where
  "copy_Resources p =
     (if p \<noteq> None then
        bindM (new T_Resources) (\<lambda>out.
        bindM (deref p) (\<lambda>a. bindM (load T_Resources a) (\<lambda>kvs.
        bindM (forM kvs () (\<lambda>(key, val) _.
           bindM (load T_Resources out) (\<lambda>al. thenM (store T_Resources out (AList.update key val al)) (ret (Next ())))))
        (\<lambda>_ :: unit + unit. ret (Some out)))))
      else ret p)"

definition ComposabilityRequestSpec_DeepCopyInto :: "go_ComposabilityRequestSpec \<Rightarrow> ('om, 'lm, 'x, go_ComposabilityRequestSpec) copying" where
  "ComposabilityRequestSpec_DeepCopyInto v =
     bindM (ScalarResourceDetails_DeepCopyInto (gsp_Resource v)) (\<lambda>d. ret (v\<lparr>gsp_Resource := d\<rparr>))"

definition ComposabilityRequestStatus_DeepCopyInto :: "go_ComposabilityRequestStatus \<Rightarrow> ('om, 'lm, 'x, go_ComposabilityRequestStatus) copying" where
  "ComposabilityRequestStatus_DeepCopyInto v =
     bindM (copy_Resources (gst_Resources v)) (\<lambda>p.
     bindM (ScalarResourceDetails_DeepCopyInto (gst_ScalarResource v)) (\<lambda>d.
     ret (v\<lparr>gst_Resources := p, gst_ScalarResource := d\<rparr>)))"

definition ComposabilityRequest_DeepCopyInto :: "'om go_ComposabilityRequest \<Rightarrow> ('om, 'lm, 'x, 'om go_ComposabilityRequest) copying" where
  "ComposabilityRequest_DeepCopyInto v =
     bindM (ObjectMeta_DeepCopyInto (grq_ObjectMeta v)) (\<lambda>om.
     bindM (ComposabilityRequestSpec_DeepCopyInto (grq_Spec v)) (\<lambda>sp.
     bindM (ComposabilityRequestStatus_DeepCopyInto (grq_Status v)) (\<lambda>st.
     ret (v\<lparr>grq_TypeMeta := grq_TypeMeta v, grq_ObjectMeta := om, grq_Spec := sp, grq_Status := st\<rparr>))))"

definition ComposabilityRequestList_DeepCopyInto :: "'lm go_ObjectList \<Rightarrow> ('om, 'lm, 'x, 'lm go_ObjectList) copying" where
  "ComposabilityRequestList_DeepCopyInto v =
     bindM (ListMeta_DeepCopyInto (gl_ListMeta v)) (\<lambda>lm.
     bindM (copy_items T_ComposabilityRequest T_ComposabilityRequests ComposabilityRequest_DeepCopyInto (gl_Items v)) (\<lambda>its.
     ret (v\<lparr>gl_TypeMeta := gl_TypeMeta v, gl_ListMeta := lm, gl_Items := its\<rparr>)))"

definition ComposableResource_DeepCopyInto :: "'om go_ComposableResource \<Rightarrow> ('om, 'lm, 'x, 'om go_ComposableResource) copying" where
  "ComposableResource_DeepCopyInto v =
     bindM (ObjectMeta_DeepCopyInto (grs_ObjectMeta v)) (\<lambda>om.
     ret (v\<lparr>grs_TypeMeta := grs_TypeMeta v, grs_ObjectMeta := om, grs_Spec := grs_Spec v, grs_Status := grs_Status v\<rparr>))"

definition ComposableResourceList_DeepCopyInto :: "'lm go_ObjectList \<Rightarrow> ('om, 'lm, 'x, 'lm go_ObjectList) copying" where
  "ComposableResourceList_DeepCopyInto v =
     bindM (ListMeta_DeepCopyInto (gl_ListMeta v)) (\<lambda>lm.
     bindM (copy_items T_ComposableResource T_ComposableResources ComposableResource_DeepCopyInto (gl_Items v)) (\<lambda>its.
     ret (v\<lparr>gl_TypeMeta := gl_TypeMeta v, gl_ListMeta := lm, gl_Items := its\<rparr>)))"

subsection \<open>DeepCopy and DeepCopyObject\<close>

definition NodeSpec_DeepCopy :: "addr option \<Rightarrow> ('om, 'lm, 'x, addr option) copying" where
  "NodeSpec_DeepCopy = DeepCopy_of T_NodeSpec NodeSpec_DeepCopyInto"

definition ScalarResourceDetails_DeepCopy :: "addr option \<Rightarrow> ('om, 'lm, 'x, addr option) copying" where
  "ScalarResourceDetails_DeepCopy = DeepCopy_of T_ScalarResourceDetails ScalarResourceDetails_DeepCopyInto"

definition ScalarResourceStatus_DeepCopy :: "addr option \<Rightarrow> ('om, 'lm, 'x, addr option) copying" where
  "ScalarResourceStatus_DeepCopy = DeepCopy_of T_ScalarResourceStatus ScalarResourceStatus_DeepCopyInto"

definition ComposabilityRequestSpec_DeepCopy :: "addr option \<Rightarrow> ('om, 'lm, 'x, addr option) copying" where
  "ComposabilityRequestSpec_DeepCopy = DeepCopy_of T_ComposabilityRequestSpec ComposabilityRequestSpec_DeepCopyInto"

definition ComposabilityRequestStatus_DeepCopy :: "addr option \<Rightarrow> ('om, 'lm, 'x, addr option) copying" where
  "ComposabilityRequestStatus_DeepCopy = DeepCopy_of T_ComposabilityRequestStatus ComposabilityRequestStatus_DeepCopyInto"

definition ComposabilityRequest_DeepCopy :: "addr option \<Rightarrow> ('om, 'lm, 'x, addr option) copying" where
  "ComposabilityRequest_DeepCopy = DeepCopy_of T_ComposabilityRequest ComposabilityRequest_DeepCopyInto"

definition ComposabilityRequestList_DeepCopy :: "addr option \<Rightarrow> ('om, 'lm, 'x, addr option) copying" where
  "ComposabilityRequestList_DeepCopy = DeepCopy_of T_ComposabilityRequestList ComposabilityRequestList_DeepCopyInto"

definition ComposableResourceSpec_DeepCopy :: "addr option \<Rightarrow> ('om, 'lm, 'x, addr option) copying" where
  "ComposableResourceSpec_DeepCopy = DeepCopy_of T_ComposableResourceSpec ComposableResourceSpec_DeepCopyInto"

definition ComposableResourceStatus_DeepCopy :: "addr option \<Rightarrow> ('om, 'lm, 'x, addr option) copying" where
  "ComposableResourceStatus_DeepCopy = DeepCopy_of T_ComposableResourceStatus ComposableResourceStatus_DeepCopyInto"

definition ComposableResource_DeepCopy :: "addr option \<Rightarrow> ('om, 'lm, 'x, addr option) copying" where
  "ComposableResource_DeepCopy = DeepCopy_of T_ComposableResource ComposableResource_DeepCopyInto"

definition ComposableResourceList_DeepCopy :: "addr option \<Rightarrow> ('om, 'lm, 'x, addr option) copying" where
  "ComposableResourceList_DeepCopy = DeepCopy_of T_ComposableResourceList ComposableResourceList_DeepCopyInto"

text \<open>An interface value \<^verbatim>\<open>runtime.Object\<close> that is not nil holds a pointer together with its type.\<close>

datatype runtime_Object = RequestObject addr | RequestListObject addr | ResourceObject addr | ResourceListObject addr

definition object_of :: "(addr \<Rightarrow> runtime_Object) \<Rightarrow> addr option \<Rightarrow> runtime_Object option" where
  "object_of k c = (case c of Some a \<Rightarrow> Some (k a) | None \<Rightarrow> None)"

definition ComposabilityRequest_DeepCopyObject :: "addr option \<Rightarrow> ('om, 'lm, 'x, runtime_Object option) copying" where
  "ComposabilityRequest_DeepCopyObject p = bindM (ComposabilityRequest_DeepCopy p) (\<lambda>c. ret (object_of RequestObject c))"

definition ComposabilityRequestList_DeepCopyObject :: "addr option \<Rightarrow> ('om, 'lm, 'x, runtime_Object option) copying" where
  "ComposabilityRequestList_DeepCopyObject p = bindM (ComposabilityRequestList_DeepCopy p) (\<lambda>c. ret (object_of RequestListObject c))"

definition ComposableResource_DeepCopyObject :: "addr option \<Rightarrow> ('om, 'lm, 'x, runtime_Object option) copying" where
  "ComposableResource_DeepCopyObject p = bindM (ComposableResource_DeepCopy p) (\<lambda>c. ret (object_of ResourceObject c))"

definition ComposableResourceList_DeepCopyObject :: "addr option \<Rightarrow> ('om, 'lm, 'x, runtime_Object option) copying" where
  "ComposableResourceList_DeepCopyObject p = bindM (ComposableResourceList_DeepCopy p) (\<lambda>c. ret (object_of ResourceListObject c))"

section \<open>The contract of a copy\<close>

definition wf_memory :: "'c memory \<Rightarrow> bool" where
  "wf_memory m \<longleftrightarrow> dom (cells m) \<subseteq> {..<next_addr m}"

definition same_on :: "addr set \<Rightarrow> 'c memory \<Rightarrow> 'c memory \<Rightarrow> bool" where
  "same_on A m m' \<longleftrightarrow> (\<forall>a\<in>A. cells m' a = cells m a)"

text \<open>The later memory has new cells and the old ones as they were.\<close>

definition grows :: "'c memory \<Rightarrow> 'c memory \<Rightarrow> bool" where
  "grows m m' \<longleftrightarrow> wf_memory m' \<and> next_addr m \<le> next_addr m' \<and> same_on {..<next_addr m} m m'"

lemma grows_refl: "wf_memory m \<Longrightarrow> grows m m"
  by (simp add: grows_def same_on_def)

lemma grows_trans: "grows m m' \<Longrightarrow> grows m' m'' \<Longrightarrow> grows m m''"
  by (auto simp: grows_def same_on_def)

lemma grows_wf: "grows m m' \<Longrightarrow> wf_memory m'"
  by (simp add: grows_def)

lemma same_on_mono: "same_on A m m' \<Longrightarrow> B \<subseteq> A \<Longrightarrow> same_on B m m'"
  by (auto simp: same_on_def)

lemma grows_alloc:
  "wf_memory m \<Longrightarrow> grows m (m\<lparr>cells := (cells m)(next_addr m \<mapsto> c), next_addr := Suc (next_addr m)\<rparr>)"
  by (auto simp: grows_def wf_memory_def same_on_def)

lemma grows_store:
  "grows m m' \<Longrightarrow> next_addr m \<le> b \<Longrightarrow> b < next_addr m' \<Longrightarrow> grows m (m'\<lparr>cells := (cells m')(b \<mapsto> c)\<rparr>)"
  by (auto simp: grows_def wf_memory_def same_on_def)

lemma wf_memory_store: "wf_memory m \<Longrightarrow> b < next_addr m \<Longrightarrow> wf_memory (m\<lparr>cells := (cells m)(b \<mapsto> c)\<rparr>)"
  by (auto simp: wf_memory_def)

text \<open>
  The value \<open>v'\<close> of the later memory is a copy of \<open>v\<close>: its content is that of \<open>v\<close>, nothing old has changed, and a later write through one of them
  (to cells only it leads to) leaves the content of the other.
\<close>

definition independent_copy :: "('c memory \<Rightarrow> 'v \<Rightarrow> addr set) \<Rightarrow> ('c memory \<Rightarrow> 'v \<Rightarrow> 'd) \<Rightarrow> 'c memory \<Rightarrow> 'v \<Rightarrow> 'c memory \<Rightarrow> 'v \<Rightarrow> bool" where
  "independent_copy reach content m v m' v' \<longleftrightarrow> content m' v' = content m v \<and> grows m m'
     \<and> (\<forall>m''. same_on (- reach m' v') m' m'' \<longrightarrow> content m'' v = content m v)
     \<and> (\<forall>m''. same_on (- reach m v) m' m'' \<longrightarrow> content m'' v' = content m v)"

text \<open>
  A copying function, the values it is for (those whose addresses lead to cells of the right type), the
  cells a value leads to, and its content.
\<close>

locale deep_copy =
  fixes copy :: "'v \<Rightarrow> 'c memory \<Rightarrow> 'v outcome \<times> 'c memory"
    and valid :: "'c memory \<Rightarrow> 'v \<Rightarrow> bool"
    and reach :: "'c memory \<Rightarrow> 'v \<Rightarrow> addr set"
    and content :: "'c memory \<Rightarrow> 'v \<Rightarrow> 'd"
  assumes depends: "valid m v \<Longrightarrow> same_on (reach m v) m m' \<Longrightarrow> valid m' v \<and> reach m' v = reach m v \<and> content m' v = content m v"
    and allocated: "wf_memory m \<Longrightarrow> valid m v \<Longrightarrow> reach m v \<subseteq> {..<next_addr m}"
    and copies: "wf_memory m \<Longrightarrow> valid m v \<Longrightarrow> \<exists>v' m'. copy v m = (Ret v', m') \<and> grows m m' \<and> valid m' v'
      \<and> content m' v' = content m v \<and> reach m' v' \<subseteq> {next_addr m..<next_addr m'}"
begin

lemma copy_obtain:
  assumes "wf_memory m" "valid m v"
  obtains v' m' where "copy v m = (Ret v', m')" "grows m m'" "valid m' v'" "content m' v' = content m v"
    "reach m' v' \<subseteq> {next_addr m..<next_addr m'}"
  using copies [OF assms] by blast

lemma grown:
  assumes "wf_memory m" "valid m v" "grows m m'"
  shows "valid m' v" "reach m' v = reach m v" "content m' v = content m v"
  using depends [of m v m'] allocated [OF assms(1,2)] assms(2,3) same_on_mono [of "{..<next_addr m}" m m' "reach m v"]
  by (auto simp: grows_def)

text \<open>Whatever is later written through the copy, the original stays as it was, and the other way round.\<close>

lemma copy_independent:
  assumes "wf_memory m" "valid m v"
  shows "\<exists>v' m'. copy v m = (Ret v', m') \<and> independent_copy reach content m v m' v'"
proof -
  obtain v' m' where run: "copy v m = (Ret v', m')" and g: "grows m m'" and v': "valid m' v'" "content m' v' = content m v"
    and fresh: "reach m' v' \<subseteq> {next_addr m..<next_addr m'}" by (rule copy_obtain [OF assms])
  note old = grown [OF assms g]
  have disjoint: "reach m v \<inter> reach m' v' = {}" using allocated [OF assms] fresh by fastforce
  have "content m'' v = content m v" if "same_on (- reach m' v') m' m''" for m''
    using depends [OF old(1), of m''] old disjoint same_on_mono [OF that, of "reach m v"] by auto
  moreover have "content m'' v' = content m v" if "same_on (- reach m v) m' m''" for m''
    using depends [OF v'(1), of m''] v'(2) disjoint same_on_mono [OF that, of "reach m' v'"] by auto
  ultimately show ?thesis using run g v'(2) by (auto simp: independent_copy_def)
qed

end

subsection \<open>Values without addresses, structs, and parts in sequence\<close>

lemma deep_copy_plain: "deep_copy (\<lambda>v m. (Ret v, m)) (\<lambda>_ _. True) (\<lambda>_ _. {}) (\<lambda>_ v. v)"
  by unfold_locales (auto simp: grows_refl)

text \<open>A struct is copied by copying the part \<open>part v\<close> of it that has addresses; the rest is assigned.\<close>

lemma deep_copy_struct:
  assumes "deep_copy copy valid reach content"
    and "\<And>v x. part (upd v x) = x" "\<And>v x. mk (upd v x) = mk v"
    and "\<And>v m. copy' v m = (case copy (part v) m of (Ret x, m') \<Rightarrow> (Ret (upd v x), m') | (Panic e, m') \<Rightarrow> (Panic e, m'))"
  shows "deep_copy copy' (\<lambda>m v. valid m (part v)) (\<lambda>m v. reach m (part v)) (\<lambda>m v. mk v (content m (part v)))"
proof -
  from assms(1) have c: "deep_copy copy valid reach content" .
  show ?thesis
  proof
    show "valid m' (part v) \<and> reach m' (part v) = reach m (part v) \<and> mk v (content m' (part v)) = mk v (content m (part v))"
      if "valid m (part v)" "same_on (reach m (part v)) m m'" for m v m'
      using deep_copy.depends [OF c that] by simp
    show "reach m (part v) \<subseteq> {..<next_addr m}" if "wf_memory m" "valid m (part v)" for m v
      using deep_copy.allocated [OF c that] .
    show "\<exists>v' m'. copy' v m = (Ret v', m') \<and> grows m m' \<and> valid m' (part v') \<and> mk v' (content m' (part v')) = mk v (content m (part v))
        \<and> reach m' (part v') \<subseteq> {next_addr m..<next_addr m'}" if ok: "wf_memory m" "valid m (part v)" for m v
    proof -
      obtain x m' where "copy (part v) m = (Ret x, m')" "grows m m'" "valid m' x" "content m' x = content m (part v)"
        "reach m' x \<subseteq> {next_addr m..<next_addr m'}" by (rule deep_copy.copy_obtain [OF c ok])
      then show ?thesis by (intro exI [of _ "upd v x"] exI [of _ m']) (simp add: assms(2-4))
    qed
  qed
qed

text \<open>Two parts, one after the other: the first copy is not touched by the second.\<close>

lemma deep_copy_pair:
  assumes "deep_copy copy1 valid1 reach1 content1" "deep_copy copy2 valid2 reach2 content2"
  shows "deep_copy (\<lambda>v m. case copy1 (fst v) m of
        (Ret x, m1) \<Rightarrow> (case copy2 (snd v) m1 of (Ret y, m2) \<Rightarrow> (Ret (x, y), m2) | (Panic e, m2) \<Rightarrow> (Panic e, m2))
      | (Panic e, m1) \<Rightarrow> (Panic e, m1))
    (\<lambda>m v. valid1 m (fst v) \<and> valid2 m (snd v)) (\<lambda>m v. reach1 m (fst v) \<union> reach2 m (snd v))
    (\<lambda>m v. (content1 m (fst v), content2 m (snd v)))"
proof -
  from assms have c: "deep_copy copy1 valid1 reach1 content1" "deep_copy copy2 valid2 reach2 content2" by auto
  show ?thesis
  proof
    fix m v m'
    assume "valid1 m (fst v) \<and> valid2 m (snd v)" "same_on (reach1 m (fst v) \<union> reach2 m (snd v)) m m'"
    then show "(valid1 m' (fst v) \<and> valid2 m' (snd v)) \<and> reach1 m' (fst v) \<union> reach2 m' (snd v) = reach1 m (fst v) \<union> reach2 m (snd v)
        \<and> (content1 m' (fst v), content2 m' (snd v)) = (content1 m (fst v), content2 m (snd v))"
      using deep_copy.depends [OF c(1), of m "fst v" m'] deep_copy.depends [OF c(2), of m "snd v" m'] by (auto simp: same_on_def)
  next
    fix m v
    assume "wf_memory m" "valid1 m (fst v) \<and> valid2 m (snd v)"
    then show "reach1 m (fst v) \<union> reach2 m (snd v) \<subseteq> {..<next_addr m}"
      using deep_copy.allocated [OF c(1), of m "fst v"] deep_copy.allocated [OF c(2), of m "snd v"] by simp
  next
    fix m v
    assume wf: "wf_memory m" and "valid1 m (fst v) \<and> valid2 m (snd v)"
    then have v: "valid1 m (fst v)" "valid2 m (snd v)" by auto
    obtain x m1 where 1: "copy1 (fst v) m = (Ret x, m1)" "grows m m1" "valid1 m1 x" "content1 m1 x = content1 m (fst v)"
      "reach1 m1 x \<subseteq> {next_addr m..<next_addr m1}" by (rule deep_copy.copy_obtain [OF c(1) wf v(1)])
    note wf1 = grows_wf [OF 1(2)] and old = deep_copy.grown [OF c(2) wf v(2) 1(2)]
    obtain y m2 where 2: "copy2 (snd v) m1 = (Ret y, m2)" "grows m1 m2" "valid2 m2 y" "content2 m2 y = content2 m1 (snd v)"
      "reach2 m2 y \<subseteq> {next_addr m1..<next_addr m2}" by (rule deep_copy.copy_obtain [OF c(2) wf1 old(1)])
    note keep = deep_copy.grown [OF c(1) wf1 1(3) 2(2)]
    have "next_addr m \<le> next_addr m1" "next_addr m1 \<le> next_addr m2" using 1(2) 2(2) by (auto simp: grows_def)
    with 1(5) 2(5) have "reach1 m1 x \<union> reach2 m2 y \<subseteq> {next_addr m..<next_addr m2}" by fastforce
    then show "\<exists>v' m'. (case copy1 (fst v) m of
          (Ret x, m1) \<Rightarrow> (case copy2 (snd v) m1 of (Ret y, m2) \<Rightarrow> (Ret (x, y), m2) | (Panic e, m2) \<Rightarrow> (Panic e, m2))
        | (Panic e, m1) \<Rightarrow> (Panic e, m1)) = (Ret v', m') \<and> grows m m' \<and> (valid1 m' (fst v') \<and> valid2 m' (snd v'))
        \<and> (content1 m' (fst v'), content2 m' (snd v')) = (content1 m (fst v), content2 m (snd v))
        \<and> reach1 m' (fst v') \<union> reach2 m' (snd v') \<subseteq> {next_addr m..<next_addr m'}"
      using 1 2 old keep by (intro exI [of _ "(x, y)"] exI [of _ m2]) (simp add: grows_trans [OF 1(2) 2(2)])
  qed
qed

text \<open>The same for programs: the fields of a struct that have addresses are copied in sequence.\<close>

definition both :: "('v \<Rightarrow> ('e, 's, 'v) prog) \<Rightarrow> ('w \<Rightarrow> ('e, 's, 'w) prog) \<Rightarrow> 'v \<times> 'w \<Rightarrow> ('e, 's, 'v \<times> 'w) prog" where
  "both c1 c2 v = bindM (c1 (fst v)) (\<lambda>x. bindM (c2 (snd v)) (\<lambda>y. ret (x, y)))"

lemma deep_copy_both:
  assumes "deep_copy (\<lambda>v. c1 v E) valid1 reach1 content1" "deep_copy (\<lambda>v. c2 v E) valid2 reach2 content2"
  shows "deep_copy (\<lambda>v. both c1 c2 v E) (\<lambda>m v. valid1 m (fst v) \<and> valid2 m (snd v)) (\<lambda>m v. reach1 m (fst v) \<union> reach2 m (snd v))
    (\<lambda>m v. (content1 m (fst v), content2 m (snd v)))"
  using deep_copy_pair [OF assms] by (simp add: both_def [abs_def] bindM_def ret_def)

lemma deep_copy_fields:
  assumes "deep_copy (\<lambda>v. c v E) valid reach content"
    and "\<And>v x. part (upd v x) = x" "\<And>v x. mk (upd v x) = mk v"
    and "\<And>v. c' v = bindM (c (part v)) (\<lambda>x. ret (upd v x))"
  shows "deep_copy (\<lambda>v. c' v E) (\<lambda>m v. valid m (part v)) (\<lambda>m v. reach m (part v)) (\<lambda>m v. mk v (content m (part v)))"
  by (rule deep_copy_struct [OF assms(1-3)]) (simp add: assms(4) bindM_def ret_def)

subsection \<open>Pointers\<close>

definition ctype_ok :: "('e, 'v, 'c) ctype \<Rightarrow> bool" where
  "ctype_ok T \<longleftrightarrow> (\<forall>v. ct_get T (ct_put T v) = Some v)"

definition valid_ptr :: "('e, 'v, 'c) ctype \<Rightarrow> ('c memory \<Rightarrow> 'v \<Rightarrow> bool) \<Rightarrow> 'c memory \<Rightarrow> addr option \<Rightarrow> bool" where
  "valid_ptr T valid m p = (case p of None \<Rightarrow> True | Some a \<Rightarrow> (case held T m a of None \<Rightarrow> False | Some v \<Rightarrow> valid m v))"

definition reach_ptr :: "('e, 'v, 'c) ctype \<Rightarrow> ('c memory \<Rightarrow> 'v \<Rightarrow> addr set) \<Rightarrow> 'c memory \<Rightarrow> addr option \<Rightarrow> addr set" where
  "reach_ptr T reach m p = (case p of None \<Rightarrow> {} | Some a \<Rightarrow> {a} \<union> (case held T m a of None \<Rightarrow> {} | Some v \<Rightarrow> reach m v))"

definition content_ptr :: "('e, 'v, 'c) ctype \<Rightarrow> ('c memory \<Rightarrow> 'v \<Rightarrow> 'd) \<Rightarrow> 'c memory \<Rightarrow> addr option \<Rightarrow> 'd option" where
  "content_ptr T content m p = Option.bind p (\<lambda>a. map_option (content m) (held T m a))"

lemmas ptr_defs = valid_ptr_def reach_ptr_def content_ptr_def

lemma held_same: "cells m' a = cells m a \<Longrightarrow> held T m' a = held T m a"
  by (simp add: held_def)

lemma held_allocated: "wf_memory m \<Longrightarrow> held T m a = Some v \<Longrightarrow> a < next_addr m"
  by (auto simp: held_def wf_memory_def bind_eq_Some_conv)

lemma held_store: "ctype_ok T \<Longrightarrow> held T (m\<lparr>cells := (cells m)(b \<mapsto> ct_put T v)\<rparr>) a = (if a = b then Some v else held T m a)"
  by (simp add: held_def ctype_ok_def)

lemma ptr_depends:
  assumes c: "deep_copy copy valid reach content" and "valid_ptr T valid m p" "same_on (reach_ptr T reach m p) m m'"
  shows "valid_ptr T valid m' p \<and> reach_ptr T reach m' p = reach_ptr T reach m p \<and> content_ptr T content m' p = content_ptr T content m p"
proof (cases p)
  case (Some a)
  with assms(2) obtain v where v: "held T m a = Some v" "valid m v" by (auto simp: valid_ptr_def split: option.splits)
  with assms(3) Some have same: "same_on (reach m v) m m'" "cells m' a = cells m a" by (auto simp: reach_ptr_def same_on_def)
  show ?thesis using deep_copy.depends [OF c v(2) same(1)] held_same [OF same(2), of T] v Some by (simp add: ptr_defs)
qed (simp add: ptr_defs)

lemma ptr_allocated:
  "deep_copy copy valid reach content \<Longrightarrow> wf_memory m \<Longrightarrow> valid_ptr T valid m p \<Longrightarrow> reach_ptr T reach m p \<subseteq> {..<next_addr m}"
  using deep_copy.allocated [of copy valid reach content m]
  by (auto simp: ptr_defs dest: held_allocated split: option.splits) (metis lessThan_iff subsetD)

text \<open>The copy is stored in the cell allocated before it was made.\<close>

lemma store_copy:
  assumes c: "deep_copy copy valid reach content" and "wf_memory m" "valid m v"
    and m1: "m1 = m\<lparr>cells := (cells m)(next_addr m \<mapsto> z), next_addr := Suc (next_addr m)\<rparr>"
  obtains v' m2 where "copy v m1 = (Ret v', m2)" "grows m (m2\<lparr>cells := (cells m2)(next_addr m \<mapsto> x)\<rparr>)"
    "valid (m2\<lparr>cells := (cells m2)(next_addr m \<mapsto> x)\<rparr>) v'"
    "content (m2\<lparr>cells := (cells m2)(next_addr m \<mapsto> x)\<rparr>) v' = content m v"
    "insert (next_addr m) (reach (m2\<lparr>cells := (cells m2)(next_addr m \<mapsto> x)\<rparr>) v') \<subseteq> {next_addr m..<next_addr m2}"
proof -
  note result = that
  have g1: "grows m m1" unfolding m1 by (rule grows_alloc) fact
  note old = deep_copy.grown [OF c assms(2,3) g1]
  obtain v' m2 where 2: "copy v m1 = (Ret v', m2)" "grows m1 m2" "valid m2 v'" "content m2 v' = content m1 v"
    "reach m2 v' \<subseteq> {next_addr m1..<next_addr m2}" by (rule deep_copy.copy_obtain [OF c grows_wf [OF g1] old(1)])
  let ?m3 = "m2\<lparr>cells := (cells m2)(next_addr m \<mapsto> x)\<rparr>"
  have b: "next_addr m < next_addr m1" "next_addr m1 \<le> next_addr m2" using 2(2) by (auto simp: m1 grows_def)
  have g3: "grows m ?m3" using b by (intro grows_store grows_trans [OF g1 2(2)]) simp_all
  have "same_on (reach m2 v') m2 ?m3" using 2(5) b by (auto simp: same_on_def)
  note same = deep_copy.depends [OF c 2(3) this]
  have fresh: "insert (next_addr m) (reach ?m3 v') \<subseteq> {next_addr m..<next_addr m2}" using 2(5) b same by fastforce
  have content: "content ?m3 v' = content m v" using same 2(4) old(3) by simp
  show thesis by (rule result [OF 2(1) g3 conjunct1 [OF same] content fresh])
qed

lemma run_DeepCopy_of:
  assumes "held T m1 a = Some v" "m1 = m\<lparr>cells := (cells m)(next_addr m \<mapsto> ct_put T (ct_zero T E)), next_addr := Suc (next_addr m)\<rparr>"
    and "into v E m1 = (Ret v', m2)"
  shows "DeepCopy_of T into (Some a) E m = (Ret (Some (next_addr m)), m2\<lparr>cells := (cells m2)(next_addr m \<mapsto> ct_put T v')\<rparr>)"
  using assms by (simp add: DeepCopy_of_def DeepCopyInto_at_def new_def alloc_def deref_def load_def store_def prog_eval)

lemma deep_copy_ptr:
  assumes c: "deep_copy (\<lambda>v. into v E) valid reach content" and T: "ctype_ok T"
  shows "deep_copy (\<lambda>p. DeepCopy_of T into p E) (valid_ptr T valid) (reach_ptr T reach) (content_ptr T content)"
proof
  fix m p
  assume m: "wf_memory m" "valid_ptr T valid m p"
  show "\<exists>p' m'. DeepCopy_of T into p E m = (Ret p', m') \<and> grows m m' \<and> valid_ptr T valid m' p'
      \<and> content_ptr T content m' p' = content_ptr T content m p \<and> reach_ptr T reach m' p' \<subseteq> {next_addr m..<next_addr m'}"
  proof (cases p)
    case None
    then show ?thesis using m by (auto simp: DeepCopy_of_def ptr_defs prog_eval grows_refl)
  next
    case (Some a)
    with m obtain v where v: "held T m a = Some v" "valid m v" by (auto simp: valid_ptr_def split: option.splits)
    let ?b = "next_addr m"
    define m1 where m1: "m1 = m\<lparr>cells := (cells m)(?b \<mapsto> ct_put T (ct_zero T E)), next_addr := Suc ?b\<rparr>"
    obtain v' m2 where copy: "into v E m1 = (Ret v', m2)" by (rule store_copy [OF c m(1) v(2) m1])
    define m3 where m3: "m3 = m2\<lparr>cells := (cells m2)(?b \<mapsto> ct_put T v')\<rparr>"
    have 3: "grows m m3" "valid m3 v'" "content m3 v' = content m v" "insert ?b (reach m3 v') \<subseteq> {?b..<next_addr m3}"
      using store_copy [OF c m(1) v(2) m1, of "ct_put T v'"] copy by (auto simp: m3)
    have "held T m3 ?b = Some v'" unfolding m3 using held_store [OF T] by simp
    moreover have "held T m1 a = Some v" using v(1) held_allocated [OF m(1) v(1)] by (auto simp: m1 held_def)
    note run_DeepCopy_of [where into = into and E = E, OF this m1 copy, folded m3]
    ultimately show ?thesis using 3 v Some by (intro exI [of _ "Some ?b"] exI [of _ m3]) (simp add: ptr_defs)
  qed
qed (rule ptr_depends [OF c] ptr_allocated [OF c]; assumption)+

subsection \<open>Slices\<close>

definition window :: "go_slice \<Rightarrow> 'v list \<Rightarrow> 'v list" where
  "window s xs = take (sl_Len s) (drop (sl_Offset s) xs)"

definition valid_slice :: "('e, 'v list, 'c) ctype \<Rightarrow> ('c memory \<Rightarrow> 'v \<Rightarrow> bool) \<Rightarrow> 'c memory \<Rightarrow> go_slice option \<Rightarrow> bool" where
  "valid_slice TA valid m sl = (case sl of None \<Rightarrow> True | Some s \<Rightarrow> (case held TA m (sl_Array s) of None \<Rightarrow> False
     | Some xs \<Rightarrow> sl_Offset s + sl_Len s \<le> length xs \<and> list_all (valid m) (window s xs)))"

definition reach_slice :: "('e, 'v list, 'c) ctype \<Rightarrow> ('c memory \<Rightarrow> 'v \<Rightarrow> addr set) \<Rightarrow> 'c memory \<Rightarrow> go_slice option \<Rightarrow> addr set" where
  "reach_slice TA reach m sl = (case sl of None \<Rightarrow> {} | Some s \<Rightarrow> {sl_Array s} \<union> (case held TA m (sl_Array s) of None \<Rightarrow> {}
     | Some xs \<Rightarrow> \<Union> (reach m ` set (window s xs))))"

definition content_slice :: "('e, 'v list, 'c) ctype \<Rightarrow> ('c memory \<Rightarrow> 'v \<Rightarrow> 'd) \<Rightarrow> 'c memory \<Rightarrow> go_slice option \<Rightarrow> 'd list option" where
  "content_slice TA content m sl = Option.bind sl (\<lambda>s. map_option (\<lambda>xs. map (content m) (window s xs)) (held TA m (sl_Array s)))"

lemmas slice_defs = valid_slice_def reach_slice_def content_slice_def

lemma slice_depends:
  assumes c: "deep_copy copy valid reach content" and "valid_slice TA valid m sl" "same_on (reach_slice TA reach m sl) m m'"
  shows "valid_slice TA valid m' sl \<and> reach_slice TA reach m' sl = reach_slice TA reach m sl
     \<and> content_slice TA content m' sl = content_slice TA content m sl"
proof (cases sl)
  case (Some s)
  with assms(2) obtain xs where xs: "held TA m (sl_Array s) = Some xs" "sl_Offset s + sl_Len s \<le> length xs"
    "\<forall>v\<in>set (window s xs). valid m v" by (auto simp: valid_slice_def list_all_iff split: option.splits)
  with assms(3) Some have a: "cells m' (sl_Array s) = cells m (sl_Array s)" by (auto simp: reach_slice_def same_on_def)
  have elems: "valid m' v \<and> reach m' v = reach m v \<and> content m' v = content m v" if "v \<in> set (window s xs)" for v
    using that assms(3) xs Some by (intro deep_copy.depends [OF c]) (auto simp: reach_slice_def same_on_def)
  then show ?thesis using xs Some held_same [OF a, of TA] by (simp add: slice_defs list_all_iff)
qed (simp add: slice_defs)

lemma slice_allocated:
  assumes c: "deep_copy copy valid reach content" and "wf_memory m" "valid_slice TA valid m sl"
  shows "reach_slice TA reach m sl \<subseteq> {..<next_addr m}"
proof (cases sl)
  case (Some s)
  with assms(3) obtain xs where xs: "held TA m (sl_Array s) = Some xs" "\<forall>v\<in>set (window s xs). valid m v"
    by (auto simp: valid_slice_def list_all_iff split: option.splits)
  then show ?thesis using deep_copy.allocated [OF c assms(2)] held_allocated [OF assms(2) xs(1)] Some
    by (simp add: reach_slice_def UN_subset_iff)
qed (simp add: slice_defs)

text \<open>A loop that always goes on, with what holds after each round.\<close>

lemma forM_invariant:
  assumes "I 0 acc s"
    and "\<And>i acc s. i < length xs \<Longrightarrow> I i acc s \<Longrightarrow> \<exists>acc' s'. f (xs ! i) acc E s = (Ret (Next acc'), s') \<and> I (Suc i) acc' s'"
  shows "\<exists>acc' s'. forM xs acc f E s = (Ret (Inr acc'), s') \<and> I (length xs) acc' s'"
  using assms
proof (induction xs arbitrary: I acc s)
  case (Cons x xs)
  obtain acc1 s1 where 1: "f x acc E s = (Ret (Next acc1), s1)" "I (Suc 0) acc1 s1"
    using Cons.prems(2) [of 0, OF _ Cons.prems(1)] by auto
  have "\<exists>acc' s'. forM xs acc1 f E s1 = (Ret (Inr acc'), s') \<and> I (Suc (length xs)) acc' s'"
    using Cons.prems(2) [of "Suc _"] by (intro Cons.IH [of "\<lambda>i. I (Suc i)"] 1(2)) simp
  with 1(1) show ?case by (simp add: bindM_def)
qed (simp add: ret_def)

text \<open>What the loop over the items has done after \<open>i\<close> rounds, from memory \<open>m\<close> with the new array at \<open>b\<close>.\<close>

definition items_copied :: "('e, 'v list, 'c) ctype \<Rightarrow> ('c memory \<Rightarrow> 'v \<Rightarrow> bool) \<Rightarrow> ('c memory \<Rightarrow> 'v \<Rightarrow> addr set) \<Rightarrow> ('c memory \<Rightarrow> 'v \<Rightarrow> 'd)
    \<Rightarrow> 'c memory \<Rightarrow> 'v list \<Rightarrow> addr \<Rightarrow> nat \<Rightarrow> 'c memory \<Rightarrow> bool" where
  "items_copied TA valid reach content m ws b i m' \<longleftrightarrow> grows m m' \<and> next_addr m \<le> b \<and> b < next_addr m'
     \<and> (\<exists>ys. held TA m' b = Some ys \<and> length ys = length ws
        \<and> (\<forall>j<i. valid m' (ys ! j) \<and> content m' (ys ! j) = content m (ws ! j) \<and> reach m' (ys ! j) \<subseteq> {Suc b..<next_addr m'}))"

lemma items_copied_step:
  assumes c: "deep_copy copy valid reach content" and T: "ctype_ok TA" and "wf_memory m" "list_all (valid m) ws" "i < length ws"
    and I: "items_copied TA valid reach content m ws b i m1"
  obtains v' m2 ys where "copy (ws ! i) m1 = (Ret v', m2)" "grows m m2" "held TA m2 b = Some ys" "length ys = length ws"
    "items_copied TA valid reach content m ws b (Suc i) (m2\<lparr>cells := (cells m2)(b \<mapsto> ct_put TA (ys[i := v']))\<rparr>)"
proof -
  note result = that
  from I obtain ys where g1: "grows m m1" and b: "next_addr m \<le> b" "b < next_addr m1" and ys: "held TA m1 b = Some ys" "length ys = length ws"
    and before: "\<And>j. j < i \<Longrightarrow> valid m1 (ys ! j) \<and> content m1 (ys ! j) = content m (ws ! j) \<and> reach m1 (ys ! j) \<subseteq> {Suc b..<next_addr m1}"
    by (auto simp: items_copied_def)
  have v: "valid m (ws ! i)" using assms(4,5) by (simp add: list_all_length)
  note old = deep_copy.grown [OF c assms(3) v g1]
  obtain v' m2 where 2: "copy (ws ! i) m1 = (Ret v', m2)" "grows m1 m2" "valid m2 v'" "content m2 v' = content m1 (ws ! i)"
    "reach m2 v' \<subseteq> {next_addr m1..<next_addr m2}" by (rule deep_copy.copy_obtain [OF c grows_wf [OF g1] old(1)])
  note g2 = grows_trans [OF g1 2(2)]
  have n: "next_addr m1 \<le> next_addr m2" and held2: "held TA m2 b = Some ys"
    using 2(2) b ys(1) held_same [of m2 b m1 TA] by (auto simp: grows_def same_on_def)
  let ?m3 = "m2\<lparr>cells := (cells m2)(b \<mapsto> ct_put TA (ys[i := v']))\<rparr>"
  have keep: "valid ?m3 x \<and> content ?m3 x = content m2 x \<and> reach ?m3 x \<subseteq> {Suc b..<next_addr m2}"
    if "valid m2 x" "reach m2 x \<subseteq> {Suc b..<next_addr m2}" for x
  proof -
    have "same_on (reach m2 x) m2 ?m3" using that(2) by (auto simp: same_on_def)
    from deep_copy.depends [OF c that(1) this] that(2) show ?thesis by simp
  qed
  have all: "valid ?m3 (ys[i := v'] ! j) \<and> content ?m3 (ys[i := v'] ! j) = content m (ws ! j) \<and> reach ?m3 (ys[i := v'] ! j) \<subseteq> {Suc b..<next_addr m2}"
    if "j < Suc i" for j
  proof (cases "j = i")
    case True
    have "reach m2 v' \<subseteq> {Suc b..<next_addr m2}" using 2(5) b by fastforce
    from keep [OF 2(3) this] show ?thesis using True 2(4) old(3) ys(2) assms(5) by simp
  next
    case False
    with that have j: "j < i" by simp
    note 1 = before [OF j]
    note grown = deep_copy.grown [OF c grows_wf [OF g1] conjunct1 [OF 1] 2(2)]
    have "reach m2 (ys ! j) \<subseteq> {Suc b..<next_addr m2}" using 1 grown(2) n by fastforce
    from keep [OF grown(1) this] show ?thesis using False 1 grown(3) by simp
  qed
  have "items_copied TA valid reach content m ws b (Suc i) ?m3"
    unfolding items_copied_def using all grows_store [OF g2 b(1)] b n ys(2) held_store [OF T, of m2 b]
    by (intro conjI exI [of _ "ys[i := v']"]) auto
  then show thesis by (rule result [OF 2(1) g2 held2 ys(2)])
qed

lemma copy_items_loop:
  assumes c: "deep_copy (\<lambda>v. into v E) valid reach content" and T: "ctype_ok TA" and m: "wf_memory m"
    and xs: "held TA m a = Some xs" "off + length ws \<le> length xs" "\<And>i. i < length ws \<Longrightarrow> ws ! i = xs ! (off + i)" "list_all (valid m) ws"
    and I: "items_copied TA valid reach content m ws b 0 m1"
  shows "\<exists>acc m'. forM [0..<length ws] () (\<lambda>i _.
             bindM (load_elem TA a (off + i)) (\<lambda>v.
             bindM (into v) (\<lambda>v'.
             thenM (store_elem TA b i v') (ret (Next ()))))) E m1 = (Ret (Inr acc), m') \<and> items_copied TA valid reach content m ws b (length ws) m'"
    (is "\<exists>acc m'. forM _ _ ?body E m1 = (Ret (Inr acc), m') \<and> ?I (length ws) m'")
proof -
  have step: "\<exists>acc' m'. ?body i acc E m1 = (Ret (Next acc'), m') \<and> ?I (Suc i) m'" if i: "i < length ws" and I: "?I i m1" for i m1 and acc :: unit
  proof -
    obtain v' m2 ys where s: "into (ws ! i) E m1 = (Ret v', m2)" "grows m m2" "held TA m2 b = Some ys" "length ys = length ws"
      "?I (Suc i) (m2\<lparr>cells := (cells m2)(b \<mapsto> ct_put TA (ys[i := v']))\<rparr>)"
      by (rule items_copied_step [OF c T m xs(4) i I])
    have "held TA m1 a = Some xs"
      using I xs(1) held_allocated [OF m xs(1)] held_same [of m1 a m TA] by (auto simp: items_copied_def grows_def same_on_def)
    then have "?body i acc E m1 = (Ret (Next ()), m2\<lparr>cells := (cells m2)(b \<mapsto> ct_put TA (ys[i := v']))\<rparr>)"
      using s i xs by (simp add: load_elem_def store_elem_def load_def store_def prog_eval)
    with s(5) show ?thesis by blast
  qed
  show ?thesis
    using forM_invariant [where I = "\<lambda>i _. ?I i" and xs = "[0..<length ws]" and f = ?body and E = E, OF I] step by fastforce
qed

lemma deep_copy_slice:
  assumes c: "deep_copy (\<lambda>v. into v E) valid reach content" and T: "ctype_ok TA"
  shows "deep_copy (\<lambda>sl. copy_items T TA into sl E) (valid_slice TA valid) (reach_slice TA reach) (content_slice TA content)"
proof
  fix m sl
  assume m: "wf_memory m" "valid_slice TA valid m sl"
  show "\<exists>v' m'. copy_items T TA into sl E m = (Ret v', m') \<and> grows m m' \<and> valid_slice TA valid m' v'
      \<and> content_slice TA content m' v' = content_slice TA content m sl \<and> reach_slice TA reach m' v' \<subseteq> {next_addr m..<next_addr m'}"
  proof (cases sl)
    case None
    then show ?thesis using m by (auto simp: copy_items_def slice_defs prog_eval grows_refl)
  next
    case (Some s)
    with m obtain xs where xs: "held TA m (sl_Array s) = Some xs" "sl_Offset s + sl_Len s \<le> length xs" "list_all (valid m) (window s xs)"
      by (auto simp: valid_slice_def split: option.splits)
    let ?ws = "window s xs" and ?b = "next_addr m"
    define m1 where m1: "m1 = m\<lparr>cells := (cells m)(?b \<mapsto> ct_put TA (replicate (sl_Len s) (ct_zero T E))), next_addr := Suc ?b\<rparr>"
    have len: "length ?ws = sl_Len s" using xs(2) by (simp add: window_def)
    have held1: "held TA m1 ?b = Some (replicate (sl_Len s) (ct_zero T E))" using T by (simp add: m1 held_def ctype_ok_def)
    have I: "items_copied TA valid reach content m ?ws ?b 0 m1"
      using grows_alloc [OF m(1)] held1 by (simp add: items_copied_def m1 len)
    obtain acc m' where loop: "forM [0..<sl_Len s] () (\<lambda>i _.
             bindM (load_elem TA (sl_Array s) (sl_Offset s + i)) (\<lambda>v.
             bindM (into v) (\<lambda>v'.
             thenM (store_elem TA ?b i v') (ret (Next ()))))) E m1 = (Ret (Inr acc :: unit + unit), m')"
      and I': "items_copied TA valid reach content m ?ws ?b (length ?ws) m'"
      using copy_items_loop [where into = into and E = E, OF c T m(1) xs(1), of "sl_Offset s" ?ws ?b m1, unfolded len] xs(2,3) I
      by (auto simp: len nth_drop window_def)
    from I' obtain ys where ys: "grows m m'" "?b < next_addr m'" "held TA m' ?b = Some ys" "length ys = sl_Len s"
      "\<And>j. j < sl_Len s \<Longrightarrow> valid m' (ys ! j) \<and> content m' (ys ! j) = content m (?ws ! j) \<and> reach m' (ys ! j) \<subseteq> {Suc ?b..<next_addr m'}"
      by (auto simp: items_copied_def len)
    let ?s' = "\<lparr>sl_Array = ?b, sl_Offset = 0, sl_Len = sl_Len s\<rparr>"
    have run: "copy_items T TA into sl E m = (Ret (Some ?s'), m')"
      using loop by (simp add: copy_items_def Some alloc_def prog_eval m1)
    have w: "window ?s' ys = ys" using ys(4) by (simp add: window_def)
    have "map (content m') ys = map (content m) ?ws" using ys(4,5) len by (intro nth_equalityI) simp_all
    moreover have "reach m' y \<subseteq> {Suc ?b..<next_addr m'}" if "y \<in> set ys" for y using that ys(4,5) by (auto simp: in_set_conv_nth)
    then have "{?b} \<union> \<Union> (reach m' ` set ys) \<subseteq> {?b..<next_addr m'}" using ys(2) by fastforce
    ultimately show ?thesis using run ys xs Some w
      by (intro exI [of _ "Some ?s'"] exI [of _ m']) (simp add: slice_defs list_all_length)
  qed
qed (rule slice_depends [OF c] slice_allocated [OF c]; assumption)+

section \<open>The generated methods satisfy the contract\<close>

lemmas ctype_defs = T_NodeSpec_def T_ScalarResourceDetails_def T_ScalarResourceStatus_def T_Resources_def T_ComposabilityRequestSpec_def
  T_ComposabilityRequestStatus_def T_ComposabilityRequest_def T_ComposabilityRequests_def T_ComposabilityRequestList_def
  T_ComposableResourceSpec_def T_ComposableResourceStatus_def T_ComposableResource_def T_ComposableResources_def T_ComposableResourceList_def

lemma ctypes_ok [simp]:
  "ctype_ok T_NodeSpec" "ctype_ok T_ScalarResourceDetails" "ctype_ok T_ScalarResourceStatus" "ctype_ok T_Resources"
  "ctype_ok T_ComposabilityRequestSpec" "ctype_ok T_ComposabilityRequestStatus" "ctype_ok T_ComposabilityRequest"
  "ctype_ok T_ComposabilityRequests" "ctype_ok T_ComposabilityRequestList" "ctype_ok T_ComposableResourceSpec"
  "ctype_ok T_ComposableResourceStatus" "ctype_ok T_ComposableResource" "ctype_ok T_ComposableResources" "ctype_ok T_ComposableResourceList"
  by (simp_all add: ctype_ok_def ctype_defs)

subsection \<open>Structs without addresses\<close>

interpretation node_spec: deep_copy "\<lambda>v. NodeSpec_DeepCopyInto v M" "\<lambda>_ _. True" "\<lambda>_ _. {}" "\<lambda>_ v. v" for M
  using deep_copy_plain by (simp add: NodeSpec_DeepCopyInto_def ret_def)

interpretation resource_entry: deep_copy "\<lambda>v. ScalarResourceStatus_DeepCopyInto v M" "\<lambda>_ _. True" "\<lambda>_ _. {}" "\<lambda>_ v. v" for M
  using deep_copy_plain by (simp add: ScalarResourceStatus_DeepCopyInto_def ret_def)

interpretation resource_spec: deep_copy "\<lambda>v. ComposableResourceSpec_DeepCopyInto v M" "\<lambda>_ _. True" "\<lambda>_ _. {}" "\<lambda>_ v. v" for M
  using deep_copy_plain by (simp add: ComposableResourceSpec_DeepCopyInto_def ret_def)

interpretation resource_status: deep_copy "\<lambda>v. ComposableResourceStatus_DeepCopyInto v M" "\<lambda>_ _. True" "\<lambda>_ _. {}" "\<lambda>_ v. v" for M
  using deep_copy_plain by (simp add: ComposableResourceStatus_DeepCopyInto_def ret_def)

subsection \<open>The pointer and the map\<close>

lemma copy_OtherSpec_eq: "copy_OtherSpec p = DeepCopy_of T_NodeSpec NodeSpec_DeepCopyInto p"
  by (cases p) (simp_all add: copy_OtherSpec_def DeepCopy_of_def DeepCopyInto_at_def NodeSpec_DeepCopyInto_def deref_def thenM_def bindM_assoc)

interpretation other_spec: deep_copy "\<lambda>p. copy_OtherSpec p M" "valid_ptr T_NodeSpec (\<lambda>_ _. True)" "reach_ptr T_NodeSpec (\<lambda>_ _. {})"
    "content_ptr T_NodeSpec (\<lambda>_ v. v)" for M
  unfolding copy_OtherSpec_eq by (rule deep_copy_ptr [OF node_spec.deep_copy_axioms]) simp

text \<open>The loop over the entries fills the new map; the result does not depend on the order of the entries.\<close>

definition map_entries :: "resources \<Rightarrow> ('om, 'lm, 'x, resources) copying" where
  "map_entries kvs = ret (fold (\<lambda>(k, v). AList.update k v) kvs [])"

abbreviation set_entry :: "addr \<Rightarrow> string \<times> ScalarResourceStatus \<Rightarrow> unit \<Rightarrow> ('om, 'lm, 'x, (unit, unit) flow) copying" where
  "set_entry b \<equiv> (\<lambda>(key, val) _.
     bindM (load T_Resources b) (\<lambda>al. thenM (store T_Resources b (AList.update key val al)) (ret (Next ()))))"

lemma run_set_entry:
  "cells m b = Some (CResources al)
   \<Longrightarrow> set_entry b (k, v) () M m = (Ret (Next ()), m\<lparr>cells := (cells m)(b \<mapsto> CResources (AList.update k v al))\<rparr>)"
  by (simp add: load_def store_def held_def T_Resources_def bindM_def thenM_def modifyM_def ret_def)

lemma copy_entries_loop:
  "cells m b = Some (CResources al)
   \<Longrightarrow> forM kvs () (set_entry b) M m
     = (Ret (Inr ()), m\<lparr>cells := (cells m)(b \<mapsto> CResources (fold (\<lambda>(k, v). AList.update k v) kvs al))\<rparr>)"
proof (induction kvs arbitrary: al m)
  case Nil
  then show ?case by (simp add: ret_def fun_upd_idem)
next
  case (Cons kv kvs)
  obtain k v where kv: "kv = (k, v)" by (cases kv)
  show ?case
    unfolding forM.simps kv run_bindM(1) [where m = "set_entry b (k, v) ()" and E = M, OF run_set_entry [OF Cons.prems]] flow.case
    by (subst Cons.IH [of _ "AList.update k v al"]) simp_all
qed

lemma put_Resources: "ct_put T_Resources = CResources"
  by (simp add: T_Resources_def)

lemma copy_Resources_eq: "copy_Resources p M m = DeepCopy_of T_Resources map_entries p M m"
proof (cases p)
  case (Some a)
  let ?m1 = "m\<lparr>cells := (cells m)(next_addr m \<mapsto> CResources []), next_addr := Suc (next_addr m)\<rparr>"
  have new: "new T_Resources M m = (Ret (next_addr m), ?m1)" by (simp add: new_def alloc_def T_Resources_def)
  show ?thesis
  proof (cases "held T_Resources ?m1 a")
    case None
    then have "load T_Resources a M ?m1 = (Panic ''invalid memory address or nil pointer dereference'', ?m1)" by (simp add: load_def)
    then show ?thesis using new Some
      by (simp add: copy_Resources_def DeepCopy_of_def DeepCopyInto_at_def deref_def prog_eval cong: prog_cong)
  next
    case held: (Some kvs)
    then have "load T_Resources a M ?m1 = (Ret kvs, ?m1)" by (simp add: load_def)
    moreover have "forM kvs () (set_entry (next_addr m)) M ?m1
        = (Ret (Inr ()), ?m1\<lparr>cells := (cells ?m1)(next_addr m \<mapsto> CResources (fold (\<lambda>(k, v). AList.update k v) kvs []))\<rparr>)"
      by (rule copy_entries_loop) simp
    ultimately show ?thesis using new Some
      by (simp add: copy_Resources_def DeepCopy_of_def DeepCopyInto_at_def deref_def map_entries_def store_def [of _ "next_addr m"]
          put_Resources prog_eval cong: prog_cong(1-4))
  qed
qed (simp add: copy_Resources_def DeepCopy_of_def)

lemma map_of_fold_update: "distinct (map fst kvs) \<Longrightarrow> map_of (fold (\<lambda>(k, v). AList.update k v) kvs al) = map_of al ++ map_of kvs"
proof (induction kvs arbitrary: al)
  case (Cons kv kvs)
  obtain k v where kv: "kv = (k, v)" by (cases kv)
  with Cons.prems have "map_of kvs k = None" by (simp add: map_of_eq_None_iff)
  then show ?case using Cons by (auto simp: kv update_conv' fun_eq_iff map_add_def split: option.split)
qed simp

lemma distinct_fold_update: "distinct (map fst al) \<Longrightarrow> distinct (map fst (fold (\<lambda>(k, v). AList.update k v) kvs al))"
  by (induction kvs arbitrary: al) (auto simp: distinct_update)

lemma map_entries_copy:
  "deep_copy (\<lambda>v. map_entries v M) (\<lambda>_ kvs. distinct (map fst kvs)) (\<lambda>_ _. {}) (\<lambda>_. map_of)"
  by unfold_locales (auto simp: map_entries_def ret_def grows_refl map_of_fold_update distinct_fold_update)

interpretation resources_map: deep_copy "\<lambda>p. copy_Resources p M" "valid_ptr T_Resources (\<lambda>_ kvs. distinct (map fst kvs))"
    "reach_ptr T_Resources (\<lambda>_ _. {})" "content_ptr T_Resources (\<lambda>_. map_of)" for M
proof -
  have "(\<lambda>p. copy_Resources p M) = (\<lambda>p. DeepCopy_of T_Resources map_entries p M)" by (simp add: fun_eq_iff copy_Resources_eq)
  then show "deep_copy (\<lambda>p. copy_Resources p M) (valid_ptr T_Resources (\<lambda>_ kvs. distinct (map fst kvs)))
      (reach_ptr T_Resources (\<lambda>_ _. {})) (content_ptr T_Resources (\<lambda>_. map_of))"
    using deep_copy_ptr [OF map_entries_copy, of T_Resources] by simp
qed

subsection \<open>Structs with addresses\<close>

text \<open>The content of a struct: what the rest of the library works with, and a map (nil or not) for the resources.\<close>

definition details_value :: "go_ScalarResourceDetails \<Rightarrow> NodeSpec option \<Rightarrow> ScalarResourceDetails" where
  "details_value v other = \<lparr>srd_Type = gd_Type v, srd_Model = gd_Model v, srd_Size = gd_Size v, srd_ForceDetach = gd_ForceDetach v,
     srd_AllocationPolicy = gd_AllocationPolicy v, srd_TargetNode = gd_TargetNode v, srd_OtherSpec = other\<rparr>"

record status_value =
  sv_State :: string
  sv_Error :: string
  sv_Resources :: "(string \<Rightarrow> ScalarResourceStatus option) option"
  sv_ScalarResource :: ScalarResourceDetails

definition status_value_of :: "go_ComposabilityRequestStatus \<Rightarrow> (string \<Rightarrow> ScalarResourceStatus option) option \<times> ScalarResourceDetails \<Rightarrow> status_value" where
  "status_value_of v x = \<lparr>sv_State = gst_State v, sv_Error = gst_Error v, sv_Resources = fst x, sv_ScalarResource = snd x\<rparr>"

definition valid_details :: "('om, 'lm, 'x) cell memory \<Rightarrow> go_ScalarResourceDetails \<Rightarrow> bool" where
  "valid_details m v = valid_ptr T_NodeSpec (\<lambda>_ _. True) m (gd_OtherSpec v)"

definition reach_details :: "('om, 'lm, 'x) cell memory \<Rightarrow> go_ScalarResourceDetails \<Rightarrow> addr set" where
  "reach_details m v = reach_ptr T_NodeSpec (\<lambda>_ _. {}) m (gd_OtherSpec v)"

definition content_details :: "('om, 'lm, 'x) cell memory \<Rightarrow> go_ScalarResourceDetails \<Rightarrow> ScalarResourceDetails" where
  "content_details m v = details_value v (content_ptr T_NodeSpec (\<lambda>_ v. v) m (gd_OtherSpec v))"

definition valid_status :: "('om, 'lm, 'x) cell memory \<Rightarrow> go_ComposabilityRequestStatus \<Rightarrow> bool" where
  "valid_status m v = (valid_ptr T_Resources (\<lambda>_ kvs. distinct (map fst kvs)) m (gst_Resources v) \<and> valid_details m (gst_ScalarResource v))"

definition reach_status :: "('om, 'lm, 'x) cell memory \<Rightarrow> go_ComposabilityRequestStatus \<Rightarrow> addr set" where
  "reach_status m v = reach_ptr T_Resources (\<lambda>_ _. {}) m (gst_Resources v) \<union> reach_details m (gst_ScalarResource v)"

definition content_status :: "('om, 'lm, 'x) cell memory \<Rightarrow> go_ComposabilityRequestStatus \<Rightarrow> status_value" where
  "content_status m v = status_value_of v (content_ptr T_Resources (\<lambda>_. map_of) m (gst_Resources v), content_details m (gst_ScalarResource v))"

interpretation details: deep_copy "\<lambda>v. ScalarResourceDetails_DeepCopyInto v M" valid_details reach_details content_details for M
  unfolding valid_details_def reach_details_def content_details_def
  by (rule deep_copy_fields [where c = copy_OtherSpec, OF other_spec.deep_copy_axioms, where upd = "\<lambda>v p. v\<lparr>gd_OtherSpec := p\<rparr>"])
     (simp_all add: details_value_def fun_eq_iff ScalarResourceDetails_DeepCopyInto_def)

interpretation request_spec: deep_copy "\<lambda>v. ComposabilityRequestSpec_DeepCopyInto v M" "\<lambda>m v. valid_details m (gsp_Resource v)"
    "\<lambda>m v. reach_details m (gsp_Resource v)" "\<lambda>m v. content_details m (gsp_Resource v)" for M
  by (rule deep_copy_fields [where c = ScalarResourceDetails_DeepCopyInto, OF details.deep_copy_axioms, where upd = "\<lambda>v d. v\<lparr>gsp_Resource := d\<rparr>" and mk = "\<lambda>_ x. x"])
     (simp_all add: ComposabilityRequestSpec_DeepCopyInto_def)

interpretation request_status: deep_copy "\<lambda>v. ComposabilityRequestStatus_DeepCopyInto v M" valid_status reach_status content_status for M
  unfolding valid_status_def reach_status_def content_status_def
  by (rule deep_copy_fields [where c = "both copy_Resources ScalarResourceDetails_DeepCopyInto",
        OF deep_copy_both [OF resources_map.deep_copy_axioms details.deep_copy_axioms], where part = "\<lambda>v. (gst_Resources v, gst_ScalarResource v)"
          and upd = "\<lambda>v x. v\<lparr>gst_Resources := fst x, gst_ScalarResource := snd x\<rparr>", simplified fst_conv snd_conv])
     (simp_all add: status_value_of_def fun_eq_iff ComposabilityRequestStatus_DeepCopyInto_def both_def bindM_assoc)

subsection \<open>Objects and lists\<close>

text \<open>Named hypothesis on \<^verbatim>\<open>k8s.io/apimachinery\<close>: its two methods are deep copies, for some notion of what their structs lead to.\<close>

definition metav1_copies :: "('om, 'lm, 'x) metav1
    \<Rightarrow> (('om, 'lm, 'x) cell memory \<Rightarrow> 'om \<Rightarrow> bool) \<Rightarrow> (('om, 'lm, 'x) cell memory \<Rightarrow> 'om \<Rightarrow> addr set) \<Rightarrow> (('om, 'lm, 'x) cell memory \<Rightarrow> 'om \<Rightarrow> 'ov)
    \<Rightarrow> (('om, 'lm, 'x) cell memory \<Rightarrow> 'lm \<Rightarrow> bool) \<Rightarrow> (('om, 'lm, 'x) cell memory \<Rightarrow> 'lm \<Rightarrow> addr set) \<Rightarrow> (('om, 'lm, 'x) cell memory \<Rightarrow> 'lm \<Rightarrow> 'lv)
    \<Rightarrow> bool" where
  "metav1_copies M vo ro co vl rl cl \<longleftrightarrow>
     deep_copy (\<lambda>v. ObjectMeta_DeepCopyInto v M) vo ro co \<and> deep_copy (\<lambda>v. ListMeta_DeepCopyInto v M) vl rl cl"

record 'ov request_value =
  rqv_TypeMeta :: TypeMeta
  rqv_ObjectMeta :: 'ov
  rqv_Resource :: ScalarResourceDetails
  rqv_Status :: status_value

record 'ov resource_value =
  rsv_TypeMeta :: TypeMeta
  rsv_ObjectMeta :: 'ov
  rsv_Spec :: ComposableResourceSpec
  rsv_Status :: ComposableResourceStatus

record ('lv, 'v) list_value =
  lv_TypeMeta :: TypeMeta
  lv_ListMeta :: 'lv
  lv_Items :: "'v list option"

definition valid_request :: "(('om, 'lm, 'x) cell memory \<Rightarrow> 'om \<Rightarrow> bool) \<Rightarrow> ('om, 'lm, 'x) cell memory \<Rightarrow> 'om go_ComposabilityRequest \<Rightarrow> bool" where
  "valid_request vo m v = (vo m (grq_ObjectMeta v) \<and> valid_details m (gsp_Resource (grq_Spec v)) \<and> valid_status m (grq_Status v))"

definition reach_request :: "(('om, 'lm, 'x) cell memory \<Rightarrow> 'om \<Rightarrow> addr set) \<Rightarrow> ('om, 'lm, 'x) cell memory \<Rightarrow> 'om go_ComposabilityRequest \<Rightarrow> addr set" where
  "reach_request ro m v = ro m (grq_ObjectMeta v) \<union> (reach_details m (gsp_Resource (grq_Spec v)) \<union> reach_status m (grq_Status v))"

definition content_request :: "(('om, 'lm, 'x) cell memory \<Rightarrow> 'om \<Rightarrow> 'ov) \<Rightarrow> ('om, 'lm, 'x) cell memory \<Rightarrow> 'om go_ComposabilityRequest \<Rightarrow> 'ov request_value" where
  "content_request co m v = \<lparr>rqv_TypeMeta = grq_TypeMeta v, rqv_ObjectMeta = co m (grq_ObjectMeta v),
     rqv_Resource = content_details m (gsp_Resource (grq_Spec v)), rqv_Status = content_status m (grq_Status v)\<rparr>"

definition content_resource :: "(('om, 'lm, 'x) cell memory \<Rightarrow> 'om \<Rightarrow> 'ov) \<Rightarrow> ('om, 'lm, 'x) cell memory \<Rightarrow> 'om go_ComposableResource \<Rightarrow> 'ov resource_value" where
  "content_resource co m v = \<lparr>rsv_TypeMeta = grs_TypeMeta v, rsv_ObjectMeta = co m (grs_ObjectMeta v), rsv_Spec = grs_Spec v, rsv_Status = grs_Status v\<rparr>"

definition valid_list :: "(('om, 'lm, 'x, 'v list) mtype) \<Rightarrow> (('om, 'lm, 'x) cell memory \<Rightarrow> 'lm \<Rightarrow> bool) \<Rightarrow> (('om, 'lm, 'x) cell memory \<Rightarrow> 'v \<Rightarrow> bool)
    \<Rightarrow> ('om, 'lm, 'x) cell memory \<Rightarrow> 'lm go_ObjectList \<Rightarrow> bool" where
  "valid_list TA vl valid m v = (vl m (gl_ListMeta v) \<and> valid_slice TA valid m (gl_Items v))"

definition reach_list :: "(('om, 'lm, 'x, 'v list) mtype) \<Rightarrow> (('om, 'lm, 'x) cell memory \<Rightarrow> 'lm \<Rightarrow> addr set) \<Rightarrow> (('om, 'lm, 'x) cell memory \<Rightarrow> 'v \<Rightarrow> addr set)
    \<Rightarrow> ('om, 'lm, 'x) cell memory \<Rightarrow> 'lm go_ObjectList \<Rightarrow> addr set" where
  "reach_list TA rl reach m v = rl m (gl_ListMeta v) \<union> reach_slice TA reach m (gl_Items v)"

definition content_list :: "(('om, 'lm, 'x, 'v list) mtype) \<Rightarrow> (('om, 'lm, 'x) cell memory \<Rightarrow> 'lm \<Rightarrow> 'lv) \<Rightarrow> (('om, 'lm, 'x) cell memory \<Rightarrow> 'v \<Rightarrow> 'd)
    \<Rightarrow> ('om, 'lm, 'x) cell memory \<Rightarrow> 'lm go_ObjectList \<Rightarrow> ('lv, 'd) list_value" where
  "content_list TA cl content m v = \<lparr>lv_TypeMeta = gl_TypeMeta v, lv_ListMeta = cl m (gl_ListMeta v), lv_Items = content_slice TA content m (gl_Items v)\<rparr>"

lemma deep_copy_request:
  assumes "deep_copy (\<lambda>v. ObjectMeta_DeepCopyInto v M) vo ro co"
  shows "deep_copy (\<lambda>v. ComposabilityRequest_DeepCopyInto v M) (valid_request vo) (reach_request ro) (content_request co)"
proof -
  note parts = deep_copy_both [OF request_spec.deep_copy_axioms request_status.deep_copy_axioms]
  note fields = deep_copy_both [where E = M and ?c1.0 = ObjectMeta_DeepCopyInto
      and ?c2.0 = "both ComposabilityRequestSpec_DeepCopyInto ComposabilityRequestStatus_DeepCopyInto", OF assms parts]
  show ?thesis
    using deep_copy_fields [where E = M and c = "both ObjectMeta_DeepCopyInto (both ComposabilityRequestSpec_DeepCopyInto ComposabilityRequestStatus_DeepCopyInto)",
        OF fields, where c' = ComposabilityRequest_DeepCopyInto and part = "\<lambda>v. (grq_ObjectMeta v, grq_Spec v, grq_Status v)"
        and upd = "\<lambda>v x. v\<lparr>grq_ObjectMeta := fst x, grq_Spec := fst (snd x), grq_Status := snd (snd x)\<rparr>"
        and mk = "\<lambda>v x. \<lparr>rqv_TypeMeta = grq_TypeMeta v, rqv_ObjectMeta = fst x, rqv_Resource = fst (snd x), rqv_Status = snd (snd x)\<rparr>"]
    by (simp add: valid_request_def [abs_def] reach_request_def [abs_def] content_request_def [abs_def] ComposabilityRequest_DeepCopyInto_def
        both_def bindM_assoc)
qed

lemma deep_copy_resource:
  assumes "deep_copy (\<lambda>v. ObjectMeta_DeepCopyInto v M) vo ro co"
  shows "deep_copy (\<lambda>v. ComposableResource_DeepCopyInto v M) (\<lambda>m v. vo m (grs_ObjectMeta v)) (\<lambda>m v. ro m (grs_ObjectMeta v)) (content_resource co)"
  using deep_copy_fields [where c = ObjectMeta_DeepCopyInto, OF assms, where c' = ComposableResource_DeepCopyInto and part = grs_ObjectMeta
      and upd = "\<lambda>v x. v\<lparr>grs_ObjectMeta := x\<rparr>"
      and mk = "\<lambda>v x. \<lparr>rsv_TypeMeta = grs_TypeMeta v, rsv_ObjectMeta = x, rsv_Spec = grs_Spec v, rsv_Status = grs_Status v\<rparr>"]
  by (simp add: content_resource_def [abs_def] ComposableResource_DeepCopyInto_def)

lemma deep_copy_list:
  assumes "deep_copy (\<lambda>v. ListMeta_DeepCopyInto v M) vl rl cl" "deep_copy (\<lambda>v. into v M) valid reach content" "ctype_ok TA"
    and "\<And>v. list_into v = bindM (ListMeta_DeepCopyInto (gl_ListMeta v)) (\<lambda>lm. bindM (copy_items T TA into (gl_Items v)) (\<lambda>its.
      ret (v\<lparr>gl_TypeMeta := gl_TypeMeta v, gl_ListMeta := lm, gl_Items := its\<rparr>)))"
  shows "deep_copy (\<lambda>v. list_into v M) (valid_list TA vl valid) (reach_list TA rl reach) (content_list TA cl content)"
proof -
  note fields = deep_copy_both [where E = M and ?c1.0 = ListMeta_DeepCopyInto and ?c2.0 = "copy_items T TA into",
      OF assms(1) deep_copy_slice [where into = into and E = M, OF assms(2,3)]]
  show ?thesis
    using deep_copy_fields [where E = M and c = "both ListMeta_DeepCopyInto (copy_items T TA into)", OF fields, where c' = list_into and part = "\<lambda>v. (gl_ListMeta v, gl_Items v)"
        and upd = "\<lambda>v x. v\<lparr>gl_ListMeta := fst x, gl_Items := snd x\<rparr>"
        and mk = "\<lambda>v x. \<lparr>lv_TypeMeta = gl_TypeMeta v, lv_ListMeta = fst x, lv_Items = snd x\<rparr>"]
    by (simp add: valid_list_def [abs_def] reach_list_def [abs_def] content_list_def [abs_def] assms(4) both_def bindM_assoc)
qed

subsection \<open>Copies of objects are independent\<close>

lemma DeepCopyObject_independent:
  assumes c: "deep_copy (\<lambda>v. into v M) valid reach content" and T: "ctype_ok T" and "wf_memory m" "valid_ptr T valid m (Some a)"
  shows "\<exists>b m'. bindM (DeepCopy_of T into (Some a)) (\<lambda>c. ret (object_of k c)) M m = (Ret (Some (k b)), m')
    \<and> independent_copy (reach_ptr T reach) (content_ptr T content) m (Some a) m' (Some b)"
proof -
  obtain q m' where run: "DeepCopy_of T into (Some a) M m = (Ret q, m')"
    and copy: "independent_copy (reach_ptr T reach) (content_ptr T content) m (Some a) m' q"
    using deep_copy.copy_independent [OF deep_copy_ptr [where into = into and E = M, OF c T] assms(3,4)] by blast
  have "content_ptr T content m (Some a) \<noteq> None" using assms(4) by (auto simp: ptr_defs split: option.splits)
  with copy obtain b where "q = Some b" by (cases q) (auto simp: independent_copy_def content_ptr_def)
  with run copy show ?thesis by (auto simp: bindM_def ret_def object_of_def)
qed

lemma DeepCopyObject_nil:
  "ComposabilityRequest_DeepCopyObject None M m = (Ret None, m)" "ComposabilityRequestList_DeepCopyObject None M m = (Ret None, m)"
  "ComposableResource_DeepCopyObject None M m = (Ret None, m)" "ComposableResourceList_DeepCopyObject None M m = (Ret None, m)"
  by (simp_all add: ComposabilityRequest_DeepCopyObject_def ComposabilityRequestList_DeepCopyObject_def ComposableResource_DeepCopyObject_def
      ComposableResourceList_DeepCopyObject_def ComposabilityRequest_DeepCopy_def ComposabilityRequestList_DeepCopy_def
      ComposableResource_DeepCopy_def ComposableResourceList_DeepCopy_def DeepCopy_of_def object_of_def prog_eval)

text \<open>
  C20.  A copy of a request is independent of it.  If the methods of \<^verbatim>\<open>metav1\<close> are deep copies, \<^verbatim>\<open>DeepCopyObject\<close> of a request that is well-formed in
  memory returns a request at a new address with the same content: its metadata, its specification with the other-spec it points to, its status with
  the map of its resources (nil if it was nil).  No cell that existed is changed, and whatever is written later through the copy leaves the original as it
  was, and whatever is written through the original leaves the copy.
\<close>

theorem ComposabilityRequest_DeepCopyObject_independent:
  assumes "metav1_copies M vo ro co vl rl cl" "wf_memory m" "valid_ptr T_ComposabilityRequest (valid_request vo) m (Some a)"
  shows "\<exists>b m'. ComposabilityRequest_DeepCopyObject (Some a) M m = (Ret (Some (RequestObject b)), m')
    \<and> independent_copy (reach_ptr T_ComposabilityRequest (reach_request ro)) (content_ptr T_ComposabilityRequest (content_request co)) m (Some a) m' (Some b)"
  unfolding ComposabilityRequest_DeepCopyObject_def ComposabilityRequest_DeepCopy_def
  by (rule DeepCopyObject_independent [where into = ComposabilityRequest_DeepCopyInto and M = M, OF deep_copy_request _ assms(2,3)]) (use assms(1) in \<open>simp_all add: metav1_copies_def\<close>)

text \<open>
  C40.  A copy of a list is independent of it, item by item.  Under the same hypothesis, \<^verbatim>\<open>DeepCopyObject\<close> of a list of requests or of resources that is well-formed in
  memory returns a list at a new address, with a new array of the same items in the same order, each a copy that shares nothing with its
  original.
\<close>

theorem list_DeepCopyObject_independent:
  assumes "metav1_copies M vo ro co vl rl cl" "wf_memory m"
  shows "(valid_ptr T_ComposabilityRequestList (valid_list T_ComposabilityRequests vl (valid_request vo)) m (Some a)
      \<longrightarrow> (\<exists>b m'. ComposabilityRequestList_DeepCopyObject (Some a) M m = (Ret (Some (RequestListObject b)), m')
        \<and> independent_copy (reach_ptr T_ComposabilityRequestList (reach_list T_ComposabilityRequests rl (reach_request ro)))
            (content_ptr T_ComposabilityRequestList (content_list T_ComposabilityRequests cl (content_request co))) m (Some a) m' (Some b)))
    \<and> (valid_ptr T_ComposableResourceList (valid_list T_ComposableResources vl (\<lambda>m v. vo m (grs_ObjectMeta v))) m (Some a)
      \<longrightarrow> (\<exists>b m'. ComposableResourceList_DeepCopyObject (Some a) M m = (Ret (Some (ResourceListObject b)), m')
        \<and> independent_copy (reach_ptr T_ComposableResourceList (reach_list T_ComposableResources rl (\<lambda>m v. ro m (grs_ObjectMeta v))))
            (content_ptr T_ComposableResourceList (content_list T_ComposableResources cl (content_resource co))) m (Some a) m' (Some b)))"
proof (intro conjI impI)
  have meta: "deep_copy (\<lambda>v. ObjectMeta_DeepCopyInto v M) vo ro co" "deep_copy (\<lambda>v. ListMeta_DeepCopyInto v M) vl rl cl"
    using assms(1) by (simp_all add: metav1_copies_def)
  have lists:
    "deep_copy (\<lambda>v. ComposabilityRequestList_DeepCopyInto v M) (valid_list T_ComposabilityRequests vl (valid_request vo))
       (reach_list T_ComposabilityRequests rl (reach_request ro)) (content_list T_ComposabilityRequests cl (content_request co))"
    "deep_copy (\<lambda>v. ComposableResourceList_DeepCopyInto v M) (valid_list T_ComposableResources vl (\<lambda>m v. vo m (grs_ObjectMeta v)))
       (reach_list T_ComposableResources rl (\<lambda>m v. ro m (grs_ObjectMeta v))) (content_list T_ComposableResources cl (content_resource co))"
    by (rule deep_copy_list [OF meta(2) deep_copy_request [OF meta(1)] ctypes_ok(8) ComposabilityRequestList_DeepCopyInto_def]
        deep_copy_list [OF meta(2) deep_copy_resource [OF meta(1)] ctypes_ok(13) ComposableResourceList_DeepCopyInto_def])+
  show "\<exists>b m'. ComposabilityRequestList_DeepCopyObject (Some a) M m = (Ret (Some (RequestListObject b)), m')
      \<and> independent_copy (reach_ptr T_ComposabilityRequestList (reach_list T_ComposabilityRequests rl (reach_request ro)))
          (content_ptr T_ComposabilityRequestList (content_list T_ComposabilityRequests cl (content_request co))) m (Some a) m' (Some b)"
    if "valid_ptr T_ComposabilityRequestList (valid_list T_ComposabilityRequests vl (valid_request vo)) m (Some a)"
    unfolding ComposabilityRequestList_DeepCopyObject_def ComposabilityRequestList_DeepCopy_def
    by (rule DeepCopyObject_independent [where into = ComposabilityRequestList_DeepCopyInto and M = M, OF lists(1) ctypes_ok(9) assms(2) that])
  show "\<exists>b m'. ComposableResourceList_DeepCopyObject (Some a) M m = (Ret (Some (ResourceListObject b)), m')
      \<and> independent_copy (reach_ptr T_ComposableResourceList (reach_list T_ComposableResources rl (\<lambda>m v. ro m (grs_ObjectMeta v))))
          (content_ptr T_ComposableResourceList (content_list T_ComposableResources cl (content_resource co))) m (Some a) m' (Some b)"
    if "valid_ptr T_ComposableResourceList (valid_list T_ComposableResources vl (\<lambda>m v. vo m (grs_ObjectMeta v))) m (Some a)"
    unfolding ComposableResourceList_DeepCopyObject_def ComposableResourceList_DeepCopy_def
    by (rule DeepCopyObject_independent [where into = ComposableResourceList_DeepCopyInto and M = M, OF lists(2) ctypes_ok(14) assms(2) that])
qed

section \<open>A concrete memory\<close>

text \<open>Metadata with a name and a map of labels, which its copy copies; list metadata with a resource version.\<close>

type_synonym labelled = "string \<times> addr option"
type_synonym label_cell = "(labelled, string, (string \<times> string) list) cell"

definition T_labels :: "(unit, (string \<times> string) list, label_cell) ctype" where
  "T_labels = \<lparr>ct_put = CMeta, ct_get = (\<lambda>c. case c of CMeta v \<Rightarrow> Some v | _ \<Rightarrow> None), ct_zero = (\<lambda>_. [])\<rparr>"

definition copy_labelled :: "labelled \<Rightarrow> (unit, label_cell memory, labelled) prog" where
  "copy_labelled v = bindM (DeepCopy_of T_labels ret (snd v)) (\<lambda>p. ret (fst v, p))"

definition label_meta :: "(labelled, string, (string \<times> string) list) metav1" where
  "label_meta = \<lparr>zero_ObjectMeta = ([], None), zero_ListMeta = [],
     ObjectMeta_copy = (\<lambda>v m. case copy_labelled v () m of (Ret v', m') \<Rightarrow> (v', m') | (Panic e, m') \<Rightarrow> (v, m')),
     ListMeta_copy = (\<lambda>v m. (v, m))\<rparr>"

abbreviation "valid_labelled m v \<equiv> valid_ptr T_labels (\<lambda>_ _. True) m (snd v)"
abbreviation "reach_labelled m v \<equiv> reach_ptr T_labels (\<lambda>_ _. {}) m (snd v)"
abbreviation "content_labelled m v \<equiv> (fst v, content_ptr T_labels (\<lambda>_ ls. ls) m (snd v))"

lemma copy_labelled_copies: "deep_copy (\<lambda>v. copy_labelled v E) valid_labelled reach_labelled content_labelled"
proof -
  have plain: "deep_copy (\<lambda>v. ret v E) (\<lambda>_ _. True) (\<lambda>_ _. {}) (\<lambda>_ v. v)" using deep_copy_plain by (simp add: ret_def)
  have "ctype_ok T_labels" by (simp add: ctype_ok_def T_labels_def)
  from deep_copy_fields [where c = "DeepCopy_of T_labels ret" and E = E, OF deep_copy_ptr [where into = ret and E = E, OF plain this],
      where c' = copy_labelled and part = snd and upd = "\<lambda>v p. (fst v, p)" and mk = "\<lambda>v x. (fst v, x)"]
  show ?thesis by (simp add: copy_labelled_def)
qed

lemma label_meta_ok: "metav1_copies label_meta valid_labelled reach_labelled content_labelled (\<lambda>_ _. True) (\<lambda>_ _. {}) (\<lambda>_ v. v)"
proof -
  have "deep_copy (\<lambda>v. ObjectMeta_DeepCopyInto v label_meta) valid_labelled reach_labelled content_labelled"
  proof
    fix m :: "label_cell memory" and v :: labelled
    assume m: "wf_memory m" "valid_labelled m v"
    show "\<exists>v' m'. ObjectMeta_DeepCopyInto v label_meta m = (Ret v', m') \<and> grows m m' \<and> valid_labelled m' v'
        \<and> content_labelled m' v' = content_labelled m v \<and> reach_labelled m' v' \<subseteq> {next_addr m..<next_addr m'}"
      by (rule deep_copy.copy_obtain [OF copy_labelled_copies [of "()"] m]) (force simp: ObjectMeta_DeepCopyInto_def label_meta_def)
  qed (rule deep_copy.depends [OF copy_labelled_copies] deep_copy.allocated [OF copy_labelled_copies]; assumption)+
  then show ?thesis using deep_copy_plain by (simp add: metav1_copies_def ListMeta_DeepCopyInto_def label_meta_def)
qed

definition sample_entry :: ScalarResourceStatus where
  "sample_entry = \<lparr>srs_State = ''Online'', srs_DeviceID = ''GPU-1'', srs_CDIDeviceID = ''d1'', srs_NodeName = ''node1'', srs_Error = []\<rparr>"

definition sample_request :: "labelled go_ComposabilityRequest" where
  "sample_request = \<lparr>grq_TypeMeta = \<lparr>tm_Kind = ''ComposabilityRequest'', tm_APIVersion = ''cro.hpsys.ibm.ie.com/v1alpha1''\<rparr>,
     grq_ObjectMeta = (''req'', Some 0), grq_Spec = \<lparr>gsp_Resource = zero_details\<lparr>gd_Type := ''gpu'', gd_Size := 1, gd_OtherSpec := Some 1\<rparr>\<rparr>,
     grq_Status = zero_status\<lparr>gst_State := ''Running'', gst_Resources := Some 2\<rparr>\<rparr>"

definition sample_memory :: "label_cell memory" where
  "sample_memory = \<lparr>cells = [0 \<mapsto> CMeta [(''team'', ''a'')], 1 \<mapsto> CNodeSpec \<lparr>ns_MilliCPU = 2, ns_Memory = 0, ns_EphemeralStorage = 0, ns_AllowedPodNumber = 0\<rparr>,
     2 \<mapsto> CResources [(''gpu-1'', sample_entry)], 3 \<mapsto> CComposabilityRequest sample_request, 4 \<mapsto> CComposabilityRequests [sample_request, sample_request],
     5 \<mapsto> CComposabilityRequestList \<lparr>gl_TypeMeta = \<lparr>tm_Kind = ''ComposabilityRequestList'', tm_APIVersion = []\<rparr>, gl_ListMeta = ''17'',
       gl_Items = Some \<lparr>sl_Array = 4, sl_Offset = 0, sl_Len = 2\<rparr>\<rparr>], next_addr = 6\<rparr>"

lemmas sample_defs = sample_memory_def sample_request_def sample_entry_def zero_details_def zero_status_def ctype_defs T_labels_def ptr_defs held_def

lemma sample_wf: "wf_memory sample_memory"
  by (auto simp: wf_memory_def sample_memory_def split: if_splits)

lemma sample_request_valid: "valid_request valid_labelled sample_memory sample_request"
  by (simp add: valid_request_def valid_details_def valid_status_def sample_defs)

theorem ComposabilityRequest_DeepCopyObject_independent_witness:
  "\<exists>b m'. ComposabilityRequest_DeepCopyObject (Some 3) label_meta sample_memory = (Ret (Some (RequestObject b)), m')
    \<and> content_ptr T_ComposabilityRequest (content_request content_labelled) m' (Some b)
        = content_ptr T_ComposabilityRequest (content_request content_labelled) sample_memory (Some 3)"
proof -
  have "valid_ptr T_ComposabilityRequest (valid_request valid_labelled) sample_memory (Some 3)"
    using sample_request_valid by (simp add: valid_ptr_def held_def sample_memory_def T_ComposabilityRequest_def)
  from ComposabilityRequest_DeepCopyObject_independent [OF label_meta_ok sample_wf this] show ?thesis
    by (auto simp: independent_copy_def)
qed

theorem list_DeepCopyObject_independent_witness:
  "\<exists>b m'. ComposabilityRequestList_DeepCopyObject (Some 5) label_meta sample_memory = (Ret (Some (RequestListObject b)), m')
    \<and> content_ptr T_ComposabilityRequestList (content_list T_ComposabilityRequests (\<lambda>_ v. v) (content_request content_labelled)) m' (Some b)
      = content_ptr T_ComposabilityRequestList (content_list T_ComposabilityRequests (\<lambda>_ v. v) (content_request content_labelled)) sample_memory (Some 5)"
proof -
  have "valid_ptr T_ComposabilityRequestList (valid_list T_ComposabilityRequests (\<lambda>_ _. True) (valid_request valid_labelled)) sample_memory (Some 5)"
    using sample_request_valid
    by (simp add: valid_ptr_def valid_list_def valid_slice_def window_def held_def sample_memory_def T_ComposabilityRequestList_def T_ComposabilityRequests_def)
  with list_DeepCopyObject_independent [OF label_meta_ok sample_wf, of 5] show ?thesis
    by (auto simp: independent_copy_def)
qed

end
