(* ===== verification/Spec2Isabelle.thy ===== *)
theory Spec2Isabelle
  imports Attachment RequestMaps UpstreamSyncer Webhook Manager DeepCopy
begin

text \<open>
  A verification library of the composable resource operator, a Kubernetes operator that attaches
  devices of a composable fabric to nodes and detaches them again.  It is a shallow embedding of the
  Go sources under \<^verbatim>\<open>src/\<close>, every function of the program's own logic one definition.

  \<^bold>\<open>The program.\<close>  A user creates a ComposabilityRequest (so many devices of a type and
  model, a policy for the nodes).  The webhook admits it; the request controller allocates nodes, creates one
  ComposableResource per device and copies their status back; the resource controller drives each
  resource through Attaching, Online, Detaching and Deleting, calling a CDI service (Sunfish, or FTI
  with its fabric manager or cluster manager) to attach and detach the device, and the node's pods to look at
  the GPU, drain it and make the node notice.  The upstream syncer compares the service's devices with the
  resources once a minute and has devices without a resource detached.  The controllers share
  nothing but the objects in the API server.

  \<^bold>\<open>Representation.\<close>  A Go function with effects is a program (theory \<open>Prelude\<close>): from the
  environment and the state it gives a returned value or a panic, and the new state.  Errors are values.
  A loop is \<open>forM\<close>, with early return and break.  The environment (theory \<open>World\<close>) is the record of all operations of
  code outside the repository, as functions on an arbitrary state of the outside world, so other actors
  may act at every call; the state is that world, the trace of calls with an effect, the object the reconciler works on
  (an update decodes the server's answer into it) and the process memory.  No loop of the source needs fuel: the only
  unbounded one, the deletion by priority, is a recursion over its five buckets that panics past
  the last, which is shown not to happen.  The goroutine of the syncer runs for a given number of ticks.

  \<^bold>\<open>Theories.\<close>
    \<^item> \<open>Prelude\<close>, \<open>GoLib\<close>, \<open>GoTime\<close>: programs, their evaluation and their laws; the string functions and
      the formatting of the Go library the sources use; RFC 3339 times, with a round trip of
      print and parse.
    \<^item> \<open>Types\<close> (\<^verbatim>\<open>api/v1alpha1\<close>, \<^verbatim>\<open>cdi/fti/{fm,cm}/api\<close>): the data.
    \<^item> \<open>World\<close>: the environment, and the program logic: footprints (locale \<open>footprint\<close>, interpreted for the
      events a program may make, for frames, and for the well-formedness of a request) and execution on a view (\<open>wpv\<close>).
    \<^item> \<open>Nodes\<close> (\<^verbatim>\<open>utils/nodes.go\<close>, \<^verbatim>\<open>utils/stringutils.go\<close>), \<open>Scripts\<close>, \<open>GpuQueries\<close> and \<open>Drain\<close>
      (\<^verbatim>\<open>utils/gpus.go\<close>): daemon set restarts and their rate limit, node capacity, the commands run in pods and the parsing of
      their output, load checks, device taints, and the draining of a GPU: a GPU in use is never drained.
    \<^item> \<open>Cdi\<close> (\<^verbatim>\<open>cdi/client.go\<close>): the provider interface as the locale \<open>cdi_provider\<close>, its contract on the
      requests sent and on the object; interpreted for the three clients in
      \<open>Sunfish\<close> (\<^verbatim>\<open>cdi/sunfish/client.go\<close>), \<open>FtiFM\<close> (\<^verbatim>\<open>cdi/fti/fm/client.go\<close>) and \<open>FtiCM\<close>
      (\<^verbatim>\<open>cdi/fti/cm/client.go\<close>), which also show which device is handed out and which is removed.
      \<open>Token\<close> (\<^verbatim>\<open>cdi/fti/token.go\<close>) is the token cache.
    \<^item> \<open>ResourceController\<close> (\<^verbatim>\<open>controller/composableresource_controller.go\<close>, \<^verbatim>\<open>composableresource_adapter.go\<close>): the
      handlers; a run refines the abstract \<open>lifecycle\<close>, changes the fabric and the node only in the right state, holds the
      finalizer, records every error, and does not detach a loaded GPU.  \<open>ResourceDeletion\<close>: where the node is idle and the
      services comply, the device of a resource being deleted is removed through the provider and the resource goes away.  \<open>Attachment\<close>: where a service hands out a device,
      a new resource comes online, and a request whose resources are online comes to run.
    \<^item> \<open>Allocation\<close>, \<open>RequestController\<close>, \<open>RequestMaps\<close>, \<open>Deletion\<close> (\<^verbatim>\<open>controller/composabilityrequest_controller.go\<close>): node
      allocation and its policies, scaling, the handlers, the refinement of \<open>request_lifecycle\<close>, the
      soundness of the encoding of its maps, and that a deletion completes.
    \<^item> \<open>UpstreamSyncer\<close> (\<^verbatim>\<open>controller/upstreamsyncer_controller.go\<close>): the rounds refine \<open>sync_round\<close>; the
      grace period is kept and every device left behind is detached.
    \<^item> \<open>Webhook\<close> (\<^verbatim>\<open>webhook/v1alpha1/composabilityrequest_webhook.go\<close>): the decision, and the invariant of a
      cluster all of whose requests passed it.
    \<^item> \<open>Manager\<close> (\<^verbatim>\<open>cmd/main.go\<close>, \<^verbatim>\<open>api/v1alpha1/groupversion_info.go\<close>, the \<^verbatim>\<open>SetupWithManager\<close> functions): the command line, the
      options and the registrations; the manager is started only when all of them are in place, and the settings on the command line take effect.
    \<^item> \<open>DeepCopy\<close> (\<^verbatim>\<open>api/v1alpha1/zz_generated.deepcopy.go\<close>): the generated methods on an explicit memory, and the contract of a copy
      as the locale \<open>deep_copy\<close>, interpreted for the structs: a copy has the same content and shares nothing with the original.
    \<^item> this theory: what spans components.  A device left behind, for which the syncer creates a resource, is taken over by the
      resource controller with its identifiers and never attached again, and the request controller leaves it alone.

  \<^bold>\<open>Hypotheses on the outside.\<close>  Nothing is assumed of the environment unless a theorem names it:
  \<open>status_echo\<close> and \<open>request_status_echo\<close> (a status update answers with the status sent), \<open>resource_calls_succeed\<close>
  (creations and deletions succeed), \<open>uuids_unique\<close>, \<open>answers_maps\<close>, \<open>keeps_labels\<close>, \<open>stores_request\<close> and \<open>stores_resource\<close>
  (the server stores what it is sent), \<open>serves_resources\<close> (it reads the resources of a request as they are), \<open>detach_complies\<close> and \<open>attach_complies\<close>
  (the node is idle, or the device appears, and the services do what they are asked), \<open>reports\<close> and \<open>report_ok\<close> (a node answers the queries of a load check as a report says, in the shape the code expects),
  \<open>in_use\<close> (the listings give a GPU a minor number whose device file is held), and \<open>metav1_copies\<close> (the copies of the Kubernetes library are deep).  Each has a concrete environment that satisfies it.

  \<^bold>\<open>Conventions.\<close>  A Go map over which the code iterates is an association list whose order is
  the order of that iteration; maps only indexed are partial functions.  \<^verbatim>\<open>sort.Slice\<close> is not stable in Go; the model sorts
  stably, and what is proved of the order holds for every sorted order.  Times are integers in
  nanoseconds.  Log messages are left out.

  \<^bold>\<open>Not modelled.\<close>  Logging; the lock of the token cache (\<open>GetToken\<close> runs as one step); the work queue of controller-runtime, which
  decides when \<^verbatim>\<open>Reconcile\<close> runs (theorems speak of runs in a given order); HTTP clients, JSON and the Kubernetes client library, which are
  parameters; and of \<^verbatim>\<open>main\<close> the construction of the logger.
\<close>

section \<open>A device left behind, across the components\<close>

text \<open>
  The syncer creates a resource for a device without one; the resource controller and the request
  controller both see it.  The labels the syncer writes are what they read.
\<close>

lemma detach_labels:
  assumes "om_Labels (cr_Meta r) = om_Labels (cr_Meta (detach_resource gname d))"
  shows "label r readyDeviceLabel = di_DeviceID d" "label r readyCDIDeviceLabel = di_CDIDeviceID d"
  using assms by (simp_all add: label_def str_at_def detach_resource_def)

subsection \<open>It is taken over\<close>

text \<open>
  C22.  A device left behind is taken over.  Let \<open>d\<close> be a device with an identifier, and let an API server that stores what it is sent hold a resource that is
  not being deleted, has no state yet and carries the labels of the resource the syncer creates for \<open>d\<close>.  One run of the resource controller's
  \<^verbatim>\<open>Reconcile\<close>, with a provider the adapter gives, stores that resource as Attaching, without error, with the device identifier of \<open>d\<close> (and its identifier
  in the fabric, where it has one) and with the finalizer, and sends no request that changes the fabric.  A run of the request controller on the same
  name, when there is no request of that name, ends at once: its only effect is to read the two objects.
\<close>

theorem left_behind_taken_over:
  assumes "stores_resource E name stored" "adapter_gives E P" "stored (world s) = Some r" "cr_Name r = name"
    and "om_DeletionTimestamp (cr_Meta r) = None" "cr_State r = []"
    and "om_Labels (cr_Meta r) = om_Labels (cr_Meta (detach_resource gname d))" "di_DeviceID d \<noteq> []"
  shows "(\<exists>r'. stored (world (snd (Resource_Reconcile name E s))) = Some r' \<and> cr_State r' = ''Attaching'' \<and> cr_Error r' = []
         \<and> cr_DeviceID r' = di_DeviceID d \<and> (di_CDIDeviceID d \<noteq> [] \<longrightarrow> cr_CDIDeviceID r' = di_CDIDeviceID d)
         \<and> cr_Spec r' = cr_Spec r \<and> composabilityRequestFinalizer \<in> set (om_Finalizers (cr_Meta r')))
     \<and> (\<exists>evs. trace (snd (Resource_Reconcile name E s)) = trace s @ evs \<and> (\<forall>h. EvHttp h \<in> set evs \<longrightarrow> reads_only h))
     \<and> (api_GetRequest E name (world s) = (Inl (StatusError ''NotFound'' msg), w1) \<and> api_GetResource E name w1 = (Inr r, w2)
        \<longrightarrow> Request_Reconcile name E s = (Ret (\<lparr>RequeueAfter = 0\<rparr>, None), s\<lparr>world := w2, theRequest := empty_request\<rparr>))"
proof (intro conjI)
  have l: "label r readyDeviceLabel = di_DeviceID d" "label r readyCDIDeviceLabel = di_CDIDeviceID d"
    by (rule detach_labels [OF assms(7)])+
  show "\<exists>r'. stored (world (snd (Resource_Reconcile name E s))) = Some r' \<and> cr_State r' = ''Attaching'' \<and> cr_Error r' = []
         \<and> cr_DeviceID r' = di_DeviceID d \<and> (di_CDIDeviceID d \<noteq> [] \<longrightarrow> cr_CDIDeviceID r' = di_CDIDeviceID d)
         \<and> cr_Spec r' = cr_Spec r \<and> composabilityRequestFinalizer \<in> set (om_Finalizers (cr_Meta r'))"
    using attachment_steps(1) [OF assms(1-6)] assms(8) finalized_has [of "labelled r"]
    by (simp add: taken_up_def with_status_def labelled_def l)
  obtain w where "api_GetResource E name (world s) = (Inr r, w)" by (rule resource_getD [OF assms(1,3)])
  then obtain evs where evs: "trace (snd (Resource_Reconcile name E s)) = trace s @ evs" "list_all (allowed r) evs"
    by (rule Resource_Reconcile_stays)
  then show "\<exists>evs. trace (snd (Resource_Reconcile name E s)) = trace s @ evs \<and> (\<forall>h. EvHttp h \<in> set evs \<longrightarrow> reads_only h)"
    using assms(6) by (auto simp: list_all_iff)
  show "api_GetRequest E name (world s) = (Inl (StatusError ''NotFound'' msg), w1) \<and> api_GetResource E name w1 = (Inr r, w2)
      \<longrightarrow> Request_Reconcile name E s = (Ret (\<lparr>RequeueAfter = 0\<rparr>, None), s\<lparr>world := w2, theRequest := empty_request\<rparr>)"
    using l(1) assms(8)
    by (auto simp: Request_Reconcile_def tryGet_def Request_handleComposableResourceChange_def doNotRequeue_def prog_eval)
qed

text \<open>A resource named by the server for the device of the syncer's example, and a run on it.\<close>

definition orphan :: ComposableResource where
  "orphan = (detach_resource ''gpu-x'' lost_device)\<lparr>cr_Meta := (cr_Meta (detach_resource ''gpu-x'' lost_device))\<lparr>om_Name := ''gpu-x-1''\<rparr>\<rparr>"

lemma orphan_fields:
  "cr_Name orphan = ''gpu-x-1''" "om_DeletionTimestamp (cr_Meta orphan) = None" "cr_State orphan = []"
  "om_Labels (cr_Meta orphan) = om_Labels (cr_Meta (detach_resource ''gpu-x'' lost_device))"
  by (simp_all add: orphan_def detach_resource_def empty_resource_def empty_meta_def)

lemma orphan_stored: "stores_resource released_env ''gpu-x-1'' id"
  by (simp add: stores_resource_def released_env_def)

theorem left_behind_taken_over_witness:
  "(\<exists>r'. world (snd (Resource_Reconcile ''gpu-x-1'' released_env (start (Some orphan)))) = Some r'
       \<and> cr_State r' = ''Attaching'' \<and> cr_DeviceID r' = di_DeviceID lost_device)
     \<and> Request_Reconcile ''gpu-x-1'' released_env (start (Some orphan))
       = (Ret (\<lparr>RequeueAfter = 0\<rparr>, None), (start (Some orphan))\<lparr>theRequest := empty_request\<rparr>)"
proof -
  have s: "id (world (start (Some orphan))) = Some orphan" and d: "di_DeviceID lost_device \<noteq> []" by (simp_all add: start_def lost_device_def)
  note all = left_behind_taken_over [OF orphan_stored released_complies(1) s orphan_fields d]
  show ?thesis
    using all [of "''not found''" "Some orphan" "Some orphan"]
    by (auto simp: released_env_def void_env_def missing_def start_def)
qed

subsection \<open>It is never attached again\<close>

text \<open>Named hypothesis on the API server: an update answers with the labels it was sent.\<close>

definition keeps_labels :: "'w env \<Rightarrow> bool" where
  "keeps_labels E \<longleftrightarrow> (\<forall>r w r' w'. api_UpdateResource E r w = (Inr r', w') \<longrightarrow> om_Labels (cr_Meta r') = om_Labels (cr_Meta r))"

lemma keeps_labelsD: "keeps_labels E \<Longrightarrow> api_UpdateResource E r w = (Inr r', w') \<Longrightarrow> om_Labels (cr_Meta r') = om_Labels (cr_Meta r)"
  unfolding keeps_labels_def by blast

text \<open>A status that does not ask for a device to be attached: when it is Attaching, it has the device \<open>d\<close>.\<close>

definition holds :: "DeviceInfo \<Rightarrow> ComposableResourceStatus \<Rightarrow> bool" where
  "holds d st \<longleftrightarrow> (crst_State st = ''Attaching'' \<longrightarrow> crst_DeviceID st = di_DeviceID d)"

lemma lifecycle_holds:
  assumes "lifecycle st st'" "crst_State st \<noteq> [] \<and> holds d st" "di_DeviceID d \<noteq> []"
  shows "crst_State st' \<noteq> [] \<and> holds d st'"
  using assms by (induction rule: lifecycle.induct) (auto simp: holds_def)

text \<open>All statuses written since \<open>sts\<close>, and the one in memory, are of that kind.\<close>

definition held :: "DeviceInfo \<Rightarrow> ComposableResourceStatus list \<Rightarrow> ComposableResourceStatus list \<times> ComposableResource \<Rightarrow> bool" where
  "held d sts v \<longleftrightarrow> (\<exists>new. fst v = sts @ new \<and> list_all (holds d) new) \<and> holds d (cr_Status (snd v))"

lemma held_status:
  "held d sts (sts', r) \<Longrightarrow> holds d st \<Longrightarrow> cr_Status r' = st \<Longrightarrow> held d sts (sts' @ [st], r')"
  by (auto simp: held_def)

abbreviation "faithful E \<equiv> status_echo E \<and> keeps_labels E"

lemma faithful_status_update:
  assumes "\<And>res r'. cr_Status r' = cr_Status r \<Longrightarrow> Q res (sts @ [cr_Status r], r')"
  shows "wpv (\<lambda>E. faithful E) rview Status_Update_Resource Q X (sts, r)"
  by (rule wpv_weaken [OF rview_status_update]) (use assms in auto)

lemma faithful_update:
  assumes "\<And>e. Q (Some e) (sts, r)" "\<And>r'. om_Labels (cr_Meta r') = om_Labels (cr_Meta r) \<Longrightarrow> Q None (sts, r')"
  shows "wpv (\<lambda>E. faithful E) rview Update_Resource Q X (sts, r)"
  using assms
  by (auto simp: wpv_def Update_Resource_def rview_def prog_eval dest: keeps_labelsD split: prod.splits sum.splits)

lemma held_requeue:
  assumes "held d sts v"
  shows "wpv (\<lambda>E. faithful E) rview (Resource_requeueOnErr e) (\<lambda>_. held d sts) (held d sts) v"
proof -
  obtain sts' r where v: "v = (sts', r)" by (cases v)
  show ?thesis
    unfolding Resource_requeueOnErr_def v
    by (intro wpv_thenM rview_upd_status wpv_bindM faithful_status_update wpv_ret held_status)
       (use assms v in \<open>auto simp: held_def holds_def\<close>)
qed

lemma none_held:
  assumes "om_Labels (cr_Meta r) = om_Labels (cr_Meta (detach_resource gname d))" "di_DeviceID d \<noteq> []" "cr_State r = []"
  shows "wpv (\<lambda>E. faithful E) rview Resource_handleNoneState (\<lambda>_. held d sts) (held d sts) (sts, r)"
proof -
  have err: "wpv (\<lambda>E. faithful E) rview (Resource_requeueOnErr e) (\<lambda>_. held d sts) (held d sts) (sts, r')"
    if "cr_Status r' = cr_Status r" for e r'
    by (rule held_requeue) (use assms(3) that in \<open>simp add: held_def holds_def\<close>)
  have ok: "wpv (\<lambda>E. faithful E) rview (thenM (upd_resource labelled)
     (thenM (upd_status (\<lambda>st. st\<lparr>crst_State := ''Attaching'', crst_Error := []\<rparr>)) return_update)) (\<lambda>_. held d sts) (held d sts) (sts, r')"
    if "om_Labels (cr_Meta r') = om_Labels (cr_Meta r)" for r'
  proof -
    have "cr_DeviceID (labelled r') = di_DeviceID d"
      using detach_labels [of r' gname d] that assms(1,2) by (simp add: labelled_def with_status_def)
    then show ?thesis
      unfolding return_update_def
      by (intro wpv_thenM rview_upd rview_upd_status wpv_bindM faithful_status_update wpv_ret) (simp add: held_def holds_def)
  qed
  show ?thesis
    unfolding Resource_handleNoneState_def upd_finalizers_def labelled_eq
    by (intro wpv_bindM rview_get wpv_checkM wpv_if wpv_thenM [where k = Update_Resource] rview_upd faithful_update wpv_ret
        conjI allI impI err ok) simp_all
qed

text \<open>Garbage collection marks a resource Deleting, or leaves it alone.\<close>

lemma gc_held:
  assumes "holds d (cr_Status r)"
  shows "wpv (\<lambda>E. faithful E) rview Resource_performGarbageCollection
    (\<lambda>x v. held d sts v \<and> (x = Inr False \<longrightarrow> v = (sts, r))) (held d sts) (sts, r)"
proof -
  have mark: "wpv (\<lambda>E. faithful E) rview gc_mark (\<lambda>x v. held d sts v \<and> (x = Inr False \<longrightarrow> v = (sts, r))) (held d sts) (sts, r)"
    unfolding gc_mark_def
    by (intro wpv_bindM rview_get wpv_if wpv_thenM rview_upd_status faithful_status_update wpv_option wpv_ret)
       (use assms in \<open>auto simp: held_def holds_def\<close>)
  have del: "wpv (\<lambda>E. faithful E) rview (gc_delete nr) (\<lambda>x v. held d sts v \<and> (x = Inr False \<longrightarrow> v = (sts, r))) (held d sts) v"
    if "held d sts v" "\<not> nr \<longrightarrow> v = (sts, r)" for nr v
    using that unfolding gc_delete_def
    by (cases v; hypsubst) (intro wpv_bindM rview_get wpv_if wpv_ret rview_utils wpv_option; simp)
  have both: "wpv (\<lambda>E. faithful E) rview (tryM gc_mark (\<lambda>err. ret (Inl err)) gc_delete)
      (\<lambda>x v. held d sts v \<and> (x = Inr False \<longrightarrow> v = (sts, r))) (held d sts) (sts, r)"
    by (rule wpv_tryM, rule wpv_conseq [OF mark]) (auto intro!: wpv_ret del)
  show ?thesis
    unfolding Resource_performGarbageCollection_def
    by (intro wpv_bindM rview_get wpv_if wpv_ret rview_utils wpv_option wpv_tryM [where m = "HasDeviceTaint _"] wpv_checkM
        conjI allI impI both) (use assms in \<open>auto simp: held_def\<close>)
qed

lemma first_run_held:
  assumes "om_Labels (cr_Meta r) = om_Labels (cr_Meta (detach_resource gname d))" "di_DeviceID d \<noteq> []" "cr_State r = []"
  shows "wpv (\<lambda>E. faithful E) rview Resource_Reconcile_object (\<lambda>_. held d sts) (held d sts) (sts, r)"
proof -
  have r: "holds d (cr_Status r)" "held d sts (sts, r)" using assms(3) by (simp_all add: held_def holds_def)
  have state: "wpv (\<lambda>E. faithful E) rview (handle_state P) (\<lambda>_. held d sts) (held d sts) (sts, r)" for P
    unfolding handle_state_def dispatch_def
    by (intro wpv_bindM rview_get, simp add: assms(3), rule wpv_conseq [OF none_held [OF assms]])
       (auto intro!: wpv_prod wpv_option wpv_ret held_requeue)
  have rest: "wpv (\<lambda>E. faithful E) rview (if gcDone then doNotRequeue
      else tryM NewComposableResourceAdapter (\<lambda>err. Resource_requeueOnErr err) handle_state) (\<lambda>_. held d sts) (held d sts) v"
    if "held d sts v" "\<not> gcDone \<longrightarrow> v = (sts, r)" for v gcDone
    unfolding doNotRequeue_def
    by (intro wpv_if wpv_ret wpv_tryM adapter_run conjI allI impI held_requeue) (use that state in \<open>auto simp: rview_def\<close>)
  show ?thesis
    unfolding Resource_Reconcile_object_def
    by (rule wpv_tryM, rule wpv_conseq [OF gc_held [OF r(1)]]) (intro conjI allI impI held_requeue rest; simp)+
qed

text \<open>One run, by the state it reads: the first state, or a step of the lifecycle.\<close>

lemma run_held:
  assumes "status_echo E" "keeps_labels E" "api_GetResource E name (world s) = (Inr r, w)"
    and "om_Labels (cr_Meta r) = om_Labels (cr_Meta (detach_resource gname d))" "di_DeviceID d \<noteq> []" "holds d (cr_Status r)"
  obtains new where "statuses (trace (snd (Resource_Reconcile name E s))) = statuses (trace s) @ new" "list_all (holds d) new"
proof (cases "cr_State r = []")
  case True
  let ?s1 = "s\<lparr>world := w, theResource := r\<rparr>"
  have run: "Resource_Reconcile name E s = Resource_Reconcile_object E ?s1"
    using assms(3) by (simp add: Resource_Reconcile_def bindM_def query_def thenM_def modifyM_def)
  obtain res s' where s': "Resource_Reconcile_object E ?s1 = (res, s')" by (cases "Resource_Reconcile_object E ?s1")
  have v: "rview ?s1 = (statuses (trace s), r)" by (simp add: rview_def)
  have "held d (statuses (trace s)) (rview s')"
    using wpvD [OF first_run_held [OF assms(4,5) True] conjI [OF assms(1,2)] v] s' by (cases res) auto
  then show ?thesis using that run s' by (auto simp: held_def rview_def)
next
  case False
  obtain new where new: "statuses (trace (snd (Resource_Reconcile name E s))) = statuses (trace s) @ new"
    "steps_path lifecycle (cr_Status r) new"
    by (rule reconcile_path [OF assms(1,3)])
  have "crst_State st \<noteq> [] \<and> holds d st" if "st \<in> set new" for st
    by (rule steps_path_invariant [OF _ new(2) _ that]) (use lifecycle_holds assms(5,6) False in auto)
  then show ?thesis using that new(1) by (simp add: list_all_iff)
qed

lemma run_sends_no_attach:
  assumes "status_echo E" "keeps_labels E" "di_DeviceID d \<noteq> []"
    and "\<And>r w. api_GetResource E name (world s) = (Inr r, w)
      \<Longrightarrow> om_Labels (cr_Meta r) = om_Labels (cr_Meta (detach_resource gname d)) \<and> holds d (cr_Status r)"
  obtains evs where "trace (snd (Resource_Reconcile name E s)) = trace s @ evs" "list_all (holds d) (statuses evs)"
    "\<And>h. EvHttp h \<in> set evs \<Longrightarrow> \<not> attaches h"
proof (cases "api_GetResource E name (world s)")
  case (Pair res w)
  show ?thesis
  proof (cases res)
    case (Inl e)
    with Pair show ?thesis
      by (intro that [of "[]"]) (simp_all add: Resource_Reconcile_def doNotRequeue_def prog_eval)
  next
    case (Inr r)
    with Pair have get: "api_GetResource E name (world s) = (Inr r, w)" by simp
    note r = assms(4) [OF get]
    obtain evs where evs: "trace (snd (Resource_Reconcile name E s)) = trace s @ evs" "list_all (allowed r) evs"
      by (rule Resource_Reconcile_stays [OF get])
    obtain new where "statuses (trace (snd (Resource_Reconcile name E s))) = statuses (trace s) @ new" "list_all (holds d) new"
      by (rule run_held [OF assms(1,2) get conjunct1 [OF r] assms(3) conjunct2 [OF r]])
    with evs(1) have "list_all (holds d) (statuses evs)" by simp
    moreover have "\<not> attaches h" if "EvHttp h \<in> set evs" for h
      using evs(2) that conjunct2 [OF r] assms(3) attach_detach_disjoint [of h] by (auto simp: list_all_iff holds_def)
    ultimately show ?thesis using evs(1) that by blast
  qed
qed

lemma resource_runs_snoc: "resource_runs (Suc n) name E s = snd (Resource_Reconcile name E (resource_runs n name E s))"
  by (induction n arbitrary: s) simp_all

text \<open>
  C27.  A device left behind is never attached again.  Let \<open>d\<close> be a device with an identifier, let the API server answer a status update with the status
  sent and an update with the labels sent, and let every one of \<open>n\<close> runs of \<^verbatim>\<open>Reconcile\<close> on a name, if it can read the resource at all,
  read one with the labels of the resource the syncer creates for \<open>d\<close> whose status either has no state yet or is one that an earlier of these runs wrote.
  Then, with any provider the adapter can choose and whatever else fails on the way, none of these runs sends a request that attaches a device,
  and no status they write is Attaching without the identifier of \<open>d\<close>.
\<close>

theorem left_behind_never_attached:
  assumes "status_echo E" "keeps_labels E" "di_DeviceID d \<noteq> []"
    and "\<And>i r w. i < n \<Longrightarrow> api_GetResource E name (world (resource_runs i name E s)) = (Inr r, w)
      \<Longrightarrow> om_Labels (cr_Meta r) = om_Labels (cr_Meta (detach_resource gname d))
        \<and> (cr_State r = [] \<or> cr_Status r \<in> set (statuses (drop (length (trace s)) (trace (resource_runs i name E s)))))"
  shows "\<exists>evs. trace (resource_runs n name E s) = trace s @ evs \<and> (\<forall>h. EvHttp h \<in> set evs \<longrightarrow> \<not> attaches h)
     \<and> (\<forall>st \<in> set (statuses evs). crst_State st = ''Attaching'' \<longrightarrow> crst_DeviceID st = di_DeviceID d)"
  using assms(4)
proof (induction n)
  case (Suc n)
  then obtain evs where evs: "trace (resource_runs n name E s) = trace s @ evs" "\<And>h. EvHttp h \<in> set evs \<Longrightarrow> \<not> attaches h"
    "\<forall>st \<in> set (statuses evs). holds d st" unfolding holds_def by (metis less_SucI)
  let ?s = "resource_runs n name E s"
  have "om_Labels (cr_Meta r) = om_Labels (cr_Meta (detach_resource gname d)) \<and> holds d (cr_Status r)"
    if "api_GetResource E name (world ?s) = (Inr r, w)" for r w
    using Suc.prems [OF lessI that] evs(1,3) by (auto simp: holds_def)
  then obtain evs' where evs': "trace (snd (Resource_Reconcile name E ?s)) = trace ?s @ evs'" "list_all (holds d) (statuses evs')"
    "\<And>h. EvHttp h \<in> set evs' \<Longrightarrow> \<not> attaches h"
    using run_sends_no_attach [OF assms(1-3)] by metis
  then show ?case
    unfolding resource_runs_snoc
    by (intro exI [of _ "evs @ evs'"]) (use evs in \<open>auto simp: list_all_iff holds_def\<close>)
qed simp

text \<open>The runs on the resource of the example: the first takes the device over, the second finds it taken over.\<close>

definition orphan_taken :: ComposableResource where
  "orphan_taken = orphan\<lparr>cr_Meta := (cr_Meta orphan)\<lparr>om_Finalizers := [composabilityRequestFinalizer]\<rparr>,
     cr_Status := (cr_Status orphan)\<lparr>crst_State := ''Attaching'', crst_DeviceID := ''GPU-a'', crst_CDIDeviceID := ''res-1''\<rparr>\<rparr>"

lemma orphan_first_run:
  "world (snd (Resource_Reconcile ''gpu-x-1'' released_env (start (Some orphan)))) = Some orphan_taken"
  "statuses (trace (snd (Resource_Reconcile ''gpu-x-1'' released_env (start (Some orphan))))) = [cr_Status orphan_taken]"
  unfolding Resource_Reconcile_def Resource_Reconcile_object_def
  by (simp_all add: Resource_performGarbageCollection_def CheckNodeExisted_def getNode_def NewComposableResourceAdapter_def NewSunfishClient_def
     Getenv_def handle_state_def dispatch_def Resource_handleNoneState_def upd_finalizers_def upd_resource_def upd_status_def return_update_def
     Update_Resource_def Status_Update_Resource_def released_env_def void_env_def orphan_def orphan_taken_def detach_resource_def lost_device_def
     empty_resource_def empty_meta_def start_def label_def str_at_def prog_eval Let_def cong: prog_cong)

theorem left_behind_never_attached_witness:
  "\<exists>evs. trace (resource_runs 2 ''gpu-x-1'' released_env (start (Some orphan))) = evs \<and> (\<forall>h. EvHttp h \<in> set evs \<longrightarrow> \<not> attaches h)
     \<and> (\<forall>st \<in> set (statuses evs). crst_State st = ''Attaching'' \<longrightarrow> crst_DeviceID st = di_DeviceID lost_device)"
proof -
  let ?s = "start (Some orphan)"
  have env: "status_echo released_env" "keeps_labels released_env"
    by (auto simp: status_echo_def keeps_labels_def released_env_def void_env_def missing_def split: option.splits)
  have d: "di_DeviceID lost_device \<noteq> []" by (simp add: lost_device_def)
  have taken: "om_Labels (cr_Meta orphan_taken) = om_Labels (cr_Meta orphan)" by (simp add: orphan_taken_def)
  have get: "r = orphan \<and> i = 0 \<or> r = orphan_taken \<and> i = 1"
    if "i < 2" "api_GetResource released_env ''gpu-x-1'' (world (resource_runs i ''gpu-x-1'' released_env ?s)) = (Inr r, w)" for i r w
    using that orphan_first_run(1) by (auto simp: less_2_cases_iff released_env_def start_def)
  have reads: "om_Labels (cr_Meta r) = om_Labels (cr_Meta (detach_resource ''gpu-x'' lost_device))
      \<and> (cr_State r = [] \<or> cr_Status r \<in> set (statuses (drop (length (trace ?s)) (trace (resource_runs i ''gpu-x-1'' released_env ?s)))))"
    if "i < 2" "api_GetResource released_env ''gpu-x-1'' (world (resource_runs i ''gpu-x-1'' released_env ?s)) = (Inr r, w)" for i r w
    using get [OF that] orphan_fields(3,4) taken orphan_first_run(2) by (auto simp: start_def)
  show ?thesis
    using left_behind_never_attached [OF env d reads] by (simp add: start_def)
qed

section \<open>Devices of the Sunfish service\<close>

text \<open>
  The Sunfish client reports no identifiers for the device it has had attached, and the Detaching handler asks the provider to remove a device only when
  the status has an identifier: a device attached through Sunfish is not detached when its resource is deleted.
\<close>

lemma sunfish_reports_no_device:
  "sunfish_AddResource ep E s = (Ret (d, c, e), s') \<Longrightarrow> d = [] \<and> c = []"
  by (auto simp: sunfish_AddResource_def sendPatchRequest_def Let_def prog_eval split: option.splits prod.splits outcome.splits sum.splits if_splits)

lemma no_device_no_removal:
  "cr_DeviceID (theResource s) = [] \<Longrightarrow> Resource_handleDetachingState P E s = finish_detach E s"
  by (simp add: Resource_handleDetachingState_def Getenv_def prog_eval)

end
